(* ===== verification/Go_Prelude.thy ===== *)
theory Go_Prelude
  imports Main "HOL-Library.AList"
begin

text \<open>
  The Go language and standard-library pieces that every component of the provider shares:
  slices and maps, \<^verbatim>\<open>strconv\<close>, \<^verbatim>\<open>strings\<close>, \<^verbatim>\<open>fmt.Sprintf\<close>, and the trees of wrapped errors
  that \<^verbatim>\<open>errors.As\<close> and \<^verbatim>\<open>errors.Is\<close> search. Strings are byte lists.
  The generic lemmas on association lists and on the first or last entry of a list with a
  given key are here too.
\<close>

named_theorems go_simps \<open>unfolding rules for the Go library functions\<close>

section \<open>Slices, pointers and maps\<close>

text \<open>
  A Go slice that comes out of a manifest is either nil or a list; \<^verbatim>\<open>reflect.DeepEqual\<close>
  tells a nil slice from an empty one, \<^verbatim>\<open>len\<close> and \<^verbatim>\<open>range\<close> do not.
\<close>

type_synonym 'a slice = "'a list option"

definition elems :: "'a slice \<Rightarrow> 'a list" where
  "elems xs = (case xs of None \<Rightarrow> [] | Some ys \<Rightarrow> ys)"

lemma elems_simps [simp]: "elems None = []" "elems (Some xs) = xs"
  by (simp_all add: elems_def)

text \<open>\<^verbatim>\<open>ptr.Deref(p, def)\<close>: the pointee, or the default for a nil pointer.\<close>

definition ptr_Deref :: "'a option \<Rightarrow> 'a \<Rightarrow> 'a" where
  "ptr_Deref p d = (case p of None \<Rightarrow> d | Some x \<Rightarrow> x)"

lemma ptr_Deref_simps [simp]: "ptr_Deref None d = d" "ptr_Deref (Some x) d = x"
  by (simp_all add: ptr_Deref_def)

text \<open>
  A string map is an association list in one of the orders that \<^verbatim>\<open>range\<close> may visit it;
  \<^const>\<open>map_of\<close> is the lookup.
\<close>

type_synonym str_map = "(string \<times> string) list"

text \<open>\<^verbatim>\<open>maps.Copy(dst, src)\<close>: every pair of \<^verbatim>\<open>src\<close> is stored in \<^verbatim>\<open>dst\<close>.\<close>

definition maps_Copy :: "str_map \<Rightarrow> str_map \<Rightarrow> str_map" where
  "maps_Copy dst src = fold (\<lambda>(k, v). AList.update k v) src dst"

lemma maps_Copy_other:
  "k \<notin> fst ` set src \<Longrightarrow> map_of (maps_Copy dst src) k = map_of dst k"
  unfolding maps_Copy_def
proof (induction src arbitrary: dst)
  case Nil
  then show ?case by simp
next
  case (Cons kv src)
  obtain k' v' where kv: "kv = (k', v')" by (cases kv)
  with Cons.prems have "k \<notin> fst ` set src" and ne: "k' \<noteq> k" by auto
  from Cons.IH [OF this(1)] ne show ?case by (simp add: kv update_conv)
qed

lemma find_SomeD:
  assumes "find P xs = Some x"
  shows "x \<in> set xs" and "P x"
  using assms by (induction xs) (auto split: if_splits)

text \<open>
  \<^verbatim>\<open>m := make(map[string]T); for _, x := range xs { m[key(x)] = x }\<close>: the last element with
  a key wins.
\<close>

definition index_by :: "('a \<Rightarrow> 'k) \<Rightarrow> 'a list \<Rightarrow> 'k \<Rightarrow> 'a option" where
  "index_by key xs k = find (\<lambda>x. key x = k) (rev xs)"

lemma index_by_SomeD:
  assumes "index_by key xs k = Some x"
  shows "x \<in> set xs" and "key x = k"
  using find_SomeD [OF assms [unfolded index_by_def]] by auto

lemma index_by_None_iff: "index_by key xs k = None \<longleftrightarrow> k \<notin> key ` set xs"
  by (auto simp: index_by_def find_None_iff)

lemma index_by_distinct:
  assumes "distinct (map key xs)" and "x \<in> set xs"
  shows "index_by key xs (key x) = Some x"
proof -
  have "index_by key xs (key x) \<noteq> None"
    using assms(2) by (auto simp: index_by_None_iff)
  then obtain y where y: "index_by key xs (key x) = Some y" by blast
  then have "y \<in> set xs" "key y = key x" by (auto dest: index_by_SomeD)
  with assms have "y = x" by (auto simp: distinct_map dest: inj_onD)
  with y show ?thesis by simp
qed

lemma find_exists: "x \<in> set xs \<Longrightarrow> P x \<Longrightarrow> \<exists>y. find P xs = Some y"
  by (induction xs) auto

section \<open>strings, strconv and fmt\<close>

definition strings_HasPrefix :: "string \<Rightarrow> string \<Rightarrow> bool" where
  "strings_HasPrefix s p \<longleftrightarrow> take (length p) s = p"

fun strings_Contains :: "string \<Rightarrow> string \<Rightarrow> bool" where
  "strings_Contains [] sub = (sub = [])"
| "strings_Contains (c # cs) sub =
     (strings_HasPrefix (c # cs) sub \<or> strings_Contains cs sub)"

lemma strings_HasPrefix_append [simp]: "strings_HasPrefix (p @ s) p"
  by (simp add: strings_HasPrefix_def)

function int_digits :: "int \<Rightarrow> string" where
  "int_digits n =
     (if n < 10 then [char_of (48 + n)] else int_digits (n div 10) @ [char_of (48 + n mod 10)])"
  by pat_completeness auto

termination int_digits
  by (relation "measure nat") auto

declare int_digits.simps [simp del]

text \<open>\<^verbatim>\<open>strconv.Itoa\<close>, the \<^verbatim>\<open>%d\<close> verb.\<close>

definition strconv_Itoa :: "int \<Rightarrow> string" where
  "strconv_Itoa i = (if i < 0 then CHR ''-'' # int_digits (- i) else int_digits i)"

definition hex_digit :: "nat \<Rightarrow> char" where
  "hex_digit n = char_of (if n < 10 then 48 + n else 87 + n)"

text \<open>
  \<^verbatim>\<open>strconv.Quote\<close>, the \<^verbatim>\<open>%q\<close> verb, byte by byte; bytes above 126 stand for printable
  multi-byte characters and are kept.
\<close>

definition quote_byte :: "char \<Rightarrow> string" where
  "quote_byte c =
     (let n = of_char c :: nat in
      if n = 34 then [char_of (92::nat), char_of (34::nat)]
      else if n = 92 then [char_of (92::nat), char_of (92::nat)]
      else if n = 7 then char_of (92::nat) # ''a''
      else if n = 8 then char_of (92::nat) # ''b''
      else if n = 12 then char_of (92::nat) # ''f''
      else if n = 10 then char_of (92::nat) # ''n''
      else if n = 13 then char_of (92::nat) # ''r''
      else if n = 9 then char_of (92::nat) # ''t''
      else if n = 11 then char_of (92::nat) # ''v''
      else if n < 32 \<or> n = 127
        then char_of (92::nat) # ''x'' @ [hex_digit (n div 16), hex_digit (n mod 16)]
      else [c])"

definition strconv_Quote :: "string \<Rightarrow> string" where
  "strconv_Quote s = char_of (34::nat) # concat (map quote_byte s) @ [char_of (34::nat)]"

fun strings_Join :: "string list \<Rightarrow> string \<Rightarrow> string" where
  "strings_Join [] sep = []"
| "strings_Join [x] sep = x"
| "strings_Join (x # y # xs) sep = x @ sep @ strings_Join (y # xs) sep"

section \<open>Errors\<close>

text \<open>
  The error values the provider meets. \<open>ErrorResponse\<close> is the SDK's API error with its HTTP
  status code and its text; \<open>UrlError\<close> is \<^verbatim>\<open>*url.Error\<close> (its operation and URL, the error it
  wraps); \<open>ErrDeadlineExceeded\<close> is \<^verbatim>\<open>os.ErrDeadlineExceeded\<close>; \<open>NetError\<close> is any other error with
  a \<^verbatim>\<open>Timeout()\<close> method (such as \<^verbatim>\<open>context.DeadlineExceeded\<close>); \<open>StatusError\<close> is a Kubernetes API
  error with its reason; \<open>Sentinel\<close> is a package variable made by \<^verbatim>\<open>errors.New\<close>, compared by
  identity; \<open>ErrorString\<close> and \<open>WrapError\<close> are \<^verbatim>\<open>fmt.Errorf\<close> without and with a \<^verbatim>\<open>%w\<close> verb
  (the whole message is stored); \<open>JoinError\<close> is \<^verbatim>\<open>errors.Join\<close>. \<open>Panic\<close> is not an error value:
  it marks the run-time panic of a nil dereference, so that a model can show it does not happen.
\<close>

datatype go_error =
    ErrorResponse int string
  | UrlError string go_error
  | ErrDeadlineExceeded
  | NetError string bool
  | StatusError string string
  | Sentinel string
  | ErrorString string
  | WrapError string go_error
  | JoinError "go_error list"
  | Panic string

fun error_text :: "go_error \<Rightarrow> string" where
  "error_text (ErrorResponse code msg) = msg"
| "error_text (UrlError op e) = op @ '': '' @ error_text e"
| "error_text ErrDeadlineExceeded = ''i/o timeout''"
| "error_text (NetError msg t) = msg"
| "error_text (StatusError reason msg) = msg"
| "error_text (Sentinel msg) = msg"
| "error_text (ErrorString msg) = msg"
| "error_text (WrapError msg e) = msg"
| "error_text (JoinError es) = strings_Join (map error_text es) [char_of (10::nat)]"
| "error_text (Panic msg) = msg"

text \<open>The error and everything it unwraps to, in the order \<^verbatim>\<open>errors.As\<close> visits it.\<close>

fun error_tree :: "go_error \<Rightarrow> go_error list" where
  "error_tree (UrlError op e) = UrlError op e # error_tree e"
| "error_tree (WrapError msg e) = WrapError msg e # error_tree e"
| "error_tree (JoinError es) = JoinError es # concat (map error_tree es)"
| "error_tree e = [e]"

definition errors_Is :: "go_error \<Rightarrow> go_error \<Rightarrow> bool" where
  "errors_Is e target \<longleftrightarrow> target \<in> set (error_tree e)"

text \<open>\<^verbatim>\<open>errors.Join\<close> drops nil errors and gives nil when nothing is left.\<close>

definition errors_Join :: "go_error list \<Rightarrow> go_error option" where
  "errors_Join es = (if es = [] then None else Some (JoinError es))"

datatype fmt_arg = FS string | FD int | FE go_error | FL "string list"

definition fmt_verb :: "char \<Rightarrow> fmt_arg \<Rightarrow> string" where
  "fmt_verb v a =
     (case a of
        FS s \<Rightarrow> (if v = CHR ''q'' then strconv_Quote s else s)
      | FD i \<Rightarrow> strconv_Itoa i
      | FE e \<Rightarrow> error_text e
      | FL ss \<Rightarrow> ''['' @ strings_Join ss '' '' @ '']'')"

text \<open>
  \<^verbatim>\<open>fmt.Sprintf\<close> for the verbs the provider uses (\<^verbatim>\<open>%s %q %d %v %w\<close>), with as many arguments as
  verbs.
\<close>

fun fmt_Sprintf :: "string \<Rightarrow> fmt_arg list \<Rightarrow> string" where
  "fmt_Sprintf [] args = []"
| "fmt_Sprintf [c] args = [c]"
| "fmt_Sprintf (c # v # cs) args =
     (if c = CHR ''%'' then
        (case args of
           [] \<Rightarrow> ''%!'' @ [v] @ ''(MISSING)'' @ fmt_Sprintf cs []
         | a # args' \<Rightarrow> fmt_verb v a @ fmt_Sprintf cs args')
      else c # fmt_Sprintf (v # cs) args)"

declare fmt_Sprintf.simps [simp del]

definition fmt_Errorf :: "string \<Rightarrow> fmt_arg list \<Rightarrow> go_error" where
  "fmt_Errorf f args = ErrorString (fmt_Sprintf f args)"

text \<open>\<^verbatim>\<open>fmt.Errorf\<close> whose last verb is \<^verbatim>\<open>%w\<close>.\<close>

definition fmt_Errorw :: "string \<Rightarrow> fmt_arg list \<Rightarrow> go_error \<Rightarrow> go_error" where
  "fmt_Errorw f args e = WrapError (fmt_Sprintf f (args @ [FE e])) e"

lemma error_tree_fmt [simp]:
  "error_tree (fmt_Errorf f args) = [fmt_Errorf f args]"
  "error_tree (fmt_Errorw f args e) = fmt_Errorw f args e # error_tree e"
  by (simp_all add: fmt_Errorf_def fmt_Errorw_def)

lemma fmt_not_panic [simp]: "fmt_Errorf f args \<noteq> Panic msg" "fmt_Errorw f args e \<noteq> Panic msg"
  by (simp_all add: fmt_Errorf_def fmt_Errorw_def)

end
