(* ===== verification/Go_Proc.thy ===== *)
theory Go_Proc
  imports Go_Prelude
begin

text \<open>
  Go procedures with a mutable state and an error result. A procedure maps a state to a
  result, which is an error (\<^const>\<open>Inl\<close>) or a value (\<^const>\<open>Inr\<close>), and the state it leaves
  behind: the state survives an error, as it does in Go. The combinators stand for the
  statement forms of the source: sequencing with the \<^verbatim>\<open>if err != nil { return err }\<close> idiom,
  inspecting an error value, \<^verbatim>\<open>defer\<close>, and \<^verbatim>\<open>for ... range\<close> loops with early return or with
  accumulated locals. The function \<open>wp\<close> is the weakest precondition of a procedure; the
  collection \<open>wp\<close> computes it, so that a proof about a handler is one simplification and the
  side conditions of the calls it makes.
\<close>

named_theorems wp \<open>weakest preconditions of the procedure combinators\<close>

type_synonym ('s, 'a) proc = "'s \<Rightarrow> (go_error + 'a) \<times> 's"

definition goReturn :: "'a \<Rightarrow> ('s, 'a) proc" where
  "goReturn a s = (Inr a, s)"

definition goError :: "go_error \<Rightarrow> ('s, 'a) proc" where
  "goError e s = (Inl e, s)"

text \<open>\<^verbatim>\<open>x, err := m(); if err != nil { return err }; k(x)\<close>\<close>

definition goBind :: "('s, 'a) proc \<Rightarrow> ('a \<Rightarrow> ('s, 'b) proc) \<Rightarrow> ('s, 'b) proc" where
  "goBind m k s = (case m s of (Inl e, s') \<Rightarrow> (Inl e, s') | (Inr a, s') \<Rightarrow> k a s')"

text \<open>\<^verbatim>\<open>x, err := m(); k(x, err)\<close>: the error is a value the code looks at.\<close>

definition goTry :: "('s, 'a) proc \<Rightarrow> ('s, go_error + 'a) proc" where
  "goTry m s = (case m s of (r, s') \<Rightarrow> (Inr r, s'))"

text \<open>\<^verbatim>\<open>if err := m(); err != nil { return h(err) }\<close>: the error is wrapped and returned.\<close>

definition goWrap :: "(go_error \<Rightarrow> go_error) \<Rightarrow> ('s, 'a) proc \<Rightarrow> ('s, 'a) proc" where
  "goWrap h m s = (case m s of (Inl e, s') \<Rightarrow> (Inl (h e), s') | (Inr a, s') \<Rightarrow> (Inr a, s'))"

definition goGets :: "('s \<Rightarrow> 'a) \<Rightarrow> ('s, 'a) proc" where
  "goGets f s = (Inr (f s), s)"

definition goModify :: "('s \<Rightarrow> 's) \<Rightarrow> ('s, unit) proc" where
  "goModify f s = (Inr (), f s)"

text \<open>\<^verbatim>\<open>defer func() { h(result, reterr) }(); return m()\<close>, for a deferred function that only
  writes state.\<close>

definition goDefer :: "((go_error + 'a) \<Rightarrow> 's \<Rightarrow> 's) \<Rightarrow> ('s, 'a) proc \<Rightarrow> ('s, 'a) proc" where
  "goDefer h m s = (case m s of (r, s') \<Rightarrow> (r, h r s'))"

text \<open>\<^verbatim>\<open>defer func() { if err := h(reterr); err != nil && reterr == nil { reterr = err } }()\<close>: the
  deferred call may fail, and its error is returned when there is no other.\<close>

definition goFinally :: "((go_error + 'a) \<Rightarrow> ('s, 'b) proc) \<Rightarrow> ('s, 'a) proc \<Rightarrow> ('s, 'a) proc" where
  "goFinally h m s =
     (case m s of
        (r, s') \<Rightarrow>
          (case h r s' of
             (Inr _, s'') \<Rightarrow> (r, s'')
           | (Inl e, s'') \<Rightarrow> ((case r of Inl e0 \<Rightarrow> Inl e0 | Inr _ \<Rightarrow> Inl e), s'')))"

text \<open>\<^verbatim>\<open>for _, x := range xs { ... }\<close> whose body may \<^verbatim>\<open>return\<close> a value (\<^const>\<open>Some\<close>) or fall
  through to the next element (\<^const>\<open>None\<close>).\<close>

fun goFor :: "'a list \<Rightarrow> ('a \<Rightarrow> ('s, 'r option) proc) \<Rightarrow> ('s, 'r option) proc" where
  "goFor [] body = goReturn None"
| "goFor (x # xs) body =
     goBind (body x) (\<lambda>r. case r of Some v \<Rightarrow> goReturn (Some v) | None \<Rightarrow> goFor xs body)"

text \<open>A loop that updates local variables, here the accumulator.\<close>

fun goFold :: "('acc \<Rightarrow> 'a \<Rightarrow> ('s, 'acc) proc) \<Rightarrow> 'acc \<Rightarrow> 'a list \<Rightarrow> ('s, 'acc) proc" where
  "goFold body acc [] = goReturn acc"
| "goFold body acc (x # xs) = goBind (body acc x) (\<lambda>acc'. goFold body acc' xs)"

text \<open>A stretch of a function body that may \<^verbatim>\<open>return\<close> from the function (\<^const>\<open>Inl\<close>) or go on
  (\<^const>\<open>Inr\<close>).\<close>

definition goStep :: "('s, 'r + 'a) proc \<Rightarrow> ('a \<Rightarrow> ('s, 'r) proc) \<Rightarrow> ('s, 'r) proc" where
  "goStep m k = goBind m (\<lambda>x. case x of Inl r \<Rightarrow> goReturn r | Inr a \<Rightarrow> k a)"

section \<open>Weakest preconditions\<close>

definition wp :: "('s, 'a) proc \<Rightarrow> ('a \<Rightarrow> 's \<Rightarrow> bool) \<Rightarrow> (go_error \<Rightarrow> 's \<Rightarrow> bool) \<Rightarrow> 's \<Rightarrow> bool" where
  "wp m Q E s = (case m s of (Inl e, s') \<Rightarrow> E e s' | (Inr a, s') \<Rightarrow> Q a s')"

lemma wp_goReturn [wp]:
  "wp (goReturn a) Q E = (\<lambda>s. Q a s)"
  by (rule ext) (simp add: wp_def goReturn_def)

lemma wp_goError [wp]:
  "wp (goError e) Q E = (\<lambda>s. E e s)"
  by (rule ext) (simp add: wp_def goError_def)

lemma wp_goBind [wp]:
  "wp (goBind m k) Q E = (\<lambda>s. wp m (\<lambda>a. wp (k a) Q E) E s)"
  by (rule ext) (simp add: wp_def goBind_def split: prod.split sum.split)

lemma wp_goTry [wp]:
  "wp (goTry m) Q E = (\<lambda>s. wp m (\<lambda>a. Q (Inr a)) (\<lambda>e. Q (Inl e)) s)"
  by (rule ext) (simp add: wp_def goTry_def split: prod.split sum.split)

lemma wp_goWrap [wp]:
  "wp (goWrap h m) Q E = (\<lambda>s. wp m Q (\<lambda>e. E (h e)) s)"
  by (rule ext) (simp add: wp_def goWrap_def split: prod.split sum.split)

lemma wp_goGets [wp]:
  "wp (goGets f) Q E = (\<lambda>s. Q (f s) s)"
  by (rule ext) (simp add: wp_def goGets_def)

lemma wp_goGets_bind:
  "wp (goBind (goGets f) k) Q E s = wp (k (f s)) Q E s"
  by (simp add: wp)

lemma wp_goModify [wp]:
  "wp (goModify f) Q E = (\<lambda>s. Q () (f s))"
  by (rule ext) (simp add: wp_def goModify_def)

lemma wp_goDefer [wp]:
  "wp (goDefer h m) Q E = (\<lambda>s. wp m (\<lambda>a s'. Q a (h (Inr a) s')) (\<lambda>e s'. E e (h (Inl e) s')) s)"
  by (rule ext) (simp add: wp_def goDefer_def split: prod.split sum.split)

lemma wp_goFinally [wp]:
  "wp (goFinally h m) Q E =
     (\<lambda>s. wp m (\<lambda>a. wp (h (Inr a)) (\<lambda>_. Q a) E) (\<lambda>e. wp (h (Inl e)) (\<lambda>_. E e) (\<lambda>_. E e)) s)"
  by (rule ext) (simp add: wp_def goFinally_def split: prod.split sum.split)

lemma wp_goStep [wp]:
  "wp (goStep m k) Q E = (\<lambda>s. wp m (\<lambda>x. case x of Inl r \<Rightarrow> Q r | Inr a \<Rightarrow> wp (k a) Q E) E s)"
  by (rule ext) (auto simp: goStep_def wp_def goBind_def goReturn_def split: prod.split sum.split)

lemma wp_goFor_Nil [wp]:
  "wp (goFor [] body) Q E = (\<lambda>s. Q None s)"
  by (rule ext) (simp add: wp_goReturn)

lemma wp_goFor_Cons [wp]:
  "wp (goFor (x # xs) body) Q E =
     (\<lambda>s. wp (body x) (\<lambda>r. case r of None \<Rightarrow> wp (goFor xs body) Q E | Some v \<Rightarrow> Q (Some v)) E s)"
  by (rule ext)
    (auto simp: wp_def goBind_def goReturn_def split: prod.split sum.split option.split)

lemma wp_goFold_Nil [wp]:
  "wp (goFold body acc []) Q E = (\<lambda>s. Q acc s)"
  by (rule ext) (simp add: wp_goReturn)

lemma wp_goFold_Cons [wp]:
  "wp (goFold body acc (x # xs)) Q E = (\<lambda>s. wp (body acc x) (\<lambda>acc'. wp (goFold body acc' xs) Q E) E s)"
  by (rule ext) (simp add: wp_goBind)

lemma wp_if [wp]:
  "wp (if b then m else n) Q E = (\<lambda>s. (if b then wp m Q E s else wp n Q E s))"
  by (rule ext) simp

lemma wp_case_option [wp]:
  "wp (case x of None \<Rightarrow> m | Some a \<Rightarrow> k a) Q E = (\<lambda>s. (case x of None \<Rightarrow> wp m Q E s | Some a \<Rightarrow> wp (k a) Q E s))"
  by (rule ext) (simp split: option.split)

lemma wp_case_sum [wp]:
  "wp (case x of Inl e \<Rightarrow> f e | Inr a \<Rightarrow> k a) Q E = (\<lambda>s. (case x of Inl e \<Rightarrow> wp (f e) Q E s | Inr a \<Rightarrow> wp (k a) Q E s))"
  by (rule ext) (simp split: sum.split)

lemma wp_case_prod [wp]:
  "wp (case x of (a, b) \<Rightarrow> k a b) Q E = (\<lambda>s. (case x of (a, b) \<Rightarrow> wp (k a b) Q E s))"
  by (rule ext) (simp split: prod.split)

lemma wp_case_list [wp]:
  "wp (case x of [] \<Rightarrow> m | y # ys \<Rightarrow> k y ys) Q E = (\<lambda>s. (case x of [] \<Rightarrow> wp m Q E s | y # ys \<Rightarrow> wp (k y ys) Q E s))"
  by (rule ext) (simp split: list.split)

lemma wp_Let [wp]:
  "wp (Let x k) Q E = (\<lambda>s. wp (k x) Q E s)"
  by (rule ext) simp

text \<open>
  Simplification works on the head of a procedure only: the rest of it, in the procedure and in
  the postconditions, is left alone until the head is done.
\<close>

lemma wp_cong [cong]: "s = s' \<Longrightarrow> wp m Q E s = wp m Q E s'"
  by simp

text \<open>Consequence, and a way from a run to its weakest precondition.\<close>

lemma wp_mono:
  assumes "wp m Q E s"
    and "\<And>a s'. Q a s' \<Longrightarrow> Q' a s'"
    and "\<And>e s'. E e s' \<Longrightarrow> E' e s'"
  shows "wp m Q' E' s"
  using assms by (auto simp: wp_def split: prod.splits sum.splits)

lemma wp_trivI: "(\<And>a s'. Q a s') \<Longrightarrow> (\<And>e s'. E e s') \<Longrightarrow> wp m Q E s"
  by (auto simp: wp_def split: prod.split sum.split)

lemma wp_conj:
  assumes "wp m Q E s" and "wp m Q' E' s"
  shows "wp m (\<lambda>a s'. Q a s' \<and> Q' a s') (\<lambda>e s'. E e s' \<and> E' e s') s"
  using assms by (auto simp: wp_def split: prod.splits sum.splits)

lemma wp_okD: "wp m Q E s \<Longrightarrow> m s = (Inr a, s') \<Longrightarrow> Q a s'"
  by (simp add: wp_def)

lemma wp_errD: "wp m Q E s \<Longrightarrow> m s = (Inl e, s') \<Longrightarrow> E e s'"
  by (simp add: wp_def)

lemma wp_run:
  "wp m Q E s \<longleftrightarrow> (\<forall>r s'. m s = (r, s') \<longrightarrow> (case r of Inl e \<Rightarrow> E e s' | Inr a \<Rightarrow> Q a s'))"
  by (simp add: wp_def split: prod.split sum.split)

lemma wp_sndI: "wp m (\<lambda>a. P) (\<lambda>e. P) s \<Longrightarrow> P (snd (m s))"
  by (auto simp: wp_def split: prod.splits sum.splits)

lemma wp_snd: "wp m (\<lambda>a. P) (\<lambda>e. P) s \<longleftrightarrow> P (snd (m s))"
  by (auto simp: wp_def split: prod.split sum.split)

text \<open>Loop rules: an invariant kept by every round.\<close>

lemma wp_goFor:
  assumes "I s"
    and "\<And>x s. x \<in> set xs \<Longrightarrow> I s \<Longrightarrow>
           wp (body x) (\<lambda>r s'. case r of None \<Rightarrow> I s' | Some v \<Rightarrow> Q (Some v) s') E s"
    and "\<And>s. I s \<Longrightarrow> Q None s"
  shows "wp (goFor xs body) Q E s"
  using assms
proof (induction xs arbitrary: s)
  case Nil
  then show ?case by (simp add: wp)
next
  case (Cons x xs)
  from Cons.prems(1,2) have
    "wp (body x) (\<lambda>r s'. case r of None \<Rightarrow> I s' | Some v \<Rightarrow> Q (Some v) s') E s" by simp
  moreover have "wp (goFor xs body) Q E s'" if "I s'" for s'
    by (rule Cons.IH [OF that]) (use Cons.prems(2,3) in auto)
  ultimately show ?case
    by (auto simp: wp elim!: wp_mono split: option.splits)
qed

lemma wp_goFold:
  assumes "I acc s"
    and "\<And>x acc s. x \<in> set xs \<Longrightarrow> I acc s \<Longrightarrow> wp (body acc x) I E s"
    and "\<And>acc s. I acc s \<Longrightarrow> Q acc s"
  shows "wp (goFold body acc xs) Q E s"
  using assms
proof (induction xs arbitrary: acc s)
  case Nil
  then show ?case by (simp add: wp)
next
  case (Cons x xs)
  from Cons.prems(1,2) have "wp (body acc x) I E s" by simp
  moreover have "wp (goFold body acc' xs) Q E s'" if "I acc' s'" for acc' s'
    by (rule Cons.IH [OF that]) (use Cons.prems(2,3) in auto)
  ultimately show ?case by (auto simp: wp elim!: wp_mono)
qed

text \<open>The invariant of an accumulating loop may speak about the elements already visited.\<close>

lemma wp_goFold_prefix:
  assumes "I [] acc s"
    and "\<And>pre x post acc s. xs = pre @ x # post \<Longrightarrow> I pre acc s \<Longrightarrow>
           wp (body acc x) (I (pre @ [x])) E s"
    and "\<And>acc s. I xs acc s \<Longrightarrow> Q acc s"
  shows "wp (goFold body acc xs) Q E s"
proof -
  have "wp (goFold body acc ys) Q E s" if "I pre acc s" and "xs = pre @ ys" for pre ys acc s
    using that
  proof (induction ys arbitrary: pre acc s)
    case Nil
    with assms(3) show ?case by (simp add: wp)
  next
    case (Cons y ys)
    from Cons.prems assms(2) have "wp (body acc y) (I (pre @ [y])) E s" by blast
    moreover have "wp (goFold body acc' ys) Q E s'" if "I (pre @ [y]) acc' s'" for acc' s'
      using Cons.IH [OF that] Cons.prems(2) by simp
    ultimately show ?case by (auto simp: wp elim!: wp_mono)
  qed
  with assms(1) show ?thesis by simp
qed

text \<open>A loop that establishes \<open>P x\<close> for every element it visits, where a round keeps what the
  earlier rounds established.\<close>

lemma wp_goFor_each:
  assumes "I s"
    and "\<And>pre x post s. xs = pre @ x # post \<Longrightarrow> I s \<Longrightarrow> \<forall>y\<in>set pre. P y s \<Longrightarrow>
           wp (body x)
             (\<lambda>r s'. case r of
                 None \<Rightarrow> I s' \<and> P x s' \<and> (\<forall>y\<in>set pre. P y s')
               | Some v \<Rightarrow> Q (Some v) s') E s"
    and "\<And>s. I s \<Longrightarrow> \<forall>x\<in>set xs. P x s \<Longrightarrow> Q None s"
  shows "wp (goFor xs body) Q E s"
proof -
  have "wp (goFor ys body) Q E s"
    if "I s" and "\<forall>y\<in>set pre. P y s" and "xs = pre @ ys" for pre ys s
    using that
  proof (induction ys arbitrary: pre s)
    case Nil
    with assms(3) show ?case by (simp add: wp)
  next
    case (Cons y ys)
    from Cons.prems assms(2) [of pre y ys s] have
      "wp (body y)
         (\<lambda>r s'. case r of
             None \<Rightarrow> I s' \<and> P y s' \<and> (\<forall>y\<in>set pre. P y s')
           | Some v \<Rightarrow> Q (Some v) s') E s" by simp
    moreover have "wp (goFor ys body) Q E s'"
      if "I s'" and "P y s'" and "\<forall>y\<in>set pre. P y s'" for s'
      using Cons.IH [of s' "pre @ [y]"] that Cons.prems(3) by auto
    ultimately show ?case
      by (auto simp: wp elim!: wp_mono split: option.splits)
  qed
  from this [OF assms(1), of "[]" xs] show ?thesis by simp
qed

text \<open>A loop whose rounds append to an observation of the state, and may return early.\<close>

lemma wp_goFor_trace:
  assumes step: "\<And>x s. x \<in> set xs \<Longrightarrow> P s \<Longrightarrow>
      wp (body x) (\<lambda>r s'. case r of None \<Rightarrow> P s' \<and> obs s' = obs s @ f x | Some v \<Rightarrow> Q v) (\<lambda>_ _. True) s"
    and "P s"
  shows "wp (goFor xs body)
    (\<lambda>r s'. case r of None \<Rightarrow> P s' \<and> obs s' = obs s @ concat (map f xs) | Some v \<Rightarrow> Q v)
    (\<lambda>_ _. True) s"
  using assms
proof (induction xs arbitrary: s)
  case Nil
  then show ?case by (simp add: wp)
next
  case (Cons x xs)
  have rest: "wp (goFor xs body)
      (\<lambda>r s''. case r of None \<Rightarrow> P s'' \<and> obs s'' = obs s @ concat (map f (x # xs)) | Some v \<Rightarrow> Q v)
      (\<lambda>_ _. True) s'" if "P s'" "obs s' = obs s @ f x" for s'
    by (rule wp_mono [OF Cons.IH [OF Cons.prems(1) that(1)]])
      (use that(2) in \<open>auto split: option.splits\<close>)
  show ?case
    unfolding wp_goFor_Cons
  proof (rule wp_mono [OF Cons.prems(1) [OF _ Cons.prems(2)]])
    fix r s'
    assume "case r of None \<Rightarrow> P s' \<and> obs s' = obs s @ f x | Some v \<Rightarrow> Q v"
    then show "(case r of None \<Rightarrow> wp (goFor xs body)
        (\<lambda>r s''. case r of None \<Rightarrow> P s'' \<and> obs s'' = obs s @ concat (map f (x # xs)) | Some v \<Rightarrow> Q v)
        (\<lambda>_ _. True)
      | Some v \<Rightarrow> (\<lambda>s''. case Some v of None \<Rightarrow> P s'' \<and> obs s'' = obs s @ concat (map f (x # xs))
          | Some v \<Rightarrow> Q v)) s'"
      using rest by (cases r) simp_all
  qed simp_all
qed

text \<open>
  A relation between the state before and after a procedure, on success and on error alike:
  the frame conditions of the handlers are of this form, and reflexive and transitive
  relations pass through every combinator.
\<close>

definition keeps :: "('s \<Rightarrow> 's \<Rightarrow> bool) \<Rightarrow> ('s, 'a) proc \<Rightarrow> bool" where
  "keeps R m \<longleftrightarrow> (\<forall>s. R s (snd (m s)))"

locale frame_relation =
  fixes R :: "'s \<Rightarrow> 's \<Rightarrow> bool"
  assumes frame_refl: "R s s"
    and frame_trans: "R s s' \<Longrightarrow> R s' s'' \<Longrightarrow> R s s''"
begin

lemma keeps_goReturn: "keeps R (goReturn a)"
  by (simp add: keeps_def goReturn_def frame_refl)

lemma keeps_goError: "keeps R (goError e)"
  by (simp add: keeps_def goError_def frame_refl)

lemma keeps_goGets: "keeps R (goGets f)"
  by (simp add: keeps_def goGets_def frame_refl)

lemma keeps_goModify: "(\<And>s. R s (f s)) \<Longrightarrow> keeps R (goModify f)"
  by (simp add: keeps_def goModify_def)

lemma keeps_goBind:
  assumes "keeps R m" and "\<And>a. keeps R (k a)"
  shows "keeps R (goBind m k)"
proof -
  have "R s (snd (goBind m k s))" for s
  proof -
    obtain r s' where ms: "m s = (r, s')" by (cases "m s")
    with assms(1) have "R s s'" by (auto simp: keeps_def dest: spec [of _ s])
    then show ?thesis
    proof (cases r)
      case (Inl e)
      with ms \<open>R s s'\<close> show ?thesis by (simp add: goBind_def)
    next
      case (Inr a)
      from assms(2) have "R s' (snd (k a s'))" by (simp add: keeps_def)
      with \<open>R s s'\<close> have "R s (snd (k a s'))" by (rule frame_trans)
      with ms Inr show ?thesis by (simp add: goBind_def)
    qed
  qed
  then show ?thesis by (simp add: keeps_def)
qed

lemma keeps_goStep:
  assumes "keeps R m" and "\<And>a. keeps R (k a)"
  shows "keeps R (goStep m k)"
  unfolding goStep_def
  by (rule keeps_goBind [OF assms(1)]) (simp add: assms(2) keeps_goReturn split: sum.split)

lemma keeps_if: "(b \<Longrightarrow> keeps R m) \<Longrightarrow> (\<not> b \<Longrightarrow> keeps R n) \<Longrightarrow> keeps R (if b then m else n)"
  by simp

lemma keeps_case_option:
  "(x = None \<Longrightarrow> keeps R m) \<Longrightarrow> (\<And>a. x = Some a \<Longrightarrow> keeps R (k a)) \<Longrightarrow>
     keeps R (case x of None \<Rightarrow> m | Some a \<Rightarrow> k a)"
  by (simp split: option.split)

lemma keeps_case_sum:
  "(\<And>e. x = Inl e \<Longrightarrow> keeps R (f e)) \<Longrightarrow> (\<And>a. x = Inr a \<Longrightarrow> keeps R (k a)) \<Longrightarrow>
     keeps R (case x of Inl e \<Rightarrow> f e | Inr a \<Rightarrow> k a)"
  by (simp split: sum.split)

lemma keeps_case_prod:
  "(\<And>a b. x = (a, b) \<Longrightarrow> keeps R (k a b)) \<Longrightarrow> keeps R (case x of (a, b) \<Rightarrow> k a b)"
  by (simp split: prod.split)

lemma keeps_case_list:
  "(x = [] \<Longrightarrow> keeps R m) \<Longrightarrow> (\<And>y ys. x = y # ys \<Longrightarrow> keeps R (k y ys)) \<Longrightarrow>
     keeps R (case x of [] \<Rightarrow> m | y # ys \<Rightarrow> k y ys)"
  by (simp split: list.split)

lemma keeps_Let: "(\<And>y. y = x \<Longrightarrow> keeps R (k y)) \<Longrightarrow> keeps R (let y = x in k y)"
  by simp

lemma keeps_goTry: "keeps R m \<Longrightarrow> keeps R (goTry m)"
  by (simp add: keeps_def goTry_def split: prod.split) (metis snd_conv)

lemma keeps_goWrap: "keeps R m \<Longrightarrow> keeps R (goWrap h m)"
  by (simp add: keeps_def goWrap_def split: prod.split sum.split) (metis snd_conv)

lemma keeps_goDefer:
  assumes "keeps R m" and "\<And>r s. R s (h r s)"
  shows "keeps R (goDefer h m)"
proof -
  have "R s (snd (goDefer h m s))" for s
  proof -
    obtain r s' where ms: "m s = (r, s')" by (cases "m s")
    with assms(1) have "R s s'" by (auto simp: keeps_def dest: spec [of _ s])
    with ms assms(2) [of s' r] show ?thesis
      by (auto simp: goDefer_def intro: frame_trans)
  qed
  then show ?thesis by (simp add: keeps_def)
qed

lemma keeps_goFor: "(\<And>x. x \<in> set xs \<Longrightarrow> keeps R (body x)) \<Longrightarrow> keeps R (goFor xs body)"
proof (induction xs)
  case Nil
  show ?case by (simp add: keeps_goReturn)
next
  case (Cons x xs)
  have "keeps R (goFor xs body)" by (rule Cons.IH) (simp add: Cons.prems)
  then have "keeps R (case r of None \<Rightarrow> goFor xs body | Some v \<Rightarrow> goReturn (Some v))" for r
    by (simp add: keeps_goReturn split: option.split)
  then show ?case by (simp add: keeps_goBind Cons.prems)
qed

lemma keeps_goFold:
  "(\<And>acc x. x \<in> set xs \<Longrightarrow> keeps R (body acc x)) \<Longrightarrow> keeps R (goFold body acc xs)"
proof (induction xs arbitrary: acc)
  case Nil
  show ?case by (simp add: keeps_goReturn)
next
  case (Cons x xs)
  have "keeps R (goFold body acc' xs)" for acc'
    by (rule Cons.IH) (simp add: Cons.prems)
  then show ?case by (simp add: keeps_goBind Cons.prems)
qed

lemmas keeps_intros =
  keeps_goReturn keeps_goError keeps_goGets keeps_goModify keeps_goBind keeps_goTry
  keeps_goWrap keeps_goDefer keeps_goFor keeps_goFold keeps_goStep keeps_if keeps_case_option
  keeps_case_sum keeps_case_prod keeps_case_list keeps_Let

end

lemma keepsI: "(\<And>s. wp m (\<lambda>a. R s) (\<lambda>e. R s) s) \<Longrightarrow> keeps R m"
  by (simp add: keeps_def wp_snd)

lemma wp_keeps: "keeps R m \<Longrightarrow> wp m (\<lambda>a. R s) (\<lambda>e. R s) s"
  by (simp add: keeps_def wp_snd)

lemma keeps_snd: "keeps R m \<Longrightarrow> R s (snd (m s))"
  by (simp add: keeps_def)

lemma keeps_run: "keeps R m \<Longrightarrow> m s = (r, s') \<Longrightarrow> R s s'"
  by (auto simp: keeps_def dest: spec [of _ s])

end
