(* ===== verification/Api_Types.thy ===== *)
theory Api_Types
  imports Go_Prelude
begin

text \<open>
  The custom resources of the provider, \<^verbatim>\<open>api/v1beta2\<close>: one record per struct with the source's
  fields in the source's order, one definition per method, and the constants of
  \<^verbatim>\<open>condition_types.go\<close> and \<^verbatim>\<open>tags.go\<close>. A slice of a spec is an option of a list, since the
  webhooks compare specs with \<^verbatim>\<open>reflect.DeepEqual\<close>; status slices are lists. Lookups by name
  return the first match, and updates change the first match, so the status lists behave as
  finite maps when their names are distinct, which the theory of keyed status lists shows.
\<close>

section \<open>Types of Kubernetes and Cluster API that the resources embed\<close>

record ObjectMeta =
  om_Name :: string
  om_Namespace :: string
  om_Labels :: str_map
  om_Annotations :: str_map
  om_OwnerReferences :: "(string \<times> string) list"
  om_Finalizers :: "string list"
  om_DeletionTimestamp :: "int option"

record Condition =
  co_Type :: string
  co_Status :: string
  co_Reason :: string
  co_Message :: string

record APIEndpoint =
  ep_Host :: string
  ep_Port :: int

record ObjectReference =
  oref_APIVersion :: string
  oref_Kind :: string
  oref_Name :: string
  oref_Namespace :: string

record MachineAddress =
  ma_Type :: string
  ma_Address :: string

definition ConditionTrue :: string where "ConditionTrue = ''True''"
definition ConditionFalse :: string where "ConditionFalse = ''False''"
definition MachineInternalIP :: string where "MachineInternalIP = ''InternalIP''"
definition MachineExternalIP :: string where "MachineExternalIP = ''ExternalIP''"
definition ClusterNameLabel :: string where
  "ClusterNameLabel = ''cluster.x-k8s.io/cluster-name''"
definition MachineControlPlaneLabel :: string where
  "MachineControlPlaneLabel = ''cluster.x-k8s.io/control-plane''"

lemma condition_status_distinct [simp]:
  "ConditionTrue \<noteq> ConditionFalse" "ConditionFalse \<noteq> ConditionTrue"
  by (simp_all add: ConditionTrue_def ConditionFalse_def)

lemma address_type_distinct [simp]:
  "MachineInternalIP \<noteq> MachineExternalIP" "MachineExternalIP \<noteq> MachineInternalIP"
  by (simp_all add: MachineInternalIP_def MachineExternalIP_def)

section \<open>CloudscaleCluster\<close>

type_synonym IPFamily = string

definition IPFamilyIPv4 :: IPFamily where "IPFamilyIPv4 = ''IPv4''"
definition IPFamilyIPv6 :: IPFamily where "IPFamilyIPv6 = ''IPv6''"
definition IPFamilyDualStack :: IPFamily where "IPFamilyDualStack = ''DualStack''"

definition ClusterFinalizer :: string where
  "ClusterFinalizer = ''cloudscalecluster.infrastructure.cluster.x-k8s.io''"

record CloudscaleCredentialsReference =
  cred_Name :: string
  cred_Namespace :: string

record NetworkSpec =
  net_Name :: string
  net_UUID :: string
  net_CIDR :: string
  net_MTU :: int
  net_GatewayAddress :: string

record RouterInterfaceSpec =
  ri_Network :: string
  ri_UUID :: string
  ri_Address :: string

record RouterSpec =
  rt_Name :: string
  rt_UUID :: string
  rt_InternetGateway :: bool
  rt_Interfaces :: "RouterInterfaceSpec slice"

record HealthMonitorSpec =
  hm_DelayS :: int
  hm_TimeoutS :: int
  hm_UpThreshold :: int
  hm_DownThreshold :: int

record LoadBalancerSpec =
  lb_Enabled :: "bool option"
  lb_Algorithm :: string
  lb_Flavor :: string
  lb_APIServerPort :: int
  lb_Network :: string
  lb_PoolMemberNetwork :: string
  lb_HealthMonitor :: HealthMonitorSpec

record FloatingIPSpec =
  fips_IPFamily :: "IPFamily option"
  fips_Address :: string

record CloudscaleClusterSpec =
  cs_Region :: string
  cs_Zone :: string
  cs_CredentialsRef :: CloudscaleCredentialsReference
  cs_ControlPlaneEndpoint :: APIEndpoint
  cs_Networks :: "NetworkSpec slice"
  cs_Routers :: "RouterSpec slice"
  cs_ControlPlaneLoadBalancer :: LoadBalancerSpec
  cs_FloatingIP :: "FloatingIPSpec option"

record NetworkStatus =
  ns_Name :: string
  ns_NetworkID :: string
  ns_SubnetID :: string
  ns_CIDR :: string
  ns_MTU :: int
  ns_Managed :: bool
  ns_GatewayAddress :: string

record RouterInterfaceStatus =
  ris_Network :: string
  ris_InterfaceID :: string
  ris_Managed :: bool

record RouterStatus =
  rs_Name :: string
  rs_RouterID :: string
  rs_Interfaces :: "RouterInterfaceStatus list"
  rs_Managed :: bool

record ClusterInitializationStatus =
  cinit_Provisioned :: "bool option"

record CloudscaleClusterStatus =
  cst_ObservedGeneration :: int
  cst_Initialization :: "ClusterInitializationStatus option"
  cst_Networks :: "NetworkStatus list"
  cst_Routers :: "RouterStatus list"
  cst_FloatingIP :: string
  cst_LoadBalancerID :: string
  cst_LoadBalancerPoolID :: string
  cst_LoadBalancerListenerID :: string
  cst_LoadBalancerHealthMonitorID :: string
  cst_LoadBalancerMemberIDs :: "string list"
  cst_Conditions :: "Condition list"

record CloudscaleCluster =
  cl_Meta :: ObjectMeta
  cl_Spec :: CloudscaleClusterSpec
  cl_Status :: CloudscaleClusterStatus

definition GetInterfaceStatus :: "RouterStatus \<Rightarrow> string \<Rightarrow> RouterInterfaceStatus option" where
  "GetInterfaceStatus rs network = find (\<lambda>i. ris_Network i = network) (rs_Interfaces rs)"

definition GetNetworkStatus :: "CloudscaleClusterStatus \<Rightarrow> string \<Rightarrow> NetworkStatus option" where
  "GetNetworkStatus st name = find (\<lambda>n. ns_Name n = name) (cst_Networks st)"

definition GetRouterStatus :: "CloudscaleClusterStatus \<Rightarrow> string \<Rightarrow> RouterStatus option" where
  "GetRouterStatus st name = find (\<lambda>r. rs_Name r = name) (cst_Routers st)"

definition CredentialsSecretRef :: "CloudscaleCluster \<Rightarrow> ObjectReference" where
  "CredentialsSecretRef c =
     (let ns = cred_Namespace (cs_CredentialsRef (cl_Spec c));
          ns' = (if ns = '''' then om_Namespace (cl_Meta c) else ns)
      in \<lparr>oref_APIVersion = ''v1'', oref_Kind = ''Secret'',
          oref_Name = cred_Name (cs_CredentialsRef (cl_Spec c)), oref_Namespace = ns'\<rparr>)"

section \<open>Tags\<close>

definition ResourceLifecycleOwned :: string where "ResourceLifecycleOwned = ''owned''"

definition NameCloudscaleProviderPrefix :: string where
  "NameCloudscaleProviderPrefix = ''capcs-''"

definition NameCloudscaleProviderOwned :: string where
  "NameCloudscaleProviderOwned = NameCloudscaleProviderPrefix @ ''cluster-''"

definition ClusterTagKey :: "CloudscaleCluster \<Rightarrow> string" where
  "ClusterTagKey c = NameCloudscaleProviderOwned @ om_Name (cl_Meta c)"

definition clusterOwnershipTags :: "CloudscaleCluster \<Rightarrow> str_map" where
  "clusterOwnershipTags c = [(ClusterTagKey c, ResourceLifecycleOwned)]"

section \<open>CloudscaleMachine\<close>

definition MachineFinalizer :: string where
  "MachineFinalizer = ''cloudscalemachine.infrastructure.cluster.x-k8s.io''"

record InterfaceSpec =
  if_Type :: string
  if_Network :: string
  if_IPFamily :: "IPFamily option"

record ServerGroupSpec =
  sgs_Name :: string

record CloudscaleMachineSpec =
  ms_ProviderID :: "string option"
  ms_Flavor :: string
  ms_Image :: string
  ms_RootVolumeSize :: int
  ms_Tags :: "str_map option"
  ms_ServerGroup :: "ServerGroupSpec option"
  ms_Interfaces :: "InterfaceSpec slice"

record MachineInitializationStatus =
  minit_Provisioned :: "bool option"

record CloudscaleMachineStatus =
  mst_ObservedGeneration :: int
  mst_Initialization :: "MachineInitializationStatus option"
  mst_ServerID :: string
  mst_Addresses :: "MachineAddress list"
  mst_ServerGroupID :: string
  mst_Conditions :: "Condition list"

record CloudscaleMachine =
  cm_Meta :: ObjectMeta
  cm_Spec :: CloudscaleMachineSpec
  cm_Status :: CloudscaleMachineStatus

definition MachineTagKey :: "CloudscaleMachine \<Rightarrow> string \<Rightarrow> string" where
  "MachineTagKey m clusterName = NameCloudscaleProviderOwned @ clusterName"

end
