(* ===== verification/Sdk.thy ===== *)
theory Sdk
  imports Go_Proc Api_Types
begin

text \<open>
  The outside world of the controllers: the cloudscale.ch API behind the interfaces of
  \<^verbatim>\<open>internal/cloudscale/services.go\<close> and the Kubernetes API behind the controller-runtime client.
  Both are parameters: a service is a record of functions on an arbitrary world type \<open>'w\<close>,
  each of which may fail and may change the world, so the theorems hold for every cloud,
  every concurrent actor and every failure. The records of the SDK have the fields the
  provider reads (a \<^verbatim>\<open>Zone.Slug\<close> or \<^verbatim>\<open>Network.UUID\<close> is one field here); like the SDK, a call
  that fails returns no resource. A controller state carries, beside the world and the object
  being reconciled, the requests sent so far and the events emitted so far.
\<close>

section \<open>SDK resources and requests\<close>

record SubnetStub =
  sns_UUID :: string
  sns_CIDR :: string

record Network =
  nw_UUID :: string
  nw_Zone :: string
  nw_MTU :: int
  nw_Subnets :: "SubnetStub list"

record Subnet =
  sn_UUID :: string

record RouterInterfaceAddress =
  ria_Subnet :: string
  ria_Address :: string

record RouterInterface =
  rif_UUID :: string
  rif_Network :: string
  rif_Addresses :: "RouterInterfaceAddress list"

record Router =
  ro_UUID :: string
  ro_Zone :: string
  ro_Status :: string
  ro_Interfaces :: "RouterInterface list"

record ServerInterface =
  svi_Type :: string
  svi_Addresses :: "string list"

record Server =
  sv_UUID :: string
  sv_Status :: string
  sv_Interfaces :: "ServerInterface list"

record ServerGroup =
  sgr_UUID :: string
  sgr_Name :: string
  sgr_Zone :: string
  sgr_Servers :: "string list"

record LoadBalancer =
  lbr_UUID :: string
  lbr_Status :: string
  lbr_VIPAddresses :: "string list"

record LoadBalancerPool = lbp_UUID :: string
record LoadBalancerListener = lbl_UUID :: string
record LoadBalancerHealthMonitor = lbh_UUID :: string

record LoadBalancerPoolMember =
  pm_UUID :: string
  pm_Name :: string
  pm_Address :: string
  pm_ProtocolPort :: int
  pm_MonitorStatus :: string

record FloatingIP =
  fip_IP :: string
  fip_Region :: "string option"
  fip_LoadBalancer :: "string option"
  fip_Server :: "string option"

record NetworkCreateRequest =
  ncr_Name :: string
  ncr_Zone :: string
  ncr_MTU :: int
  ncr_AutoCreateIPV4Subnet :: "bool option"
  ncr_Tags :: str_map

record SubnetCreateRequest =
  scr_Network :: string
  scr_CIDR :: string
  scr_GatewayAddress :: string
  scr_Tags :: str_map

record RouterCreateRequest =
  rcr_Name :: string
  rcr_InternetGateway :: bool
  rcr_Zone :: string
  rcr_Tags :: str_map

record CreateAddressRequest =
  car_Subnet :: string
  car_Address :: string

record CreateInterfaceRequest =
  cir_Network :: string
  cir_Addresses :: "CreateAddressRequest list"

record ServerRequest =
  svr_Name :: string
  svr_Flavor :: string
  svr_Image :: string
  svr_Zone :: string
  svr_Tags :: str_map
  svr_UserData :: string
  svr_Interfaces :: "string list"
  svr_UseIPV6 :: "bool option"
  svr_SSHKeys :: "string list"
  svr_VolumeSizeGB :: int
  svr_ServerGroups :: "string list"

record ServerGroupRequest =
  sgq_Name :: string
  sgq_Type :: string
  sgq_Zone :: string
  sgq_Tags :: str_map

record LoadBalancerRequest =
  lbq_Name :: string
  lbq_Flavor :: string
  lbq_Zone :: string
  lbq_Tags :: str_map
  lbq_VIPAddresses :: "string list option"

record LoadBalancerPoolRequest =
  lpq_Name :: string
  lpq_LoadBalancer :: string
  lpq_Algorithm :: string
  lpq_Protocol :: string
  lpq_Tags :: str_map

record LoadBalancerListenerRequest =
  llq_Name :: string
  llq_Pool :: string
  llq_Protocol :: string
  llq_ProtocolPort :: int
  llq_Tags :: str_map

record LoadBalancerHealthMonitorRequest =
  lhq_Pool :: string
  lhq_Type :: string
  lhq_DelayS :: int
  lhq_TimeoutS :: int
  lhq_UpThreshold :: int
  lhq_DownThreshold :: int
  lhq_Tags :: str_map

record LoadBalancerPoolMemberRequest =
  pmq_Name :: string
  pmq_Subnet :: string
  pmq_ProtocolPort :: int
  pmq_Address :: string
  pmq_Tags :: "str_map option"

record FloatingIPCreateRequest =
  fcr_IPVersion :: int
  fcr_Region :: string
  fcr_LoadBalancer :: string
  fcr_Server :: string
  fcr_Tags :: str_map

record FloatingIPUpdateRequest =
  fur_LoadBalancer :: string
  fur_Server :: string

section \<open>The service interfaces\<close>

type_synonym ('w, 'a) call = "'w \<Rightarrow> (go_error + 'a) \<times> 'w"

text \<open>The operations every tagged resource has, over its create-request and resource types.\<close>

record ('w, 'req, 'res) service =
  svc_Create :: "'req \<Rightarrow> ('w, 'res) call"
  svc_Get :: "string \<Rightarrow> ('w, 'res) call"
  svc_List :: "str_map \<Rightarrow> ('w, 'res list) call"
  svc_Delete :: "string \<Rightarrow> ('w, unit) call"

type_synonym 'w NetworkService = "('w, NetworkCreateRequest, Network) service"
type_synonym 'w SubnetService = "('w, SubnetCreateRequest, Subnet) service"
type_synonym 'w ServerService = "('w, ServerRequest, Server) service"
type_synonym 'w ServerGroupService = "('w, ServerGroupRequest, ServerGroup) service"
type_synonym 'w LoadBalancerService = "('w, LoadBalancerRequest, LoadBalancer) service"
type_synonym 'w LoadBalancerPoolService = "('w, LoadBalancerPoolRequest, LoadBalancerPool) service"
type_synonym 'w LoadBalancerListenerService =
  "('w, LoadBalancerListenerRequest, LoadBalancerListener) service"
type_synonym 'w LoadBalancerHealthMonitorService =
  "('w, LoadBalancerHealthMonitorRequest, LoadBalancerHealthMonitor) service"

record 'w RouterService =
  "('w, RouterCreateRequest, Router) service" +
  svc_CreateInterface :: "string \<Rightarrow> CreateInterfaceRequest \<Rightarrow> ('w, RouterInterface) call"
  svc_DeleteInterface :: "string \<Rightarrow> string \<Rightarrow> ('w, unit) call"

record 'w FloatingIPService =
  "('w, FloatingIPCreateRequest, FloatingIP) service" +
  svc_Update :: "string \<Rightarrow> FloatingIPUpdateRequest \<Rightarrow> ('w, unit) call"

record 'w LoadBalancerPoolMemberService =
  mem_Create :: "string \<Rightarrow> LoadBalancerPoolMemberRequest \<Rightarrow> ('w, LoadBalancerPoolMember) call"
  mem_List :: "string \<Rightarrow> ('w, LoadBalancerPoolMember list) call"
  mem_Delete :: "string \<Rightarrow> string \<Rightarrow> ('w, unit) call"
  mem_Update :: "string \<Rightarrow> string \<Rightarrow> LoadBalancerPoolMemberRequest \<Rightarrow> ('w, unit) call"

record 'w Client =
  Networks :: "'w NetworkService"
  Subnets :: "'w SubnetService"
  Routers :: "'w RouterService"
  Servers :: "'w ServerService"
  ServerGroups :: "'w ServerGroupService"
  LoadBalancers :: "'w LoadBalancerService"
  LoadBalancerPools :: "'w LoadBalancerPoolService"
  LoadBalancerPoolMembers :: "'w LoadBalancerPoolMemberService"
  LoadBalancerListeners :: "'w LoadBalancerListenerService"
  LoadBalancerHealthMonitors :: "'w LoadBalancerHealthMonitorService"
  FloatingIPs :: "'w FloatingIPService"

section \<open>Requests, events and the controller state\<close>

datatype kind =
    KNetwork | KSubnet | KRouter | KServer | KServerGroup | KLoadBalancer | KPool
  | KListener | KHealthMonitor | KFloatingIP

datatype create_request =
    NewNetwork NetworkCreateRequest
  | NewSubnet SubnetCreateRequest
  | NewRouter RouterCreateRequest
  | NewServer ServerRequest
  | NewServerGroup ServerGroupRequest
  | NewLoadBalancer LoadBalancerRequest
  | NewPool LoadBalancerPoolRequest
  | NewListener LoadBalancerListenerRequest
  | NewHealthMonitor LoadBalancerHealthMonitorRequest
  | NewFloatingIP FloatingIPCreateRequest

fun kind_of :: "create_request \<Rightarrow> kind" where
  "kind_of (NewNetwork q) = KNetwork"
| "kind_of (NewSubnet q) = KSubnet"
| "kind_of (NewRouter q) = KRouter"
| "kind_of (NewServer q) = KServer"
| "kind_of (NewServerGroup q) = KServerGroup"
| "kind_of (NewLoadBalancer q) = KLoadBalancer"
| "kind_of (NewPool q) = KPool"
| "kind_of (NewListener q) = KListener"
| "kind_of (NewHealthMonitor q) = KHealthMonitor"
| "kind_of (NewFloatingIP q) = KFloatingIP"

datatype api_call =
    Get kind string
  | List kind str_map
  | Create create_request
  | Delete kind string
  | UpdateFloatingIP string FloatingIPUpdateRequest
  | CreateInterface string CreateInterfaceRequest
  | DeleteInterface string string
  | ListMembers string
  | CreateMember string LoadBalancerPoolMemberRequest
  | UpdateMember string string LoadBalancerPoolMemberRequest
  | DeleteMember string string
  | KubeList string str_map
  | KubeGet string string string
  | KubePatch bool

text \<open>A Kubernetes event: type, reason, action, message.\<close>

datatype event = Event string string string string

definition EventTypeNormal :: string where "EventTypeNormal = ''Normal''"
definition EventTypeWarning :: string where "EventTypeWarning = ''Warning''"

record ('w, 'o) st =
  st_world :: 'w
  st_obj :: 'o
  st_calls :: "api_call list"
  st_events :: "event list"

text \<open>A request: the service function runs on the world and the request is recorded.\<close>

definition api :: "api_call \<Rightarrow> ('w, 'a) call \<Rightarrow> (('w, 'o) st, 'a) proc" where
  "api c f s =
     (case f (st_world s) of
        (r, w) \<Rightarrow> (r, s\<lparr>st_world := w, st_calls := st_calls s @ [c]\<rparr>))"

definition Eventf :: "string \<Rightarrow> string \<Rightarrow> string \<Rightarrow> string \<Rightarrow> fmt_arg list \<Rightarrow> (('w, 'o) st, unit) proc" where
  "Eventf ty reason action f args =
     goModify (st_events_update (\<lambda>es. es @ [Event ty reason action (fmt_Sprintf f args)]))"

definition modify_obj :: "('o \<Rightarrow> 'o) \<Rightarrow> (('w, 'o) st, unit) proc" where
  "modify_obj f = goModify (st_obj_update f)"

section \<open>ctrl.Result\<close>

type_synonym Duration = int

definition time_Second :: Duration where "time_Second = 1000000000"

record Result =
  RequeueAfter :: Duration

definition zeroResult :: Result where "zeroResult = \<lparr>RequeueAfter = 0\<rparr>"

definition requeueAfter :: "Duration \<Rightarrow> Result" where "requeueAfter d = \<lparr>RequeueAfter = d\<rparr>"

definition IsZero :: "Result \<Rightarrow> bool" where "IsZero r \<longleftrightarrow> r = zeroResult"

lemma IsZero_simps [simp]:
  "IsZero zeroResult"
  "IsZero (requeueAfter d) \<longleftrightarrow> d = 0"
  "RequeueAfter zeroResult = 0"
  "RequeueAfter (requeueAfter d) = d"
  by (simp_all add: IsZero_def requeueAfter_def zeroResult_def)

lemma time_Second_pos [simp]: "0 < time_Second" "time_Second \<noteq> 0"
  by (simp_all add: time_Second_def)

lemma requeueAfter_neq_zero [simp]: "d \<noteq> 0 \<Longrightarrow> requeueAfter d \<noteq> zeroResult"
  by (simp add: requeueAfter_def zeroResult_def)

lemma IsZero_iff: "IsZero r \<longleftrightarrow> RequeueAfter r = 0"
  by (cases r) (simp add: IsZero_def zeroResult_def)

section \<open>Weakest preconditions of the effects\<close>

text \<open>Whatever the world does, the state a sequence of requests leaves behind differs from the
  state before only in the world and in the recorded requests.\<close>

definition after :: "api_call list \<Rightarrow> 'w \<Rightarrow> ('w, 'o) st \<Rightarrow> ('w, 'o) st" where
  "after cs w s = s\<lparr>st_world := w, st_calls := st_calls s @ cs\<rparr>"

lemma after_simps [simp]:
  "st_world (after cs w s) = w"
  "st_obj (after cs w s) = st_obj s"
  "st_calls (after cs w s) = st_calls s @ cs"
  "st_events (after cs w s) = st_events s"
  "after cs' w' (after cs w s) = after (cs @ cs') w' s"
  by (simp_all add: after_def)

lemma wp_api [wp]:
  "wp (api c f) Q E = (\<lambda>s. (case f (st_world s) of
        (Inl e, w) \<Rightarrow> E e (after [c] w s)
      | (Inr a, w) \<Rightarrow> Q a (after [c] w s)))"
  by (rule ext) (simp add: wp_def api_def after_def split: prod.split sum.split)

lemma wp_apiI:
  assumes "\<And>a w. f (st_world s) = (Inr a, w) \<Longrightarrow> Q a (after [c] w s)"
    and "\<And>e w. f (st_world s) = (Inl e, w) \<Longrightarrow> E e (after [c] w s)"
  shows "wp (api c f) Q E s"
  using assms by (simp add: wp split: prod.split sum.split)

lemma wp_Eventf [wp]:
  "wp (Eventf ty reason action f args) Q E = (\<lambda>s. Q () (s\<lparr>st_events := st_events s @ [Event ty reason action (fmt_Sprintf f args)]\<rparr>))"
  unfolding Eventf_def by (rule ext, rename_tac s, case_tac s) (simp add: wp)

lemma wp_modify_obj [wp]:
  "wp (modify_obj f) Q E = (\<lambda>s. Q () (s\<lparr>st_obj := f (st_obj s)\<rparr>))"
  unfolding modify_obj_def by (rule ext, rename_tac s, case_tac s) (simp add: wp)

section \<open>Frame relations on the controller state\<close>

text \<open>\<open>emits P\<close>: every request sent satisfies \<open>P\<close>, and the record of requests only grows.\<close>

definition emits :: "(api_call \<Rightarrow> bool) \<Rightarrow> ('w, 'o) st \<Rightarrow> ('w, 'o) st \<Rightarrow> bool" where
  "emits P s s' \<longleftrightarrow> (\<exists>cs. st_calls s' = st_calls s @ cs \<and> list_all P cs)"

text \<open>\<open>obj_frame f\<close>: the projection \<open>f\<close> of the reconciled object is unchanged.\<close>

definition obj_frame :: "('o \<Rightarrow> 'x) \<Rightarrow> ('w, 'o) st \<Rightarrow> ('w, 'o) st \<Rightarrow> bool" where
  "obj_frame f s s' \<longleftrightarrow> f (st_obj s') = f (st_obj s)"

interpretation emits: frame_relation "emits P" for P
proof
  show "emits P s s" for s :: "('a, 'b) st"
    by (simp add: emits_def)
  show "emits P s s''" if "emits P s s'" and "emits P s' s''" for s s' s'' :: "('a, 'b) st"
  proof -
    from that obtain cs cs' where
      "st_calls s' = st_calls s @ cs" "list_all P cs"
      "st_calls s'' = st_calls s' @ cs'" "list_all P cs'"
      by (auto simp: emits_def)
    then have "st_calls s'' = st_calls s @ (cs @ cs')" "list_all P (cs @ cs')" by auto
    then show ?thesis unfolding emits_def by blast
  qed
qed

text \<open>\<open>obj_inv P\<close>: the property \<open>P\<close> of the reconciled object is preserved.\<close>

definition obj_inv :: "('o \<Rightarrow> bool) \<Rightarrow> ('w, 'o) st \<Rightarrow> ('w, 'o) st \<Rightarrow> bool" where
  "obj_inv P s s' \<longleftrightarrow> (P (st_obj s) \<longrightarrow> P (st_obj s'))"

interpretation obji: frame_relation "obj_inv P" for P
  by unfold_locales (simp_all add: obj_inv_def)

interpretation objf: frame_relation "obj_frame f" for f
  by unfold_locales (simp_all add: obj_frame_def)

lemma keeps_emits_api: "P c \<Longrightarrow> keeps (emits P) (api c f)"
  by (auto simp: keeps_def emits_def api_def split: prod.split)

lemma keeps_emits_Eventf: "keeps (emits P) (Eventf ty reason action f args)"
  by (simp add: keeps_def emits_def Eventf_def goModify_def)

lemma keeps_emits_modify_obj: "keeps (emits P) (modify_obj f)"
  by (simp add: keeps_def emits_def modify_obj_def goModify_def)

lemma keeps_obj_api: "keeps (obj_frame f) (api c g)"
  by (auto simp: keeps_def obj_frame_def api_def split: prod.split)

lemma keeps_obj_Eventf: "keeps (obj_frame f) (Eventf ty reason action fm args)"
  by (simp add: keeps_def obj_frame_def Eventf_def goModify_def)

lemma keeps_obj_modify_obj: "(\<And>x. f (g x) = f x) \<Longrightarrow> keeps (obj_frame f) (modify_obj g)"
  by (simp add: keeps_def obj_frame_def modify_obj_def goModify_def)

lemma keeps_inv_api: "keeps (obj_inv P) (api c g)"
  by (auto simp: keeps_def obj_inv_def api_def split: prod.split)

lemma keeps_inv_Eventf: "keeps (obj_inv P) (Eventf ty reason action fm args)"
  by (simp add: keeps_def obj_inv_def Eventf_def goModify_def)

lemma keeps_inv_modify_obj: "(\<And>x. P x \<Longrightarrow> P (g x)) \<Longrightarrow> keeps (obj_inv P) (modify_obj g)"
  by (simp add: keeps_def obj_inv_def modify_obj_def goModify_def)

lemma emits_updates [simp]:
  "emits P s (t\<lparr>st_events := es\<rparr>) = emits P s t"
  "emits P s (t\<lparr>st_obj := x\<rparr>) = emits P s t"
  "emits P s (st_obj_update f t) = emits P s t"
  by (simp_all add: emits_def)

lemma emits_after: "emits P s t \<Longrightarrow> list_all P cs \<Longrightarrow> emits P s (after cs w t)"
  by (auto simp: emits_def)

lemma emits_mono: "emits P s t \<Longrightarrow> (\<And>c. P c \<Longrightarrow> Q c) \<Longrightarrow> emits Q s t"
  by (auto simp: emits_def list_all_iff)

end
