(* ===== verification/Conditions.thy ===== *)
theory Conditions
  imports Sdk
begin

text \<open>
  Status conditions. The constants are those of \<^verbatim>\<open>api/v1beta2/condition_types.go\<close>. The package
  \<^verbatim>\<open>sigs.k8s.io/cluster-api/util/conditions\<close> is a parameter, \<open>condition_ops\<close>, with its documented
  behaviour in \<open>conditions_ok\<close>: a condition that was set is found again with its status, reason
  and message, conditions of other types are left alone, and \<^verbatim>\<open>IsTrue\<close> reads the status. An object
  with conditions (\<^verbatim>\<open>conditions.Setter\<close>) is the locale \<open>conditions_setter\<close>, interpreted for both
  resources. The derivation of the Ready condition from sub-conditions, the same loop in both
  controllers, is \<open>setReadyFrom\<close>.
\<close>

section \<open>Condition types and reasons\<close>

definition ReadyCondition :: string where "ReadyCondition = ''Ready''"
definition NetworkReadyCondition :: string where "NetworkReadyCondition = ''NetworkReady''"
definition LoadBalancerReadyCondition :: string where "LoadBalancerReadyCondition = ''LoadBalancerReady''"
definition ServerGroupReadyCondition :: string where "ServerGroupReadyCondition = ''ServerGroupReady''"
definition ServerReadyCondition :: string where "ServerReadyCondition = ''ServerReady''"
definition PausedCondition :: string where "PausedCondition = ''Paused''"
definition RouterReadyCondition :: string where "RouterReadyCondition = ''RouterReady''"
definition FloatingIPReadyCondition :: string where "FloatingIPReadyCondition = ''FloatingIPReady''"
definition DeletingCondition :: string where "DeletingCondition = ''Deleting''"

definition NetworkProvisionedReason :: string where "NetworkProvisionedReason = ''NetworkProvisioned''"
definition NetworkErrorReason :: string where "NetworkErrorReason = ''NetworkError''"
definition NetworkDeletingReason :: string where "NetworkDeletingReason = ''NetworkDeleting''"
definition LoadBalancerRunningReason :: string where "LoadBalancerRunningReason = ''LoadBalancerRunning''"
definition LoadBalancerNotReadyReason :: string where "LoadBalancerNotReadyReason = ''LoadBalancerNotReady''"
definition LoadBalancerDisabledReason :: string where "LoadBalancerDisabledReason = ''LoadBalancerDisabled''"
definition LoadBalancerErrorReason :: string where "LoadBalancerErrorReason = ''LoadBalancerError''"
definition LoadBalancerDeletingReason :: string where "LoadBalancerDeletingReason = ''LoadBalancerDeleting''"
definition RouterProvisionedReason :: string where "RouterProvisionedReason = ''RouterProvisioned''"
definition RouterNotReadyReason :: string where "RouterNotReadyReason = ''RouterNotReady''"
definition RouterErrorReason :: string where "RouterErrorReason = ''RouterError''"
definition RouterDisabledReason :: string where "RouterDisabledReason = ''RouterDisabled''"
definition RouterDeletingReason :: string where "RouterDeletingReason = ''RouterDeleting''"
definition FloatingIPProvisionedReason :: string where "FloatingIPProvisionedReason = ''FloatingIPProvisioned''"
definition FloatingIPDisabledReason :: string where "FloatingIPDisabledReason = ''FloatingIPDisabled''"
definition FloatingIPErrorReason :: string where "FloatingIPErrorReason = ''FloatingIPError''"
definition FloatingIPDeletingReason :: string where "FloatingIPDeletingReason = ''FloatingIPDeleting''"
definition ServerRunningReason :: string where "ServerRunningReason = ''ServerRunning''"
definition ServerStartingReason :: string where "ServerStartingReason = ''ServerStarting''"
definition ServerChangingReason :: string where "ServerChangingReason = ''ServerChanging''"
definition ServerStoppedReason :: string where "ServerStoppedReason = ''ServerStopped''"
definition ServerInRescueModeReason :: string where "ServerInRescueModeReason = ''ServerInRescueMode''"
definition ServerInternalErrorReason :: string where "ServerInternalErrorReason = ''ServerInternalError''"
definition ServerErrorReason :: string where "ServerErrorReason = ''ServerError''"
definition ServerDeletingReason :: string where "ServerDeletingReason = ''ServerDeleting''"
definition ServerDeletedExternallyReason :: string where "ServerDeletedExternallyReason = ''ServerDeletedExternally''"
definition ServerGroupReadyReason :: string where "ServerGroupReadyReason = ''ServerGroupReady''"
definition ServerGroupErrorReason :: string where "ServerGroupErrorReason = ''ServerGroupError''"
definition WaitingForClusterInfrastructureReason :: string where "WaitingForClusterInfrastructureReason = ''WaitingForClusterInfrastructure''"
definition WaitingForBootstrapDataReason :: string where "WaitingForBootstrapDataReason = ''WaitingForBootstrapData''"
definition DeletingReason :: string where "DeletingReason = ''Deleting''"
definition PausedReason :: string where "PausedReason = ''Paused''"
definition ReadyReason :: string where "ReadyReason = ''Ready''"
definition NotReadyReason :: string where "NotReadyReason = ''NotReady''"

lemmas condition_type_defs =
  ReadyCondition_def
  NetworkReadyCondition_def
  LoadBalancerReadyCondition_def
  ServerGroupReadyCondition_def
  ServerReadyCondition_def
  PausedCondition_def
  RouterReadyCondition_def
  FloatingIPReadyCondition_def
  DeletingCondition_def

lemma condition_types_distinct:
  "distinct [ReadyCondition, NetworkReadyCondition, LoadBalancerReadyCondition, ServerGroupReadyCondition, ServerReadyCondition, PausedCondition, RouterReadyCondition, FloatingIPReadyCondition, DeletingCondition]"
  by (simp add: condition_type_defs)

lemma condition_types_neq [simp]:
  "ReadyCondition \<noteq> NetworkReadyCondition"
  "ReadyCondition \<noteq> LoadBalancerReadyCondition"
  "ReadyCondition \<noteq> ServerGroupReadyCondition"
  "ReadyCondition \<noteq> ServerReadyCondition"
  "ReadyCondition \<noteq> PausedCondition"
  "ReadyCondition \<noteq> RouterReadyCondition"
  "ReadyCondition \<noteq> FloatingIPReadyCondition"
  "ReadyCondition \<noteq> DeletingCondition"
  "NetworkReadyCondition \<noteq> ReadyCondition"
  "NetworkReadyCondition \<noteq> LoadBalancerReadyCondition"
  "NetworkReadyCondition \<noteq> ServerGroupReadyCondition"
  "NetworkReadyCondition \<noteq> ServerReadyCondition"
  "NetworkReadyCondition \<noteq> PausedCondition"
  "NetworkReadyCondition \<noteq> RouterReadyCondition"
  "NetworkReadyCondition \<noteq> FloatingIPReadyCondition"
  "NetworkReadyCondition \<noteq> DeletingCondition"
  "LoadBalancerReadyCondition \<noteq> ReadyCondition"
  "LoadBalancerReadyCondition \<noteq> NetworkReadyCondition"
  "LoadBalancerReadyCondition \<noteq> ServerGroupReadyCondition"
  "LoadBalancerReadyCondition \<noteq> ServerReadyCondition"
  "LoadBalancerReadyCondition \<noteq> PausedCondition"
  "LoadBalancerReadyCondition \<noteq> RouterReadyCondition"
  "LoadBalancerReadyCondition \<noteq> FloatingIPReadyCondition"
  "LoadBalancerReadyCondition \<noteq> DeletingCondition"
  "ServerGroupReadyCondition \<noteq> ReadyCondition"
  "ServerGroupReadyCondition \<noteq> NetworkReadyCondition"
  "ServerGroupReadyCondition \<noteq> LoadBalancerReadyCondition"
  "ServerGroupReadyCondition \<noteq> ServerReadyCondition"
  "ServerGroupReadyCondition \<noteq> PausedCondition"
  "ServerGroupReadyCondition \<noteq> RouterReadyCondition"
  "ServerGroupReadyCondition \<noteq> FloatingIPReadyCondition"
  "ServerGroupReadyCondition \<noteq> DeletingCondition"
  "ServerReadyCondition \<noteq> ReadyCondition"
  "ServerReadyCondition \<noteq> NetworkReadyCondition"
  "ServerReadyCondition \<noteq> LoadBalancerReadyCondition"
  "ServerReadyCondition \<noteq> ServerGroupReadyCondition"
  "ServerReadyCondition \<noteq> PausedCondition"
  "ServerReadyCondition \<noteq> RouterReadyCondition"
  "ServerReadyCondition \<noteq> FloatingIPReadyCondition"
  "ServerReadyCondition \<noteq> DeletingCondition"
  "PausedCondition \<noteq> ReadyCondition"
  "PausedCondition \<noteq> NetworkReadyCondition"
  "PausedCondition \<noteq> LoadBalancerReadyCondition"
  "PausedCondition \<noteq> ServerGroupReadyCondition"
  "PausedCondition \<noteq> ServerReadyCondition"
  "PausedCondition \<noteq> RouterReadyCondition"
  "PausedCondition \<noteq> FloatingIPReadyCondition"
  "PausedCondition \<noteq> DeletingCondition"
  "RouterReadyCondition \<noteq> ReadyCondition"
  "RouterReadyCondition \<noteq> NetworkReadyCondition"
  "RouterReadyCondition \<noteq> LoadBalancerReadyCondition"
  "RouterReadyCondition \<noteq> ServerGroupReadyCondition"
  "RouterReadyCondition \<noteq> ServerReadyCondition"
  "RouterReadyCondition \<noteq> PausedCondition"
  "RouterReadyCondition \<noteq> FloatingIPReadyCondition"
  "RouterReadyCondition \<noteq> DeletingCondition"
  "FloatingIPReadyCondition \<noteq> ReadyCondition"
  "FloatingIPReadyCondition \<noteq> NetworkReadyCondition"
  "FloatingIPReadyCondition \<noteq> LoadBalancerReadyCondition"
  "FloatingIPReadyCondition \<noteq> ServerGroupReadyCondition"
  "FloatingIPReadyCondition \<noteq> ServerReadyCondition"
  "FloatingIPReadyCondition \<noteq> PausedCondition"
  "FloatingIPReadyCondition \<noteq> RouterReadyCondition"
  "FloatingIPReadyCondition \<noteq> DeletingCondition"
  "DeletingCondition \<noteq> ReadyCondition"
  "DeletingCondition \<noteq> NetworkReadyCondition"
  "DeletingCondition \<noteq> LoadBalancerReadyCondition"
  "DeletingCondition \<noteq> ServerGroupReadyCondition"
  "DeletingCondition \<noteq> ServerReadyCondition"
  "DeletingCondition \<noteq> PausedCondition"
  "DeletingCondition \<noteq> RouterReadyCondition"
  "DeletingCondition \<noteq> FloatingIPReadyCondition"
  using condition_types_distinct by auto

section \<open>The conditions package\<close>

record condition_ops =
  conditions_Get :: "Condition list \<Rightarrow> string \<Rightarrow> Condition option"
  conditions_IsTrue :: "Condition list \<Rightarrow> string \<Rightarrow> bool"
  conditions_Set :: "Condition list \<Rightarrow> Condition \<Rightarrow> Condition list"
  conditions_Delete :: "Condition list \<Rightarrow> string \<Rightarrow> Condition list"

definition conditions_ok :: "condition_ops \<Rightarrow> bool" where
  "conditions_ok C \<longleftrightarrow>
     (\<forall>cs t. conditions_IsTrue C cs t \<longleftrightarrow>
        (\<exists>c. conditions_Get C cs t = Some c \<and> co_Status c = ConditionTrue)) \<and>
     (\<forall>cs c. conditions_Get C (conditions_Set C cs c) (co_Type c) = Some c) \<and>
     (\<forall>cs c t. t \<noteq> co_Type c \<longrightarrow>
        conditions_Get C (conditions_Set C cs c) t = conditions_Get C cs t) \<and>
     (\<forall>cs t. conditions_Get C (conditions_Delete C cs t) t = None) \<and>
     (\<forall>cs t t'. t' \<noteq> t \<longrightarrow>
        conditions_Get C (conditions_Delete C cs t) t' = conditions_Get C cs t')"

text \<open>A list-based instance, for concrete runs.\<close>

definition list_conditions :: condition_ops where
  "list_conditions =
     \<lparr>conditions_Get = (\<lambda>cs t. find (\<lambda>c. co_Type c = t) cs),
      conditions_IsTrue = (\<lambda>cs t. case find (\<lambda>c. co_Type c = t) cs of
                             None \<Rightarrow> False | Some c \<Rightarrow> co_Status c = ConditionTrue),
      conditions_Set = (\<lambda>cs c. c # filter (\<lambda>c'. co_Type c' \<noteq> co_Type c) cs),
      conditions_Delete = (\<lambda>cs t. filter (\<lambda>c. co_Type c \<noteq> t) cs)\<rparr>"

lemma find_filter_other:
  "(\<And>x. P x \<Longrightarrow> Q x) \<Longrightarrow> find P (filter Q xs) = find P xs"
  by (induction xs) auto

lemma list_conditions_ok: "conditions_ok list_conditions"
  unfolding conditions_ok_def list_conditions_def
  by (auto simp: find_None_iff intro!: find_filter_other dest: find_SomeD split: option.splits)

section \<open>Objects with conditions\<close>

definition obj_Get :: "condition_ops \<Rightarrow> ('o \<Rightarrow> Condition list) \<Rightarrow> 'o \<Rightarrow> string \<Rightarrow> Condition option" where
  "obj_Get C getc x t = conditions_Get C (getc x) t"

definition obj_IsTrue :: "condition_ops \<Rightarrow> ('o \<Rightarrow> Condition list) \<Rightarrow> 'o \<Rightarrow> string \<Rightarrow> bool" where
  "obj_IsTrue C getc x t = conditions_IsTrue C (getc x) t"

text \<open>\<^verbatim>\<open>setCondition\<close> of both controllers.\<close>

definition obj_setCondition ::
  "condition_ops \<Rightarrow> ('o \<Rightarrow> Condition list) \<Rightarrow> (Condition list \<Rightarrow> 'o \<Rightarrow> 'o) \<Rightarrow>
   string \<Rightarrow> string \<Rightarrow> string \<Rightarrow> string \<Rightarrow> 'o \<Rightarrow> 'o" where
  "obj_setCondition C getc setc condType status reason message x =
     setc (conditions_Set C (getc x)
             \<lparr>co_Type = condType, co_Status = status, co_Reason = reason, co_Message = message\<rparr>) x"

text \<open>\<^verbatim>\<open>setReadyCondition\<close> of both controllers, for their lists of sub-conditions.\<close>

fun setReadyFrom ::
  "condition_ops \<Rightarrow> ('o \<Rightarrow> Condition list) \<Rightarrow> (Condition list \<Rightarrow> 'o \<Rightarrow> 'o) \<Rightarrow>
   string list \<Rightarrow> 'o \<Rightarrow> 'o" where
  "setReadyFrom C getc setc [] x =
     obj_setCondition C getc setc ReadyCondition ConditionTrue ReadyReason '''' x"
| "setReadyFrom C getc setc (t # ts) x =
     (if \<not> obj_IsTrue C getc x t then
        (case obj_Get C getc x t of
           None \<Rightarrow> obj_setCondition C getc setc ReadyCondition ConditionFalse NotReadyReason
                     (''Waiting for '' @ t) x
         | Some c \<Rightarrow> obj_setCondition C getc setc ReadyCondition ConditionFalse
                      (co_Reason c) (co_Message c) x)
      else setReadyFrom C getc setc ts x)"

locale conditions_setter =
  fixes getc :: "'o \<Rightarrow> Condition list"
    and setc :: "Condition list \<Rightarrow> 'o \<Rightarrow> 'o"
  assumes get_set: "getc (setc cs x) = cs"
begin

lemma Get_setCondition_same:
  assumes "conditions_ok C"
  shows "obj_Get C getc (obj_setCondition C getc setc t st r m x) t =
    Some \<lparr>co_Type = t, co_Status = st, co_Reason = r, co_Message = m\<rparr>"
proof -
  let ?c = "\<lparr>co_Type = t, co_Status = st, co_Reason = r, co_Message = m\<rparr>"
  from assms have "conditions_Get C (conditions_Set C (getc x) ?c) (co_Type ?c) = Some ?c"
    unfolding conditions_ok_def by blast
  then show ?thesis by (simp add: obj_Get_def obj_setCondition_def get_set)
qed

lemma Get_setCondition_other:
  assumes "conditions_ok C" and "t' \<noteq> t"
  shows "obj_Get C getc (obj_setCondition C getc setc t st r m x) t' = obj_Get C getc x t'"
proof -
  let ?c = "\<lparr>co_Type = t, co_Status = st, co_Reason = r, co_Message = m\<rparr>"
  from assms(1) have
    "t' \<noteq> co_Type ?c \<Longrightarrow>
       conditions_Get C (conditions_Set C (getc x) ?c) t' = conditions_Get C (getc x) t'"
    unfolding conditions_ok_def by blast
  with assms(2) show ?thesis by (simp add: obj_Get_def obj_setCondition_def get_set)
qed

lemma IsTrue_iff:
  "conditions_ok C \<Longrightarrow>
     obj_IsTrue C getc x t \<longleftrightarrow> (\<exists>c. obj_Get C getc x t = Some c \<and> co_Status c = ConditionTrue)"
  unfolding conditions_ok_def obj_Get_def obj_IsTrue_def by blast

lemma IsTrue_setCondition_same:
  "conditions_ok C \<Longrightarrow>
     obj_IsTrue C getc (obj_setCondition C getc setc t st r m x) t \<longleftrightarrow> st = ConditionTrue"
  by (simp add: IsTrue_iff Get_setCondition_same)

lemma IsTrue_setCondition_other:
  "conditions_ok C \<Longrightarrow> t' \<noteq> t \<Longrightarrow>
     obj_IsTrue C getc (obj_setCondition C getc setc t st r m x) t' = obj_IsTrue C getc x t'"
  by (simp add: IsTrue_iff Get_setCondition_other)

lemma setReadyFrom_IsTrue:
  assumes "conditions_ok C"
  shows "obj_IsTrue C getc (setReadyFrom C getc setc ts x) ReadyCondition \<longleftrightarrow>
    (\<forall>t\<in>set ts. obj_IsTrue C getc x t)"
  by (induction ts)
    (simp_all add: IsTrue_setCondition_same assms split: option.split)

lemma setReadyFrom_other:
  assumes "conditions_ok C" and "t \<noteq> ReadyCondition"
  shows "obj_Get C getc (setReadyFrom C getc setc ts x) t = obj_Get C getc x t"
  by (induction ts)
    (simp_all add: Get_setCondition_other assms split: option.split)

text \<open>The reason and message of Ready are those of the first sub-condition that is not True.\<close>

lemma setReadyFrom_first_failing:
  assumes "conditions_ok C" and "find (\<lambda>t. \<not> obj_IsTrue C getc x t) ts = Some t"
  shows "obj_Get C getc (setReadyFrom C getc setc ts x) ReadyCondition =
    Some \<lparr>co_Type = ReadyCondition, co_Status = ConditionFalse,
          co_Reason = (case obj_Get C getc x t of None \<Rightarrow> NotReadyReason | Some c \<Rightarrow> co_Reason c),
          co_Message = (case obj_Get C getc x t of None \<Rightarrow> ''Waiting for '' @ t
                        | Some c \<Rightarrow> co_Message c)\<rparr>"
  using assms(2)
  by (induction ts)
    (auto simp: Get_setCondition_same assms(1) split: option.split if_splits)

end

section \<open>The two resources as condition setters\<close>

definition Cluster_GetConditions :: "CloudscaleCluster \<Rightarrow> Condition list" where
  "Cluster_GetConditions c = cst_Conditions (cl_Status c)"

definition Cluster_SetConditions :: "Condition list \<Rightarrow> CloudscaleCluster \<Rightarrow> CloudscaleCluster" where
  "Cluster_SetConditions cs c = c\<lparr>cl_Status := (cl_Status c)\<lparr>cst_Conditions := cs\<rparr>\<rparr>"

definition Machine_GetConditions :: "CloudscaleMachine \<Rightarrow> Condition list" where
  "Machine_GetConditions m = mst_Conditions (cm_Status m)"

definition Machine_SetConditions :: "Condition list \<Rightarrow> CloudscaleMachine \<Rightarrow> CloudscaleMachine" where
  "Machine_SetConditions cs m = m\<lparr>cm_Status := (cm_Status m)\<lparr>mst_Conditions := cs\<rparr>\<rparr>"

interpretation ccond: conditions_setter Cluster_GetConditions Cluster_SetConditions
  by unfold_locales (simp add: Cluster_GetConditions_def Cluster_SetConditions_def)

interpretation mcond: conditions_setter Machine_GetConditions Machine_SetConditions
  by unfold_locales (simp add: Machine_GetConditions_def Machine_SetConditions_def)

end
