(* ===== verification/Api_Errors.thy ===== *)
theory Api_Errors
  imports Go_Prelude
begin

text \<open>
  The classification of cloudscale.ch API errors in \<^verbatim>\<open>internal/cloudscale/client.go\<close>, and the one
  in \<^verbatim>\<open>cloudscalecluster_network.go\<close>. The argument is the Go error interface, \<^const>\<open>None\<close> for nil.
\<close>

section \<open>Timeouts of a standard-library error\<close>

text \<open>\<^verbatim>\<open>(*url.Error).Timeout\<close>: asks the wrapped error itself, without unwrapping further.\<close>

fun error_Timeout :: "go_error \<Rightarrow> bool" where
  "error_Timeout (NetError msg t) = t"
| "error_Timeout ErrDeadlineExceeded = True"
| "error_Timeout (UrlError op e) = error_Timeout e"
| "error_Timeout e = False"

definition is_ErrorResponse :: "go_error \<Rightarrow> bool" where
  "is_ErrorResponse e = (case e of ErrorResponse code msg \<Rightarrow> True | _ \<Rightarrow> False)"

definition is_UrlError :: "go_error \<Rightarrow> bool" where
  "is_UrlError e = (case e of UrlError op e' \<Rightarrow> True | _ \<Rightarrow> False)"

section \<open>The predicates\<close>

definition IsNotFound :: "go_error option \<Rightarrow> bool" where
  "IsNotFound err =
     (case err of
        None \<Rightarrow> False
      | Some e \<Rightarrow>
          (case find is_ErrorResponse (error_tree e) of
             Some (ErrorResponse code msg) \<Rightarrow> code = 404
           | _ \<Rightarrow> False))"

definition IsFloatingIPNoPublicInterface :: "go_error option \<Rightarrow> bool" where
  "IsFloatingIPNoPublicInterface err =
     (case err of
        None \<Rightarrow> False
      | Some e \<Rightarrow>
          strings_Contains (error_text e) ''does not have a public interface with an IPv4 address'')"

definition IsTimeoutError :: "go_error option \<Rightarrow> bool" where
  "IsTimeoutError err =
     (case err of
        None \<Rightarrow> False
      | Some e \<Rightarrow>
          (case find is_UrlError (error_tree e) of
             Some u \<Rightarrow> error_Timeout u
           | None \<Rightarrow> errors_Is e ErrDeadlineExceeded))"

definition isLBPoolMembersError :: "go_error option \<Rightarrow> bool" where
  "isLBPoolMembersError err =
     (case err of
        None \<Rightarrow> False
      | Some e \<Rightarrow> strings_Contains (error_text e) ''load balancer pool members'')"

text \<open>\<^verbatim>\<open>apierrors.IsNotFound\<close> of the Kubernetes API machinery, by the error's reason.\<close>

definition apierrors_IsNotFound :: "go_error \<Rightarrow> bool" where
  "apierrors_IsNotFound e =
     (case find (\<lambda>x. case x of StatusError reason msg \<Rightarrow> True | _ \<Rightarrow> False) (error_tree e) of
        Some (StatusError reason msg) \<Rightarrow> reason = ''NotFound''
      | _ \<Rightarrow> False)"

section \<open>Lemmas\<close>

lemma IsNotFound_None [simp]: "\<not> IsNotFound None"
  by (simp add: IsNotFound_def)

lemma IsTimeoutError_None [simp]: "\<not> IsTimeoutError None"
  by (simp add: IsTimeoutError_def)

lemma isLBPoolMembersError_None [simp]: "\<not> isLBPoolMembersError None"
  by (simp add: isLBPoolMembersError_def)

lemma IsNotFound_ErrorResponse [simp]:
  "IsNotFound (Some (ErrorResponse code msg)) \<longleftrightarrow> code = 404"
  by (simp add: IsNotFound_def is_ErrorResponse_def)

lemma IsNotFound_wrap [simp]:
  "IsNotFound (Some (fmt_Errorw f args e)) = IsNotFound (Some e)"
  by (simp add: IsNotFound_def is_ErrorResponse_def fmt_Errorw_def)

lemma IsTimeoutError_wrap [simp]:
  "IsTimeoutError (Some (fmt_Errorw f args e)) = IsTimeoutError (Some e)"
  by (simp add: IsTimeoutError_def is_UrlError_def fmt_Errorw_def errors_Is_def split: option.split)

text \<open>An API response that the SDK decoded is never taken for a timeout.\<close>

lemma IsTimeoutError_ErrorResponse [simp]:
  "\<not> IsTimeoutError (Some (ErrorResponse code msg))"
  by (simp add: IsTimeoutError_def is_UrlError_def errors_Is_def)

lemma IsTimeoutError_UrlError [simp]:
  "IsTimeoutError (Some (UrlError op e)) = error_Timeout e"
  by (simp add: IsTimeoutError_def is_UrlError_def)

end
