(* ===== verification/Scope.thy ===== *)
theory Scope
  imports Conditions Api_Errors
begin

text \<open>
  What a reconcile works on: the Cluster API objects, the Kubernetes client and the library
  functions (parameters), the scopes of \<^verbatim>\<open>internal/scope\<close>, the credentials lookup of
  \<^verbatim>\<open>internal/credentials\<close>, and \<^verbatim>\<open>ensureResource\<close> of \<^verbatim>\<open>cloudscale_services.go\<close>, the lookup by
  recorded id and then by ownership tag that every cloud resource goes through. The object a
  scope points to is the object of the controller state. Log lines, trace spans and the
  deadlines of request contexts are left out: a deadline that passes is an error of the call.
\<close>

section \<open>Cluster API objects, Kubernetes client, library functions\<close>

record Cluster =
  capi_Meta :: ObjectMeta
  capi_InfrastructureRefName :: string
  capi_ControlPlaneInitialized :: "bool option"
  capi_Paused :: "bool option"

record Machine =
  mach_Meta :: ObjectMeta
  mach_DataSecretName :: "string option"
  mach_InfrastructureRefKind :: string
  mach_InfrastructureRefName :: string

record 'w kube =
  k_GetCloudscaleCluster :: "string \<Rightarrow> string \<Rightarrow> ('w, CloudscaleCluster) call"
  k_GetCloudscaleMachine :: "string \<Rightarrow> string \<Rightarrow> ('w, CloudscaleMachine) call"
  k_GetSecret :: "string \<Rightarrow> string \<Rightarrow> ('w, str_map) call"
  k_ListCloudscaleMachines :: "string \<Rightarrow> str_map \<Rightarrow> ('w, CloudscaleMachine list) call"
  k_ListCloudscaleClusters :: "string \<Rightarrow> str_map \<Rightarrow> ('w, CloudscaleCluster list) call"
  k_ListMachines :: "string \<Rightarrow> str_map \<Rightarrow> ('w, Machine list) call"
  k_GetOwnerCluster :: "ObjectMeta \<Rightarrow> ('w, Cluster option) call"
  k_GetOwnerMachine :: "ObjectMeta \<Rightarrow> ('w, Machine option) call"
  k_GetClusterFromMetadata :: "ObjectMeta \<Rightarrow> ('w, Cluster) call"
  k_NewClusterHelper :: "CloudscaleCluster \<Rightarrow> go_error option"
  k_NewMachineHelper :: "CloudscaleMachine \<Rightarrow> go_error option"
  k_PatchCluster :: "CloudscaleCluster \<Rightarrow> CloudscaleCluster \<Rightarrow> bool \<Rightarrow> ('w, CloudscaleCluster) call"
  k_PatchMachine :: "CloudscaleMachine \<Rightarrow> CloudscaleMachine \<Rightarrow> bool \<Rightarrow> ('w, CloudscaleMachine) call"

record lib =
  lib_conditions :: condition_ops
  lib_ContainsFinalizer :: "string list \<Rightarrow> string \<Rightarrow> bool"
  lib_AddFinalizer :: "string list \<Rightarrow> string \<Rightarrow> string list"
  lib_RemoveFinalizer :: "string list \<Rightarrow> string \<Rightarrow> string list"
  lib_IsPaused :: "Cluster \<Rightarrow> ObjectMeta \<Rightarrow> bool"
  lib_RouterActive :: string

text \<open>
  The documented behaviour of the \<^verbatim>\<open>controllerutil\<close> finalizer helpers: membership, adding and
  removing one finalizer without touching the others.
\<close>

definition finalizers_ok :: "lib \<Rightarrow> bool" where
  "finalizers_ok L \<longleftrightarrow>
     (\<forall>fs f. lib_ContainsFinalizer L fs f \<longleftrightarrow> f \<in> set fs) \<and>
     (\<forall>fs f. set (lib_AddFinalizer L fs f) = insert f (set fs)) \<and>
     (\<forall>fs f. set (lib_RemoveFinalizer L fs f) = set fs - {f})"

text \<open>A concrete library, for runs.\<close>

definition list_lib :: lib where
  "list_lib =
     \<lparr>lib_conditions = list_conditions,
      lib_ContainsFinalizer = (\<lambda>fs f. f \<in> set fs),
      lib_AddFinalizer = (\<lambda>fs f. if f \<in> set fs then fs else fs @ [f]),
      lib_RemoveFinalizer = (\<lambda>fs f. filter (\<lambda>g. g \<noteq> f) fs),
      lib_IsPaused = (\<lambda>c m. ptr_Deref (capi_Paused c) False),
      lib_RouterActive = ''active''\<rparr>"

lemma list_lib_ok: "conditions_ok (lib_conditions list_lib)" "finalizers_ok list_lib"
  by (auto simp: list_lib_def list_conditions_ok finalizers_ok_def)

section \<open>Scopes\<close>

record 'w ClusterScope =
  sc_lib :: lib
  sc_client :: "'w kube"
  sc_patchHelper :: CloudscaleCluster
  sc_Cluster :: Cluster
  sc_CloudscaleClient :: "'w Client"

record 'w MachineScope =
  msc_lib :: lib
  msc_client :: "'w kube"
  msc_patchHelper :: CloudscaleMachine
  msc_Cluster :: Cluster
  msc_Machine :: Machine
  msc_CloudscaleCluster :: CloudscaleCluster
  msc_CloudscaleClient :: "'w Client"

text \<open>The constructors check for nil arguments and take the patch helper's snapshot.\<close>

definition NewClusterScope ::
  "lib \<Rightarrow> 'w kube option \<Rightarrow> Cluster option \<Rightarrow> CloudscaleCluster option \<Rightarrow> 'w Client option \<Rightarrow>
   go_error + 'w ClusterScope" where
  "NewClusterScope L client cluster cloudscaleCluster cloudscaleClient =
     (case client of None \<Rightarrow> Inl (fmt_Errorf ''client is required'' [])
      | Some k \<Rightarrow>
     (case cluster of None \<Rightarrow> Inl (fmt_Errorf ''cluster is required'' [])
      | Some c \<Rightarrow>
     (case cloudscaleCluster of None \<Rightarrow> Inl (fmt_Errorf ''cloudscaleCluster is required'' [])
      | Some cc \<Rightarrow>
     (case cloudscaleClient of None \<Rightarrow> Inl (fmt_Errorf ''cloudscaleClient is required'' [])
      | Some cli \<Rightarrow>
     (case k_NewClusterHelper k cc of
        Some err \<Rightarrow> Inl (fmt_Errorw ''failed to init patch helper: %w'' [] err)
      | None \<Rightarrow>
          Inr \<lparr>sc_lib = L, sc_client = k, sc_patchHelper = cc, sc_Cluster = c,
               sc_CloudscaleClient = cli\<rparr>)))))"

definition NewMachineScope ::
  "lib \<Rightarrow> 'w kube option \<Rightarrow> Cluster option \<Rightarrow> Machine option \<Rightarrow> CloudscaleCluster option \<Rightarrow>
   CloudscaleMachine option \<Rightarrow> 'w Client option \<Rightarrow> go_error + 'w MachineScope" where
  "NewMachineScope L client cluster machine cloudscaleCluster cloudscaleMachine cloudscaleClient =
     (case client of None \<Rightarrow> Inl (fmt_Errorf ''client is required'' [])
      | Some k \<Rightarrow>
     (case cluster of None \<Rightarrow> Inl (fmt_Errorf ''cluster is required'' [])
      | Some c \<Rightarrow>
     (case machine of None \<Rightarrow> Inl (fmt_Errorf ''machine is required'' [])
      | Some m \<Rightarrow>
     (case cloudscaleCluster of None \<Rightarrow> Inl (fmt_Errorf ''cloudscaleCluster is required'' [])
      | Some cc \<Rightarrow>
     (case cloudscaleMachine of None \<Rightarrow> Inl (fmt_Errorf ''cloudscaleMachine is required'' [])
      | Some cm \<Rightarrow>
     (case cloudscaleClient of None \<Rightarrow> Inl (fmt_Errorf ''cloudscaleClient is required'' [])
      | Some cli \<Rightarrow>
     (case k_NewMachineHelper k cm of
        Some err \<Rightarrow> Inl (fmt_Errorw ''failed to init patch helper: %w'' [] err)
      | None \<Rightarrow>
          Inr \<lparr>msc_lib = L, msc_client = k, msc_patchHelper = cm, msc_Cluster = c, msc_Machine = m,
               msc_CloudscaleCluster = cc, msc_CloudscaleClient = cli\<rparr>)))))))"

text \<open>\<^verbatim>\<open>Close\<close> patches the object; the flag is the \<^verbatim>\<open>WithStatusObservedGeneration\<close> option. The
  API server's answer is written back into the object.\<close>

definition Cluster_Close ::
  "'w ClusterScope \<Rightarrow> bool \<Rightarrow> (('w, CloudscaleCluster) st, unit) proc" where
  "Cluster_Close S withObservedGeneration =
     goBind (goGets st_obj) (\<lambda>obj.
     goBind (api (KubePatch withObservedGeneration)
               (k_PatchCluster (sc_client S) (sc_patchHelper S) obj withObservedGeneration))
       (\<lambda>obj'. modify_obj (\<lambda>_. obj')))"

definition Machine_Close ::
  "'w MachineScope \<Rightarrow> bool \<Rightarrow> (('w, CloudscaleMachine) st, unit) proc" where
  "Machine_Close S withObservedGeneration =
     goBind (goGets st_obj) (\<lambda>obj.
     goBind (api (KubePatch withObservedGeneration)
               (k_PatchMachine (msc_client S) (msc_patchHelper S) obj withObservedGeneration))
       (\<lambda>obj'. modify_obj (\<lambda>_. obj')))"

definition IsControlPlane :: "'w MachineScope \<Rightarrow> bool" where
  "IsControlPlane S \<longleftrightarrow>
     map_of (om_Labels (mach_Meta (msc_Machine S))) MachineControlPlaneLabel \<noteq> None"

definition GetBootstrapData :: "'w MachineScope \<Rightarrow> (('w, 'o) st, string) proc" where
  "GetBootstrapData S =
     (case mach_DataSecretName (msc_Machine S) of
        None \<Rightarrow> goError (fmt_Errorf ''bootstrap data secret name is nil'' [])
      | Some name \<Rightarrow>
          goBind (goWrap (fmt_Errorw ''getting bootstrap data secret: %w'' [])
                   (api (KubeGet ''Secret'' (om_Namespace (mach_Meta (msc_Machine S))) name)
                      (k_GetSecret (msc_client S) (om_Namespace (mach_Meta (msc_Machine S))) name)))
            (\<lambda>data. case map_of data ''value'' of
                None \<Rightarrow> goError (fmt_Errorf ''bootstrap data secret missing 'value' key'' [])
              | Some value \<Rightarrow> goReturn value))"

definition GetProviderID :: "CloudscaleMachine \<Rightarrow> string" where
  "GetProviderID m = (case ms_ProviderID (cm_Spec m) of Some p \<Rightarrow> p | None \<Rightarrow> '''')"

definition SetProviderID :: "string \<Rightarrow> CloudscaleMachine \<Rightarrow> CloudscaleMachine" where
  "SetProviderID serverID m =
     m\<lparr>cm_Spec := (cm_Spec m)\<lparr>ms_ProviderID := Some (fmt_Sprintf ''cloudscale://%s'' [FS serverID])\<rparr>\<rparr>"

section \<open>Credentials\<close>

definition TokenKey :: string where "TokenKey = ''token''"

definition GetToken ::
  "'w kube \<Rightarrow> ObjectReference \<Rightarrow> string \<Rightarrow> (('w, 'o) st, string) proc" where
  "GetToken c secretRef clusterNamespace =
     (let namespace = (if oref_Namespace secretRef = '''' then clusterNamespace
                       else oref_Namespace secretRef);
          name = oref_Name secretRef
      in goBind (goWrap (fmt_Errorw ''failed to get credentials secret %s/%s: %w'' [FS namespace, FS name])
                  (api (KubeGet ''Secret'' namespace name) (k_GetSecret c namespace name)))
           (\<lambda>data. case map_of data TokenKey of
               None \<Rightarrow> goError (fmt_Errorf ''secret %s/%s does not contain key %q''
                          [FS namespace, FS name, FS TokenKey])
             | Some token \<Rightarrow>
                 if token = '''' then
                   goError (fmt_Errorf ''secret %s/%s has empty token'' [FS namespace, FS name])
                 else goReturn token))"

section \<open>Deletes that tolerate 404\<close>

text \<open>The \<^verbatim>\<open>err\<close> of a call, and the test \<^verbatim>\<open>err != nil && !cloudscale.IsNotFound(err)\<close>.\<close>

definition err_of :: "go_error + 'a \<Rightarrow> go_error option" where
  "err_of r = (case r of Inl e \<Rightarrow> Some e | Inr _ \<Rightarrow> None)"

definition hard_error :: "go_error option \<Rightarrow> go_error option" where
  "hard_error err = (if IsNotFound err then None else err)"

lemma err_of_simps [simp]: "err_of (Inl e) = Some e" "err_of (Inr x) = None"
  by (simp_all add: err_of_def)

lemma hard_error_simps [simp]:
  "hard_error None = None"
  "hard_error (Some e) = (if IsNotFound (Some e) then None else Some e)"
  by (simp_all add: hard_error_def)

section \<open>Create with requeue on timeout\<close>

text \<open>
  The idiom around every create call: a timed-out request may have landed, so the function
  returns a requeue and no error; any other error is wrapped and returned.
\<close>

definition createStep ::
  "Duration \<Rightarrow> string \<Rightarrow> (('w, 'o) st, 'a) proc \<Rightarrow> (('w, 'o) st, Result + 'a) proc" where
  "createStep d msg m =
     goBind (goTry m)
       (\<lambda>r. case r of
           Inr x \<Rightarrow> goReturn (Inr x)
         | Inl err \<Rightarrow>
             if IsTimeoutError (Some err) then goReturn (Inl (requeueAfter d))
             else goError (fmt_Errorw msg [] err))"

lemma wp_createStep [wp]:
  "wp (createStep d msg m) Q E = (\<lambda>s. wp m (\<lambda>x. Q (Inr x))
       (\<lambda>err s. if IsTimeoutError (Some err) then Q (Inl (requeueAfter d)) s
                else E (fmt_Errorw msg [] err) s) s)"
  by (rule ext)
    (auto simp: createStep_def wp_def goBind_def goTry_def goReturn_def goError_def
      split: prod.split sum.split)

section \<open>ensureResource\<close>

definition ensureResource ::
  "kind \<Rightarrow> string \<Rightarrow> string \<Rightarrow> ('w, 'q, 't, 'z) service_scheme \<Rightarrow> ('t \<Rightarrow> string) \<Rightarrow> str_map \<Rightarrow>
   (('w, 'o) st, 't option \<times> string) proc" where
  "ensureResource k currentID resourceName svc extractUUID tags =
     goBind
       (if currentID \<noteq> '''' then
          goBind (goTry (api (Get k currentID) (svc_Get svc currentID)))
            (\<lambda>r. case r of
                Inr resource \<Rightarrow> goReturn (Some (Some resource, currentID))
              | Inl err \<Rightarrow>
                  if \<not> IsNotFound (Some err)
                  then goError (fmt_Errorw ''getting %s: %w'' [FS resourceName] err)
                  else goReturn None)
        else goReturn None)
       (\<lambda>early. case early of
           Some r \<Rightarrow> goReturn r
         | None \<Rightarrow>
             goBind (goWrap (fmt_Errorw ''listing %ss: %w'' [FS resourceName])
                       (api (List k tags) (svc_List svc tags)))
               (\<lambda>items.
                  if length items > 1 then
                    goError (fmt_Errorf ''found %d %ss matching tag filter, expected at most 1''
                               [FD (int (length items)), FS resourceName])
                  else if length items = 1 then goReturn (Some (items ! 0), extractUUID (items ! 0))
                  else goReturn (None, '''')))"

text \<open>
  The requests of \<^const>\<open>ensureResource\<close> are one Get of the recorded id, if there is one, and one
  List by tag, if that Get reported 404 or there was no id; nothing but the world and the
  record of requests changes.
\<close>

lemma wp_ensureResource:
  "wp (ensureResource k currentID resourceName svc extractUUID tags) Q E s =
     (let L = (\<lambda>s. case svc_List svc tags (st_world s) of
          (Inl e, w) \<Rightarrow> E (fmt_Errorw ''listing %ss: %w'' [FS resourceName] e) (after [List k tags] w s)
        | (Inr items, w) \<Rightarrow>
            if length items > 1
            then E (fmt_Errorf ''found %d %ss matching tag filter, expected at most 1''
                      [FD (int (length items)), FS resourceName]) (after [List k tags] w s)
            else if length items = 1
            then Q (Some (items ! 0), extractUUID (items ! 0)) (after [List k tags] w s)
            else Q (None, '''') (after [List k tags] w s))
      in if currentID = '''' then L s
         else case svc_Get svc currentID (st_world s) of
                (Inr x, w) \<Rightarrow> Q (Some x, currentID) (after [Get k currentID] w s)
              | (Inl e, w) \<Rightarrow>
                  if IsNotFound (Some e) then L (after [Get k currentID] w s)
                  else E (fmt_Errorw ''getting %s: %w'' [FS resourceName] e)
                         (after [Get k currentID] w s))"
  unfolding ensureResource_def
  by (auto simp: wp Let_def split: prod.split sum.split option.split)

definition ensure_calls :: "kind \<Rightarrow> string \<Rightarrow> str_map \<Rightarrow> api_call list set" where
  "ensure_calls k currentID tags =
     (if currentID = '''' then {[List k tags]}
      else {[Get k currentID], [Get k currentID, List k tags]})"

text \<open>For proofs that hold whatever the API answers: a non-empty id comes with a resource.\<close>

lemma wp_ensureResourceI:
  assumes "\<And>r id cs w. cs \<in> ensure_calls k currentID tags \<Longrightarrow> (id \<noteq> '''' \<longrightarrow> r \<noteq> None) \<Longrightarrow>
      Q (r, id) (after cs w s)"
    and "\<And>e cs w. cs \<in> ensure_calls k currentID tags \<Longrightarrow> \<forall>msg. e \<noteq> Panic msg \<Longrightarrow> E e (after cs w s)"
  shows "wp (ensureResource k currentID resourceName svc extractUUID tags) Q E s"
  unfolding wp_ensureResource
  by (auto simp: Let_def ensure_calls_def intro!: assms split: prod.split sum.split)

text \<open>The same with the answers of the API at hand.\<close>

lemma wp_ensureResource_casesI:
  assumes "\<And>x w. currentID \<noteq> '''' \<Longrightarrow> svc_Get svc currentID (st_world s) = (Inr x, w) \<Longrightarrow>
      Q (Some x, currentID) (after [Get k currentID] w s)"
    and "\<And>x w w' cs. cs \<in> ensure_calls k currentID tags \<Longrightarrow> svc_List svc tags w = (Inr [x], w') \<Longrightarrow>
      Q (Some x, extractUUID x) (after cs w' s)"
    and "\<And>w w' cs. cs \<in> ensure_calls k currentID tags \<Longrightarrow> svc_List svc tags w = (Inr [], w') \<Longrightarrow>
      Q (None, '''') (after cs w' s)"
    and "\<And>e cs w. cs \<in> ensure_calls k currentID tags \<Longrightarrow> \<forall>msg. e \<noteq> Panic msg \<Longrightarrow> E e (after cs w s)"
  shows "wp (ensureResource k currentID resourceName svc extractUUID tags) Q E s"
proof -
  define L where "L = (\<lambda>t. case svc_List svc tags (st_world t) of
          (Inl e, w) \<Rightarrow> E (fmt_Errorw ''listing %ss: %w'' [FS resourceName] e) (after [List k tags] w t)
        | (Inr items, w) \<Rightarrow>
            if length items > 1
            then E (fmt_Errorf ''found %d %ss matching tag filter, expected at most 1''
                      [FD (int (length items)), FS resourceName]) (after [List k tags] w t)
            else if length items = 1
            then Q (Some (items ! 0), extractUUID (items ! 0)) (after [List k tags] w t)
            else Q (None, [] :: char list) (after [List k tags] w t))"
  have L: "L (after pre w s)" if "pre @ [List k tags] \<in> ensure_calls k currentID tags" for pre w
  proof -
    obtain r w' where r: "svc_List svc tags w = (r, w')" by (cases "svc_List svc tags w")
    show ?thesis
    proof (cases r)
      case (Inl e)
      with r show ?thesis by (simp add: L_def assms(4) [OF that])
    next
      case (Inr xs)
      then consider "xs = []" | x where "xs = [x]" | "length xs > 1"
        by (cases xs rule: remdups_adj.cases) auto
      then show ?thesis
        by cases (use r Inr assms(2,3,4) [OF that] in \<open>simp_all add: L_def\<close>)
    qed
  qed
  have id: "after [] (st_world s) s = s" by (cases s) (simp add: after_def)
  show ?thesis
    unfolding wp_ensureResource Let_def L_def [symmetric]
    using L [of "[]" "st_world s"] L [of "[Get k currentID]"] assms(1,4)
    by (auto simp: id ensure_calls_def split: prod.split sum.split)
qed

lemma keeps_emits_ensureResource:
  assumes "P (Get k currentID)" and "P (List k tags)"
  shows "keeps (emits P) (ensureResource k currentID resourceName svc extractUUID tags)"
  by (rule keepsI, rule wp_ensureResourceI)
    (use assms in \<open>auto simp: emits_def ensure_calls_def split: if_splits\<close>)

lemma keeps_obj_ensureResource:
  "keeps (obj_frame f) (ensureResource k currentID resourceName svc extractUUID tags)"
  by (rule keepsI, rule wp_ensureResourceI) (auto simp: obj_frame_def)

lemma keeps_inv_ensureResource:
  "keeps (obj_inv P) (ensureResource k currentID resourceName svc extractUUID tags)"
  by (rule keepsI, rule wp_ensureResourceI) (auto simp: obj_inv_def)

lemma createStep_obj_frame: "keeps (obj_frame f) m \<Longrightarrow> keeps (obj_frame f) (createStep d msg m)"
  unfolding createStep_def by (intro objf.keeps_intros) auto

lemma createStep_obj_inv: "keeps (obj_inv P) m \<Longrightarrow> keeps (obj_inv P) (createStep d msg m)"
  unfolding createStep_def by (intro obji.keeps_intros) auto

lemma createStep_emits: "keeps (emits P) m \<Longrightarrow> keeps (emits P) (createStep d msg m)"
  unfolding createStep_def by (intro emits.keeps_intros) auto

lemmas frame_intros =
  objf.keeps_intros keeps_obj_api keeps_obj_Eventf keeps_obj_ensureResource createStep_obj_frame

lemmas inv_intros =
  obji.keeps_intros keeps_inv_api keeps_inv_Eventf keeps_inv_ensureResource createStep_obj_inv

lemmas emits_intros =
  emits.keeps_intros keeps_emits_api keeps_emits_Eventf keeps_emits_ensureResource
  keeps_emits_modify_obj createStep_emits

end
