(* ===== verification/Scope_Close.thy ===== *)
theory Scope_Close
  imports Scope
begin

text \<open>
  Closing a scope. Both reconcilers defer a \<^verbatim>\<open>Close\<close> that patches the object, with the observed
  generation only when no error is returned. What closing promises, whatever was requested before,
  is the locale \<open>scope_close\<close>: one patch, as the last request. It is interpreted on the close
  functions of both scopes, and gives the shape of the requests of a whole reconcile.
\<close>

definition is_patch :: "api_call \<Rightarrow> bool" where
  "is_patch c \<longleftrightarrow> (case c of KubePatch _ \<Rightarrow> True | _ \<Rightarrow> False)"

definition is_kube_get :: "api_call \<Rightarrow> bool" where
  "is_kube_get c \<longleftrightarrow> (case c of KubeGet _ _ _ \<Rightarrow> True | _ \<Rightarrow> False)"

abbreviation no_patch :: "('w, 'o) st \<Rightarrow> ('w, 'o) st \<Rightarrow> bool" where
  "no_patch \<equiv> emits (\<lambda>c. \<not> is_patch c)"

text \<open>The requests end with one patch, with the given flag, and there is no other.\<close>

definition patched_last :: "bool \<Rightarrow> ('w, 'o) st \<Rightarrow> ('w, 'o) st \<Rightarrow> bool" where
  "patched_last b s s' \<longleftrightarrow>
     (\<exists>cs. st_calls s' = st_calls s @ cs @ [KubePatch b] \<and> list_all (\<lambda>c. \<not> is_patch c) cs)"

locale scope_close =
  fixes close :: "bool \<Rightarrow> (('w, 'o) st, unit) proc"
  assumes close_patches: "no_patch s t \<Longrightarrow> wp (close b) (\<lambda>_. patched_last b s) (\<lambda>_. patched_last b s) t"
begin

lemma wp_closed:
  assumes "wp m (\<lambda>_. no_patch s) (\<lambda>_. no_patch s) s"
  shows "wp (goFinally (\<lambda>ret. close (case ret of Inl _ \<Rightarrow> False | Inr _ \<Rightarrow> True)) m)
    (\<lambda>_. patched_last True s) (\<lambda>_ s'. \<exists>b. patched_last b s s') s"
  by (auto simp: wp intro!: wp_mono [OF assms] wp_mono [OF close_patches])

end

interpretation cclose: scope_close "Cluster_Close S" for S
  by (unfold_locales, unfold Cluster_Close_def)
    (auto simp: wp patched_last_def emits_def split: sum.split prod.split)

interpretation mclose: scope_close "Machine_Close S" for S
  by (unfold_locales, unfold Machine_Close_def)
    (auto simp: wp patched_last_def emits_def split: sum.split prod.split)

section \<open>The reads before a scope exists\<close>

lemma patched_last_after:
  "emits is_kube_get s t \<Longrightarrow> patched_last b t u \<Longrightarrow> patched_last b s u"
  by (fastforce simp: emits_def patched_last_def is_kube_get_def is_patch_def list_all_iff
      split: api_call.splits)

lemma is_kube_get_KubeGet [simp]: "is_kube_get (KubeGet a b c)"
  by (simp add: is_kube_get_def)

lemma emits_get:
  "emits is_kube_get (after cs w t) u \<Longrightarrow> list_all is_kube_get cs \<Longrightarrow> emits is_kube_get t u"
  "emits P (t\<lparr>st_obj := x\<rparr>) u \<Longrightarrow> emits P t u"
  by (auto simp: emits_def)

lemma emits_got:
  "emits is_kube_get s t \<Longrightarrow> list_all is_kube_get cs \<Longrightarrow> emits is_kube_get s (after cs w t)"
  "emits P s (t\<lparr>st_obj := x\<rparr>) = emits P s t"
  by (auto simp: emits_def)

lemma GetToken_reads:
  "wp (GetToken k r ns) (\<lambda>_ s'. st_obj s' = st_obj s \<and> emits is_kube_get s s') (\<lambda>_. emits is_kube_get s) s"
  unfolding GetToken_def Let_def
  by (auto simp: wp emits_def is_kube_get_def split: prod.split sum.split option.split)

end
