(* ===== verification/Keyed_Status.thy ===== *)
theory Keyed_Status
  imports Scope
begin

text \<open>
  Status lists keyed by name. \<^verbatim>\<open>setNetworkStatus\<close>, \<^verbatim>\<open>setRouterStatus\<close> and
  \<^verbatim>\<open>setRouterInterfaceStatus\<close> all overwrite the fields of the first entry with a name, or append
  a new entry; \<open>upsert\<close> is that operation. The locale \<open>keyed_list\<close> is the contract the rest of
  the controllers rely on (an entry that was put is found again, other entries are untouched,
  names stay distinct), \<open>keyed_upsert\<close> derives it for \<open>upsert\<close>, and the interpretations
  discharge it for the three status lists.
\<close>

section \<open>Updating the first match\<close>

fun update_first :: "('a \<Rightarrow> bool) \<Rightarrow> ('a \<Rightarrow> 'a) \<Rightarrow> 'a list \<Rightarrow> 'a list" where
  "update_first P f [] = []"
| "update_first P f (x # xs) = (if P x then f x # xs else x # update_first P f xs)"

lemma map_update_first: "(\<And>x. P x \<Longrightarrow> g (f x) = g x) \<Longrightarrow> map g (update_first P f xs) = map g xs"
  by (induction xs) auto

lemma find_update_first:
  assumes "\<And>x. P x \<Longrightarrow> P (f x)"
  shows "find P (update_first P f xs) = map_option f (find P xs)"
  by (induction xs) (auto simp: assms)

lemma find_update_first_other:
  assumes "\<And>x. P x \<Longrightarrow> \<not> Q x" and "\<And>x. P x \<Longrightarrow> \<not> Q (f x)"
  shows "find Q (update_first P f xs) = find Q xs"
  by (induction xs) (auto simp: assms)

lemma update_first_none: "\<not> (\<exists>x\<in>set xs. P x) \<Longrightarrow> update_first P f xs = xs"
  by (induction xs) auto

lemma find_append: "find P (xs @ ys) = (case find P xs of None \<Rightarrow> find P ys | Some x \<Rightarrow> Some x)"
  by (induction xs) auto

lemma length_update_first [simp]: "length (update_first P f xs) = length xs"
  by (induction xs) auto

lemma set_update_first_subset: "set (update_first P f xs) \<subseteq> set xs \<union> f ` {x \<in> set xs. P x}"
  by (induction xs) auto

definition upsert ::
  "('a \<Rightarrow> string) \<Rightarrow> ('v \<Rightarrow> 'a \<Rightarrow> 'a) \<Rightarrow> (string \<Rightarrow> 'v \<Rightarrow> 'a) \<Rightarrow> string \<Rightarrow> 'v \<Rightarrow> 'a list \<Rightarrow> 'a list" where
  "upsert key upd new k v xs =
     (if \<exists>x\<in>set xs. key x = k then update_first (\<lambda>x. key x = k) (upd v) xs else xs @ [new k v])"

section \<open>The contract of a keyed list\<close>

locale keyed_list =
  fixes key :: "'a \<Rightarrow> string"
    and put :: "string \<Rightarrow> 'v \<Rightarrow> 'a list \<Rightarrow> 'a list"
    and stored :: "'v \<Rightarrow> 'a \<Rightarrow> bool"
  assumes map_key_put:
      "map key (put k v xs) = (if k \<in> key ` set xs then map key xs else map key xs @ [k])"
    and find_put_same: "\<exists>x. find (\<lambda>x. key x = k) (put k v xs) = Some x \<and> key x = k \<and> stored v x"
    and find_put_other:
      "k' \<noteq> k \<Longrightarrow> find (\<lambda>x. key x = k') (put k v xs) = find (\<lambda>x. key x = k') xs"
begin

lemma keys_put: "key ` set (put k v xs) = insert k (key ` set xs)"
proof -
  have "key ` set (put k v xs) = set (map key (put k v xs))" by simp
  then show ?thesis by (auto simp: map_key_put)
qed

lemma distinct_put: "distinct (map key xs) \<Longrightarrow> distinct (map key (put k v xs))"
  by (simp add: map_key_put)

lemma length_put: "length (put k v xs) = (if k \<in> key ` set xs then length xs else Suc (length xs))"
proof -
  have "length (put k v xs) = length (map key (put k v xs))" by simp
  then show ?thesis by (simp add: map_key_put)
qed

text \<open>A run of puts: every key ends up with the last value put under it.\<close>

lemma find_puts:
  assumes "distinct (map fst kvs)" and "(k, v) \<in> set kvs"
  shows "\<exists>x. find (\<lambda>x. key x = k) (fold (\<lambda>(k, v). put k v) kvs xs) = Some x \<and> stored v x"
  using assms
proof (induction kvs arbitrary: xs rule: rev_induct)
  case Nil
  then show ?case by simp
next
  case (snoc kv kvs)
  obtain k' v' where kv: "kv = (k', v')" by (cases kv)
  show ?case
  proof (cases "k = k'")
    case True
    have "v = v'" using snoc.prems kv True by (auto simp: image_iff)
    then show ?thesis using True kv find_put_same by fastforce
  next
    case False
    with snoc.prems kv have "distinct (map fst kvs)" "(k, v) \<in> set kvs" by auto
    from snoc.IH [OF this, of xs] False kv show ?thesis by (simp add: find_put_other)
  qed
qed

lemma distinct_puts:
  "distinct (map key xs) \<Longrightarrow> distinct (map key (fold (\<lambda>(k, v). put k v) kvs xs))"
  by (induction kvs arbitrary: xs) (auto simp: distinct_put)

end

locale keyed_upsert =
  fixes key :: "'a \<Rightarrow> string"
    and upd :: "'v \<Rightarrow> 'a \<Rightarrow> 'a"
    and new :: "string \<Rightarrow> 'v \<Rightarrow> 'a"
    and stored :: "'v \<Rightarrow> 'a \<Rightarrow> bool"
  assumes key_upd: "key (upd v x) = key x"
    and key_new: "key (new k v) = k"
    and stored_upd: "stored v (upd v x)"
    and stored_new: "stored v (new k v)"
begin

lemma find_upsert:
  "find (\<lambda>x. key x = k) (upsert key upd new k v xs) =
     Some (case find (\<lambda>x. key x = k) xs of None \<Rightarrow> new k v | Some x \<Rightarrow> upd v x)"
proof (cases "\<exists>x\<in>set xs. key x = k")
  case True
  then obtain x where "find (\<lambda>x. key x = k) xs = Some x" by (auto dest: find_exists)
  with True show ?thesis by (simp add: upsert_def find_update_first key_upd)
next
  case False
  then have "find (\<lambda>x. key x = k) xs = None" by (auto simp: find_None_iff)
  with False show ?thesis by (simp add: upsert_def find_append key_new)
qed

end

sublocale keyed_upsert \<subseteq> keyed_list key "upsert key upd new" stored
proof
  show "map key (upsert key upd new k v xs) =
    (if k \<in> key ` set xs then map key xs else map key xs @ [k])" for k v xs
    by (auto simp: upsert_def key_new key_upd map_update_first image_iff)
  show "\<exists>x. find (\<lambda>x. key x = k) (upsert key upd new k v xs) = Some x \<and> key x = k \<and> stored v x"
    for k v xs
    by (auto simp: find_upsert key_new key_upd stored_new stored_upd split: option.split
        dest: find_SomeD)
  show "find (\<lambda>x. key x = k') (upsert key upd new k v xs) = find (\<lambda>x. key x = k') xs"
    if "k' \<noteq> k" for k' k v xs
  proof -
    from that have "find (\<lambda>x. key x = k') (update_first (\<lambda>x. key x = k) (upd v) xs) =
        find (\<lambda>x. key x = k') xs"
      by (intro find_update_first_other) (auto simp: key_upd)
    with that show ?thesis by (simp add: upsert_def find_append key_new split: option.split)
  qed
qed

section \<open>The three status lists\<close>

text \<open>The values of \<^verbatim>\<open>setNetworkStatus\<close>: network id, subnet id, CIDR, managed, MTU.\<close>

type_synonym network_value = "string \<times> string \<times> string \<times> bool \<times> int"

fun updNetworkStatus :: "network_value \<Rightarrow> NetworkStatus \<Rightarrow> NetworkStatus" where
  "updNetworkStatus (networkID, subnetID, cidr, managed, mtu) ns =
     ns\<lparr>ns_NetworkID := networkID, ns_SubnetID := subnetID, ns_CIDR := cidr,
        ns_Managed := managed, ns_MTU := mtu\<rparr>"

fun newNetworkStatus :: "string \<Rightarrow> network_value \<Rightarrow> NetworkStatus" where
  "newNetworkStatus name (networkID, subnetID, cidr, managed, mtu) =
     \<lparr>ns_Name = name, ns_NetworkID = networkID, ns_SubnetID = subnetID, ns_CIDR = cidr,
      ns_MTU = mtu, ns_Managed = managed, ns_GatewayAddress = ''''\<rparr>"

fun network_stored :: "network_value \<Rightarrow> NetworkStatus \<Rightarrow> bool" where
  "network_stored (networkID, subnetID, cidr, managed, mtu) ns \<longleftrightarrow>
     ns_NetworkID ns = networkID \<and> ns_SubnetID ns = subnetID \<and> ns_CIDR ns = cidr \<and>
     ns_Managed ns = managed \<and> ns_MTU ns = mtu"

text \<open>The values of \<^verbatim>\<open>setRouterStatus\<close>: router id, managed.\<close>

type_synonym router_value = "string \<times> bool"

fun updRouterStatus :: "router_value \<Rightarrow> RouterStatus \<Rightarrow> RouterStatus" where
  "updRouterStatus (routerID, managed) rs = rs\<lparr>rs_RouterID := routerID, rs_Managed := managed\<rparr>"

fun newRouterStatus :: "string \<Rightarrow> router_value \<Rightarrow> RouterStatus" where
  "newRouterStatus name (routerID, managed) =
     \<lparr>rs_Name = name, rs_RouterID = routerID, rs_Interfaces = [], rs_Managed = managed\<rparr>"

fun router_stored :: "router_value \<Rightarrow> RouterStatus \<Rightarrow> bool" where
  "router_stored (routerID, managed) rs \<longleftrightarrow> rs_RouterID rs = routerID \<and> rs_Managed rs = managed"

text \<open>The values of \<^verbatim>\<open>setRouterInterfaceStatus\<close>: interface id, managed.\<close>

type_synonym interface_value = "string \<times> bool"

fun updInterfaceStatus :: "interface_value \<Rightarrow> RouterInterfaceStatus \<Rightarrow> RouterInterfaceStatus" where
  "updInterfaceStatus (interfaceID, managed) i =
     i\<lparr>ris_InterfaceID := interfaceID, ris_Managed := managed\<rparr>"

fun newInterfaceStatus :: "string \<Rightarrow> interface_value \<Rightarrow> RouterInterfaceStatus" where
  "newInterfaceStatus network (interfaceID, managed) =
     \<lparr>ris_Network = network, ris_InterfaceID = interfaceID, ris_Managed = managed\<rparr>"

fun interface_stored :: "interface_value \<Rightarrow> RouterInterfaceStatus \<Rightarrow> bool" where
  "interface_stored (interfaceID, managed) i \<longleftrightarrow>
     ris_InterfaceID i = interfaceID \<and> ris_Managed i = managed"

interpretation nets: keyed_upsert ns_Name updNetworkStatus newNetworkStatus network_stored
  by unfold_locales (auto simp: split_paired_all)

interpretation routers: keyed_upsert rs_Name updRouterStatus newRouterStatus router_stored
  by unfold_locales (auto simp: split_paired_all)

interpretation ifaces: keyed_upsert ris_Network updInterfaceStatus newInterfaceStatus interface_stored
  by unfold_locales (auto simp: split_paired_all)

end
