(* ===== verification/Cluster_State.thy ===== *)
theory Cluster_State
  imports Keyed_Status
begin

text \<open>
  The state of a CloudscaleCluster reconcile and the operations on it that all its parts share:
  \<^verbatim>\<open>setCondition\<close> and \<^verbatim>\<open>setReadyCondition\<close> of \<^verbatim>\<open>cloudscalecluster_controller.go\<close>, reading the
  spec and the status, and the promise of the API that the resources it returns have an id.
\<close>

type_synonym 'w cst = "('w, CloudscaleCluster) st"

abbreviation specOf :: "'w cst \<Rightarrow> CloudscaleClusterSpec" where
  "specOf s \<equiv> cl_Spec (st_obj s)"

abbreviation statusOf :: "'w cst \<Rightarrow> CloudscaleClusterStatus" where
  "statusOf s \<equiv> cl_Status (st_obj s)"

definition modify_status ::
  "(CloudscaleClusterStatus \<Rightarrow> CloudscaleClusterStatus) \<Rightarrow> ('w cst, unit) proc" where
  "modify_status f = modify_obj (\<lambda>c. c\<lparr>cl_Status := f (cl_Status c)\<rparr>)"

lemma wp_modify_status [wp]:
  "wp (modify_status f) Q E =
     (\<lambda>s. Q () (s\<lparr>st_obj := (st_obj s)\<lparr>cl_Status := f (statusOf s)\<rparr>\<rparr>))"
  unfolding modify_status_def by (simp add: wp)

section \<open>Conditions of the cluster\<close>

definition Cluster_setCondition ::
  "'w ClusterScope \<Rightarrow> string \<Rightarrow> string \<Rightarrow> string \<Rightarrow> string \<Rightarrow> CloudscaleCluster \<Rightarrow> CloudscaleCluster" where
  "Cluster_setCondition S condType status reason message =
     obj_setCondition (lib_conditions (sc_lib S)) Cluster_GetConditions Cluster_SetConditions
       condType status reason message"

definition Cluster_subConditions :: "string list" where
  "Cluster_subConditions =
     [NetworkReadyCondition, RouterReadyCondition, LoadBalancerReadyCondition,
      FloatingIPReadyCondition]"

definition Cluster_setReadyCondition :: "'w ClusterScope \<Rightarrow> CloudscaleCluster \<Rightarrow> CloudscaleCluster" where
  "Cluster_setReadyCondition S =
     setReadyFrom (lib_conditions (sc_lib S)) Cluster_GetConditions Cluster_SetConditions
       Cluster_subConditions"

definition cond :: "'w ClusterScope \<Rightarrow> 'w cst \<Rightarrow> string \<Rightarrow> Condition option" where
  "cond S s t = obj_Get (lib_conditions (sc_lib S)) Cluster_GetConditions (st_obj s) t"

definition condTrue :: "'w ClusterScope \<Rightarrow> 'w cst \<Rightarrow> string \<Rightarrow> bool" where
  "condTrue S s t = obj_IsTrue (lib_conditions (sc_lib S)) Cluster_GetConditions (st_obj s) t"

abbreviation scope_ok :: "'w ClusterScope \<Rightarrow> bool" where
  "scope_ok S \<equiv> conditions_ok (lib_conditions (sc_lib S))"

text \<open>Setting a condition changes the condition list and nothing else.\<close>

lemma Cluster_setCondition_frame [simp]:
  "cl_Meta (Cluster_setCondition S t st r m c) = cl_Meta c"
  "cl_Spec (Cluster_setCondition S t st r m c) = cl_Spec c"
  "cst_Initialization (cl_Status (Cluster_setCondition S t st r m c)) = cst_Initialization (cl_Status c)"
  "cst_Networks (cl_Status (Cluster_setCondition S t st r m c)) = cst_Networks (cl_Status c)"
  "cst_Routers (cl_Status (Cluster_setCondition S t st r m c)) = cst_Routers (cl_Status c)"
  "cst_FloatingIP (cl_Status (Cluster_setCondition S t st r m c)) = cst_FloatingIP (cl_Status c)"
  "cst_LoadBalancerID (cl_Status (Cluster_setCondition S t st r m c)) = cst_LoadBalancerID (cl_Status c)"
  "cst_LoadBalancerPoolID (cl_Status (Cluster_setCondition S t st r m c)) =
     cst_LoadBalancerPoolID (cl_Status c)"
  "cst_LoadBalancerListenerID (cl_Status (Cluster_setCondition S t st r m c)) =
     cst_LoadBalancerListenerID (cl_Status c)"
  "cst_LoadBalancerHealthMonitorID (cl_Status (Cluster_setCondition S t st r m c)) =
     cst_LoadBalancerHealthMonitorID (cl_Status c)"
  "cst_LoadBalancerMemberIDs (cl_Status (Cluster_setCondition S t st r m c)) =
     cst_LoadBalancerMemberIDs (cl_Status c)"
  by (simp_all add: Cluster_setCondition_def obj_setCondition_def Cluster_SetConditions_def)

lemma setReadyFrom_frame:
  assumes "\<And>cs x. f (setc cs x) = f x"
  shows "f (setReadyFrom C getc setc ts x) = f x"
  by (induction ts) (simp_all add: obj_setCondition_def assms split: option.split)

lemma Cluster_setReadyCondition_frame [simp]:
  "cl_Meta (Cluster_setReadyCondition S c) = cl_Meta c"
  "cl_Spec (Cluster_setReadyCondition S c) = cl_Spec c"
  "cst_Initialization (cl_Status (Cluster_setReadyCondition S c)) = cst_Initialization (cl_Status c)"
  "cst_Networks (cl_Status (Cluster_setReadyCondition S c)) = cst_Networks (cl_Status c)"
  "cst_Routers (cl_Status (Cluster_setReadyCondition S c)) = cst_Routers (cl_Status c)"
  "cst_FloatingIP (cl_Status (Cluster_setReadyCondition S c)) = cst_FloatingIP (cl_Status c)"
  "cst_LoadBalancerID (cl_Status (Cluster_setReadyCondition S c)) = cst_LoadBalancerID (cl_Status c)"
  unfolding Cluster_setReadyCondition_def
  by (rule setReadyFrom_frame [where f = cl_Meta],
      simp add: Cluster_SetConditions_def)
    (rule setReadyFrom_frame [where f = "\<lambda>c. _ (cl_Status c)"] setReadyFrom_frame [where f = cl_Spec],
      simp add: Cluster_SetConditions_def)+

lemma cond_set_same [simp]:
  "scope_ok S \<Longrightarrow>
     cond S (s\<lparr>st_obj := Cluster_setCondition S t st r m c\<rparr>) t =
       Some \<lparr>co_Type = t, co_Status = st, co_Reason = r, co_Message = m\<rparr>"
  by (simp add: cond_def Cluster_setCondition_def ccond.Get_setCondition_same)

lemma cond_set_other [simp]:
  "scope_ok S \<Longrightarrow> t' \<noteq> t \<Longrightarrow>
     cond S (s\<lparr>st_obj := Cluster_setCondition S t st r m c\<rparr>) t' = cond S (s\<lparr>st_obj := c\<rparr>) t'"
  by (simp add: cond_def Cluster_setCondition_def ccond.Get_setCondition_other)

lemma cond_update [simp]:
  "scope_ok S \<Longrightarrow>
     cond S (st_obj_update (Cluster_setCondition S t st r m) s) t =
       Some \<lparr>co_Type = t, co_Status = st, co_Reason = r, co_Message = m\<rparr>"
  "scope_ok S \<Longrightarrow> t' \<noteq> t \<Longrightarrow>
     cond S (st_obj_update (Cluster_setCondition S t st r m) s) t' = cond S s t'"
  by (simp_all add: cond_def Cluster_setCondition_def ccond.Get_setCondition_same
      ccond.Get_setCondition_other)

lemma condTrue_iff:
  "scope_ok S \<Longrightarrow>
     condTrue S s t \<longleftrightarrow> (\<exists>c. cond S s t = Some c \<and> co_Status c = ConditionTrue)"
  by (simp add: cond_def condTrue_def ccond.IsTrue_iff)

section \<open>Frames of the handlers\<close>

text \<open>
  A handler writes the conditions and one part of the status; \<open>erase U\<close> forgets both, \<open>U\<close>
  being an update that forgets that part. The conditions of the other handlers are kept too.
\<close>

definition erase :: "(CloudscaleClusterStatus \<Rightarrow> CloudscaleClusterStatus) \<Rightarrow> CloudscaleCluster \<Rightarrow> CloudscaleCluster" where
  "erase U c = c\<lparr>cl_Status := U ((cl_Status c)\<lparr>cst_Conditions := []\<rparr>)\<rparr>"

lemma erase_setCondition [simp]: "erase U (Cluster_setCondition S t st r m c) = erase U c"
  by (simp add: erase_def Cluster_setCondition_def obj_setCondition_def Cluster_SetConditions_def)

lemma keeps_erase_modify_status:
  "(\<And>st. U ((f st)\<lparr>cst_Conditions := []\<rparr>) = U (st\<lparr>cst_Conditions := []\<rparr>)) \<Longrightarrow>
     keeps (obj_frame (erase U)) (modify_status f)"
  unfolding modify_status_def by (rule keeps_obj_modify_obj) (simp add: erase_def)

lemma erase_frameD:
  assumes "obj_frame (erase U) s s'"
  shows "specOf s' = specOf s" and "cl_Meta (st_obj s') = cl_Meta (st_obj s)"
    and "(\<And>st. g (U (st\<lparr>cst_Conditions := []\<rparr>)) = g st) \<Longrightarrow> g (statusOf s') = g (statusOf s)"
proof -
  from assms have e: "erase U (st_obj s') = erase U (st_obj s)" by (simp add: obj_frame_def)
  have "cl_Spec (erase U c) = cl_Spec c" "cl_Meta (erase U c) = cl_Meta c" for c
    by (simp_all add: erase_def)
  with e show "specOf s' = specOf s" and "cl_Meta (st_obj s') = cl_Meta (st_obj s)"
    by metis+
  assume g: "\<And>st. g (U (st\<lparr>cst_Conditions := []\<rparr>)) = g st"
  have "g (cl_Status (erase U c)) = g (cl_Status c)" for c
    using g [of "cl_Status c"] by (simp add: erase_def)
  with e show "g (statusOf s') = g (statusOf s)" by metis
qed

lemma keeps_emits_modify_status: "keeps (emits P) (modify_status f)"
  unfolding modify_status_def by (rule keeps_emits_modify_obj)

text \<open>\<open>cond_frame S t\<close>: only the condition of type \<open>t\<close> may change.\<close>

definition cond_frame :: "'w ClusterScope \<Rightarrow> string \<Rightarrow> 'w cst \<Rightarrow> 'w cst \<Rightarrow> bool" where
  "cond_frame S t s s' \<longleftrightarrow> (\<forall>t'. t' \<noteq> t \<longrightarrow> cond S s' t' = cond S s t')"

interpretation condf: frame_relation "cond_frame S t" for S t
  by unfold_locales (simp_all add: cond_frame_def)

lemma keeps_cond_obj: "keeps (obj_frame Cluster_GetConditions) m \<Longrightarrow> keeps (cond_frame S t) m"
  by (auto simp: keeps_def obj_frame_def cond_frame_def cond_def obj_Get_def)

lemma keeps_cond_modify_status:
  "(\<And>st. cst_Conditions (f st) = cst_Conditions st) \<Longrightarrow> keeps (cond_frame S t) (modify_status f)"
  unfolding modify_status_def
  by (intro keeps_cond_obj keeps_obj_modify_obj) (simp add: Cluster_GetConditions_def)

lemma createStep_cond: "keeps (cond_frame S t) m \<Longrightarrow> keeps (cond_frame S t) (createStep d msg m)"
  unfolding createStep_def by (intro condf.keeps_intros) auto

lemma cond_frame_setCondition:
  "scope_ok S \<Longrightarrow> cond_frame S t s (st_obj_update (Cluster_setCondition S t st r m) s)"
  by (simp add: cond_frame_def)

lemma keeps_cond_setCondition:
  "scope_ok S \<Longrightarrow> keeps (cond_frame S t) (modify_obj (Cluster_setCondition S t st r m))"
  by (simp add: keeps_def modify_obj_def goModify_def cond_frame_setCondition)

lemmas cond_intros =
  condf.keeps_intros keeps_cond_modify_status createStep_cond keeps_cond_setCondition
  keeps_cond_obj [OF keeps_obj_api] keeps_cond_obj [OF keeps_obj_Eventf]
  keeps_cond_obj [OF keeps_obj_ensureResource]

lemma cond_setCondition_other:
  "scope_ok S \<Longrightarrow> t' \<noteq> t \<Longrightarrow>
     obj_Get (lib_conditions (sc_lib S)) Cluster_GetConditions (Cluster_setCondition S t st r m c) t' =
     obj_Get (lib_conditions (sc_lib S)) Cluster_GetConditions c t'"
  by (simp add: Cluster_setCondition_def ccond.Get_setCondition_other)

text \<open>
  \<open>owned P T\<close>: as long as the cluster's ownership tags are \<open>T\<close>, they stay \<open>T\<close> and the requests
  satisfy \<open>P\<close>.
\<close>

definition owned :: "(api_call \<Rightarrow> bool) \<Rightarrow> str_map \<Rightarrow> 'w cst \<Rightarrow> 'w cst \<Rightarrow> bool" where
  "owned P T s s' \<longleftrightarrow>
     (clusterOwnershipTags (st_obj s) = T \<longrightarrow> clusterOwnershipTags (st_obj s') = T \<and> emits P s s')"

interpretation ownd: frame_relation "owned P T" for P T
  by unfold_locales (auto simp: owned_def emits.frame_refl intro: emits.frame_trans)

lemma keeps_ownedI:
  assumes "keeps (emits P) m" and "keeps (obj_frame cl_Meta) m"
  shows "keeps (owned P T) m"
proof -
  have "clusterOwnershipTags c = clusterOwnershipTags c'" if "cl_Meta c = cl_Meta c'" for c c'
    using that by (simp add: clusterOwnershipTags_def ClusterTagKey_def)
  with assms show ?thesis unfolding keeps_def owned_def obj_frame_def by metis
qed

lemma keeps_owned_goGets:
  "(\<And>c. clusterOwnershipTags c = T \<Longrightarrow> keeps (owned P T) (k c)) \<Longrightarrow>
     keeps (owned P T) (goBind (goGets st_obj) k)"
  by (auto simp: keeps_def owned_def goBind_def goGets_def)

lemma keeps_owned_leaves:
  "P c \<Longrightarrow> keeps (owned P T) (api c f)"
  "keeps (owned P T) (Eventf ty reason action fm args)"
  "P (Get k i) \<Longrightarrow> P (List k tags) \<Longrightarrow> keeps (owned P T) (ensureResource k i rn svc uuid tags)"
  "keeps (owned P T) (modify_status g)"
  unfolding modify_status_def
  by (auto intro!: keeps_ownedI keeps_emits_api keeps_obj_api keeps_emits_Eventf keeps_obj_Eventf
      keeps_emits_ensureResource keeps_obj_ensureResource keeps_emits_modify_obj keeps_obj_modify_obj)

lemma createStep_owned: "keeps (owned P T) m \<Longrightarrow> keeps (owned P T) (createStep d msg m)"
  unfolding createStep_def by (intro ownd.keeps_intros) auto

lemmas owned_intros =
  keeps_owned_goGets ownd.keeps_intros keeps_owned_leaves createStep_owned

lemma owned_emits:
  "keeps (owned P (clusterOwnershipTags (st_obj s))) m \<Longrightarrow> emits P s (snd (m s))"
  by (simp add: keeps_def owned_def)

section \<open>Ids of API resources\<close>

text \<open>What the resources a service returns satisfy; in particular each has a non-empty id.\<close>

definition service_results :: "('w, 'q, 't, 'z) service_scheme \<Rightarrow> ('t \<Rightarrow> bool) \<Rightarrow> bool" where
  "service_results svc P \<longleftrightarrow>
     (\<forall>q w x w'. svc_Create svc q w = (Inr x, w') \<longrightarrow> P x) \<and>
     (\<forall>i w x w'. svc_Get svc i w = (Inr x, w') \<longrightarrow> P x) \<and>
     (\<forall>t w xs w'. svc_List svc t w = (Inr xs, w') \<longrightarrow> list_all P xs)"

abbreviation service_ids :: "('w, 'q, 't, 'z) service_scheme \<Rightarrow> ('t \<Rightarrow> string) \<Rightarrow> bool" where
  "service_ids svc uuid \<equiv> service_results svc (\<lambda>x. uuid x \<noteq> '''')"

lemma wp_ensureResource_resI:
  assumes "service_results svc P"
    and "\<And>x cs w. cs \<in> ensure_calls k currentID tags \<Longrightarrow> currentID \<noteq> '''' \<Longrightarrow> P x \<Longrightarrow>
      Q (Some x, currentID) (after cs w s)"
    and "\<And>x cs w. cs \<in> ensure_calls k currentID tags \<Longrightarrow> P x \<Longrightarrow>
      Q (Some x, uuid x) (after cs w s)"
    and "\<And>cs w. cs \<in> ensure_calls k currentID tags \<Longrightarrow> Q (None, '''') (after cs w s)"
    and "\<And>e cs w. cs \<in> ensure_calls k currentID tags \<Longrightarrow> E e (after cs w s)"
  shows "wp (ensureResource k currentID resourceName svc uuid tags) Q E s"
  unfolding wp_ensureResource
  using assms(1)
  by (fastforce simp: Let_def ensure_calls_def service_results_def list_all_length
      intro!: assms(2-) split: prod.split sum.split)

lemma service_resultsD:
  assumes "service_results svc P"
  shows "svc_Create svc q w = (Inr x, w') \<Longrightarrow> P x"
    and "svc_Get svc i w = (Inr x, w') \<Longrightarrow> P x"
  using assms unfolding service_results_def by blast+

end
