(* ===== verification/Sample_Cloud.thy ===== *)
theory Sample_Cloud
  imports Cluster_State
begin

text \<open>
  Concrete values for every parameter of the model: a cloud whose calls succeed, a Kubernetes
  client, the list-based library and one cluster. The theorems hold for all parameters; these
  are the ones their hypotheses are shown to hold at.
\<close>

definition stub_service :: "'t \<Rightarrow> 't list \<Rightarrow> ('w, 'q, 't) service" where
  "stub_service x found =
     \<lparr>svc_Create = (\<lambda>q w. (Inr x, w)), svc_Get = (\<lambda>i w. (Inr x, w)),
      svc_List = (\<lambda>t w. (Inr found, w)), svc_Delete = (\<lambda>i w. (Inr (), w))\<rparr>"

definition sample_network :: Network where
  "sample_network =
     \<lparr>nw_UUID = ''net-id'', nw_Zone = ''lpg1'', nw_MTU = 9000,
      nw_Subnets = [\<lparr>sns_UUID = ''sub-id'', sns_CIDR = ''10.0.0.0/24''\<rparr>]\<rparr>"

definition sample_interface :: RouterInterface where
  "sample_interface =
     \<lparr>rif_UUID = ''if-id'', rif_Network = ''net-id'',
      rif_Addresses = [\<lparr>ria_Subnet = ''sub-id'', ria_Address = ''10.0.0.1''\<rparr>]\<rparr>"

definition sample_router :: Router where
  "sample_router =
     \<lparr>ro_UUID = ''router-id'', ro_Zone = ''lpg1'', ro_Status = ''active'', ro_Interfaces = []\<rparr>"

definition sample_server :: Server where
  "sample_server =
     \<lparr>sv_UUID = ''server-id'', sv_Status = ''running'',
      sv_Interfaces = [\<lparr>svi_Type = ''public'', svi_Addresses = [''5.102.144.7'']\<rparr>,
                       \<lparr>svi_Type = ''private'', svi_Addresses = [''10.0.0.7'']\<rparr>]\<rparr>"

definition sample_group :: ServerGroup where
  "sample_group =
     \<lparr>sgr_UUID = ''group-id'', sgr_Name = ''group'', sgr_Zone = ''lpg1'', sgr_Servers = []\<rparr>"

definition sample_lb :: LoadBalancer where
  "sample_lb =
     \<lparr>lbr_UUID = ''lb-id'', lbr_Status = ''running'', lbr_VIPAddresses = [''5.102.144.9'']\<rparr>"

definition sample_member :: LoadBalancerPoolMember where
  "sample_member =
     \<lparr>pm_UUID = ''member-id'', pm_Name = ''cp-0'', pm_Address = ''10.0.0.7'',
      pm_ProtocolPort = 6443, pm_MonitorStatus = ''up''\<rparr>"

definition sample_fip :: FloatingIP where
  "sample_fip =
     \<lparr>fip_IP = ''5.102.144.200'', fip_Region = Some ''lpg'', fip_LoadBalancer = Some ''lb-id'',
      fip_Server = None\<rparr>"

definition sample_client :: "'w Client" where
  "sample_client =
     \<lparr>Networks = stub_service sample_network [],
      Subnets = stub_service \<lparr>sn_UUID = ''sub-id''\<rparr> [],
      Routers = \<lparr>svc_Create = (\<lambda>q w. (Inr sample_router, w)), svc_Get = (\<lambda>i w. (Inr sample_router, w)),
                 svc_List = (\<lambda>t w. (Inr [], w)), svc_Delete = (\<lambda>i w. (Inr (), w)),
                 svc_CreateInterface = (\<lambda>r q w. (Inr sample_interface, w)),
                 svc_DeleteInterface = (\<lambda>r i w. (Inr (), w))\<rparr>,
      Servers = stub_service sample_server [],
      ServerGroups = stub_service sample_group [],
      LoadBalancers = stub_service sample_lb [],
      LoadBalancerPools = stub_service \<lparr>lbp_UUID = ''pool-id''\<rparr> [],
      LoadBalancerPoolMembers =
        \<lparr>mem_Create = (\<lambda>p q w. (Inr sample_member, w)), mem_List = (\<lambda>p w. (Inr [sample_member], w)),
         mem_Delete = (\<lambda>p i w. (Inr (), w)), mem_Update = (\<lambda>p i q w. (Inr (), w))\<rparr>,
      LoadBalancerListeners = stub_service \<lparr>lbl_UUID = ''listener-id''\<rparr> [],
      LoadBalancerHealthMonitors = stub_service \<lparr>lbh_UUID = ''monitor-id''\<rparr> [],
      FloatingIPs =
        \<lparr>svc_Create = (\<lambda>q w. (Inr sample_fip, w)), svc_Get = (\<lambda>i w. (Inr sample_fip, w)),
         svc_List = (\<lambda>t w. (Inr [], w)), svc_Delete = (\<lambda>i w. (Inr (), w)),
         svc_Update = (\<lambda>i q w. (Inr (), w))\<rparr>\<rparr>"

definition sample_meta :: "string \<Rightarrow> ObjectMeta" where
  "sample_meta name =
     \<lparr>om_Name = name, om_Namespace = ''default'', om_Labels = [], om_Annotations = [],
      om_OwnerReferences = [], om_Finalizers = [], om_DeletionTimestamp = None\<rparr>"

definition sample_spec :: CloudscaleClusterSpec where
  "sample_spec =
     \<lparr>cs_Region = ''lpg'', cs_Zone = ''lpg1'',
      cs_CredentialsRef = \<lparr>cred_Name = ''creds'', cred_Namespace = ''''\<rparr>,
      cs_ControlPlaneEndpoint = \<lparr>ep_Host = '''', ep_Port = 0\<rparr>,
      cs_Networks = Some [\<lparr>net_Name = ''net'', net_UUID = '''', net_CIDR = ''10.0.0.0/24'',
                           net_MTU = 0, net_GatewayAddress = ''10.0.0.1''\<rparr>],
      cs_Routers = Some [\<lparr>rt_Name = ''router'', rt_UUID = '''', rt_InternetGateway = True,
                          rt_Interfaces = Some [\<lparr>ri_Network = ''net'', ri_UUID = '''',
                                                 ri_Address = ''10.0.0.1''\<rparr>]\<rparr>],
      cs_ControlPlaneLoadBalancer =
        \<lparr>lb_Enabled = Some True, lb_Algorithm = ''round_robin'', lb_Flavor = ''lb-standard'',
         lb_APIServerPort = 6443, lb_Network = '''', lb_PoolMemberNetwork = '''',
         lb_HealthMonitor = \<lparr>hm_DelayS = 5, hm_TimeoutS = 3, hm_UpThreshold = 2,
                             hm_DownThreshold = 3\<rparr>\<rparr>,
      cs_FloatingIP = Some \<lparr>fips_IPFamily = Some IPFamilyIPv4, fips_Address = ''''\<rparr>\<rparr>"

definition empty_status :: CloudscaleClusterStatus where
  "empty_status =
     \<lparr>cst_ObservedGeneration = 0, cst_Initialization = None, cst_Networks = [], cst_Routers = [],
      cst_FloatingIP = '''', cst_LoadBalancerID = '''', cst_LoadBalancerPoolID = '''',
      cst_LoadBalancerListenerID = '''', cst_LoadBalancerHealthMonitorID = '''',
      cst_LoadBalancerMemberIDs = [], cst_Conditions = []\<rparr>"

definition sample_cluster :: CloudscaleCluster where
  "sample_cluster =
     \<lparr>cl_Meta = sample_meta ''demo'', cl_Spec = sample_spec, cl_Status = empty_status\<rparr>"

definition sample_capi :: Cluster where
  "sample_capi =
     \<lparr>capi_Meta = sample_meta ''demo'', capi_InfrastructureRefName = ''demo'',
      capi_ControlPlaneInitialized = None, capi_Paused = None\<rparr>"

definition sample_machine :: CloudscaleMachine where
  "sample_machine =
     \<lparr>cm_Meta = (sample_meta ''cp-0'')\<lparr>om_Labels := [(MachineControlPlaneLabel, '''')]\<rparr>,
      cm_Spec = \<lparr>ms_ProviderID = None, ms_Flavor = ''flex-4-2'', ms_Image = ''debian-13'',
                 ms_RootVolumeSize = 50, ms_Tags = None,
                 ms_ServerGroup = Some \<lparr>sgs_Name = ''group''\<rparr>, ms_Interfaces = None\<rparr>,
      cm_Status = \<lparr>mst_ObservedGeneration = 0, mst_Initialization = None, mst_ServerID = '''',
                   mst_Addresses = [], mst_ServerGroupID = '''', mst_Conditions = []\<rparr>\<rparr>"

definition sample_capi_machine :: Machine where
  "sample_capi_machine =
     \<lparr>mach_Meta = (sample_meta ''cp-0'')\<lparr>om_Labels := [(MachineControlPlaneLabel, '''')]\<rparr>,
      mach_DataSecretName = Some ''bootstrap'', mach_InfrastructureRefKind = ''CloudscaleMachine'',
      mach_InfrastructureRefName = ''cp-0''\<rparr>"

definition sample_kube :: "'w kube" where
  "sample_kube =
     \<lparr>k_GetCloudscaleCluster = (\<lambda>ns n w. (Inr sample_cluster, w)),
      k_GetCloudscaleMachine = (\<lambda>ns n w. (Inr sample_machine, w)),
      k_GetSecret = (\<lambda>ns n w. (Inr [(''token'', ''secret''), (''value'', ''data'')], w)),
      k_ListCloudscaleMachines = (\<lambda>ns t w. (Inr [], w)),
      k_ListCloudscaleClusters = (\<lambda>ns t w. (Inr [sample_cluster], w)),
      k_ListMachines = (\<lambda>ns t w. (Inr [], w)),
      k_GetOwnerCluster = (\<lambda>m w. (Inr (Some sample_capi), w)),
      k_GetOwnerMachine = (\<lambda>m w. (Inr (Some sample_capi_machine), w)),
      k_GetClusterFromMetadata = (\<lambda>m w. (Inr sample_capi, w)),
      k_NewClusterHelper = (\<lambda>c. None), k_NewMachineHelper = (\<lambda>m. None),
      k_PatchCluster = (\<lambda>old new og w. (Inr new, w)),
      k_PatchMachine = (\<lambda>old new og w. (Inr new, w))\<rparr>"

definition sample_scope :: "'w ClusterScope" where
  "sample_scope =
     \<lparr>sc_lib = list_lib, sc_client = sample_kube, sc_patchHelper = sample_cluster,
      sc_Cluster = sample_capi, sc_CloudscaleClient = sample_client\<rparr>"

definition sample_machine_scope :: "'w MachineScope" where
  "sample_machine_scope =
     \<lparr>msc_lib = list_lib, msc_client = sample_kube, msc_patchHelper = sample_machine,
      msc_Cluster = sample_capi, msc_Machine = sample_capi_machine,
      msc_CloudscaleCluster = sample_cluster, msc_CloudscaleClient = sample_client\<rparr>"

definition start_in :: "'w \<Rightarrow> 'o \<Rightarrow> ('w, 'o) st" where
  "start_in w x = \<lparr>st_world = w, st_obj = x, st_calls = [], st_events = []\<rparr>"

abbreviation start :: "'o \<Rightarrow> (unit, 'o) st" where
  "start \<equiv> start_in ()"

lemma start_simps [simp]:
  "st_world (start_in w x) = w" "st_obj (start_in w x) = x" "st_calls (start_in w x) = []"
  by (simp_all add: start_in_def)

lemma sample_scope_ok: "scope_ok sample_scope" "finalizers_ok (sc_lib sample_scope)"
  by (simp_all add: sample_scope_def list_lib_ok)

lemma sample_client_ids:
  "service_ids (Networks sample_client) nw_UUID"
  "service_ids (Subnets sample_client) sn_UUID"
  "service_ids (Routers sample_client) ro_UUID"
  "service_ids (Servers sample_client) sv_UUID"
  "service_ids (ServerGroups sample_client) sgr_UUID"
  "service_ids (LoadBalancers sample_client) lbr_UUID"
  "service_ids (LoadBalancerPools sample_client) lbp_UUID"
  "service_ids (LoadBalancerListeners sample_client) lbl_UUID"
  "service_ids (LoadBalancerHealthMonitors sample_client) lbh_UUID"
  "service_ids (FloatingIPs sample_client) fip_IP"
  by (simp_all add: sample_client_def stub_service_def sample_network_def sample_server_def
      sample_group_def sample_lb_def service_results_def sample_router_def sample_fip_def)

lemma sample_client_get_network:
  "svc_Get (Networks sample_client) i w = (Inr sample_network, w)"
  by (simp add: sample_client_def stub_service_def)

end
