(* ===== verification/Cluster_Network.thy ===== *)
theory Cluster_Network
  imports Sample_Cloud
begin

text \<open>
  Networks and subnets of a cluster, \<^verbatim>\<open>cloudscalecluster_network.go\<close>: pre-existing networks are
  looked up once, managed ones are found by id or tag and created otherwise, with their subnet;
  deletion removes the managed ones and keeps in the status what could not be removed.
\<close>

section \<open>Definitions\<close>

definition createNetworkTimeoutRequeueAfter :: Duration where
  "createNetworkTimeoutRequeueAfter = 5 * time_Second"

definition errNetworkNotReady :: go_error where
  "errNetworkNotReady = Sentinel ''network has pending dependencies''"

definition setNetworkStatus ::
  "string \<Rightarrow> string \<Rightarrow> string \<Rightarrow> string \<Rightarrow> bool \<Rightarrow> int \<Rightarrow> CloudscaleClusterStatus \<Rightarrow> CloudscaleClusterStatus" where
  "setNetworkStatus name networkID subnetID cidr managed mtu =
     cst_Networks_update
       (upsert ns_Name updNetworkStatus newNetworkStatus name (networkID, subnetID, cidr, managed, mtu))"

definition networkTags :: "'w ClusterScope \<Rightarrow> string \<Rightarrow> str_map" where
  "networkTags S networkName =
     [(NameCloudscaleProviderOwned @ om_Name (capi_Meta (sc_Cluster S)), networkName)]"

definition reconcilePreExistingNetwork ::
  "'w ClusterScope \<Rightarrow> NetworkSpec \<Rightarrow> ('w cst, unit) proc" where
  "reconcilePreExistingNetwork S netSpec =
     goBind (goGets (\<lambda>s. (GetNetworkStatus (statusOf s) (net_Name netSpec), cs_Zone (specOf s))))
       (\<lambda>(ns, zone).
          if (case ns of None \<Rightarrow> False
              | Some n \<Rightarrow> ns_NetworkID n \<noteq> '''' \<and> ns_SubnetID n \<noteq> '''' \<and> ns_CIDR n \<noteq> '''')
          then goReturn ()
          else
            goBind (goWrap (fmt_Errorw ''getting pre-existing network %s: %w'' [FS (net_UUID netSpec)])
                      (api (Get KNetwork (net_UUID netSpec))
                         (svc_Get (Networks (sc_CloudscaleClient S)) (net_UUID netSpec))))
              (\<lambda>network.
                 if nw_Zone network \<noteq> zone then
                   goError (fmt_Errorf ''pre-existing network %s is in zone %q, expected zone %q''
                              [FS (net_UUID netSpec), FS (nw_Zone network), FS zone])
                 else
                   (case nw_Subnets network of
                      [] \<Rightarrow> goError (fmt_Errorf ''pre-existing network %s has no subnets''
                                      [FS (net_UUID netSpec)])
                    | subnet # _ \<Rightarrow>
                        modify_status
                          (setNetworkStatus (net_Name netSpec) (nw_UUID network) (sns_UUID subnet)
                             (sns_CIDR subnet) False (nw_MTU network)))))"

definition reconcileManagedNetwork ::
  "'w ClusterScope \<Rightarrow> NetworkSpec \<Rightarrow> ('w cst, Result) proc" where
  "reconcileManagedNetwork S netSpec =
     goBind (goGets (\<lambda>s. (GetNetworkStatus (statusOf s) (net_Name netSpec), cs_Zone (specOf s))))
       (\<lambda>(ns, zone).
        let networkID = (case ns of None \<Rightarrow> '''' | Some n \<Rightarrow> ns_NetworkID n);
            subnetID = (case ns of None \<Rightarrow> '''' | Some n \<Rightarrow> ns_SubnetID n);
            tags = networkTags S (net_Name netSpec)
        in
        goBind (ensureResource KNetwork networkID
                  (fmt_Sprintf ''network/%s'' [FS (net_Name netSpec)])
                  (Networks (sc_CloudscaleClient S)) nw_UUID tags)
          (\<lambda>(network, resolvedNetworkID).
        goStep
          (if resolvedNetworkID = '''' then
             let req = \<lparr>ncr_Name = net_Name netSpec, ncr_Zone = zone,
                        ncr_MTU = (if net_MTU netSpec > 0 then net_MTU netSpec else 0),
                        ncr_AutoCreateIPV4Subnet = Some False, ncr_Tags = tags\<rparr>
             in goBind (createStep createNetworkTimeoutRequeueAfter ''creating network: %w''
                          (api (Create (NewNetwork req))
                             (svc_Create (Networks (sc_CloudscaleClient S)) req)))
                  (\<lambda>x. case x of
                      Inl result \<Rightarrow> goReturn (Inl result)
                    | Inr network \<Rightarrow>
                        goBind (Eventf EventTypeNormal ''NetworkCreated'' ''CreateNetwork''
                                  ''Created network %s (%s) in zone %s''
                                  [FS (net_Name netSpec), FS (nw_UUID network), FS zone])
                          (\<lambda>_. goReturn (Inr (Some network, nw_UUID network))))
           else goReturn (Inr (network, resolvedNetworkID)))
          (\<lambda>(network, resolvedNetworkID).
        goBind (ensureResource KSubnet subnetID
                  (fmt_Sprintf ''subnet/%s'' [FS (net_Name netSpec)])
                  (Subnets (sc_CloudscaleClient S)) sn_UUID tags)
          (\<lambda>(_, resolvedSubnetID).
        goStep
          (if resolvedSubnetID = '''' then
             let req = \<lparr>scr_Network = resolvedNetworkID, scr_CIDR = net_CIDR netSpec,
                        scr_GatewayAddress = net_GatewayAddress netSpec, scr_Tags = tags\<rparr>
             in goBind (createStep createNetworkTimeoutRequeueAfter ''creating subnet: %w''
                          (api (Create (NewSubnet req))
                             (svc_Create (Subnets (sc_CloudscaleClient S)) req)))
                  (\<lambda>x. case x of
                      Inl result \<Rightarrow> goReturn (Inl result)
                    | Inr subnet \<Rightarrow>
                        goBind (Eventf EventTypeNormal ''SubnetCreated'' ''CreateSubnet''
                                  ''Created subnet %s (%s) with CIDR %s''
                                  [FS (net_Name netSpec), FS (sn_UUID subnet), FS (net_CIDR netSpec)])
                          (\<lambda>_. goReturn (Inr (sn_UUID subnet))))
           else goReturn (Inr resolvedSubnetID))
          (\<lambda>resolvedSubnetID.
        (case network of
           None \<Rightarrow> goError (Panic ''nil network'')
         | Some network \<Rightarrow>
             goBind (modify_status
                       (setNetworkStatus (net_Name netSpec) resolvedNetworkID resolvedSubnetID
                          (net_CIDR netSpec) True (nw_MTU network)))
               (\<lambda>_. goReturn zeroResult)))))))"

definition reconcileNetwork :: "'w ClusterScope \<Rightarrow> ('w cst, Result) proc" where
  "reconcileNetwork S =
     goDefer (\<lambda>ret. st_obj_update
         (case ret of
            Inl err \<Rightarrow> Cluster_setCondition S NetworkReadyCondition ConditionFalse NetworkErrorReason
                         (error_text err)
          | Inr _ \<Rightarrow> Cluster_setCondition S NetworkReadyCondition ConditionTrue
                       NetworkProvisionedReason ''''))
       (goBind (goGets (\<lambda>s. elems (cs_Networks (specOf s))))
          (\<lambda>networks.
             if networks = [] then goError (fmt_Errorf ''no networks defined in spec'' [])
             else
               goBind
                 (goFor networks
                    (\<lambda>netSpec.
                       if net_UUID netSpec \<noteq> '''' then
                         goBind (goWrap (fmt_Errorw ''reconciling pre-existing network %q: %w''
                                           [FS (net_Name netSpec)])
                                   (reconcilePreExistingNetwork S netSpec))
                           (\<lambda>_. goReturn None)
                       else
                         goBind (goWrap (fmt_Errorw ''reconciling managed network %q: %w''
                                           [FS (net_Name netSpec)])
                                   (reconcileManagedNetwork S netSpec))
                           (\<lambda>result. goReturn (if \<not> IsZero result then Some result else None))))
                 (\<lambda>r. goReturn (case r of Some result \<Rightarrow> result | None \<Rightarrow> zeroResult))))"

definition deleteNetwork :: "'w ClusterScope \<Rightarrow> ('w cst, unit) proc" where
  "deleteNetwork S =
     goDefer (\<lambda>ret. st_obj_update
         (case ret of
            Inl err \<Rightarrow> Cluster_setCondition S NetworkReadyCondition ConditionFalse NetworkErrorReason
                         (fmt_Sprintf ''Failed to delete network: %v'' [FE err])
          | Inr _ \<Rightarrow> Cluster_setCondition S NetworkReadyCondition ConditionFalse
                       NetworkDeletingReason ''Networks have been deleted''))
       (goBind (goGets (\<lambda>s. cst_Networks (statusOf s)))
          (\<lambda>networks.
             goBind
               (goFold
                  (\<lambda>acc ns. case acc of (remaining, errs) \<Rightarrow>
                     if \<not> ns_Managed ns then goReturn (remaining @ [ns], errs)
                     else if ns_NetworkID ns = '''' then goReturn (remaining, errs)
                     else
                       goBind (goTry (api (Delete KNetwork (ns_NetworkID ns))
                                 (svc_Delete (Networks (sc_CloudscaleClient S)) (ns_NetworkID ns))))
                         (\<lambda>r. if isLBPoolMembersError (err_of r) then goError errNetworkNotReady
                            else
                              (case hard_error (err_of r) of
                                 Some e \<Rightarrow>
                                   goReturn (remaining @ [ns],
                                     errs @ [fmt_Errorw ''deleting network %s: %w''
                                               [FS (ns_Name ns)] e])
                               | None \<Rightarrow>
                                   goBind (Eventf EventTypeNormal ''NetworkDeleted''
                                             ''DeleteNetwork'' ''Deleted network %s (%s)''
                                             [FS (ns_Name ns), FS (ns_NetworkID ns)])
                                     (\<lambda>_. goReturn (remaining, errs)))))
                  ([], []) networks)
               (\<lambda>(remaining, errs).
                  goBind (modify_status (\<lambda>st. st\<lparr>cst_Networks := remaining\<rparr>))
                    (\<lambda>_. case errors_Join errs of None \<Rightarrow> goReturn () | Some e \<Rightarrow> goError e))))"

section \<open>Frames\<close>

text \<open>Network reconciliation writes the network status and its condition, nothing else.\<close>

abbreviation net_frame :: "'w cst \<Rightarrow> 'w cst \<Rightarrow> bool" where
  "net_frame \<equiv> obj_frame (erase (cst_Networks_update (\<lambda>_. [])))"

lemma reconcilePreExistingNetwork_frame:
  "keeps net_frame (reconcilePreExistingNetwork S n)"
  unfolding reconcilePreExistingNetwork_def
  by (intro frame_intros keeps_erase_modify_status) (simp_all add: setNetworkStatus_def)

lemma reconcileManagedNetwork_frame:
  "keeps net_frame (reconcileManagedNetwork S n)"
  unfolding reconcileManagedNetwork_def
  by (intro frame_intros keeps_erase_modify_status) (simp_all add: setNetworkStatus_def)

lemma reconcileNetwork_frame: "keeps net_frame (reconcileNetwork S)"
  unfolding reconcileNetwork_def
  by (intro frame_intros keeps_erase_modify_status reconcilePreExistingNetwork_frame reconcileManagedNetwork_frame)
    (simp add: obj_frame_def split: sum.split)

lemma deleteNetwork_frame: "keeps net_frame (deleteNetwork S)"
  unfolding deleteNetwork_def
  by (intro frame_intros keeps_erase_modify_status) (auto simp: obj_frame_def split: sum.split)

section \<open>Network names stay distinct\<close>

definition networks_distinct :: "CloudscaleCluster \<Rightarrow> bool" where
  "networks_distinct c \<longleftrightarrow> distinct (map ns_Name (cst_Networks (cl_Status c)))"

lemma networks_distinct_setCondition [simp]:
  "networks_distinct (Cluster_setCondition S t st r m c) = networks_distinct c"
  by (simp add: networks_distinct_def)

lemma keeps_distinct_setNetworkStatus:
  "keeps (obj_inv networks_distinct) (modify_status (setNetworkStatus name nid sid cidr managed mtu))"
  unfolding modify_status_def
  by (rule keeps_inv_modify_obj) (simp add: networks_distinct_def setNetworkStatus_def nets.distinct_put)

lemma reconcilePreExistingNetwork_distinct:
  "keeps (obj_inv networks_distinct) (reconcilePreExistingNetwork S n)"
  unfolding reconcilePreExistingNetwork_def
  by (intro inv_intros keeps_distinct_setNetworkStatus)

lemma reconcileManagedNetwork_distinct:
  "keeps (obj_inv networks_distinct) (reconcileManagedNetwork S n)"
  unfolding reconcileManagedNetwork_def
  by (intro inv_intros keeps_distinct_setNetworkStatus)

lemma reconcileNetwork_distinct: "keeps (obj_inv networks_distinct) (reconcileNetwork S)"
  unfolding reconcileNetwork_def
  by (intro inv_intros reconcilePreExistingNetwork_distinct reconcileManagedNetwork_distinct)
    (simp add: obj_inv_def split: sum.split)

section \<open>What a successful network reconcile establishes\<close>

definition networks_api_ok :: "'w Client \<Rightarrow> bool" where
  "networks_api_ok cli \<longleftrightarrow>
     service_ids (Networks cli) nw_UUID \<and> service_ids (Subnets cli) sn_UUID \<and>
     (\<forall>i w n w'. svc_Get (Networks cli) i w = (Inr n, w') \<longrightarrow>
        list_all (\<lambda>sn. sns_UUID sn \<noteq> '''' \<and> sns_CIDR sn \<noteq> '''') (nw_Subnets n))"

definition network_provisioned :: "NetworkSpec \<Rightarrow> CloudscaleClusterStatus \<Rightarrow> bool" where
  "network_provisioned n st \<longleftrightarrow>
     (\<exists>ns. GetNetworkStatus st (net_Name n) = Some ns \<and> ns_NetworkID ns \<noteq> '''' \<and>
        ns_SubnetID ns \<noteq> '''' \<and>
        (net_UUID n = '''' \<longrightarrow> ns_Managed ns \<and> ns_CIDR ns = net_CIDR n) \<and>
        (net_UUID n \<noteq> '''' \<longrightarrow> ns_CIDR ns \<noteq> ''''))"

lemma GetNetworkStatus_setCondition [simp]:
  "GetNetworkStatus (cl_Status (Cluster_setCondition S t st r m c)) name =
     GetNetworkStatus (cl_Status c) name"
  by (simp add: GetNetworkStatus_def)

lemma network_provisioned_setCondition [simp]:
  "network_provisioned n (cl_Status (Cluster_setCondition S t st r m c)) =
     network_provisioned n (cl_Status c)"
  by (simp add: network_provisioned_def)

lemma GetNetworkStatus_set_same:
  "\<exists>ns. GetNetworkStatus (setNetworkStatus name nid sid cidr managed mtu st) name = Some ns \<and>
     network_stored (nid, sid, cidr, managed, mtu) ns"
  using nets.find_put_same [of name "(nid, sid, cidr, managed, mtu)" "cst_Networks st"]
  by (auto simp: GetNetworkStatus_def setNetworkStatus_def)

lemma GetNetworkStatus_set_other [simp]:
  "name' \<noteq> name \<Longrightarrow>
     GetNetworkStatus (setNetworkStatus name nid sid cidr managed mtu st) name' =
       GetNetworkStatus st name'"
  by (simp add: GetNetworkStatus_def setNetworkStatus_def nets.find_put_other)

lemma network_provisioned_set_other:
  "net_Name n \<noteq> name \<Longrightarrow>
     network_provisioned n (setNetworkStatus name nid sid cidr managed mtu st) =
       network_provisioned n st"
  by (simp add: network_provisioned_def)

lemma network_provisioned_managed:
  "nid \<noteq> '''' \<Longrightarrow> sid \<noteq> '''' \<Longrightarrow> net_UUID n = '''' \<Longrightarrow>
     network_provisioned n (setNetworkStatus (net_Name n) nid sid (net_CIDR n) True mtu st)"
  using GetNetworkStatus_set_same [of "net_Name n" nid sid "net_CIDR n" True mtu st]
  by (auto simp: network_provisioned_def)

lemma network_provisioned_adopted:
  "nid \<noteq> '''' \<Longrightarrow> sid \<noteq> '''' \<Longrightarrow> cidr \<noteq> '''' \<Longrightarrow> net_UUID n \<noteq> '''' \<Longrightarrow>
     network_provisioned n (setNetworkStatus (net_Name n) nid sid cidr False mtu st)"
  using GetNetworkStatus_set_same [of "net_Name n" nid sid cidr False mtu st]
  by (auto simp: network_provisioned_def)

text \<open>One round of the loop: the network of the round is provisioned, the others keep their status.\<close>

definition network_round :: "NetworkSpec \<Rightarrow> 'w cst \<Rightarrow> 'w cst \<Rightarrow> bool" where
  "network_round n s s' \<longleftrightarrow>
     network_provisioned n (statusOf s') \<and>
     (\<forall>m. net_Name m \<noteq> net_Name n \<longrightarrow>
        network_provisioned m (statusOf s') = network_provisioned m (statusOf s))"

lemma networks_api_okD:
  assumes "networks_api_ok cli" and "svc_Get (Networks cli) i w = (Inr n, w')"
  shows "nw_UUID n \<noteq> ''''"
    and "nw_Subnets n = sn # sns \<Longrightarrow> sns_UUID sn \<noteq> ''''"
    and "nw_Subnets n = sn # sns \<Longrightarrow> sns_CIDR sn \<noteq> ''''"
proof -
  from assms show "nw_UUID n \<noteq> ''''" by (auto simp: networks_api_ok_def dest: service_resultsD)
  from assms have "list_all (\<lambda>sn. sns_UUID sn \<noteq> '''' \<and> sns_CIDR sn \<noteq> '''') (nw_Subnets n)"
    unfolding networks_api_ok_def by blast
  then show "nw_Subnets n = sn # sns \<Longrightarrow> sns_UUID sn \<noteq> ''''"
    and "nw_Subnets n = sn # sns \<Longrightarrow> sns_CIDR sn \<noteq> ''''" by auto
qed

lemma reconcilePreExistingNetwork_round:
  assumes "networks_api_ok (sc_CloudscaleClient S)" and "net_UUID n \<noteq> ''''"
  shows "wp (reconcilePreExistingNetwork S n) (\<lambda>_ s'. network_round n s s') (\<lambda>e s'. True) s"
  unfolding reconcilePreExistingNetwork_def
  using assms(2)
  by (auto simp: wp network_round_def network_provisioned_set_other
        split: prod.split sum.split list.split option.splits
        dest: networks_api_okD [OF assms(1)] intro!: network_provisioned_adopted)
    (auto simp: network_provisioned_def)

lemma createNetworkTimeout_pos [simp]: "createNetworkTimeoutRequeueAfter \<noteq> 0"
  by (simp add: createNetworkTimeoutRequeueAfter_def)

lemma reconcileManagedNetwork_round:
  assumes "networks_api_ok (sc_CloudscaleClient S)" and "net_UUID n = ''''"
  shows "wp (reconcileManagedNetwork S n) (\<lambda>res s'. IsZero res \<longrightarrow> network_round n s s')
           (\<lambda>e s'. True) s"
proof -
  have nets: "service_ids (Networks (sc_CloudscaleClient S)) nw_UUID"
    and subs: "service_ids (Subnets (sc_CloudscaleClient S)) sn_UUID"
    using assms(1) by (auto simp: networks_api_ok_def)
  show ?thesis
    unfolding reconcileManagedNetwork_def
    by (auto simp: wp network_round_def network_provisioned_set_other split: prod.split sum.split
        intro!: wp_ensureResource_resI [OF nets] wp_ensureResource_resI [OF subs]
          network_provisioned_managed assms(2) service_resultsD(1) [OF nets] service_resultsD(1) [OF subs])
qed

lemma network_round_each:
  assumes "network_round n t s'" and "\<forall>y\<in>set pre. network_provisioned y (statusOf t)"
    and "net_Name n \<notin> net_Name ` set pre"
  shows "network_provisioned n (statusOf s') \<and>
    (\<forall>y\<in>set pre. network_provisioned y (statusOf s'))"
proof (intro conjI ballI)
  show "network_provisioned n (statusOf s')" using assms(1) by (simp add: network_round_def)
next
  fix y assume y: "y \<in> set pre"
  with assms(3) have "net_Name y \<noteq> net_Name n" by (auto simp: image_iff)
  with assms(1,2) y show "network_provisioned y (statusOf s')" by (simp add: network_round_def)
qed

lemma reconcileNetwork_provisions:
  assumes "networks_api_ok (sc_CloudscaleClient S)"
    and "distinct (map net_Name (elems (cs_Networks (specOf s))))"
  shows "wp (reconcileNetwork S)
    (\<lambda>res s'. IsZero res \<longrightarrow>
       (\<forall>n\<in>set (elems (cs_Networks (specOf s))). network_provisioned n (statusOf s')))
    (\<lambda>e s'. True) s"
proof -
  let ?P = "\<lambda>n s. network_provisioned n (statusOf s)"
  have adopt: "wp (reconcilePreExistingNetwork S n)
      (\<lambda>_ s'. ?P n s' \<and> (\<forall>y\<in>set pre. ?P y s')) (\<lambda>e s'. True) t"
    if "net_UUID n \<noteq> ''''" "\<forall>y\<in>set pre. ?P y t" "net_Name n \<notin> net_Name ` set pre" for n pre t
    by (rule wp_mono [OF reconcilePreExistingNetwork_round [OF assms(1) that(1)]])
      (use network_round_each that(2,3) in blast)+
  have man: "wp (reconcileManagedNetwork S n)
      (\<lambda>res s'. IsZero res \<longrightarrow> ?P n s' \<and> (\<forall>y\<in>set pre. ?P y s')) (\<lambda>e s'. True) t"
    if "net_UUID n = ''''" "\<forall>y\<in>set pre. ?P y t" "net_Name n \<notin> net_Name ` set pre" for n pre t
    by (rule wp_mono [OF reconcileManagedNetwork_round [OF assms(1) that(1)]])
      (use network_round_each that(2,3) in blast)+
  show ?thesis
    unfolding reconcileNetwork_def
    apply (simp add: wp)
    apply (intro impI)
    apply (rule wp_goFor_each [where I = "\<lambda>_. True" and P = ?P])
      apply simp
    subgoal for pre x post t
      using assms(2) adopt [of x pre t] man [of x pre t]
      apply (cases "net_UUID x = ''''")
       apply (simp add: wp)
       apply (erule wp_mono; simp add: wp)
      apply (simp add: wp)
      apply (erule wp_mono; simp add: wp)
      done
    apply (simp add: wp)
    done
qed

section \<open>Deletion\<close>

definition delete_network_calls :: "NetworkStatus list \<Rightarrow> api_call list" where
  "delete_network_calls nets =
     map (\<lambda>n. Delete KNetwork (ns_NetworkID n)) (filter (\<lambda>n. ns_Managed n \<and> ns_NetworkID n \<noteq> '''') nets)"

lemma delete_network_calls_simps [simp]:
  "delete_network_calls [] = []"
  "delete_network_calls (xs @ [n]) =
     (if ns_Managed n \<and> ns_NetworkID n \<noteq> '''' then delete_network_calls xs @ [Delete KNetwork (ns_NetworkID n)]
      else delete_network_calls xs)"
  by (simp_all add: delete_network_calls_def)

text \<open>What the deletion loop has done after the entries \<open>pre\<close>.\<close>

definition delete_progress ::
  "'w cst \<Rightarrow> NetworkStatus list \<Rightarrow> NetworkStatus list \<times> go_error list \<Rightarrow> 'w cst \<Rightarrow> bool" where
  "delete_progress s pre acc t \<longleftrightarrow>
     st_obj t = st_obj s \<and> st_calls t = st_calls s @ delete_network_calls pre \<and>
     set (fst acc) \<subseteq> set pre \<and>
     filter (\<lambda>n. \<not> ns_Managed n) (fst acc) = filter (\<lambda>n. \<not> ns_Managed n) pre \<and>
     length (filter ns_Managed (fst acc)) = length (snd acc)"

lemma deleteNetwork_spec:
  "wp (deleteNetwork S)
     (\<lambda>_ s'. cst_Networks (statusOf s') = filter (\<lambda>n. \<not> ns_Managed n) (cst_Networks (statusOf s)) \<and>
        st_calls s' = st_calls s @ delete_network_calls (cst_Networks (statusOf s)))
     (\<lambda>e s'. e = errNetworkNotReady \<and> cst_Networks (statusOf s') = cst_Networks (statusOf s) \<or>
        (\<exists>errs. e = JoinError errs \<and> errs \<noteq> [] \<and>
           set (cst_Networks (statusOf s')) \<subseteq> set (cst_Networks (statusOf s)) \<and>
           filter (\<lambda>n. \<not> ns_Managed n) (cst_Networks (statusOf s')) =
             filter (\<lambda>n. \<not> ns_Managed n) (cst_Networks (statusOf s)) \<and>
           length (filter ns_Managed (cst_Networks (statusOf s'))) = length errs)) s"
  unfolding deleteNetwork_def
  apply (simp add: wp)
  apply (rule wp_goFold_prefix [where I = "delete_progress s"])
    apply (simp add: delete_progress_def)
  subgoal for pre n post acc t
    by (cases acc) (auto simp: wp delete_progress_def split: sum.split prod.split option.split)
  subgoal for acc t
    by (cases acc)
      (auto simp: wp delete_progress_def errors_Join_def filter_empty_conv split: option.split if_splits)
  done

section \<open>Requests\<close>

text \<open>
  The requests of a network reconcile: reads of networks and subnets, and creates for the
  managed networks of the spec, carrying the ownership tag of that network.
\<close>

definition network_call :: "'w ClusterScope \<Rightarrow> NetworkSpec list \<Rightarrow> api_call \<Rightarrow> bool" where
  "network_call S nets c \<longleftrightarrow>
     (case c of
        Get k i \<Rightarrow> k = KNetwork \<or> k = KSubnet
      | List k tags \<Rightarrow> (k = KNetwork \<or> k = KSubnet) \<and> (\<exists>n\<in>set nets. tags = networkTags S (net_Name n))
      | Create (NewNetwork req) \<Rightarrow>
          (\<exists>n\<in>set nets. net_UUID n = '''' \<and> ncr_Name req = net_Name n \<and>
             ncr_Tags req = networkTags S (net_Name n) \<and> ncr_AutoCreateIPV4Subnet req = Some False)
      | Create (NewSubnet req) \<Rightarrow>
          (\<exists>n\<in>set nets. net_UUID n = '''' \<and> scr_CIDR req = net_CIDR n \<and>
             scr_GatewayAddress req = net_GatewayAddress n \<and> scr_Tags req = networkTags S (net_Name n))
      | _ \<Rightarrow> False)"

lemma reconcilePreExistingNetwork_calls:
  "keeps (emits (network_call S nets)) (reconcilePreExistingNetwork S n)"
  unfolding reconcilePreExistingNetwork_def
  by (intro emits_intros keeps_emits_modify_status) (simp_all add: network_call_def)

lemma reconcileManagedNetwork_calls:
  "n \<in> set nets \<Longrightarrow> net_UUID n = '''' \<Longrightarrow>
     keeps (emits (network_call S nets)) (reconcileManagedNetwork S n)"
  unfolding reconcileManagedNetwork_def
  by (intro emits_intros keeps_emits_modify_status) (auto simp: network_call_def)

lemma reconcileNetwork_calls:
  "wp (reconcileNetwork S)
     (\<lambda>_ s'. emits (network_call S (elems (cs_Networks (specOf s)))) s s')
     (\<lambda>_ s'. emits (network_call S (elems (cs_Networks (specOf s)))) s s') s"
proof -
  let ?nets = "elems (cs_Networks (specOf s))"
  let ?P = "network_call S ?nets"
  have loop: "keeps (emits ?P)
     (goBind
       (goFor ?nets
          (\<lambda>netSpec.
             if net_UUID netSpec \<noteq> '''' then
               goBind (goWrap (fmt_Errorw ''reconciling pre-existing network %q: %w''
                                 [FS (net_Name netSpec)])
                         (reconcilePreExistingNetwork S netSpec))
                 (\<lambda>_. goReturn None)
             else
               goBind (goWrap (fmt_Errorw ''reconciling managed network %q: %w''
                                 [FS (net_Name netSpec)])
                         (reconcileManagedNetwork S netSpec))
                 (\<lambda>result. goReturn (if \<not> IsZero result then Some result else None))))
       (\<lambda>r. goReturn (case r of Some result \<Rightarrow> result | None \<Rightarrow> zeroResult)))"
    by (intro emits_intros reconcilePreExistingNetwork_calls reconcileManagedNetwork_calls) auto
  show ?thesis
    unfolding reconcileNetwork_def
    using wp_keeps [OF loop, of s]
    by (auto simp: wp emits_def elim!: wp_mono)
qed

text \<open>The dereference of the network after the lookup never meets a nil pointer.\<close>

lemma reconcileManagedNetwork_no_panic:
  "wp (reconcileManagedNetwork S n) (\<lambda>_ _. True) (\<lambda>e _. \<forall>msg. e \<noteq> Panic msg) s"
  unfolding reconcileManagedNetwork_def
  by (auto simp: wp split: prod.split sum.split intro!: wp_ensureResourceI)

section \<open>Properties\<close>

text \<open>
  When the network reconcile succeeds with nothing left to wait for, every network of the
  spec has a status entry with its network and subnet ids; a managed network records the CIDR of
  its spec. The hypotheses are that the API returns resources with ids and that the names in the
  spec are distinct, which the list-map key of the CRD ensures.
\<close>

lemma networks_provisioned_after_reconcile:
  assumes "networks_api_ok (sc_CloudscaleClient S)"
    and "distinct (map net_Name (elems (cs_Networks (specOf s))))"
    and "reconcileNetwork S s = (Inr res, s')" and "IsZero res"
  shows "list_all (\<lambda>n. network_provisioned n (statusOf s')) (elems (cs_Networks (specOf s)))"
  using wp_okD [OF reconcileNetwork_provisions [OF assms(1,2)] assms(3)] assms(4)
  by (simp add: list_all_iff)

lemma sample_networks_api_ok: "networks_api_ok sample_client"
  by (simp add: networks_api_ok_def sample_client_ids sample_client_get_network)
    (simp add: sample_network_def)

end
