(* ===== verification/Cluster_Router.thy ===== *)
theory Cluster_Router
  imports Cluster_Network
begin

text \<open>
  Routers of a cluster, \<^verbatim>\<open>cloudscalecluster_router.go\<close>: adopt or create each router, wait until
  it is active, and attach it to its networks; an attachment is recorded in the status before it
  is requested. Deletion detaches the interfaces the provider created, then deletes the routers
  it created. Where the source updates a status entry through a pointer, the model updates the
  first entry with that name.
\<close>

section \<open>Definitions\<close>

definition routerRequeueAfter :: Duration where "routerRequeueAfter = 5 * time_Second"

definition routerTags :: "'w ClusterScope \<Rightarrow> string \<Rightarrow> str_map" where
  "routerTags S routerName =
     [(NameCloudscaleProviderOwned @ om_Name (capi_Meta (sc_Cluster S)), routerName)]"

definition interfaceAddress :: "RouterInterface \<Rightarrow> string \<Rightarrow> string" where
  "interfaceAddress iface subnetID =
     (case find (\<lambda>a. ria_Subnet a = subnetID) (rif_Addresses iface) of
        None \<Rightarrow> '''' | Some a \<Rightarrow> ria_Address a)"

definition hasManagedInterface :: "RouterStatus \<Rightarrow> bool" where
  "hasManagedInterface rs = list_ex ris_Managed (rs_Interfaces rs)"

definition requeueOnTimeout :: "go_error \<Rightarrow> Result \<times> bool" where
  "requeueOnTimeout err =
     (if \<not> IsTimeoutError (Some err) then (zeroResult, False)
      else (requeueAfter routerRequeueAfter, True))"

definition setRouterStatus :: "RouterSpec \<Rightarrow> string \<Rightarrow> CloudscaleClusterStatus \<Rightarrow> CloudscaleClusterStatus" where
  "setRouterStatus routerSpec routerID =
     cst_Routers_update
       (upsert rs_Name updRouterStatus newRouterStatus (rt_Name routerSpec)
          (routerID, rt_UUID routerSpec = ''''))"

definition setRouterInterfaceStatus ::
  "string \<Rightarrow> string \<Rightarrow> string \<Rightarrow> bool \<Rightarrow> CloudscaleClusterStatus \<Rightarrow> CloudscaleClusterStatus \<times> bool" where
  "setRouterInterfaceStatus routerName networkName interfaceID managed st =
     (case GetRouterStatus st routerName of
        None \<Rightarrow> (st, False)
      | Some rs \<Rightarrow>
          if (case GetInterfaceStatus rs networkName of
                None \<Rightarrow> False
              | Some iface \<Rightarrow> ris_InterfaceID iface = interfaceID \<and> ris_Managed iface = managed)
          then (st, False)
          else
            (st\<lparr>cst_Routers :=
               update_first (\<lambda>r. rs_Name r = routerName)
                 (\<lambda>r. r\<lparr>rs_Interfaces :=
                    upsert ris_Network updInterfaceStatus newInterfaceStatus networkName
                      (interfaceID, managed) (rs_Interfaces r)\<rparr>)
                 (cst_Routers st)\<rparr>, True))"

definition modifyRouterInterfaceStatus ::
  "string \<Rightarrow> string \<Rightarrow> string \<Rightarrow> bool \<Rightarrow> ('w cst, bool) proc" where
  "modifyRouterInterfaceStatus routerName networkName interfaceID managed =
     goBind (goGets (\<lambda>s. snd (setRouterInterfaceStatus routerName networkName interfaceID managed (statusOf s))))
       (\<lambda>changed.
          goBind (modify_status (\<lambda>st. fst (setRouterInterfaceStatus routerName networkName interfaceID managed st)))
            (\<lambda>_. goReturn changed))"

definition adoptRouter :: "'w ClusterScope \<Rightarrow> RouterSpec \<Rightarrow> ('w cst, Router) proc" where
  "adoptRouter S routerSpec =
     goBind (goWrap (fmt_Errorw ''getting pre-existing router %s: %w'' [FS (rt_UUID routerSpec)])
               (api (Get KRouter (rt_UUID routerSpec))
                  (svc_Get (Routers (sc_CloudscaleClient S)) (rt_UUID routerSpec))))
       (\<lambda>router.
          goBind (goGets (\<lambda>s. cs_Zone (specOf s)))
            (\<lambda>zone.
               if ro_Zone router \<noteq> zone then
                 goError (fmt_Errorf ''pre-existing router %s is in zone %q, expected zone %q''
                            [FS (rt_UUID routerSpec), FS (ro_Zone router), FS zone])
               else goReturn router))"

definition ensureManagedRouter ::
  "'w ClusterScope \<Rightarrow> RouterSpec \<Rightarrow> ('w cst, Router option \<times> Result) proc" where
  "ensureManagedRouter S routerSpec =
     goBind (goGets (\<lambda>s. (GetRouterStatus (statusOf s) (rt_Name routerSpec), cs_Zone (specOf s))))
       (\<lambda>(rs, zone).
        let routerID = (case rs of None \<Rightarrow> '''' | Some r \<Rightarrow> rs_RouterID r);
            tags = routerTags S (rt_Name routerSpec)
        in
        goBind (goWrap (fmt_Errorw ''ensuring router: %w'' [])
                  (ensureResource KRouter routerID
                     (fmt_Sprintf ''router/%s'' [FS (rt_Name routerSpec)])
                     (Routers (sc_CloudscaleClient S)) ro_UUID tags))
          (\<lambda>(router, resolvedRouterID).
             if resolvedRouterID \<noteq> '''' then goReturn (router, zeroResult)
             else
               let req = \<lparr>rcr_Name = rt_Name routerSpec,
                          rcr_InternetGateway = rt_InternetGateway routerSpec,
                          rcr_Zone = zone, rcr_Tags = tags\<rparr>
               in goBind (goTry (api (Create (NewRouter req))
                                   (svc_Create (Routers (sc_CloudscaleClient S)) req)))
                    (\<lambda>r. case r of
                        Inl err \<Rightarrow>
                          if snd (requeueOnTimeout err)
                          then goReturn (None, fst (requeueOnTimeout err))
                          else goError (fmt_Errorw ''creating router: %w'' [] err)
                      | Inr router \<Rightarrow>
                          goBind (Eventf EventTypeNormal ''RouterCreated'' ''CreateRouter''
                                    ''Created router %s (%s) in zone %s''
                                    [FS (rt_Name routerSpec), FS (ro_UUID router), FS (ro_Zone router)])
                            (\<lambda>_. goReturn (Some router, zeroResult)))))"

definition adoptRouterInterface ::
  "RouterSpec \<Rightarrow> RouterInterfaceSpec \<Rightarrow> NetworkStatus \<Rightarrow> RouterInterface list \<Rightarrow> ('w cst, string) proc" where
  "adoptRouterInterface routerSpec ifaceSpec ns interfaces =
     (case index_by rif_UUID interfaces (ri_UUID ifaceSpec) of
        None \<Rightarrow>
          goError (fmt_Errorf ''router %q has no interface %s to adopt, it may have been detached outside of CAPCS''
                     [FS (rt_Name routerSpec), FS (ri_UUID ifaceSpec)])
      | Some live \<Rightarrow>
          if rif_Network live \<noteq> ns_NetworkID ns then
            goError (fmt_Errorf ''router %q interface %s is attached to network %s, not to network %q (%s)''
                       [FS (rt_Name routerSpec), FS (ri_UUID ifaceSpec), FS (rif_Network live),
                        FS (ri_Network ifaceSpec), FS (ns_NetworkID ns)])
          else
            goBind (modifyRouterInterfaceStatus (rt_Name routerSpec) (ns_Name ns) (rif_UUID live) False)
              (\<lambda>_. goReturn (interfaceAddress live (ns_SubnetID ns))))"

definition claimRouterInterface ::
  "RouterSpec \<Rightarrow> RouterStatus \<Rightarrow> RouterInterfaceSpec \<Rightarrow> NetworkStatus \<Rightarrow> RouterInterface \<Rightarrow>
   ('w cst, string) proc" where
  "claimRouterInterface routerSpec rs ifaceSpec ns live =
     (if GetInterfaceStatus rs (ns_Name ns) = None \<and> \<not> rs_Managed rs then
        goError (fmt_Errorf ''pre-existing router %q is already attached to network %q by interface %s: set spec.routers[].interfaces[].uuid to adopt that interface, or detach it''
                   [FS (rt_Name routerSpec), FS (ri_Network ifaceSpec), FS (rif_UUID live)])
      else
        let address = interfaceAddress live (ns_SubnetID ns) in
        goBind (modifyRouterInterfaceStatus (rt_Name routerSpec) (ns_Name ns) (rif_UUID live) True)
          (\<lambda>changed.
             if changed \<and> address \<noteq> ri_Address ifaceSpec then
               goBind (Eventf EventTypeWarning ''RouterInterfaceAddressMismatch'' ''ReconcileRouterInterface''
                         ''Router %s is attached to network %s at %q, not at the requested %q, which therefore has no effect''
                         [FS (rt_Name routerSpec), FS (ri_Network ifaceSpec), FS address,
                          FS (ri_Address ifaceSpec)])
                 (\<lambda>_. goReturn address)
             else goReturn address))"

definition createRouterInterface ::
  "'w ClusterScope \<Rightarrow> RouterSpec \<Rightarrow> Router \<Rightarrow> RouterInterfaceSpec \<Rightarrow> NetworkStatus \<Rightarrow>
   ('w cst, Result) proc" where
  "createRouterInterface S routerSpec router ifaceSpec ns =
     goBind (modifyRouterInterfaceStatus (rt_Name routerSpec) (ns_Name ns) '''' True) (\<lambda>_.
     let req = \<lparr>cir_Network = ns_NetworkID ns,
                cir_Addresses = [\<lparr>car_Subnet = ns_SubnetID ns, car_Address = ri_Address ifaceSpec\<rparr>]\<rparr>
     in goBind (goTry (api (CreateInterface (ro_UUID router) req)
                         (svc_CreateInterface (Routers (sc_CloudscaleClient S)) (ro_UUID router) req)))
          (\<lambda>r. case r of
              Inl err \<Rightarrow>
                if snd (requeueOnTimeout err) then goReturn (fst (requeueOnTimeout err))
                else goError (fmt_Errorw ''creating interface for router %q network %q: %w''
                                [FS (rt_Name routerSpec), FS (ri_Network ifaceSpec)] err)
            | Inr createdIface \<Rightarrow>
                goBind (modifyRouterInterfaceStatus (rt_Name routerSpec) (ns_Name ns)
                          (rif_UUID createdIface) True) (\<lambda>_.
                goBind (Eventf EventTypeNormal ''RouterInterfaceCreated'' ''CreateRouterInterface''
                          ''Attached router %s to network %s with address %s''
                          [FS (rt_Name routerSpec), FS (ri_Network ifaceSpec), FS (ri_Address ifaceSpec)])
                  (\<lambda>_. goReturn zeroResult))))"

definition reconcileRouterInterface ::
  "'w ClusterScope \<Rightarrow> RouterSpec \<Rightarrow> Router \<Rightarrow> RouterInterfaceSpec \<Rightarrow> ('w cst, Result option) proc" where
  "reconcileRouterInterface S routerSpec router ifaceSpec =
     goBind (goGets (\<lambda>s. (GetNetworkStatus (statusOf s) (ri_Network ifaceSpec),
                          GetRouterStatus (statusOf s) (rt_Name routerSpec))))
       (\<lambda>(nsp, rsp).
          case nsp of
            None \<Rightarrow>
              goError (fmt_Errorf ''network %q not found in status for router %q interface''
                         [FS (ri_Network ifaceSpec), FS (rt_Name routerSpec)])
          | Some ns \<Rightarrow>
              if ri_UUID ifaceSpec \<noteq> '''' then
                goBind (adoptRouterInterface routerSpec ifaceSpec ns (ro_Interfaces router))
                  (\<lambda>_. goReturn None)
              else
                (case index_by rif_Network (ro_Interfaces router) (ns_NetworkID ns) of
                   Some live \<Rightarrow>
                     (case rsp of
                        None \<Rightarrow> goError (Panic ''nil router status'')
                      | Some rs \<Rightarrow>
                          goBind (claimRouterInterface routerSpec rs ifaceSpec ns live)
                            (\<lambda>_. goReturn None))
                 | None \<Rightarrow>
                     goBind (createRouterInterface S routerSpec router ifaceSpec ns)
                       (\<lambda>result. goReturn (if \<not> IsZero result then Some result else None))))"

definition reconcileRouterInterfaces ::
  "'w ClusterScope \<Rightarrow> RouterSpec \<Rightarrow> Router \<Rightarrow> ('w cst, Result) proc" where
  "reconcileRouterInterfaces S routerSpec router =
     goBind (goGets (\<lambda>s. GetRouterStatus (statusOf s) (rt_Name routerSpec)))
       (\<lambda>rs. case rs of
           None \<Rightarrow> goError (fmt_Errorf ''router %q not found in status'' [FS (rt_Name routerSpec)])
         | Some _ \<Rightarrow>
             goBind (goFor (elems (rt_Interfaces routerSpec)) (reconcileRouterInterface S routerSpec router))
               (\<lambda>r. goReturn (case r of Some result \<Rightarrow> result | None \<Rightarrow> zeroResult)))"

definition reconcileRouter :: "'w ClusterScope \<Rightarrow> RouterSpec \<Rightarrow> ('w cst, Result) proc" where
  "reconcileRouter S routerSpec =
     goBind (if rt_UUID routerSpec \<noteq> ''''
             then goBind (adoptRouter S routerSpec) (\<lambda>router. goReturn (Some router, zeroResult))
             else ensureManagedRouter S routerSpec)
       (\<lambda>(router, result).
          if \<not> IsZero result then goReturn result
          else
            (case router of
               None \<Rightarrow> goError (Panic ''nil router'')
             | Some router \<Rightarrow>
                 goBind (modify_status (setRouterStatus routerSpec (ro_UUID router)))
                   (\<lambda>_. if ro_Status router \<noteq> lib_RouterActive (sc_lib S)
                        then goReturn (requeueAfter routerRequeueAfter)
                        else reconcileRouterInterfaces S routerSpec router)))"

definition reconcileRouters :: "'w ClusterScope \<Rightarrow> ('w cst, Result) proc" where
  "reconcileRouters S =
     goDefer (\<lambda>ret s. s\<lparr>st_obj :=
         (case ret of
            Inl err \<Rightarrow> Cluster_setCondition S RouterReadyCondition ConditionFalse RouterErrorReason
                         (error_text err)
          | Inr result \<Rightarrow>
              if \<not> IsZero result then
                Cluster_setCondition S RouterReadyCondition ConditionFalse RouterNotReadyReason
                  ''Waiting for routers to become available''
              else if elems (cs_Routers (specOf s)) = [] then
                Cluster_setCondition S RouterReadyCondition ConditionTrue RouterDisabledReason ''''
              else
                Cluster_setCondition S RouterReadyCondition ConditionTrue RouterProvisionedReason '''')
         (st_obj s)\<rparr>)
       (goBind (goGets (\<lambda>s. elems (cs_Routers (specOf s))))
          (goFold
             (\<lambda>result routerSpec.
                goBind (goWrap (fmt_Errorw ''reconciling router %q: %w'' [FS (rt_Name routerSpec)])
                          (reconcileRouter S routerSpec))
                  (\<lambda>res. goReturn
                     (if \<not> IsZero res \<and> (IsZero result \<or> RequeueAfter res < RequeueAfter result)
                      then res else result)))
             zeroResult))"

definition deleteRouterInterfaces ::
  "'w ClusterScope \<Rightarrow> RouterStatus \<Rightarrow> ('w cst, go_error list \<times> RouterStatus) proc" where
  "deleteRouterInterfaces S rs =
     (if \<not> hasManagedInterface rs then goReturn ([], rs)
      else
        goBind (goTry (api (Get KRouter (rs_RouterID rs))
                  (svc_Get (Routers (sc_CloudscaleClient S)) (rs_RouterID rs))))
          (\<lambda>r. if IsNotFound (err_of r) then goReturn ([], rs\<lparr>rs_Interfaces := []\<rparr>)
               else
                 (case r of
                    Inl err \<Rightarrow>
                      goReturn ([fmt_Errorw ''getting router %q to detach its interfaces: %w''
                                   [FS (rs_Name rs)] err], rs)
                  | Inr router \<Rightarrow>
                      goBind
                        (goFold
                           (\<lambda>acc iface. case acc of (remaining, errs) \<Rightarrow>
                              if \<not> ris_Managed iface then goReturn (remaining @ [iface], errs)
                              else
                                goBind (goGets (\<lambda>s. GetNetworkStatus (statusOf s) (ris_Network iface)))
                                  (\<lambda>nsp.
                                   let interfaceID =
                                     (if ris_InterfaceID iface \<noteq> '''' then ris_InterfaceID iface
                                      else (case nsp of
                                              None \<Rightarrow> ''''
                                            | Some ns \<Rightarrow>
                                                (case index_by rif_Network (ro_Interfaces router) (ns_NetworkID ns) of
                                                   None \<Rightarrow> '''' | Some live \<Rightarrow> rif_UUID live)))
                                   in
                                   if interfaceID \<notin> rif_UUID ` set (ro_Interfaces router)
                                   then goReturn (remaining, errs)
                                   else
                                     goBind (goTry (api (DeleteInterface (rs_RouterID rs) interfaceID)
                                               (svc_DeleteInterface (Routers (sc_CloudscaleClient S))
                                                  (rs_RouterID rs) interfaceID)))
                                       (\<lambda>d. goReturn
                                          (case hard_error (err_of d) of
                                             Some err \<Rightarrow>
                                               (remaining @ [iface\<lparr>ris_InterfaceID := interfaceID\<rparr>],
                                                errs @ [fmt_Errorw ''deleting router interface for %s/%s: %w''
                                                          [FS (rs_Name rs), FS (ris_Network iface)] err])
                                           | None \<Rightarrow> (remaining, errs)))))
                           ([], []) (rs_Interfaces rs))
                        (\<lambda>(remaining, errs). goReturn (errs, rs\<lparr>rs_Interfaces := remaining\<rparr>)))))"

definition deleteRouters :: "'w ClusterScope \<Rightarrow> ('w cst, unit) proc" where
  "deleteRouters S =
     goDefer (\<lambda>ret. st_obj_update
         (case ret of
            Inl err \<Rightarrow> Cluster_setCondition S RouterReadyCondition ConditionFalse RouterErrorReason
                         (fmt_Sprintf ''Failed to delete routers: %v'' [FE err])
          | Inr _ \<Rightarrow> Cluster_setCondition S RouterReadyCondition ConditionFalse RouterDeletingReason
                       ''Routers have been deleted''))
       (goBind (goGets (\<lambda>s. cst_Routers (statusOf s)))
          (\<lambda>routers.
             goBind
               (goFold
                  (\<lambda>acc router. case acc of (remaining, errs) \<Rightarrow>
                     if rs_RouterID router = '''' then goReturn (remaining, errs)
                     else
                       goBind (deleteRouterInterfaces S router)
                         (\<lambda>(ifaceErrs, router).
                            if ifaceErrs \<noteq> [] then goReturn (remaining @ [router], errs @ ifaceErrs)
                            else if \<not> rs_Managed router then goReturn (remaining @ [router], errs)
                            else
                              goBind (goTry (api (Delete KRouter (rs_RouterID router))
                                        (svc_Delete (Routers (sc_CloudscaleClient S)) (rs_RouterID router))))
                                (\<lambda>r. case hard_error (err_of r) of
                                    Some err \<Rightarrow>
                                      goReturn (remaining @ [router],
                                        errs @ [fmt_Errorw ''deleting router %q: %w'' [FS (rs_Name router)] err])
                                  | None \<Rightarrow>
                                      goBind (Eventf EventTypeNormal ''RouterDeleted'' ''DeleteRouter''
                                                ''Deleted router %s (%s)''
                                                [FS (rs_Name router), FS (rs_RouterID router)])
                                        (\<lambda>_. goReturn (remaining, errs)))))
                  ([], []) routers)
               (\<lambda>(remaining, errs).
                  goBind (modify_status (\<lambda>st. st\<lparr>cst_Routers := remaining\<rparr>))
                    (\<lambda>_. case errors_Join errs of None \<Rightarrow> goReturn () | Some e \<Rightarrow> goError e))))"

section \<open>Frames\<close>

abbreviation router_frame :: "'w cst \<Rightarrow> 'w cst \<Rightarrow> bool" where
  "router_frame \<equiv> obj_frame (erase (cst_Routers_update (\<lambda>_. [])))"

lemma modifyRouterInterfaceStatus_frame:
  "keeps router_frame (modifyRouterInterfaceStatus rn nn i m)"
  unfolding modifyRouterInterfaceStatus_def
  by (intro frame_intros keeps_erase_modify_status)
    (simp add: setRouterInterfaceStatus_def split: option.split)

lemma reconcileRouterInterface_frame:
  "keeps router_frame (reconcileRouterInterface S routerSpec router ifaceSpec)"
  unfolding reconcileRouterInterface_def adoptRouterInterface_def claimRouterInterface_def
    createRouterInterface_def
  by (intro frame_intros modifyRouterInterfaceStatus_frame)

lemma ensureManagedRouter_frame: "keeps router_frame (ensureManagedRouter S routerSpec)"
  unfolding ensureManagedRouter_def by (intro frame_intros)

lemma adoptRouter_frame: "keeps router_frame (adoptRouter S routerSpec)"
  unfolding adoptRouter_def by (intro frame_intros)

lemma reconcileRouter_frame: "keeps router_frame (reconcileRouter S routerSpec)"
  unfolding reconcileRouter_def reconcileRouterInterfaces_def
  by (intro frame_intros keeps_erase_modify_status ensureManagedRouter_frame adoptRouter_frame
      reconcileRouterInterface_frame) (simp add: setRouterStatus_def)

lemma reconcileRouters_frame: "keeps router_frame (reconcileRouters S)"
  unfolding reconcileRouters_def
  by (intro frame_intros reconcileRouter_frame) (simp add: obj_frame_def split: sum.split)

lemma deleteRouterInterfaces_frame: "keeps (obj_frame f) (deleteRouterInterfaces S rs)"
  unfolding deleteRouterInterfaces_def by (intro frame_intros)

lemma deleteRouters_frame: "keeps router_frame (deleteRouters S)"
  unfolding deleteRouters_def
  by (intro frame_intros keeps_erase_modify_status deleteRouterInterfaces_frame)
    (auto simp: obj_frame_def split: sum.split)

section \<open>Names stay distinct\<close>

definition routers_distinct :: "CloudscaleCluster \<Rightarrow> bool" where
  "routers_distinct c \<longleftrightarrow>
     distinct (map rs_Name (cst_Routers (cl_Status c))) \<and>
     (\<forall>r\<in>set (cst_Routers (cl_Status c)). distinct (map ris_Network (rs_Interfaces r)))"

lemma routers_distinct_setCondition [simp]:
  "routers_distinct (Cluster_setCondition S t st r m c) = routers_distinct c"
  by (simp add: routers_distinct_def)

lemma upsert_set:
  assumes "\<And>x. x \<in> set xs \<Longrightarrow> P x" and "\<And>x. P x \<Longrightarrow> P (upd v x)" and "P (new k v)"
    and "x \<in> set (upsert key upd new k v xs)"
  shows "P x"
  using assms set_update_first_subset [of "\<lambda>x. key x = k" "upd v" xs]
  by (auto simp: upsert_def split: if_splits)

lemma setRouterStatus_distinct:
  "routers_distinct c \<Longrightarrow>
     routers_distinct (c\<lparr>cl_Status := setRouterStatus routerSpec routerID (cl_Status c)\<rparr>)"
  unfolding routers_distinct_def setRouterStatus_def
  by (auto simp: routers.distinct_put
      elim!: upsert_set [where P = "\<lambda>r. distinct (map ris_Network (rs_Interfaces r))", rotated -1])

lemma setRouterInterfaceStatus_distinct:
  assumes "routers_distinct c"
  shows "routers_distinct
    (c\<lparr>cl_Status := fst (setRouterInterfaceStatus rn nn i m (cl_Status c))\<rparr>)"
proof -
  let ?f = "\<lambda>r. r\<lparr>rs_Interfaces := upsert ris_Network updInterfaceStatus newInterfaceStatus nn (i, m)
              (rs_Interfaces r)\<rparr>"
  let ?rs = "cst_Routers (cl_Status c)"
  have "distinct (map ris_Network (rs_Interfaces r))"
    if "r \<in> set (update_first (\<lambda>r. rs_Name r = rn) ?f ?rs)" for r
    using that set_update_first_subset [of "\<lambda>r. rs_Name r = rn" ?f ?rs] assms
    by (auto simp: routers_distinct_def ifaces.distinct_put)
  moreover have "map rs_Name (update_first (\<lambda>r. rs_Name r = rn) ?f ?rs) = map rs_Name ?rs"
    by (rule map_update_first) simp
  ultimately show ?thesis
    using assms by (auto simp: routers_distinct_def setRouterInterfaceStatus_def split: option.split)
qed

lemma modifyRouterInterfaceStatus_distinct:
  "keeps (obj_inv routers_distinct) (modifyRouterInterfaceStatus rn nn i m)"
  unfolding modifyRouterInterfaceStatus_def modify_status_def
  by (intro inv_intros keeps_inv_modify_obj setRouterInterfaceStatus_distinct)

lemma reconcileRouters_distinct: "keeps (obj_inv routers_distinct) (reconcileRouters S)"
  unfolding reconcileRouters_def reconcileRouter_def adoptRouter_def ensureManagedRouter_def
    reconcileRouterInterfaces_def reconcileRouterInterface_def adoptRouterInterface_def
    claimRouterInterface_def createRouterInterface_def modify_status_def
  by (intro inv_intros modifyRouterInterfaceStatus_distinct keeps_inv_modify_obj
      setRouterStatus_distinct) (auto simp: obj_inv_def split: sum.split)

section \<open>The router status as a map\<close>

text \<open>
  The controllers read the router status through two lookups: the id of a router, and the id of
  a router's interface on a network. The two updates act on these lookups as map updates.
\<close>

definition router_id :: "CloudscaleClusterStatus \<Rightarrow> string \<Rightarrow> string option" where
  "router_id st rn = map_option rs_RouterID (GetRouterStatus st rn)"

definition iface_id :: "CloudscaleClusterStatus \<Rightarrow> string \<Rightarrow> string \<Rightarrow> string option" where
  "iface_id st rn nn =
     (case GetRouterStatus st rn of
        None \<Rightarrow> None
      | Some rs \<Rightarrow> map_option ris_InterfaceID (GetInterfaceStatus rs nn))"

lemma GetRouterStatus_setCondition [simp]:
  "GetRouterStatus (cl_Status (Cluster_setCondition S t st r m c)) name =
     GetRouterStatus (cl_Status c) name"
  by (simp add: GetRouterStatus_def)

lemma router_views_setCondition [simp]:
  "router_id (cl_Status (Cluster_setCondition S t st r m c)) = router_id (cl_Status c)"
  "iface_id (cl_Status (Cluster_setCondition S t st r m c)) = iface_id (cl_Status c)"
  by (simp_all add: fun_eq_iff router_id_def iface_id_def)

lemma GetRouterStatus_setRouterStatus:
  "GetRouterStatus (setRouterStatus spec i st) rn =
     (if rn = rt_Name spec then
        Some (case GetRouterStatus st rn of
                None \<Rightarrow> newRouterStatus rn (i, rt_UUID spec = '''')
              | Some rs \<Rightarrow> updRouterStatus (i, rt_UUID spec = '''') rs)
      else GetRouterStatus st rn)"
  by (simp add: GetRouterStatus_def setRouterStatus_def routers.find_put_other routers.find_upsert
      split: option.split)

lemma router_id_setRouterStatus [simp]:
  "router_id (setRouterStatus spec i st) rn = (if rn = rt_Name spec then Some i else router_id st rn)"
  by (auto simp: router_id_def GetRouterStatus_setRouterStatus split: option.split)

lemma iface_id_setRouterStatus [simp]:
  "iface_id (setRouterStatus spec i st) rn nn = iface_id st rn nn"
  by (auto simp: iface_id_def GetRouterStatus_setRouterStatus GetInterfaceStatus_def split: option.split)

lemma GetRouterStatus_update_first:
  assumes "\<And>r. rs_Name (f r) = rs_Name r"
  shows "GetRouterStatus (st\<lparr>cst_Routers := update_first (\<lambda>r. rs_Name r = rn) f (cst_Routers st)\<rparr>) rn' =
    (if rn' = rn then map_option f (GetRouterStatus st rn) else GetRouterStatus st rn')"
  using find_update_first [of "\<lambda>r. rs_Name r = rn" f "cst_Routers st"]
    find_update_first_other [of "\<lambda>r. rs_Name r = rn" "\<lambda>r. rs_Name r = rn'" f "cst_Routers st"]
  by (auto simp: GetRouterStatus_def assms)

lemma router_id_setRouterInterfaceStatus [simp]:
  "router_id (fst (setRouterInterfaceStatus rn nn i m st)) rn' = router_id st rn'"
  by (auto simp: router_id_def setRouterInterfaceStatus_def GetRouterStatus_update_first
      split: option.split)

lemma iface_id_setRouterInterfaceStatus [simp]:
  "iface_id (fst (setRouterInterfaceStatus rn nn i m st)) rn' nn' =
     (if rn' = rn \<and> nn' = nn \<and> router_id st rn \<noteq> None then Some i else iface_id st rn' nn')"
proof (cases "GetRouterStatus st rn")
  case None
  then show ?thesis by (auto simp: setRouterInterfaceStatus_def router_id_def)
next
  case (Some rs)
  obtain x where x: "find (\<lambda>x. ris_Network x = nn)
      (upsert ris_Network updInterfaceStatus newInterfaceStatus nn (i, m) (rs_Interfaces rs)) = Some x"
    "interface_stored (i, m) x"
    using ifaces.find_put_same by blast
  from Some x show ?thesis
    by (auto simp: iface_id_def router_id_def setRouterInterfaceStatus_def
        GetRouterStatus_update_first GetInterfaceStatus_def ifaces.find_put_other split: option.split)
qed

section \<open>What a successful router reconcile establishes\<close>

definition has_router :: "CloudscaleClusterStatus \<Rightarrow> string \<Rightarrow> bool" where
  "has_router st rn \<longleftrightarrow> (\<exists>i. router_id st rn = Some i \<and> i \<noteq> '''')"

definition has_iface :: "CloudscaleClusterStatus \<Rightarrow> string \<Rightarrow> string \<Rightarrow> bool" where
  "has_iface st rn nn \<longleftrightarrow> (\<exists>j. iface_id st rn nn = Some j \<and> j \<noteq> '''')"

definition router_provisioned :: "RouterSpec \<Rightarrow> CloudscaleClusterStatus \<Rightarrow> bool" where
  "router_provisioned spec st \<longleftrightarrow>
     has_router st (rt_Name spec) \<and>
     (\<forall>iface\<in>set (elems (rt_Interfaces spec)). has_iface st (rt_Name spec) (ri_Network iface))"

definition router_ok :: "Router \<Rightarrow> bool" where
  "router_ok r \<longleftrightarrow> ro_UUID r \<noteq> '''' \<and> list_all (\<lambda>i. rif_UUID i \<noteq> '''') (ro_Interfaces r)"

definition routers_api_ok :: "'w Client \<Rightarrow> bool" where
  "routers_api_ok cli \<longleftrightarrow>
     service_results (Routers cli) router_ok \<and>
     (\<forall>i q w x w'. svc_CreateInterface (Routers cli) i q w = (Inr x, w') \<longrightarrow> rif_UUID x \<noteq> '''')"

text \<open>Ids that are recorded stay recorded.\<close>

definition ids_kept :: "CloudscaleClusterStatus \<Rightarrow> CloudscaleClusterStatus \<Rightarrow> bool" where
  "ids_kept st st' \<longleftrightarrow>
     (\<forall>rn. has_router st rn \<longrightarrow> has_router st' rn) \<and>
     (\<forall>rn nn. has_iface st rn nn \<longrightarrow> has_iface st' rn nn)"

lemma ids_kept_refl: "ids_kept st st"
  by (simp add: ids_kept_def)

lemma ids_kept_trans: "ids_kept st st' \<Longrightarrow> ids_kept st' st'' \<Longrightarrow> ids_kept st st''"
  by (simp add: ids_kept_def)

lemma ids_kept_provisioned:
  "ids_kept st st' \<Longrightarrow> router_provisioned spec st \<Longrightarrow> router_provisioned spec st'"
  by (simp add: ids_kept_def router_provisioned_def)

lemma ids_kept_setRouterStatus: "i \<noteq> '''' \<Longrightarrow> ids_kept st (setRouterStatus spec i st)"
  by (simp add: ids_kept_def has_router_def has_iface_def)

text \<open>The interface of router \<open>rn\<close> on network \<open>nn\<close> is recorded, and no other.\<close>

definition iface_recorded :: "string \<Rightarrow> string \<Rightarrow> CloudscaleClusterStatus \<Rightarrow> CloudscaleClusterStatus \<Rightarrow> bool" where
  "iface_recorded rn nn st st' \<longleftrightarrow>
     router_id st' = router_id st \<and>
     (\<exists>j. j \<noteq> '''' \<and>
        (\<forall>rn' nn'. iface_id st' rn' nn' =
           (if rn' = rn \<and> nn' = nn \<and> router_id st rn \<noteq> None then Some j else iface_id st rn' nn')))"

lemma iface_recorded_set:
  "i \<noteq> '''' \<Longrightarrow> iface_recorded rn nn st (fst (setRouterInterfaceStatus rn nn i m st))"
  "i \<noteq> '''' \<Longrightarrow>
     iface_recorded rn nn st
       (fst (setRouterInterfaceStatus rn nn i m (fst (setRouterInterfaceStatus rn nn i' m' st))))"
  unfolding iface_recorded_def
  by (intro conjI exI [of _ i]; auto simp: fun_eq_iff)+

lemma iface_recorded_kept: "iface_recorded rn nn st st' \<Longrightarrow> ids_kept st st'"
  by (auto simp: iface_recorded_def ids_kept_def has_router_def has_iface_def)

lemma iface_recorded_has:
  "iface_recorded rn nn st st' \<Longrightarrow> router_id st rn = Some i \<Longrightarrow> has_iface st' rn nn"
  by (auto simp: iface_recorded_def has_iface_def)

lemma iface_recorded_router: "iface_recorded rn nn st st' \<Longrightarrow> router_id st' = router_id st"
  by (simp add: iface_recorded_def)

lemma index_by_uuid:
  "list_all (\<lambda>i. rif_UUID i \<noteq> '''') xs \<Longrightarrow> index_by key xs k = Some live \<Longrightarrow> rif_UUID live \<noteq> ''''"
  by (auto simp: list_all_iff dest: index_by_SomeD)

lemma wp_modifyRouterInterfaceStatus [wp]:
  "wp (modifyRouterInterfaceStatus rn nn i m) Q E =
     (\<lambda>s. Q (snd (setRouterInterfaceStatus rn nn i m (statusOf s)))
        (s\<lparr>st_obj := (st_obj s)\<lparr>cl_Status := fst (setRouterInterfaceStatus rn nn i m (statusOf s))\<rparr>\<rparr>))"
  unfolding modifyRouterInterfaceStatus_def by (simp add: wp)

lemma adoptRouterInterface_records:
  assumes "list_all (\<lambda>i. rif_UUID i \<noteq> '''') ifs"
  shows "wp (adoptRouterInterface spec ispec ns ifs)
    (\<lambda>_ s'. iface_recorded (rt_Name spec) (ns_Name ns) (statusOf s) (statusOf s')) (\<lambda>_ _. True) s"
  unfolding adoptRouterInterface_def
  using index_by_uuid [OF assms, where key = rif_UUID]
  by (auto simp: wp split: option.split intro!: iface_recorded_set)

lemma claimRouterInterface_records:
  "rif_UUID live \<noteq> '''' \<Longrightarrow>
     wp (claimRouterInterface spec rs ispec ns live)
       (\<lambda>_ s'. iface_recorded (rt_Name spec) (ns_Name ns) (statusOf s) (statusOf s')) (\<lambda>_ _. True) s"
  unfolding claimRouterInterface_def
  by (auto simp: wp intro!: iface_recorded_set)

lemma createRouterInterface_records:
  assumes "routers_api_ok (sc_CloudscaleClient S)"
  shows "wp (createRouterInterface S spec router ispec ns)
    (\<lambda>res s'. IsZero res \<longrightarrow>
       iface_recorded (rt_Name spec) (ns_Name ns) (statusOf s) (statusOf s')) (\<lambda>_ _. True) s"
proof -
  have new: "rif_UUID x \<noteq> ''''"
    if "svc_CreateInterface (Routers (sc_CloudscaleClient S)) j q w = (Inr x, w')" for j q w x w'
    using assms that unfolding routers_api_ok_def by blast
  show ?thesis
    unfolding createRouterInterface_def
    by (auto simp: wp requeueOnTimeout_def routerRequeueAfter_def split: prod.split sum.split
        intro!: iface_recorded_set new)
qed

lemma GetNetworkStatus_name: "GetNetworkStatus st nn = Some ns \<Longrightarrow> ns_Name ns = nn"
  by (auto simp: GetNetworkStatus_def dest: find_SomeD)

lemma reconcileRouterInterface_records:
  assumes "routers_api_ok (sc_CloudscaleClient S)" and "router_ok router"
  shows "wp (reconcileRouterInterface S spec router ispec)
    (\<lambda>r s'. case r of
        None \<Rightarrow> iface_recorded (rt_Name spec) (ri_Network ispec) (statusOf s) (statusOf s')
      | Some v \<Rightarrow> \<not> IsZero v)
    (\<lambda>e s'. True) s"
proof -
  from assms(2) have uuids: "list_all (\<lambda>i. rif_UUID i \<noteq> '''') (ro_Interfaces router)"
    by (simp add: router_ok_def)
  show ?thesis
    unfolding reconcileRouterInterface_def
    using index_by_uuid [OF uuids, where key = rif_Network]
    by (auto simp: wp GetNetworkStatus_name split: option.split
        intro!: wp_mono [OF adoptRouterInterface_records [OF uuids]]
          wp_mono [OF claimRouterInterface_records] wp_mono [OF createRouterInterface_records [OF assms(1)]])
qed

lemma reconcileRouterInterfaces_provisions:
  assumes "routers_api_ok (sc_CloudscaleClient S)" and "router_ok router"
    and "router_id (statusOf s) (rt_Name spec) = Some i" and "i \<noteq> ''''"
  shows "wp (reconcileRouterInterfaces S spec router)
    (\<lambda>res s'. IsZero res \<longrightarrow>
       router_provisioned spec (statusOf s') \<and> ids_kept (statusOf s) (statusOf s'))
    (\<lambda>e s'. True) s"
proof -
  let ?I = "\<lambda>t. router_id (statusOf t) = router_id (statusOf s) \<and> ids_kept (statusOf s) (statusOf t)"
  let ?P = "\<lambda>(iface :: RouterInterfaceSpec) t.
    has_iface (statusOf t) (rt_Name spec) (ri_Network iface)"
  have step: "(router_id st' = router_id (statusOf s) \<and> ids_kept (statusOf s) st') \<and>
      has_iface st' (rt_Name spec) (ri_Network x) \<and>
      (\<forall>y\<in>set pre. has_iface st' (rt_Name spec) (ri_Network y))"
    if "router_id st = router_id (statusOf s) \<and> ids_kept (statusOf s) st"
      and "\<forall>y\<in>set pre. has_iface st (rt_Name spec) (ri_Network y)"
      and rec: "iface_recorded (rt_Name spec) (ri_Network x) st st'"
    for st st' and x :: RouterInterfaceSpec and pre :: "RouterInterfaceSpec list"
  proof -
    from that(1) assms(3) have "router_id st (rt_Name spec) = Some i" by simp
    from iface_recorded_has [OF rec this] iface_recorded_kept [OF rec] iface_recorded_router [OF rec]
      that(1,2)
    show ?thesis by (simp add: ids_kept_def)
  qed
  have round: "wp (reconcileRouterInterface S spec router x)
      (\<lambda>r t'. case r of None \<Rightarrow> ?I t' \<and> ?P x t' \<and> (\<forall>y\<in>set pre. ?P y t') | Some v \<Rightarrow> \<not> IsZero v)
      (\<lambda>_ _. True) t"
    if "?I t" and "\<forall>y\<in>set pre. ?P y t" for pre x t
  proof (rule wp_mono [OF reconcileRouterInterface_records [OF assms(1,2)]])
    fix r t'
    assume "case r of
        None \<Rightarrow> iface_recorded (rt_Name spec) (ri_Network x) (statusOf t) (statusOf t')
      | Some v \<Rightarrow> \<not> IsZero v"
    with step [OF that] show
      "case r of None \<Rightarrow> ?I t' \<and> ?P x t' \<and> (\<forall>y\<in>set pre. ?P y t') | Some v \<Rightarrow> \<not> IsZero v"
      by (cases r) simp_all
  qed simp
  show ?thesis
    unfolding reconcileRouterInterfaces_def
    apply (simp add: wp split: option.split)
    apply (intro allI impI)
    apply (rule wp_goFor_each [where I = ?I and P = ?P])
      apply (simp add: ids_kept_refl)
    subgoal for pre x post t
      by (erule (1) wp_mono [OF round]) (simp_all add: wp split: option.splits)
    subgoal for t
      using assms(3,4) by (auto simp: wp router_provisioned_def has_router_def)
    done
qed

lemma reconcileRouter_provisions:
  assumes "routers_api_ok (sc_CloudscaleClient S)"
  shows "wp (reconcileRouter S spec)
    (\<lambda>res s'. IsZero res \<longrightarrow>
       router_provisioned spec (statusOf s') \<and> ids_kept (statusOf s) (statusOf s'))
    (\<lambda>e s'. True) s"
proof -
  from assms have res: "service_results (Routers (sc_CloudscaleClient S)) router_ok"
    by (simp add: routers_api_ok_def)
  have rest: "wp (reconcileRouterInterfaces S spec router)
      (\<lambda>res s'. IsZero res \<longrightarrow>
         router_provisioned spec (statusOf s') \<and> ids_kept (statusOf s) (statusOf s'))
      (\<lambda>e s'. True)
      (t\<lparr>st_obj := c\<lparr>cl_Status := setRouterStatus spec (ro_UUID router) (statusOf s)\<rparr>\<rparr>)"
    if "router_ok router" for router t c
  proof -
    from that have id: "ro_UUID router \<noteq> ''''" by (simp add: router_ok_def)
    have kept: "ids_kept (statusOf s) (setRouterStatus spec (ro_UUID router) (statusOf s))"
      by (rule ids_kept_setRouterStatus [OF id])
    show ?thesis
      by (rule wp_mono [OF reconcileRouterInterfaces_provisions [OF assms that _ id]])
        (auto intro: ids_kept_trans [OF kept])
  qed
  show ?thesis
  proof (cases "rt_UUID spec = ''''")
    case True
    then show ?thesis
      unfolding reconcileRouter_def ensureManagedRouter_def
      by (auto simp: wp requeueOnTimeout_def routerRequeueAfter_def split: prod.split sum.split
          intro!: wp_ensureResource_resI [OF res] rest service_resultsD(1) [OF res])
  next
    case False
    then show ?thesis
      unfolding reconcileRouter_def adoptRouter_def
      by (auto simp: wp routerRequeueAfter_def split: prod.split sum.split
          intro!: rest service_resultsD(2) [OF res])
  qed
qed

lemma reconcileRouters_provisions:
  assumes "routers_api_ok (sc_CloudscaleClient S)"
  shows "wp (reconcileRouters S)
    (\<lambda>res s'. IsZero res \<longrightarrow>
       (\<forall>r\<in>set (elems (cs_Routers (specOf s))). router_provisioned r (statusOf s')))
    (\<lambda>e s'. True) s"
proof -
  let ?I = "\<lambda>pre result t. IsZero result \<longrightarrow> (\<forall>r\<in>set pre. router_provisioned r (statusOf t))"
  show ?thesis
    unfolding reconcileRouters_def
    apply (simp add: wp)
    apply (rule wp_goFold_prefix [where I = ?I])
      apply simp
    subgoal for pre x post result t
      apply (simp add: wp)
      apply (rule wp_mono [OF reconcileRouter_provisions [OF assms]])
       apply (simp add: wp)
       apply (metis ids_kept_provisioned)
      apply simp
      done
    subgoal for result t
      by (auto simp: router_provisioned_def has_router_def has_iface_def)
    done
qed

section \<open>Requests of a router reconcile\<close>

definition router_call :: "'w ClusterScope \<Rightarrow> RouterSpec list \<Rightarrow> api_call \<Rightarrow> bool" where
  "router_call S specs c \<longleftrightarrow>
     (case c of
        Get k i \<Rightarrow> k = KRouter
      | List k tags \<Rightarrow> k = KRouter \<and> (\<exists>r\<in>set specs. tags = routerTags S (rt_Name r))
      | Create (NewRouter req) \<Rightarrow>
          (\<exists>r\<in>set specs. rt_UUID r = '''' \<and> rcr_Name req = rt_Name r \<and>
             rcr_InternetGateway req = rt_InternetGateway r \<and> rcr_Tags req = routerTags S (rt_Name r))
      | CreateInterface i req \<Rightarrow>
          (\<exists>r\<in>set specs. \<exists>f\<in>set (elems (rt_Interfaces r)). ri_UUID f = '''' \<and>
             map car_Address (cir_Addresses req) = [ri_Address f])
      | _ \<Rightarrow> False)"

lemma modifyRouterInterfaceStatus_calls: "keeps (emits P) (modifyRouterInterfaceStatus rn nn i m)"
  unfolding modifyRouterInterfaceStatus_def by (intro emits_intros keeps_emits_modify_status)

lemma reconcileRouter_calls:
  "r \<in> set specs \<Longrightarrow> keeps (emits (router_call S specs)) (reconcileRouter S r)"
  unfolding reconcileRouter_def adoptRouter_def ensureManagedRouter_def reconcileRouterInterfaces_def
    reconcileRouterInterface_def adoptRouterInterface_def claimRouterInterface_def
    createRouterInterface_def
  by (intro emits_intros modifyRouterInterfaceStatus_calls keeps_emits_modify_status)
    (auto simp: router_call_def)

lemma reconcileRouters_calls:
  "wp (reconcileRouters S)
     (\<lambda>_ s'. emits (router_call S (elems (cs_Routers (specOf s)))) s s')
     (\<lambda>_ s'. emits (router_call S (elems (cs_Routers (specOf s)))) s s') s"
proof -
  let ?P = "router_call S (elems (cs_Routers (specOf s)))"
  have loop: "keeps (emits ?P) (goFold
       (\<lambda>result routerSpec.
          goBind (goWrap (fmt_Errorw ''reconciling router %q: %w'' [FS (rt_Name routerSpec)])
                    (reconcileRouter S routerSpec))
            (\<lambda>res. goReturn
               (if \<not> IsZero res \<and> (IsZero result \<or> RequeueAfter res < RequeueAfter result)
                then res else result)))
       zeroResult (elems (cs_Routers (specOf s))))"
    by (intro emits_intros reconcileRouter_calls)
  show ?thesis
    unfolding reconcileRouters_def
    using wp_keeps [OF loop, of s]
    by (auto simp: wp emits_def elim!: wp_mono)
qed

section \<open>Deletion\<close>

text \<open>
  The requests a deletion may send for the recorded routers: a router is deleted only if the
  provider created it, and an interface is detached only for a recorded interface the provider
  created, by its recorded id when there is one.
\<close>

definition delete_router_call :: "RouterStatus list \<Rightarrow> api_call \<Rightarrow> bool" where
  "delete_router_call rss c \<longleftrightarrow>
     (\<exists>r\<in>set rss. rs_RouterID r \<noteq> '''' \<and>
        (c = Get KRouter (rs_RouterID r) \<or>
         c = Delete KRouter (rs_RouterID r) \<and> rs_Managed r \<or>
         (\<exists>f\<in>set (rs_Interfaces r). \<exists>i. ris_Managed f \<and>
            (ris_InterfaceID f \<noteq> '''' \<longrightarrow> i = ris_InterfaceID f) \<and>
            c = DeleteInterface (rs_RouterID r) i)))"

lemma deleteRouterInterfaces_calls:
  "r \<in> set rss \<Longrightarrow> rs_RouterID r \<noteq> '''' \<Longrightarrow>
     keeps (emits (delete_router_call rss)) (deleteRouterInterfaces S r)"
  unfolding deleteRouterInterfaces_def
  by (intro emits_intros) (auto simp: delete_router_call_def)

lemma deleteRouterInterfaces_spec:
  "wp (deleteRouterInterfaces S rs)
     (\<lambda>(errs, rs') s'. rs_Name rs' = rs_Name rs \<and> rs_RouterID rs' = rs_RouterID rs \<and>
        rs_Managed rs' = rs_Managed rs \<and> (errs = [] \<longrightarrow> \<not> hasManagedInterface rs'))
     (\<lambda>_ _. False) s"
proof -
  let ?I = "\<lambda>acc t. snd acc = [] \<longrightarrow> list_all (\<lambda>f. \<not> ris_Managed f) (fst acc)"
  show ?thesis
    unfolding deleteRouterInterfaces_def
    apply (simp add: wp hasManagedInterface_def split: prod.split sum.split)
    apply (intro impI allI)
    apply (rule wp_goFold [where I = ?I])
      apply simp
    subgoal for w router f acc t
      by (cases acc) (auto simp: wp split: prod.split sum.split option.split)
    apply (auto simp: wp list_all_iff list_ex_iff hasManagedInterface_def split: prod.split)
    done
qed

text \<open>The status entries after the deletion loop has passed the routers \<open>pre\<close>.\<close>

definition kept_names :: "RouterStatus list \<Rightarrow> string list" where
  "kept_names rs = map rs_Name (filter (\<lambda>r. rs_RouterID r \<noteq> '''' \<and> \<not> rs_Managed r) rs)"

definition del_progress :: "RouterStatus list \<Rightarrow> RouterStatus list \<times> go_error list \<Rightarrow> bool" where
  "del_progress pre acc \<longleftrightarrow>
     set (kept_names pre) \<subseteq> set (map rs_Name (fst acc)) \<and>
     (snd acc = [] \<longrightarrow> map rs_Name (fst acc) = kept_names pre \<and>
        (\<forall>r\<in>set (fst acc). \<not> rs_Managed r \<and> \<not> hasManagedInterface r))"

lemma del_progress_start: "del_progress [] ([], [])"
  by (simp add: del_progress_def kept_names_def)

lemma del_progress_gone:
  "del_progress pre acc \<Longrightarrow> rs_RouterID r = '''' \<or> rs_Managed r \<Longrightarrow> del_progress (pre @ [r]) acc"
  by (auto simp: del_progress_def kept_names_def)

lemma del_progress_err:
  "del_progress pre (rem, errs) \<Longrightarrow> es \<noteq> [] \<Longrightarrow> rs_Name r' = rs_Name r \<Longrightarrow>
     del_progress (pre @ [r]) (rem @ [r'], errs @ es)"
  by (auto simp: del_progress_def kept_names_def)

lemma del_progress_keep:
  "del_progress pre (rem, errs) \<Longrightarrow> rs_Name r' = rs_Name r \<Longrightarrow> rs_RouterID r \<noteq> '''' \<Longrightarrow>
     rs_Managed r' = rs_Managed r \<Longrightarrow> \<not> rs_Managed r \<Longrightarrow> \<not> hasManagedInterface r' \<Longrightarrow>
     del_progress (pre @ [r]) (rem @ [r'], errs)"
  by (auto simp: del_progress_def kept_names_def)

lemma deleteRouters_spec:
  "wp (deleteRouters S)
     (\<lambda>_ s'. (\<forall>r\<in>set (cst_Routers (statusOf s')). \<not> rs_Managed r \<and> \<not> hasManagedInterface r) \<and>
        map rs_Name (cst_Routers (statusOf s')) = kept_names (cst_Routers (statusOf s)) \<and>
        emits (delete_router_call (cst_Routers (statusOf s))) s s')
     (\<lambda>e s'. (\<exists>errs. e = JoinError errs \<and> errs \<noteq> []) \<and>
        set (kept_names (cst_Routers (statusOf s))) \<subseteq> set (map rs_Name (cst_Routers (statusOf s'))) \<and>
        emits (delete_router_call (cst_Routers (statusOf s))) s s') s"
proof -
  define P where "P = delete_router_call (cst_Routers (statusOf s))"
  let ?I = "\<lambda>pre acc t. emits P s t \<and> del_progress pre acc"
  have ifaces: "wp (deleteRouterInterfaces S r)
      (\<lambda>(errs, r') s'. emits P s s' \<and> rs_Name r' = rs_Name r \<and> rs_RouterID r' = rs_RouterID r \<and>
         rs_Managed r' = rs_Managed r \<and> (errs = [] \<longrightarrow> \<not> hasManagedInterface r'))
      (\<lambda>_ _. False) t"
    if "emits P s t" and "r \<in> set (cst_Routers (statusOf s))" and "rs_RouterID r \<noteq> ''''" for r t
    unfolding P_def
    by (rule wp_mono [OF wp_conj [OF deleteRouterInterfaces_spec
            wp_keeps [OF deleteRouterInterfaces_calls [OF that(2,3), of S], of t]]])
      (use that(1) in \<open>auto simp: P_def intro: emits.frame_trans\<close>)
  have del: "P (Delete KRouter (rs_RouterID r))"
    if "r \<in> set (cst_Routers (statusOf s))" and "rs_RouterID r \<noteq> ''''" and "rs_Managed r" for r
    using that by (auto simp: delete_router_call_def P_def)
  have "wp (deleteRouters S)
     (\<lambda>_ s'. (\<forall>r\<in>set (cst_Routers (statusOf s')). \<not> rs_Managed r \<and> \<not> hasManagedInterface r) \<and>
        map rs_Name (cst_Routers (statusOf s')) = kept_names (cst_Routers (statusOf s)) \<and> emits P s s')
     (\<lambda>e s'. (\<exists>errs. e = JoinError errs \<and> errs \<noteq> []) \<and>
        set (kept_names (cst_Routers (statusOf s))) \<subseteq> set (map rs_Name (cst_Routers (statusOf s'))) \<and>
        emits P s s') s"
    unfolding deleteRouters_def
    apply (simp add: wp)
    apply (rule wp_goFold_prefix [where I = ?I])
      apply (simp add: emits.frame_refl del_progress_start)
    subgoal for pre r post acc t
      using ifaces [of t r] del [of r]
      apply (cases acc; cases "rs_RouterID r = ''''")
       apply (simp add: wp del_progress_gone)
      apply (simp add: wp)
      apply (erule wp_mono)
       apply (auto simp: wp emits_after del_progress_gone del_progress_err del_progress_keep
          split: prod.split sum.split)
      done
    subgoal for acc t
      by (cases acc) (auto simp: wp errors_Join_def del_progress_def)
    done
  then show ?thesis unfolding P_def .
qed

section \<open>Conditions\<close>

lemma reconcileRouters_condition:
  assumes "scope_ok S"
  shows "wp (reconcileRouters S)
    (\<lambda>res s'. condTrue S s' RouterReadyCondition \<longleftrightarrow> IsZero res)
    (\<lambda>e s'. cond S s' RouterReadyCondition =
       Some \<lparr>co_Type = RouterReadyCondition, co_Status = ConditionFalse, co_Reason = RouterErrorReason,
             co_Message = error_text e\<rparr>) s"
  unfolding reconcileRouters_def wp_goDefer
  by (rule wp_trivI) (use assms in \<open>simp_all add: condTrue_iff\<close>)

section \<open>Interrupted attachments\<close>

text \<open>
  An attachment is recorded before it is requested. When the request fails or times out the
  entry stays, marked as created by the provider and without an id.
\<close>

definition placeholder :: "CloudscaleClusterStatus \<Rightarrow> string \<Rightarrow> string \<Rightarrow> bool" where
  "placeholder st rn nn \<longleftrightarrow>
     (\<exists>rs f. GetRouterStatus st rn = Some rs \<and> GetInterfaceStatus rs nn = Some f \<and>
        ris_InterfaceID f = '''' \<and> ris_Managed f)"

lemma setRouterInterfaceStatus_placeholder:
  assumes "router_id st rn = Some i"
  shows "placeholder (fst (setRouterInterfaceStatus rn nn '''' True st)) rn nn"
proof -
  from assms obtain rs where rs: "GetRouterStatus st rn = Some rs" by (auto simp: router_id_def)
  obtain x where x: "find (\<lambda>x. ris_Network x = nn)
      (upsert ris_Network updInterfaceStatus newInterfaceStatus nn ('''', True) (rs_Interfaces rs)) = Some x"
    "interface_stored ('''', True) x"
    using ifaces.find_put_same by blast
  from rs x show ?thesis
    by (auto simp: placeholder_def setRouterInterfaceStatus_def GetRouterStatus_update_first
        GetInterfaceStatus_def split: option.split)
qed

lemma createRouterInterface_placeholder:
  assumes "router_id (statusOf s) (rt_Name spec) = Some i"
  shows "wp (createRouterInterface S spec router ispec ns)
    (\<lambda>res s'. \<not> IsZero res \<longrightarrow> placeholder (statusOf s') (rt_Name spec) (ns_Name ns))
    (\<lambda>e s'. placeholder (statusOf s') (rt_Name spec) (ns_Name ns)) s"
  unfolding createRouterInterface_def
  using setRouterInterfaceStatus_placeholder [OF assms]
  by (auto simp: wp requeueOnTimeout_def split: prod.split sum.split)

lemma claimRouterInterface_placeholder:
  assumes "placeholder (statusOf s) (rt_Name spec) (ns_Name ns)"
    and "GetRouterStatus (statusOf s) (rt_Name spec) = Some rs"
  shows "wp (claimRouterInterface spec rs ispec ns live)
    (\<lambda>_ s'. iface_id (statusOf s') (rt_Name spec) (ns_Name ns) = Some (rif_UUID live)) (\<lambda>_ _. False) s"
  using assms
  unfolding claimRouterInterface_def
  by (auto simp: wp placeholder_def router_id_def)

lemma claimRouterInterface_refuses:
  assumes "GetInterfaceStatus rs (ns_Name ns) = None" and "\<not> rs_Managed rs"
  shows "\<exists>e. claimRouterInterface spec rs ispec ns live s = (Inl e, s)"
  using assms unfolding claimRouterInterface_def by (simp add: goError_def)

end
