(* ===== verification/Netip.thy ===== *)
theory Netip
  imports Go_Prelude "HOL-Library.Word"
begin

text \<open>
  The address functions of Go's standard library that the provider uses: \<^verbatim>\<open>netip.ParseAddr\<close>,
  \<^verbatim>\<open>netip.ParsePrefix\<close> and \<^verbatim>\<open>Prefix.Contains\<close> in the webhooks, \<^verbatim>\<open>net.ParseIP\<close>, \<^verbatim>\<open>net.ParseCIDR\<close> and
  \<^verbatim>\<open>IPNet.Contains\<close> in the load-balancer reconcile. Addresses are words of 32 and 128 bits, the
  parsers follow the library's scanning loops, and the two notions of containment are both shown
  to compare the leading bits.
\<close>

unbundle bit_operations_syntax

section \<open>netip.Addr\<close>

text \<open>An IPv6 address carries its zone; an IPv4-mapped one is still an IPv6 address.\<close>

datatype Addr = Addr4 "32 word" | Addr6 "128 word" string

definition digit_val :: "char \<Rightarrow> int option" where
  "digit_val c = (let n = of_char c in if 48 \<le> n \<and> n \<le> 57 then Some (n - 48) else None)"

definition hex_val :: "char \<Rightarrow> int option" where
  "hex_val c =
     (let n = of_char c in
      if 48 \<le> n \<and> n \<le> 57 then Some (n - 48)
      else if 97 \<le> n \<and> n \<le> 102 then Some (n - 87)
      else if 65 \<le> n \<and> n \<le> 70 then Some (n - 55)
      else None)"

text \<open>\<^verbatim>\<open>parseAddrError.Error\<close>: the input, the message and the rest where parsing stopped.\<close>

definition parseAddrError :: "string \<Rightarrow> string \<Rightarrow> string \<Rightarrow> go_error" where
  "parseAddrError inp msg at =
     ErrorString
       (if at \<noteq> '''' then
          ''ParseAddr('' @ strconv_Quote inp @ ''): '' @ msg @ '' (at '' @ strconv_Quote at @ '')''
        else ''ParseAddr('' @ strconv_Quote inp @ ''): '' @ msg)"

text \<open>
  \<^verbatim>\<open>parseIPv4Fields\<close>, one character at a time: \<open>prev\<close> is the character before (if any), \<open>val\<close> and
  \<open>digLen\<close> the octet being read, \<open>fields\<close> the octets before it.
\<close>

fun parseIPv4Fields ::
  "string \<Rightarrow> char option \<Rightarrow> int \<Rightarrow> nat \<Rightarrow> int list \<Rightarrow> string \<Rightarrow> go_error + int list" where
  "parseIPv4Fields inp prev val digLen fields [] =
     (if length fields < 3 then Inl (parseAddrError inp ''IPv4 address too short'' '''')
      else Inr (fields @ [val]))"
| "parseIPv4Fields inp prev val digLen fields (c # cs) =
     (case digit_val c of
        Some d \<Rightarrow>
          if digLen = 1 \<and> val = 0
          then Inl (parseAddrError inp ''IPv4 field has octet with leading zero'' '''')
          else if val * 10 + d > 255
          then Inl (parseAddrError inp ''IPv4 field has value >255'' '''')
          else parseIPv4Fields inp (Some c) (val * 10 + d) (digLen + 1) fields cs
      | None \<Rightarrow>
          if c = CHR ''.'' then
            if prev = None \<or> cs = [] \<or> prev = Some (CHR ''.'')
            then Inl (parseAddrError inp ''IPv4 field must have at least one digit'' (c # cs))
            else if length fields = 3 then Inl (parseAddrError inp ''IPv4 address too long'' '''')
            else parseIPv4Fields inp (Some c) 0 0 (fields @ [val]) cs
          else Inl (parseAddrError inp ''unexpected character'' (c # cs)))"

definition octets_word :: "int list \<Rightarrow> 'a::len word" where
  "octets_word bs = fold (\<lambda>b w. push_bit 8 w OR of_int b) bs 0"

definition parseIPv4 :: "string \<Rightarrow> go_error + Addr" where
  "parseIPv4 s =
     (case parseIPv4Fields s None 0 0 [] s of
        Inl e \<Rightarrow> Inl e
      | Inr fields \<Rightarrow> Inr (Addr4 (octets_word fields)))"

text \<open>The hexadecimal group at the front of \<open>s\<close>: its value, its length, and what follows.\<close>

fun scanHex :: "string \<Rightarrow> string \<Rightarrow> int \<Rightarrow> nat \<Rightarrow> string \<Rightarrow> go_error + int \<times> nat \<times> string" where
  "scanHex inp at acc off [] = Inr (acc, off, [])"
| "scanHex inp at acc off (c # cs) =
     (case hex_val c of
        None \<Rightarrow> Inr (acc, off, c # cs)
      | Some v \<Rightarrow>
          if off > 3 then Inl (parseAddrError inp ''each group must have 4 or fewer digits'' at)
          else if acc * 16 + v > 65535
          then Inl (parseAddrError inp ''IPv6 field has value >=2^16'' at)
          else scanHex inp at (acc * 16 + v) (off + 1) cs)"

text \<open>
  The loop of \<^verbatim>\<open>parseIPv6\<close>. The first argument counts the 16-bit groups that still fit, so it is
  the loop guard \<^verbatim>\<open>i < 16\<close>; \<open>ip\<close> holds the bytes read and \<open>ellipsis\<close> the position of \<^verbatim>\<open>::\<close>. The
  result is the rest of the string with the bytes and the ellipsis.
\<close>

fun parseIPv6Groups ::
  "nat \<Rightarrow> string \<Rightarrow> int list \<Rightarrow> nat option \<Rightarrow> string \<Rightarrow> go_error + string \<times> int list \<times> nat option" where
  "parseIPv6Groups 0 inp ip ellipsis s = Inr (s, ip, ellipsis)"
| "parseIPv6Groups (Suc n) inp ip ellipsis s =
     (case scanHex inp s 0 0 s of
        Inl e \<Rightarrow> Inl e
      | Inr (acc, off, rest) \<Rightarrow>
          if off = 0
          then Inl (parseAddrError inp ''each colon-separated field must have at least one digit'' s)
          else if rest \<noteq> [] \<and> hd rest = CHR ''.'' then
            if ellipsis = None \<and> length ip \<noteq> 12
            then Inl (parseAddrError inp
                        ''embedded IPv4 address must replace the final 2 fields of the address'' s)
            else if length ip + 4 > 16
            then Inl (parseAddrError inp
                        ''too many hex fields to fit an embedded IPv4 at the end of the address'' s)
            else
              (case parseIPv4Fields inp None 0 0 [] s of
                 Inl e \<Rightarrow> Inl e
               | Inr fields \<Rightarrow> Inr ([], ip @ fields, ellipsis))
          else
            let ip' = ip @ [acc div 256, acc mod 256] in
            (case rest of
               [] \<Rightarrow> Inr ([], ip', ellipsis)
             | c # cs \<Rightarrow>
                 if c \<noteq> CHR '':''
                 then Inl (parseAddrError inp ''unexpected character, want colon'' rest)
                 else if cs = []
                 then Inl (parseAddrError inp ''colon must be followed by more characters'' rest)
                 else if hd cs = CHR '':'' then
                   if ellipsis \<noteq> None then Inl (parseAddrError inp ''multiple :: in address'' cs)
                   else if tl cs = [] then Inr ([], ip', Some (length ip'))
                   else parseIPv6Groups n inp ip' (Some (length ip')) (tl cs)
                 else parseIPv6Groups n inp ip' ellipsis cs))"

definition span_byte :: "char \<Rightarrow> string \<Rightarrow> string \<times> string option" where
  "span_byte c s =
     (if c \<in> set s then (takeWhile (\<lambda>x. x \<noteq> c) s, Some (tl (dropWhile (\<lambda>x. x \<noteq> c) s)))
      else (s, None))"

definition expandEllipsis :: "int list \<Rightarrow> nat \<Rightarrow> int list" where
  "expandEllipsis ip e = take e ip @ replicate (16 - length ip) 0 @ drop e ip"

definition parseIPv6 :: "string \<Rightarrow> go_error + Addr" where
  "parseIPv6 inp =
     (case span_byte (CHR ''%'') inp of
        (s, zone') \<Rightarrow>
          if zone' = Some '''' then Inl (parseAddrError inp ''zone must be a non-empty string'' '''')
          else
            let zone = (case zone' of None \<Rightarrow> '''' | Some z \<Rightarrow> z);
                lead = (take 2 s = ''::'');
                s' = (if lead then drop 2 s else s)
            in
            if lead \<and> s' = '''' then Inr (Addr6 0 zone)
            else
              (case parseIPv6Groups 8 inp [] (if lead then Some 0 else None) s' of
                 Inl e \<Rightarrow> Inl e
               | Inr (rest, ip, ellipsis) \<Rightarrow>
                   if rest \<noteq> '''' then Inl (parseAddrError inp ''trailing garbage after address'' rest)
                   else if length ip < 16 then
                     (case ellipsis of
                        None \<Rightarrow> Inl (parseAddrError inp ''address string too short'' '''')
                      | Some e \<Rightarrow> Inr (Addr6 (octets_word (expandEllipsis ip e)) zone))
                   else if ellipsis \<noteq> None
                   then Inl (parseAddrError inp
                               ''the :: must expand to at least one field of zeros'' '''')
                   else Inr (Addr6 (octets_word ip) zone)))"

definition netip_ParseAddr :: "string \<Rightarrow> go_error + Addr" where
  "netip_ParseAddr s =
     (case find (\<lambda>c. c = CHR ''.'' \<or> c = CHR '':'' \<or> c = CHR ''%'') s of
        None \<Rightarrow> Inl (parseAddrError s ''unable to parse IP'' '''')
      | Some c \<Rightarrow>
          if c = CHR ''.'' then parseIPv4 s
          else if c = CHR '':'' then parseIPv6 s
          else Inl (parseAddrError s ''missing IPv6 address'' ''''))"

section \<open>netip.Prefix\<close>

datatype Prefix = Prefix Addr nat

definition parsePrefixError :: "string \<Rightarrow> string \<Rightarrow> go_error" where
  "parsePrefixError inp msg =
     ErrorString (''netip.ParsePrefix('' @ strconv_Quote inp @ ''): '' @ msg)"

text \<open>\<^verbatim>\<open>strconv.Atoi\<close> on a string without a sign.\<close>

fun digits_val :: "int \<Rightarrow> string \<Rightarrow> int option" where
  "digits_val acc [] = Some acc"
| "digits_val acc (c # cs) =
     (case digit_val c of None \<Rightarrow> None | Some d \<Rightarrow> digits_val (acc * 10 + d) cs)"

definition unsigned_Atoi :: "string \<Rightarrow> int option" where
  "unsigned_Atoi s =
     (if s = '''' then None
      else case digits_val 0 s of
             Some n \<Rightarrow> if n < 2 ^ 63 then Some n else None
           | None \<Rightarrow> None)"

definition split_last :: "char \<Rightarrow> string \<Rightarrow> (string \<times> string) option" where
  "split_last c s =
     (if c \<in> set s then
        Some (rev (tl (dropWhile (\<lambda>x. x \<noteq> c) (rev s))), rev (takeWhile (\<lambda>x. x \<noteq> c) (rev s)))
      else None)"

definition addr_bits :: "Addr \<Rightarrow> nat" where
  "addr_bits a = (case a of Addr4 _ \<Rightarrow> 32 | Addr6 _ _ \<Rightarrow> 128)"

definition addr_zone :: "Addr \<Rightarrow> string" where
  "addr_zone a = (case a of Addr4 _ \<Rightarrow> '''' | Addr6 _ z \<Rightarrow> z)"

definition netip_ParsePrefix :: "string \<Rightarrow> go_error + Prefix" where
  "netip_ParsePrefix s =
     (case split_last (CHR ''/'') s of
        None \<Rightarrow> Inl (parsePrefixError s (''no '/'' @ [CHR 0x27]))
      | Some (addr, bitsStr) \<Rightarrow>
          (case netip_ParseAddr addr of
             Inl err \<Rightarrow> Inl (parsePrefixError s (error_text err))
           | Inr ip \<Rightarrow>
               if addr_zone ip \<noteq> ''''
               then Inl (parsePrefixError s ''IPv6 zones cannot be present in a prefix'')
               else if length bitsStr > 1 \<and> \<not> (49 \<le> (of_char (hd bitsStr) :: int) \<and> (of_char (hd bitsStr) :: int) \<le> 57)
               then Inl (parsePrefixError s (''bad bits after slash: '' @ strconv_Quote bitsStr))
               else
                 (case unsigned_Atoi bitsStr of
                    None \<Rightarrow> Inl (parsePrefixError s (''bad bits after slash: '' @ strconv_Quote bitsStr))
                  | Some bits \<Rightarrow>
                      if bits > int (addr_bits ip)
                      then Inl (parsePrefixError s ''prefix length out of range'')
                      else Inr (Prefix ip (nat bits)))))"

text \<open>\<^verbatim>\<open>mask6(n)\<close>: the \<open>n\<close> leading bits.\<close>

definition leading_mask :: "nat \<Rightarrow> 'a::len word" where
  "leading_mask n = NOT (mask (LENGTH('a) - n))"

definition Prefix_Contains :: "Prefix \<Rightarrow> Addr \<Rightarrow> bool" where
  "Prefix_Contains p ip =
     (case p of Prefix base bits \<Rightarrow>
        (case (base, ip) of
           (Addr4 b, Addr4 a) \<Rightarrow> drop_bit (32 - bits) (a XOR b) = 0
         | (Addr6 b _, Addr6 a z) \<Rightarrow> z = '''' \<and> (a XOR b) AND leading_mask bits = 0
         | _ \<Rightarrow> False))"

section \<open>net.IP and net.IPNet\<close>

text \<open>A parsed \<^verbatim>\<open>net.IP\<close> has 16 bytes; IPv4 addresses are mapped into IPv6.\<close>

definition As16 :: "Addr \<Rightarrow> 128 word" where
  "As16 a = (case a of Addr4 w \<Rightarrow> push_bit 32 0xFFFF OR ucast w | Addr6 w _ \<Rightarrow> w)"

definition To4 :: "128 word \<Rightarrow> 32 word option" where
  "To4 ip = (if drop_bit 32 ip = 0xFFFF then Some (ucast ip) else None)"

definition net_ParseIP :: "string \<Rightarrow> 128 word option" where
  "net_ParseIP s =
     (case netip_ParseAddr s of
        Inl _ \<Rightarrow> None
      | Inr ip \<Rightarrow> if addr_zone ip \<noteq> '''' then None else Some (As16 ip))"

text \<open>Network number and mask, both of 4 or both of 16 bytes.\<close>

datatype IPNet = IPNet4 "32 word" "32 word" | IPNet6 "128 word" "128 word"

text \<open>\<^verbatim>\<open>dtoi\<close>: the decimal number at the front of \<open>s\<close> (below \<^verbatim>\<open>0xFFFFFF\<close>); the whole of \<open>s\<close> must be it.\<close>

definition dtoi :: "string \<Rightarrow> int option" where
  "dtoi s =
     (if s = '''' then None
      else case digits_val 0 s of Some n \<Rightarrow> if n < 0xFFFFFF then Some n else None | None \<Rightarrow> None)"

definition net_ParseCIDR :: "string \<Rightarrow> go_error + 128 word \<times> IPNet" where
  "net_ParseCIDR s =
     (let err = ErrorString (''invalid CIDR address: '' @ s) in
      case span_byte (CHR ''/'') s of
        (_, None) \<Rightarrow> Inl err
      | (addr, Some m) \<Rightarrow>
          (case netip_ParseAddr addr of
             Inl _ \<Rightarrow> Inl err
           | Inr ip \<Rightarrow>
               if addr_zone ip \<noteq> '''' then Inl err
               else
                 (case dtoi m of
                    None \<Rightarrow> Inl err
                  | Some n \<Rightarrow>
                      if n > int (addr_bits ip) then Inl err
                      else Inr (As16 ip,
                             (case ip of
                                Addr4 a \<Rightarrow> IPNet4 (a AND leading_mask (nat n)) (leading_mask (nat n))
                              | Addr6 a _ \<Rightarrow> IPNet6 (a AND leading_mask (nat n)) (leading_mask (nat n)))))))"

definition IPNet_Contains :: "IPNet \<Rightarrow> 128 word \<Rightarrow> bool" where
  "IPNet_Contains n ip =
     (let nm = (case n of
                  IPNet4 nn m \<Rightarrow> IPNet4 nn m
                | IPNet6 nn m \<Rightarrow>
                    (case To4 nn of Some nn4 \<Rightarrow> IPNet4 nn4 (ucast m) | None \<Rightarrow> IPNet6 nn m))
      in
      case (nm, To4 ip) of
        (IPNet4 nn m, Some x) \<Rightarrow> nn AND m = x AND m
      | (IPNet6 nn m, None) \<Rightarrow> nn AND m = ip AND m
      | _ \<Rightarrow> False)"

section \<open>Containment compares the leading bits\<close>

lemma bit_leading_mask:
  "bit (w AND leading_mask n :: 'a::len word) i \<longleftrightarrow> bit w i \<and> LENGTH('a) - n \<le> i"
  unfolding leading_mask_def
  by (auto simp: bit_and_iff bit_not_iff bit_mask_iff dest: bit_imp_le_length)

lemma and_leading_mask_eq_iff:
  "v AND leading_mask n = w AND leading_mask n \<longleftrightarrow>
     drop_bit (LENGTH('a) - n) v = drop_bit (LENGTH('a) - n) (w :: 'a::len word)"
  (is "?lhs \<longleftrightarrow> ?rhs")
proof
  assume ?lhs
  then have "bit v i = bit w i" if "LENGTH('a) - n \<le> i" for i
    using that bit_leading_mask [of v n i] bit_leading_mask [of w n i] by simp
  then show ?rhs by (intro bit_eqI) (simp add: bit_drop_bit_eq)
next
  assume r: ?rhs
  have "bit v i = bit w i" if "LENGTH('a) - n \<le> i" for i
    using arg_cong [OF r, where f = "\<lambda>x. bit x (i - (LENGTH('a) - n))"] that
    by (simp add: bit_drop_bit_eq)
  then show ?lhs by (intro bit_eqI) (auto simp: bit_leading_mask)
qed

lemma word_xor_zero_iff: "v XOR w = 0 \<longleftrightarrow> v = (w :: 'a::len word)"
  by (auto simp: bit_eq_iff bit_xor_iff)

lemma xor_leading_mask_iff:
  "(v XOR w) AND leading_mask n = 0 \<longleftrightarrow>
     drop_bit (LENGTH('a) - n) v = drop_bit (LENGTH('a) - n) (w :: 'a::len word)"
proof -
  have "(v XOR w) AND leading_mask n = (v AND leading_mask n) XOR (w AND leading_mask n)"
    by (rule bit_eqI) (auto simp: bit_and_iff bit_xor_iff)
  then show ?thesis by (simp add: and_leading_mask_eq_iff [symmetric] word_xor_zero_iff)
qed

lemma drop_bit_xor_zero_iff:
  "drop_bit k (v XOR w) = 0 \<longleftrightarrow> drop_bit k v = drop_bit k (w :: 'a::len word)"
  by (simp add: drop_bit_xor word_xor_zero_iff)

text \<open>Leading bits as numbers: the quotient by the size of the network.\<close>

lemma drop_bit_eq_iff_div:
  "drop_bit k v = drop_bit k (w :: 'a::len word) \<longleftrightarrow> unat v div 2 ^ k = unat w div 2 ^ k"
  by (simp only: word_unat_eq_iff unat_drop_bit_eq) (simp only: drop_bit_eq_div)

lemma Prefix_Contains4:
  "Prefix_Contains (Prefix (Addr4 b) n) (Addr4 a) \<longleftrightarrow>
     unat a div 2 ^ (32 - n) = unat b div 2 ^ (32 - n)"
  unfolding Prefix_Contains_def
  by (simp only: Prefix.case Addr.case prod.case drop_bit_xor_zero_iff drop_bit_eq_iff_div)

lemma Prefix_Contains6:
  "Prefix_Contains (Prefix (Addr6 b z) n) (Addr6 a '''') \<longleftrightarrow>
     unat a div 2 ^ (128 - n) = unat b div 2 ^ (128 - n)"
  by (simp add: Prefix_Contains_def xor_leading_mask_iff drop_bit_eq_iff_div)

lemma Prefix_Contains_family:
  "Prefix_Contains (Prefix ip n) a \<Longrightarrow> addr_bits a = addr_bits ip \<and> addr_zone a = ''''"
  by (auto simp: Prefix_Contains_def addr_bits_def addr_zone_def split: Addr.splits)

lemma To4_As16 [simp]: "To4 (As16 (Addr4 a)) = Some a"
proof -
  have "drop_bit 32 (push_bit 32 0xFFFF OR ucast a :: 128 word) = 0xFFFF"
    by (rule bit_eqI) (auto simp: bit_drop_bit_eq bit_or_iff bit_push_bit_iff bit_ucast_iff
        dest: bit_imp_le_length)
  moreover have "ucast (push_bit 32 x OR ucast a :: 128 word) = a" for x
    by (rule bit_eqI) (auto simp: bit_or_iff bit_push_bit_iff bit_ucast_iff dest: bit_imp_le_length)
  ultimately show ?thesis unfolding To4_def As16_def by (simp only: Addr.case simp_thms if_True)
qed

text \<open>The network that \<^const>\<open>net_ParseCIDR\<close> builds from an address and a prefix length.\<close>

definition ipnet_of :: "Addr \<Rightarrow> nat \<Rightarrow> IPNet" where
  "ipnet_of ip n =
     (case ip of
        Addr4 a \<Rightarrow> IPNet4 (a AND leading_mask n) (leading_mask n)
      | Addr6 a _ \<Rightarrow> IPNet6 (a AND leading_mask n) (leading_mask n))"

lemma IPNet_Contains4:
  "IPNet_Contains (ipnet_of (Addr4 b) n) (As16 (Addr4 a)) \<longleftrightarrow>
     unat a div 2 ^ (32 - n) = unat b div 2 ^ (32 - n)"
proof -
  have "IPNet_Contains (ipnet_of (Addr4 b) n) (As16 (Addr4 a)) \<longleftrightarrow>
      b AND leading_mask n = a AND leading_mask n"
    by (simp add: IPNet_Contains_def ipnet_of_def and.assoc)
  then show ?thesis by (simp add: and_leading_mask_eq_iff drop_bit_eq_iff_div eq_commute)
qed

section \<open>Every prefix the webhooks accept is a CIDR the controller parses\<close>

definition addr_char :: "char \<Rightarrow> bool" where
  "addr_char c \<longleftrightarrow> hex_val c \<noteq> None \<or> c = CHR ''.'' \<or> c = CHR '':''"

lemma digit_addr_char: "digit_val c = Some d \<Longrightarrow> addr_char c"
  by (simp add: addr_char_def digit_val_def hex_val_def Let_def split: if_splits)

lemma hex_addr_char: "hex_val c = Some v \<Longrightarrow> addr_char c"
  by (simp add: addr_char_def)

lemma punct_addr_char: "addr_char (CHR ''.'')" "addr_char (CHR '':'')"
  by (simp_all add: addr_char_def)

lemma parseIPv4Fields_chars:
  "parseIPv4Fields inp prev val n fields s = Inr r \<Longrightarrow> list_all addr_char s"
  by (induction inp prev val n fields s rule: parseIPv4Fields.induct)
    (auto split: option.splits if_splits simp: digit_addr_char punct_addr_char)

lemma scanHex_chars:
  "scanHex inp at acc off s = Inr (acc', off', rest) \<Longrightarrow>
     \<exists>hex. s = hex @ rest \<and> list_all addr_char hex"
proof (induction inp at acc off s rule: scanHex.induct)
  case (1 inp at acc off)
  then show ?case by simp
next
  case (2 inp at acc off c cs)
  show ?case
  proof (cases "hex_val c")
    case None
    with 2 show ?thesis by simp
  next
    case (Some v)
    with 2 obtain hex where "cs = hex @ rest" "list_all addr_char hex"
      by (auto split: if_splits)
    with Some show ?thesis by (intro exI [of _ "c # hex"]) (simp add: hex_addr_char)
  qed
qed

lemma parseIPv6Groups_chars:
  "parseIPv6Groups n inp ip el s = Inr ([], ip', el') \<Longrightarrow> list_all addr_char s"
proof (induction n inp ip el s rule: parseIPv6Groups.induct)
  case (1 inp ip el s)
  then show ?case by simp
next
  case (2 n inp ip el s)
  from 2(3) obtain acc off rest where sc: "scanHex inp s 0 0 s = Inr (acc, off, rest)"
    by (auto split: sum.splits)
  from scanHex_chars [OF this] obtain hex where s: "s = hex @ rest" "list_all addr_char hex" by blast
  show ?case
  proof (cases "rest \<noteq> [] \<and> hd rest = CHR ''.''")
    case True
    with 2(3) sc show ?thesis
      by (auto split: if_splits sum.splits dest: parseIPv4Fields_chars)
  next
    case False
    with 2 sc s punct_addr_char(2) show ?thesis
      by (cases rest; cases "tl rest") (auto simp: Let_def split: if_splits)
  qed
qed

lemma netip_ParseAddr_chars:
  assumes "netip_ParseAddr s = Inr ip" and "addr_zone ip = ''''"
  shows "list_all addr_char s"
proof -
  have v4: "list_all addr_char s" if "parseIPv4 s = Inr ip"
    using that by (auto simp: parseIPv4_def split: sum.splits dest: parseIPv4Fields_chars)
  have v6: "list_all addr_char s" if p6: "parseIPv6 s = Inr ip"
  proof -
    obtain t zone where sp: "span_byte (CHR ''%'') s = (t, zone)" by (cases "span_byte (CHR ''%'') s")
    have "zone = None"
      using p6 assms(2) sp
      by (auto simp: parseIPv6_def addr_zone_def Let_def split: if_splits sum.splits option.splits)
    with sp have t: "t = s" by (auto simp: span_byte_def split: if_splits)
    have lead: "s = ''::'' @ drop 2 s" if "take 2 s = ''::''" using that by (metis append_take_drop_id)
    have "drop 2 s = [] \<or> (\<exists>ip' el'. parseIPv6Groups 8 s [] (Some 0) (drop 2 s) = Inr ([], ip', el'))"
      if "take 2 s = ''::''"
      using p6 sp \<open>zone = None\<close> t that
      by (auto simp: parseIPv6_def Let_def split: if_splits sum.splits)
    moreover have "\<exists>ip' el'. parseIPv6Groups 8 s [] None s = Inr ([], ip', el')"
      if "take 2 s \<noteq> ''::''"
      using p6 sp \<open>zone = None\<close> t that
      by (auto simp: parseIPv6_def Let_def split: if_splits sum.splits)
    ultimately have "list_all addr_char (if take 2 s = ''::'' then drop 2 s else s)"
      by (auto dest: parseIPv6Groups_chars)
    moreover have "list_all addr_char (''::'' @ drop 2 s)" if "list_all addr_char (drop 2 s)"
      using that by (simp add: punct_addr_char)
    ultimately show ?thesis using lead by (metis (full_types))
  qed
  show ?thesis
    using assms(1) v4 v6 by (auto simp: netip_ParseAddr_def split: option.splits if_splits)
qed

lemma span_byte_append: "c \<notin> set xs \<Longrightarrow> span_byte c (xs @ c # ys) = (xs, Some ys)"
  by (induction xs) (auto simp: span_byte_def split: if_splits)

lemma split_last_append:
  assumes "split_last c s = Some (xs, ys)"
  shows "s = xs @ c # ys"
proof -
  from assms have c: "c \<in> set s"
    and xs: "xs = rev (tl (dropWhile (\<lambda>x. x \<noteq> c) (rev s)))"
    and ys: "ys = rev (takeWhile (\<lambda>x. x \<noteq> c) (rev s))"
    by (auto simp: split_last_def split: if_splits)
  from c have "dropWhile (\<lambda>x. x \<noteq> c) (rev s) = c # tl (dropWhile (\<lambda>x. x \<noteq> c) (rev s))"
    using hd_dropWhile [of "\<lambda>x. x \<noteq> c" "rev s"] by (cases "dropWhile (\<lambda>x. x \<noteq> c) (rev s)") auto
  then have "rev s = rev ys @ c # rev xs"
    using takeWhile_dropWhile_id [of "\<lambda>x. x \<noteq> c" "rev s"] xs ys by simp
  then have "rev (rev s) = rev (rev ys @ c # rev xs)" by simp
  then show ?thesis by simp
qed

lemma ParsePrefix_ParseCIDR:
  assumes "netip_ParsePrefix s = Inr (Prefix ip n)"
  shows "net_ParseCIDR s = Inr (As16 ip, ipnet_of ip n)" and "n \<le> addr_bits ip"
proof -
  from assms obtain addr bitsStr bits where
    sl: "split_last (CHR ''/'') s = Some (addr, bitsStr)" and pa: "netip_ParseAddr addr = Inr ip"
    and z: "addr_zone ip = ''''" and at: "unsigned_Atoi bitsStr = Some bits"
    and n: "n = nat bits" and le: "bits \<le> int (addr_bits ip)"
    by (auto simp: netip_ParsePrefix_def split: option.splits sum.splits if_splits prod.splits)
  have "CHR ''/'' \<notin> set addr"
    using netip_ParseAddr_chars [OF pa z] by (auto simp: list_all_iff addr_char_def hex_val_def)
  then have sp: "span_byte (CHR ''/'') s = (addr, Some bitsStr)"
    using split_last_append [OF sl] by (simp add: span_byte_append)
  have "addr_bits ip \<le> 128" by (cases ip) (simp_all add: addr_bits_def)
  with at le have "dtoi bitsStr = Some bits"
    by (auto simp: unsigned_Atoi_def dtoi_def split: if_splits option.splits)
  with sp pa z le n show "net_ParseCIDR s = Inr (As16 ip, ipnet_of ip n)"
    by (simp add: net_ParseCIDR_def Let_def ipnet_of_def)
  from n le show "n \<le> addr_bits ip" by simp
qed

end
