(* ===== verification/Cluster_LoadBalancer.thy ===== *)
theory Cluster_LoadBalancer
  imports Sample_Cloud Netip
begin

text \<open>
  The control plane's load balancer, \<^verbatim>\<open>cloudscalecluster_loadbalancer.go\<close>: the load balancer, its
  pool, listener and health monitor are found by id or tag and created otherwise, and the members of
  the pool follow the control-plane machines: one member per machine with an address inside the
  member subnet. The flags that the deferred function reads (\<^verbatim>\<open>lbPending\<close>, \<^verbatim>\<open>lbPendingMsg\<close>) are part of
  the body's result, \<^const>\<open>None\<close> when the flag is false.
\<close>

section \<open>Definitions\<close>

definition LoadBalancerRunningStatus :: string where "LoadBalancerRunningStatus = ''running''"
definition LoadBalancerChangingStatus :: string where "LoadBalancerChangingStatus = ''changing''"
definition LoadBalancerDegradedStatus :: string where "LoadBalancerDegradedStatus = ''degraded''"
definition LoadBalancerErrorStatus :: string where "LoadBalancerErrorStatus = ''error''"

record lbStatus =
  lbs_ipAddress :: string
  lbs_ready :: bool

definition noLbStatus :: lbStatus where
  "noLbStatus = \<lparr>lbs_ipAddress = '''', lbs_ready = False\<rparr>"

definition lbEnabled :: "CloudscaleClusterSpec \<Rightarrow> bool" where
  "lbEnabled spec = ptr_Deref (lb_Enabled (cs_ControlPlaneLoadBalancer spec)) True"

definition safeUseSubnet :: "CloudscaleCluster \<Rightarrow> string \<Rightarrow> go_error + string" where
  "safeUseSubnet c networkName =
     (let err = fmt_Errorf ''network %q not yet provisioned'' [FS networkName] in
      case GetNetworkStatus (cl_Status c) networkName of
        None \<Rightarrow> Inl err
      | Some ns \<Rightarrow> if ns_SubnetID ns = '''' then Inl err else Inr (ns_SubnetID ns))"

definition getPoolMemberSubnetID :: "CloudscaleCluster \<Rightarrow> go_error + string" where
  "getPoolMemberSubnetID c =
     (let lbSpec = cs_ControlPlaneLoadBalancer (cl_Spec c) in
      if lb_PoolMemberNetwork lbSpec \<noteq> '''' then safeUseSubnet c (lb_PoolMemberNetwork lbSpec)
      else if lb_Network lbSpec \<noteq> '''' then safeUseSubnet c (lb_Network lbSpec)
      else
        (case cst_Networks (cl_Status c) of
           [] \<Rightarrow> Inl (fmt_Errorf ''no networks in cluster status'' [])
         | n # _ \<Rightarrow>
             if ns_SubnetID n = ''''
             then Inl (fmt_Errorf ''first network %q has no subnet ID'' [FS (ns_Name n)])
             else Inr (ns_SubnetID n)))"

definition getMemberSubnetCIDR :: "CloudscaleCluster \<Rightarrow> string \<Rightarrow> go_error + string" where
  "getMemberSubnetCIDR c subnetID =
     (case find (\<lambda>ns. ns_SubnetID ns = subnetID \<and> ns_CIDR ns \<noteq> '''') (cst_Networks (cl_Status c)) of
        Some ns \<Rightarrow> Inr (ns_CIDR ns)
      | None \<Rightarrow>
          Inl (fmt_Errorf ''subnet %s has no cached CIDR in status; ensure networks are reconciled first''
                 [FS subnetID]))"

definition goLift :: "go_error + 'a \<Rightarrow> ('s, 'a) proc" where
  "goLift r = (case r of Inl e \<Rightarrow> goError e | Inr a \<Rightarrow> goReturn a)"

definition reconcileLB :: "'w ClusterScope \<Rightarrow> ('w cst, Result) proc" where
  "reconcileLB S =
     goBind (goGets st_obj) (\<lambda>c.
     goBind (ensureResource KLoadBalancer (cst_LoadBalancerID (cl_Status c)) ''load balancer''
               (LoadBalancers (sc_CloudscaleClient S)) lbr_UUID (clusterOwnershipTags c))
       (\<lambda>(_, id).
     goBind (modify_status (\<lambda>st. st\<lparr>cst_LoadBalancerID := id\<rparr>)) (\<lambda>_.
     if id \<noteq> '''' then goReturn zeroResult
     else
       (let zone = cs_Zone (cl_Spec c);
            lbSpec = cs_ControlPlaneLoadBalancer (cl_Spec c)
        in
        goBind (if lb_Network lbSpec \<noteq> ''''
                then goBind (goLift (safeUseSubnet c (lb_Network lbSpec)))
                       (\<lambda>subnetID. goReturn (Some [subnetID]))
                else goReturn None)
          (\<lambda>vips.
        let req = \<lparr>lbq_Name = fmt_Sprintf ''%s-cp-lb'' [FS (om_Name (cl_Meta c))],
                   lbq_Flavor = lb_Flavor lbSpec, lbq_Zone = zone,
                   lbq_Tags = clusterOwnershipTags c, lbq_VIPAddresses = vips\<rparr>
        in
        goStep (createStep (5 * time_Second) ''creating load balancer: %w''
                  (api (Create (NewLoadBalancer req))
                     (svc_Create (LoadBalancers (sc_CloudscaleClient S)) req)))
          (\<lambda>lb.
        goBind (modify_status (\<lambda>st. st\<lparr>cst_LoadBalancerID := lbr_UUID lb\<rparr>)) (\<lambda>_.
        goBind (Eventf EventTypeNormal ''LoadBalancerCreated'' ''CreateLoadBalancer''
                  ''Created load balancer %s in zone %s'' [FS (lbr_UUID lb), FS zone])
          (\<lambda>_. goReturn zeroResult))))))))"

definition reconcileLBPool :: "'w ClusterScope \<Rightarrow> ('w cst, Result) proc" where
  "reconcileLBPool S =
     goBind (goGets st_obj) (\<lambda>c.
     goBind (ensureResource KPool (cst_LoadBalancerPoolID (cl_Status c)) ''load balancer pool''
               (LoadBalancerPools (sc_CloudscaleClient S)) lbp_UUID (clusterOwnershipTags c))
       (\<lambda>(_, id).
     goBind (modify_status (\<lambda>st. st\<lparr>cst_LoadBalancerPoolID := id\<rparr>)) (\<lambda>_.
     if id \<noteq> '''' then goReturn zeroResult
     else
       (let req = \<lparr>lpq_Name = fmt_Sprintf ''%s-cp-pool'' [FS (om_Name (cl_Meta c))],
                   lpq_LoadBalancer = cst_LoadBalancerID (cl_Status c),
                   lpq_Algorithm = lb_Algorithm (cs_ControlPlaneLoadBalancer (cl_Spec c)),
                   lpq_Protocol = ''tcp'', lpq_Tags = clusterOwnershipTags c\<rparr>
        in
        goStep (createStep (5 * time_Second) ''creating load balancer pool: %w''
                  (api (Create (NewPool req))
                     (svc_Create (LoadBalancerPools (sc_CloudscaleClient S)) req)))
          (\<lambda>pool.
        goBind (modify_status (\<lambda>st. st\<lparr>cst_LoadBalancerPoolID := lbp_UUID pool\<rparr>)) (\<lambda>_.
        goBind (Eventf EventTypeNormal ''PoolCreated'' ''CreateLoadBalancerPool''
                  ''Created load balancer pool %s'' [FS (lbp_UUID pool)])
          (\<lambda>_. goReturn zeroResult)))))))"

definition reconcileLBListener :: "'w ClusterScope \<Rightarrow> ('w cst, Result) proc" where
  "reconcileLBListener S =
     goBind (goGets st_obj) (\<lambda>c.
     goBind (ensureResource KListener (cst_LoadBalancerListenerID (cl_Status c))
               ''load balancer listener''
               (LoadBalancerListeners (sc_CloudscaleClient S)) lbl_UUID (clusterOwnershipTags c))
       (\<lambda>(_, id).
     goBind (modify_status (\<lambda>st. st\<lparr>cst_LoadBalancerListenerID := id\<rparr>)) (\<lambda>_.
     if id \<noteq> '''' then goReturn zeroResult
     else
       (let apiServerPort = lb_APIServerPort (cs_ControlPlaneLoadBalancer (cl_Spec c));
            req = \<lparr>llq_Name = fmt_Sprintf ''%s-cp-listener'' [FS (om_Name (cl_Meta c))],
                   llq_Pool = cst_LoadBalancerPoolID (cl_Status c), llq_Protocol = ''tcp'',
                   llq_ProtocolPort = apiServerPort, llq_Tags = clusterOwnershipTags c\<rparr>
        in
        goStep (createStep (5 * time_Second) ''creating load balancer listener: %w''
                  (api (Create (NewListener req))
                     (svc_Create (LoadBalancerListeners (sc_CloudscaleClient S)) req)))
          (\<lambda>listener.
        goBind (modify_status (\<lambda>st. st\<lparr>cst_LoadBalancerListenerID := lbl_UUID listener\<rparr>)) (\<lambda>_.
        goBind (Eventf EventTypeNormal ''ListenerCreated'' ''CreateLoadBalancerListener''
                  ''Created load balancer listener %s on port %d''
                  [FS (lbl_UUID listener), FD apiServerPort])
          (\<lambda>_. goReturn zeroResult)))))))"

definition reconcileLBHealthMonitor :: "'w ClusterScope \<Rightarrow> ('w cst, Result) proc" where
  "reconcileLBHealthMonitor S =
     goBind (goGets st_obj) (\<lambda>c.
     goBind (ensureResource KHealthMonitor (cst_LoadBalancerHealthMonitorID (cl_Status c))
               ''load balancer health monitor''
               (LoadBalancerHealthMonitors (sc_CloudscaleClient S)) lbh_UUID (clusterOwnershipTags c))
       (\<lambda>(_, id).
     goBind (modify_status (\<lambda>st. st\<lparr>cst_LoadBalancerHealthMonitorID := id\<rparr>)) (\<lambda>_.
     if id \<noteq> '''' then goReturn zeroResult
     else
       (let hm = lb_HealthMonitor (cs_ControlPlaneLoadBalancer (cl_Spec c));
            req = \<lparr>lhq_Pool = cst_LoadBalancerPoolID (cl_Status c), lhq_Type = ''tcp'',
                   lhq_DelayS = hm_DelayS hm, lhq_TimeoutS = hm_TimeoutS hm,
                   lhq_UpThreshold = hm_UpThreshold hm, lhq_DownThreshold = hm_DownThreshold hm,
                   lhq_Tags = clusterOwnershipTags c\<rparr>
        in
        goStep (createStep (5 * time_Second) ''creating load balancer health monitor: %w''
                  (api (Create (NewHealthMonitor req))
                     (svc_Create (LoadBalancerHealthMonitors (sc_CloudscaleClient S)) req)))
          (\<lambda>monitor.
        goBind (modify_status (\<lambda>st. st\<lparr>cst_LoadBalancerHealthMonitorID := lbh_UUID monitor\<rparr>)) (\<lambda>_.
        goBind (Eventf EventTypeNormal ''HealthMonitorCreated'' ''CreateLoadBalancerHealthMonitor''
                  ''Created load balancer health monitor %s'' [FS (lbh_UUID monitor)])
          (\<lambda>_. goReturn zeroResult)))))))"

text \<open>The first internal address of a machine that lies in the member network.\<close>

definition memberAddress :: "IPNet \<Rightarrow> MachineAddress list \<Rightarrow> string option" where
  "memberAddress memberIPNet addrs =
     map_option ma_Address
       (find (\<lambda>a. ma_Type a = MachineInternalIP \<and> ma_Address a \<noteq> '''' \<and>
                 (case net_ParseIP (ma_Address a) of
                    None \<Rightarrow> False | Some ip \<Rightarrow> IPNet_Contains memberIPNet ip)) addrs)"

definition desiredMember ::
  "CloudscaleCluster \<Rightarrow> string \<Rightarrow> IPNet \<Rightarrow> CloudscaleMachine \<Rightarrow> LoadBalancerPoolMemberRequest option" where
  "desiredMember c memberSubnetID memberIPNet machine =
     map_option
       (\<lambda>address.
          \<lparr>pmq_Name = om_Name (cm_Meta machine), pmq_Subnet = memberSubnetID,
           pmq_ProtocolPort = lb_APIServerPort (cs_ControlPlaneLoadBalancer (cl_Spec c)),
           pmq_Address = address, pmq_Tags = Some (clusterOwnershipTags c)\<rparr>)
       (memberAddress memberIPNet (mst_Addresses (cm_Status machine)))"

definition lbMachineLabels :: "'w ClusterScope \<Rightarrow> str_map" where
  "lbMachineLabels S =
     [(ClusterNameLabel, om_Name (capi_Meta (sc_Cluster S))), (MachineControlPlaneLabel, '''')]"

definition getDesiredLoadBalancerMembers ::
  "'w ClusterScope \<Rightarrow> ('w cst, LoadBalancerPoolMemberRequest list) proc" where
  "getDesiredLoadBalancerMembers S =
     goBind (goGets st_obj) (\<lambda>c.
     goBind (goWrap (fmt_Errorw ''listing CloudscaleMachines: %w'' [])
              (api (KubeList ''CloudscaleMachine'' (lbMachineLabels S))
                 (k_ListCloudscaleMachines (sc_client S) (om_Namespace (cl_Meta c)) (lbMachineLabels S))))
       (\<lambda>machines.
     goBind (goLift (getPoolMemberSubnetID c)) (\<lambda>memberSubnetID.
     goBind (goWrap (fmt_Errorw ''resolving pool member subnet CIDR: %w'' [])
              (goLift (getMemberSubnetCIDR c memberSubnetID)))
       (\<lambda>memberSubnetCIDR.
     goBind (goWrap (fmt_Errorw ''parsing pool member subnet CIDR %q: %w'' [FS memberSubnetCIDR])
              (goLift (net_ParseCIDR memberSubnetCIDR)))
       (\<lambda>(_, memberIPNet).
     goReturn (List.map_filter (desiredMember c memberSubnetID memberIPNet) machines))))))"

definition createLoadBalancerMember ::
  "'w ClusterScope \<Rightarrow> LoadBalancerPoolMemberRequest \<Rightarrow> ('w cst, Result) proc" where
  "createLoadBalancerMember S member =
     goBind (goGets (\<lambda>s. cst_LoadBalancerPoolID (statusOf s))) (\<lambda>pool.
     goStep (createStep (5 * time_Second) ''creating load balancer member: %w''
               (api (CreateMember pool member)
                  (mem_Create (LoadBalancerPoolMembers (sc_CloudscaleClient S)) pool member)))
       (\<lambda>cm.
     goBind (modify_status (cst_LoadBalancerMemberIDs_update (\<lambda>ids. ids @ [pm_UUID cm])))
       (\<lambda>_. goReturn zeroResult)))"

definition updateLoadBalancerMember ::
  "'w ClusterScope \<Rightarrow> string \<Rightarrow> string \<Rightarrow> ('w cst, unit) proc" where
  "updateLoadBalancerMember S memberUUID newAddress =
     goBind (goGets (\<lambda>s. cst_LoadBalancerPoolID (statusOf s))) (\<lambda>pool.
     let req = \<lparr>pmq_Name = '''', pmq_Subnet = '''', pmq_ProtocolPort = 0, pmq_Address = newAddress,
                pmq_Tags = None\<rparr>
     in goWrap (fmt_Errorw ''updating load balancer member: %w'' [])
          (api (UpdateMember pool memberUUID req)
             (mem_Update (LoadBalancerPoolMembers (sc_CloudscaleClient S)) pool memberUUID req)))"

definition deleteLoadBalancerMember ::
  "'w ClusterScope \<Rightarrow> LoadBalancerPoolMember \<Rightarrow> ('w cst, unit) proc" where
  "deleteLoadBalancerMember S member =
     goBind (goGets (\<lambda>s. cst_LoadBalancerPoolID (statusOf s))) (\<lambda>pool.
     goBind (goWrap (fmt_Errorw ''deleting load balancer member: %w'' [])
              (api (DeleteMember pool (pm_UUID member))
                 (mem_Delete (LoadBalancerPoolMembers (sc_CloudscaleClient S)) pool (pm_UUID member))))
       (\<lambda>_. modify_status
               (cst_LoadBalancerMemberIDs_update (filter (\<lambda>id. id \<noteq> pm_UUID member)))))"

text \<open>The bodies of the two loops of \<^verbatim>\<open>reconcileLBMembers\<close>, given the maps by name.\<close>

definition addOrUpdateMember ::
  "'w ClusterScope \<Rightarrow> (string \<Rightarrow> LoadBalancerPoolMember option) \<Rightarrow> LoadBalancerPoolMemberRequest \<Rightarrow>
   ('w cst, Result option) proc" where
  "addOrUpdateMember S currentByName desired =
     (case currentByName (pmq_Name desired) of
        None \<Rightarrow>
          goBind (goWrap (fmt_Errorw ''failed to create load balancer member: %w'' [])
                    (createLoadBalancerMember S desired))
            (\<lambda>result. goReturn (if \<not> IsZero result then Some result else None))
      | Some current \<Rightarrow>
          if pm_Address current \<noteq> pmq_Address desired then
            goBind (goWrap (fmt_Errorw ''failed to update load balancer member: %w'' [])
                      (updateLoadBalancerMember S (pm_UUID current) (pmq_Address desired)))
              (\<lambda>_. goReturn None)
          else goReturn None)"

definition removeMember ::
  "'w ClusterScope \<Rightarrow> (string \<Rightarrow> LoadBalancerPoolMemberRequest option) \<Rightarrow> LoadBalancerPoolMember \<Rightarrow>
   ('w cst, Result option) proc" where
  "removeMember S desiredByName member =
     (case desiredByName (pm_Name member) of
        Some _ \<Rightarrow> goReturn None
      | None \<Rightarrow>
          goBind (goWrap (fmt_Errorw ''failed to delete load balancer member: %w'' [])
                    (deleteLoadBalancerMember S member))
            (\<lambda>_. goReturn None))"

definition reconcileLBMembers :: "'w ClusterScope \<Rightarrow> ('w cst, Result) proc" where
  "reconcileLBMembers S =
     goBind (goGets (\<lambda>s. cst_LoadBalancerPoolID (statusOf s))) (\<lambda>pool.
     goBind (goWrap (fmt_Errorw ''failed to get current load balancer members: %w'' [])
              (api (ListMembers pool)
                 (mem_List (LoadBalancerPoolMembers (sc_CloudscaleClient S)) pool)))
       (\<lambda>currentMembers.
     goBind (goWrap (fmt_Errorw ''failed to get desired load balancer members: %w'' [])
              (getDesiredLoadBalancerMembers S))
       (\<lambda>desiredMembers.
     let currentByName = index_by pm_Name currentMembers;
         desiredByName = index_by pmq_Name desiredMembers
     in
     goBind (goFor desiredMembers (addOrUpdateMember S currentByName)) (\<lambda>r.
     case r of
       Some result \<Rightarrow> goReturn result
     | None \<Rightarrow>
         goBind (goFor currentMembers (removeMember S desiredByName)) (\<lambda>_.
         goReturn zeroResult)))))"

text \<open>The message for a load balancer that is neither running nor changing.\<close>

definition lbDiagnostics :: "'w ClusterScope \<Rightarrow> LoadBalancer \<Rightarrow> ('w cst, string) proc" where
  "lbDiagnostics S lb =
     (let msg = fmt_Sprintf ''Load balancer is in %s'' [FS (lbr_Status lb)] in
      goBind (goGets (\<lambda>s. cst_LoadBalancerPoolID (statusOf s))) (\<lambda>poolID.
      if poolID = '''' then goReturn msg
      else
        goBind (goTry (api (ListMembers poolID)
                  (mem_List (LoadBalancerPoolMembers (sc_CloudscaleClient S)) poolID)))
          (\<lambda>r. case r of
              Inl err \<Rightarrow> goReturn msg
            | Inr members \<Rightarrow>
                let down = map (\<lambda>m. fmt_Sprintf ''%s@%s:%d''
                                      [FS (pm_Name m), FS (pm_Address m), FD (pm_ProtocolPort m)])
                             (filter (\<lambda>m. pm_MonitorStatus m = ''down'') members)
                in goReturn
                     (if down \<noteq> []
                      then fmt_Sprintf ''%s; pool members failing health check: %v'' [FS msg, FL down]
                      else msg))))"

text \<open>One of the steps 1 to 5: an error is wrapped, a requeue ends the function.\<close>

definition lbStep ::
  "string \<Rightarrow> string option \<Rightarrow> ('w cst, Result) proc \<Rightarrow>
   ('w cst, ((lbStatus \<times> Result) \<times> string option) + unit) proc" where
  "lbStep msg pending m =
     goBind (goWrap (fmt_Errorw msg []) m)
       (\<lambda>result. goReturn (if \<not> IsZero result then Inl ((noLbStatus, result), pending) else Inr ()))"

text \<open>Steps 2 to 5 and the final result.\<close>

definition reconcileLBParts ::
  "'w ClusterScope \<Rightarrow> LoadBalancer \<Rightarrow> string option \<Rightarrow>
   ('w cst, (lbStatus \<times> Result) \<times> string option) proc" where
  "reconcileLBParts S lb pending =
     goStep (lbStep ''reconciling load balancer pool: %w'' pending (reconcileLBPool S)) (\<lambda>_.
     goStep (lbStep ''reconciling load balancer listener: %w'' pending (reconcileLBListener S)) (\<lambda>_.
     goStep (lbStep ''reconciling load balancer health monitor: %w'' pending
               (reconcileLBHealthMonitor S)) (\<lambda>_.
     goStep (lbStep ''reconciling load balancer members: %w'' pending (reconcileLBMembers S)) (\<lambda>_.
     goReturn
       ((\<lparr>lbs_ipAddress = (case lbr_VIPAddresses lb of [] \<Rightarrow> '''' | a # _ \<Rightarrow> a),
          lbs_ready = (pending = None)\<rparr>, zeroResult), pending)))))"

definition reconcileLoadBalancerBody ::
  "'w ClusterScope \<Rightarrow> ('w cst, (lbStatus \<times> Result) \<times> string option) proc" where
  "reconcileLoadBalancerBody S =
     goStep (lbStep ''reconciling load balancer: %w'' None (reconcileLB S)) (\<lambda>_.
     goBind (goGets (\<lambda>s. cst_LoadBalancerID (statusOf s))) (\<lambda>lbID.
     if lbID = '''' then
       goReturn ((noLbStatus, requeueAfter (5 * time_Second)), Some ''Load balancer is not yet running'')
     else
       goBind (goWrap (fmt_Errorw ''getting load balancer status: %w'' [])
                (api (Get KLoadBalancer lbID) (svc_Get (LoadBalancers (sc_CloudscaleClient S)) lbID)))
         (\<lambda>lb.
       if lbr_Status lb = LoadBalancerChangingStatus then
         goReturn ((noLbStatus, requeueAfter (10 * time_Second)),
                   Some ''Load balancer is not yet running'')
       else
         goBind (if lbr_Status lb = LoadBalancerRunningStatus then goReturn None
                 else goBind (lbDiagnostics S lb) (\<lambda>msg. goReturn (Some msg)))
           (reconcileLBParts S lb))))"

definition reconcileLoadBalancer :: "'w ClusterScope \<Rightarrow> ('w cst, lbStatus \<times> Result) proc" where
  "reconcileLoadBalancer S =
     goBind (goGets specOf) (\<lambda>spec.
     if \<not> lbEnabled spec then
       goBind (modify_obj (Cluster_setCondition S LoadBalancerReadyCondition ConditionTrue
                             LoadBalancerDisabledReason ''''))
         (\<lambda>_. goReturn (\<lparr>lbs_ipAddress = '''', lbs_ready = True\<rparr>, zeroResult))
     else
       goBind
         (goDefer (\<lambda>ret. st_obj_update
             (case ret of
                Inl err \<Rightarrow> Cluster_setCondition S LoadBalancerReadyCondition ConditionFalse
                             LoadBalancerErrorReason (error_text err)
              | Inr (_, Some lbPendingMsg) \<Rightarrow>
                  Cluster_setCondition S LoadBalancerReadyCondition ConditionFalse
                    LoadBalancerNotReadyReason lbPendingMsg
              | Inr (_, None) \<Rightarrow>
                  Cluster_setCondition S LoadBalancerReadyCondition ConditionTrue
                    LoadBalancerRunningReason ''''))
            (reconcileLoadBalancerBody S))
         (\<lambda>(ret, _). goReturn ret))"

definition deleteLoadBalancer :: "'w ClusterScope \<Rightarrow> ('w cst, unit) proc" where
  "deleteLoadBalancer S =
     goBind (goGets specOf) (\<lambda>spec.
     if \<not> lbEnabled spec then goReturn ()
     else
       goDefer (\<lambda>ret. st_obj_update
           (case ret of
              Inl err \<Rightarrow> Cluster_setCondition S LoadBalancerReadyCondition ConditionFalse
                           LoadBalancerErrorReason
                           (fmt_Sprintf ''Failed to delete load balancer: %v'' [FE err])
            | Inr _ \<Rightarrow> Cluster_setCondition S LoadBalancerReadyCondition ConditionFalse
                         LoadBalancerDeletingReason ''Load balancer has been deleted''))
         (goBind (goGets (\<lambda>s. cst_LoadBalancerID (statusOf s))) (\<lambda>lbID.
          goBind
            (if lbID \<noteq> '''' then
               goBind (goTry (api (Delete KLoadBalancer lbID)
                         (svc_Delete (LoadBalancers (sc_CloudscaleClient S)) lbID)))
                 (\<lambda>r. case hard_error (err_of r) of
                     Some e \<Rightarrow> goError (fmt_Errorw ''deleting load balancer: %w'' [] e)
                   | None \<Rightarrow> Eventf EventTypeNormal ''LoadBalancerDeleted'' ''DeleteLoadBalancer''
                               ''Deleted load balancer %s'' [FS lbID])
             else goReturn ())
            (\<lambda>_. modify_status (\<lambda>st. st\<lparr>cst_LoadBalancerID := '''', cst_LoadBalancerPoolID := '''',
                    cst_LoadBalancerListenerID := '''', cst_LoadBalancerHealthMonitorID := '''',
                    cst_LoadBalancerMemberIDs := []\<rparr>)))))"

section \<open>Frames\<close>

lemma wp_goLift [wp]:
  "wp (goLift r) Q E = (\<lambda>s. case r of Inl e \<Rightarrow> E e s | Inr a \<Rightarrow> Q a s)"
  unfolding goLift_def by (rule ext) (simp add: wp split: sum.split)

lemma wp_lbStep [wp]:
  "wp (lbStep msg pending m) Q E = (\<lambda>s. wp m
     (\<lambda>result. Q (if \<not> IsZero result then Inl ((noLbStatus, result), pending) else Inr ()))
     (\<lambda>e. E (fmt_Errorw msg [] e)) s)"
  unfolding lbStep_def by (rule ext) (simp add: wp_def goBind_def goWrap_def goReturn_def
      split: prod.split sum.split)

abbreviation lb_frame :: "'w cst \<Rightarrow> 'w cst \<Rightarrow> bool" where
  "lb_frame \<equiv> obj_frame (erase (\<lambda>st. st\<lparr>cst_LoadBalancerID := '''', cst_LoadBalancerPoolID := '''',
      cst_LoadBalancerListenerID := '''', cst_LoadBalancerHealthMonitorID := '''',
      cst_LoadBalancerMemberIDs := []\<rparr>))"

lemma goLift_frame: "keeps (obj_frame f) (goLift r)"
  unfolding goLift_def by (intro frame_intros)

lemma lbStep_frame: "keeps (obj_frame f) m \<Longrightarrow> keeps (obj_frame f) (lbStep msg pending m)"
  unfolding lbStep_def by (intro frame_intros)

lemma lb_part_frames:
  "keeps lb_frame (reconcileLB S)" "keeps lb_frame (reconcileLBPool S)"
  "keeps lb_frame (reconcileLBListener S)" "keeps lb_frame (reconcileLBHealthMonitor S)"
  unfolding reconcileLB_def reconcileLBPool_def reconcileLBListener_def reconcileLBHealthMonitor_def
  by (intro frame_intros goLift_frame keeps_erase_modify_status; simp)+

lemma getDesiredLoadBalancerMembers_frame:
  "keeps (obj_frame f) (getDesiredLoadBalancerMembers S)"
  unfolding getDesiredLoadBalancerMembers_def by (intro frame_intros goLift_frame)

lemma reconcileLBMembers_frame: "keeps lb_frame (reconcileLBMembers S)"
  unfolding reconcileLBMembers_def addOrUpdateMember_def removeMember_def createLoadBalancerMember_def
    updateLoadBalancerMember_def deleteLoadBalancerMember_def
  by (intro frame_intros getDesiredLoadBalancerMembers_frame keeps_erase_modify_status; simp)

lemma reconcileLoadBalancerBody_frame: "keeps lb_frame (reconcileLoadBalancerBody S)"
  unfolding reconcileLoadBalancerBody_def reconcileLBParts_def lbDiagnostics_def
  by (intro frame_intros lbStep_frame lb_part_frames reconcileLBMembers_frame)

lemma reconcileLoadBalancer_frame: "keeps lb_frame (reconcileLoadBalancer S)"
  unfolding reconcileLoadBalancer_def
  by (intro frame_intros reconcileLoadBalancerBody_frame keeps_obj_modify_obj)
    (auto simp: obj_frame_def split: sum.split option.split)

lemma deleteLoadBalancer_frame: "keeps lb_frame (deleteLoadBalancer S)"
  unfolding deleteLoadBalancer_def
  by (intro frame_intros keeps_erase_modify_status) (auto simp: obj_frame_def split: sum.split)

section \<open>What a successful reconcile establishes\<close>

definition lb_api_ok :: "'w Client \<Rightarrow> bool" where
  "lb_api_ok cli \<longleftrightarrow>
     service_ids (LoadBalancers cli) lbr_UUID \<and> service_ids (LoadBalancerPools cli) lbp_UUID \<and>
     service_ids (LoadBalancerListeners cli) lbl_UUID \<and>
     service_ids (LoadBalancerHealthMonitors cli) lbh_UUID"

definition lb_provisioned :: "CloudscaleClusterStatus \<Rightarrow> bool" where
  "lb_provisioned st \<longleftrightarrow>
     cst_LoadBalancerID st \<noteq> '''' \<and> cst_LoadBalancerPoolID st \<noteq> '''' \<and>
     cst_LoadBalancerListenerID st \<noteq> '''' \<and> cst_LoadBalancerHealthMonitorID st \<noteq> ''''"

lemma reconcileLB_id:
  assumes "service_ids (LoadBalancers (sc_CloudscaleClient S)) lbr_UUID"
  shows "wp (reconcileLB S)
    (\<lambda>res s'. IsZero res \<longrightarrow> cst_LoadBalancerID (statusOf s') \<noteq> '''') (\<lambda>_ _. True) s"
  unfolding reconcileLB_def
  by (auto simp: wp split: prod.split sum.split
      intro!: wp_ensureResource_resI [OF assms] service_resultsD(1) [OF assms])

lemma reconcileLBPool_id:
  assumes "service_ids (LoadBalancerPools (sc_CloudscaleClient S)) lbp_UUID"
  shows "wp (reconcileLBPool S)
    (\<lambda>res s'. (IsZero res \<longrightarrow> cst_LoadBalancerPoolID (statusOf s') \<noteq> '''') \<and>
       cst_LoadBalancerID (statusOf s') = cst_LoadBalancerID (statusOf s)) (\<lambda>_ _. True) s"
  unfolding reconcileLBPool_def
  by (auto simp: wp split: prod.split sum.split
      intro!: wp_ensureResource_resI [OF assms] service_resultsD(1) [OF assms])

lemma reconcileLBListener_id:
  assumes "service_ids (LoadBalancerListeners (sc_CloudscaleClient S)) lbl_UUID"
  shows "wp (reconcileLBListener S)
    (\<lambda>res s'. (IsZero res \<longrightarrow> cst_LoadBalancerListenerID (statusOf s') \<noteq> '''') \<and>
       cst_LoadBalancerID (statusOf s') = cst_LoadBalancerID (statusOf s) \<and>
       cst_LoadBalancerPoolID (statusOf s') = cst_LoadBalancerPoolID (statusOf s)) (\<lambda>_ _. True) s"
  unfolding reconcileLBListener_def
  by (auto simp: wp split: prod.split sum.split
      intro!: wp_ensureResource_resI [OF assms] service_resultsD(1) [OF assms])

definition lb_ids :: "CloudscaleClusterStatus \<Rightarrow> string \<times> string \<times> string \<times> string" where
  "lb_ids st = (cst_LoadBalancerID st, cst_LoadBalancerPoolID st, cst_LoadBalancerListenerID st,
     cst_LoadBalancerHealthMonitorID st)"

lemma lb_ids_simps [simp]:
  "lb_ids (cst_LoadBalancerMemberIDs_update f st) = lb_ids st"
  "lb_ids (cl_Status (Cluster_setCondition S t st' r m c)) = lb_ids (cl_Status c)"
  by (simp_all add: lb_ids_def)

lemma lb_provisioned_ids: "lb_ids st = lb_ids st' \<Longrightarrow> lb_provisioned st = lb_provisioned st'"
  by (simp add: lb_ids_def lb_provisioned_def)

lemma reconcileLBHealthMonitor_id:
  assumes "service_ids (LoadBalancerHealthMonitors (sc_CloudscaleClient S)) lbh_UUID"
    and "cst_LoadBalancerID (statusOf s) \<noteq> ''''" and "cst_LoadBalancerPoolID (statusOf s) \<noteq> ''''"
    and "cst_LoadBalancerListenerID (statusOf s) \<noteq> ''''"
  shows "wp (reconcileLBHealthMonitor S) (\<lambda>res s'. IsZero res \<longrightarrow> lb_provisioned (statusOf s'))
    (\<lambda>_ _. True) s"
  unfolding reconcileLBHealthMonitor_def
  using assms(2-4)
  by (auto simp: wp lb_provisioned_def split: prod.split sum.split
      intro!: wp_ensureResource_resI [OF assms(1)] service_resultsD(1) [OF assms(1)])

lemma reconcileLBMembers_ids: "keeps (obj_frame (\<lambda>c. lb_ids (cl_Status c))) (reconcileLBMembers S)"
  unfolding reconcileLBMembers_def addOrUpdateMember_def removeMember_def createLoadBalancerMember_def
    updateLoadBalancerMember_def deleteLoadBalancerMember_def modify_status_def
  by (intro frame_intros getDesiredLoadBalancerMembers_frame keeps_obj_modify_obj; simp)

lemma reconcileLBMembers_provisioned:
  "lb_provisioned (statusOf s) \<Longrightarrow>
     wp (reconcileLBMembers S) (\<lambda>res s'. lb_provisioned (statusOf s')) (\<lambda>_ _. True) s"
  by (rule wp_mono [OF wp_keeps [OF reconcileLBMembers_ids]])
    (auto simp: obj_frame_def dest!: lb_provisioned_ids)

text \<open>The steps after the load balancer itself: pool, listener, health monitor, members.\<close>

definition lb_body_ok :: "(lbStatus \<times> Result) \<times> string option \<Rightarrow> 'w cst \<Rightarrow> bool" where
  "lb_body_ok r s \<longleftrightarrow>
     (case r of ((status, res), pending) \<Rightarrow>
        if IsZero res then lb_provisioned (statusOf s) \<and> (lbs_ready status \<longleftrightarrow> pending = None)
        else status = noLbStatus)"

lemma lb_body_ok_requeue [simp]: "\<not> IsZero res \<Longrightarrow> lb_body_ok ((noLbStatus, res), pending) s"
  by (simp add: lb_body_ok_def)

lemma lbDiagnostics_obj: "wp (lbDiagnostics S lb) (\<lambda>_ s'. st_obj s' = st_obj s) (\<lambda>_ s'. st_obj s' = st_obj s) s"
proof -
  have "keeps (obj_frame (\<lambda>c. c)) (lbDiagnostics S lb)"
    unfolding lbDiagnostics_def by (intro frame_intros)
  from wp_keeps [OF this, of s] show ?thesis by (rule wp_mono) (simp_all add: obj_frame_def)
qed

lemma lb_steps_provision:
  assumes "lb_api_ok (sc_CloudscaleClient S)" and "cst_LoadBalancerID (statusOf s) \<noteq> ''''"
  shows "wp (reconcileLBParts S lb pending) lb_body_ok (\<lambda>_ _. True) s"
proof -
  define status where
    "status = \<lparr>lbs_ipAddress = (case lbr_VIPAddresses lb of [] \<Rightarrow> '''' | a # _ \<Rightarrow> a),
               lbs_ready = (pending = None)\<rparr>"
  have members: "wp (goStep (lbStep m5 pending (reconcileLBMembers S)) (\<lambda>_.
         goReturn ((status, zeroResult), pending))) lb_body_ok (\<lambda>_ _. True) t"
    if "lb_provisioned (statusOf t)" for t m5
    by (simp add: wp) (rule wp_mono [OF reconcileLBMembers_provisioned [OF that]];
      simp add: wp lb_body_ok_def status_def)
  have monitor: "wp (goStep (lbStep m4 pending (reconcileLBHealthMonitor S)) (\<lambda>_.
         goStep (lbStep m5 pending (reconcileLBMembers S)) (\<lambda>_.
         goReturn ((status, zeroResult), pending)))) lb_body_ok (\<lambda>_ _. True) t"
    if "cst_LoadBalancerID (statusOf t) \<noteq> ''''" "cst_LoadBalancerPoolID (statusOf t) \<noteq> ''''"
      "cst_LoadBalancerListenerID (statusOf t) \<noteq> ''''" for t m4 m5
    using assms(1)
    by (simp add: wp_goStep wp_lbStep)
      (rule wp_mono [OF reconcileLBHealthMonitor_id [OF _ that]]; simp add: lb_api_ok_def members)
  have listener: "wp (goStep (lbStep m3 pending (reconcileLBListener S)) (\<lambda>_.
         goStep (lbStep m4 pending (reconcileLBHealthMonitor S)) (\<lambda>_.
         goStep (lbStep m5 pending (reconcileLBMembers S)) (\<lambda>_.
         goReturn ((status, zeroResult), pending))))) lb_body_ok (\<lambda>_ _. True) t"
    if "cst_LoadBalancerID (statusOf t) \<noteq> ''''" "cst_LoadBalancerPoolID (statusOf t) \<noteq> ''''"
    for t m3 m4 m5
    using assms(1) that
    by (simp add: wp_goStep wp_lbStep)
      (rule wp_mono [OF reconcileLBListener_id]; simp add: lb_api_ok_def monitor)
  show ?thesis
    unfolding reconcileLBParts_def status_def [symmetric]
    using assms
    by (simp add: wp_goStep wp_lbStep)
      (rule wp_mono [OF reconcileLBPool_id]; simp add: lb_api_ok_def listener)
qed

lemma reconcileLoadBalancerBody_ok:
  assumes "lb_api_ok (sc_CloudscaleClient S)"
  shows "wp (reconcileLoadBalancerBody S) lb_body_ok (\<lambda>_ _. True) s"
proof -
  have lbs: "service_ids (LoadBalancers (sc_CloudscaleClient S)) lbr_UUID"
    using assms by (simp add: lb_api_ok_def)
  show ?thesis
    unfolding reconcileLoadBalancerBody_def
    by (auto simp: wp_goStep wp_lbStep wp_goBind wp_goGets wp_if wp_goWrap wp_api wp_goReturn
        split: prod.split sum.split intro!: wp_mono [OF reconcileLB_id [OF lbs]]
          lb_steps_provision [OF assms] wp_mono [OF lbDiagnostics_obj])
qed

text \<open>
  With the load balancer enabled, a result that is not a requeue means that all four resources are
  recorded, and the observed readiness is the one of the condition.
\<close>

lemma reconcileLoadBalancer_spec:
  assumes "lb_api_ok (sc_CloudscaleClient S)" and "scope_ok S" and "lbEnabled (specOf s)"
  shows "wp (reconcileLoadBalancer S)
    (\<lambda>(status, res) s'. IsZero res \<longrightarrow>
       lb_provisioned (statusOf s') \<and> (lbs_ready status \<longleftrightarrow> condTrue S s' LoadBalancerReadyCondition))
    (\<lambda>_ _. True) s"
  unfolding reconcileLoadBalancer_def
  using assms(2,3)
  by (auto simp: wp condTrue_iff lb_body_ok_def lb_provisioned_ids [OF lb_ids_simps(2)]
      split: option.split if_splits intro!: wp_mono [OF reconcileLoadBalancerBody_ok [OF assms(1)]])

section \<open>Pool members\<close>

text \<open>The desired members as a function of the cluster and the listed machines.\<close>

definition desired_of ::
  "CloudscaleCluster \<Rightarrow> CloudscaleMachine list \<Rightarrow> go_error + LoadBalancerPoolMemberRequest list" where
  "desired_of c machines =
     (case getPoolMemberSubnetID c of
        Inl e \<Rightarrow> Inl e
      | Inr sid \<Rightarrow>
          (case getMemberSubnetCIDR c sid of
             Inl e \<Rightarrow> Inl (fmt_Errorw ''resolving pool member subnet CIDR: %w'' [] e)
           | Inr cidr \<Rightarrow>
               (case net_ParseCIDR cidr of
                  Inl e \<Rightarrow> Inl (fmt_Errorw ''parsing pool member subnet CIDR %q: %w'' [FS cidr] e)
                | Inr (_, net) \<Rightarrow> Inr (List.map_filter (desiredMember c sid net) machines))))"

lemma wp_getDesiredLoadBalancerMembers:
  "wp (getDesiredLoadBalancerMembers S) Q E s =
     (case k_ListCloudscaleMachines (sc_client S) (om_Namespace (cl_Meta (st_obj s)))
             (lbMachineLabels S) (st_world s) of
        (Inl e, w) \<Rightarrow> E (fmt_Errorw ''listing CloudscaleMachines: %w'' [] e)
                        (after [KubeList ''CloudscaleMachine'' (lbMachineLabels S)] w s)
      | (Inr ms, w) \<Rightarrow>
          (case desired_of (st_obj s) ms of
             Inl e \<Rightarrow> E e (after [KubeList ''CloudscaleMachine'' (lbMachineLabels S)] w s)
           | Inr ds \<Rightarrow> Q ds (after [KubeList ''CloudscaleMachine'' (lbMachineLabels S)] w s)))"
  unfolding getDesiredLoadBalancerMembers_def desired_of_def
  by (auto simp: wp split: prod.split sum.split)

text \<open>
  The requests that bring the pool from its current to its desired members: creates and address
  updates in the order of the machines, then deletes in the order of the pool.
\<close>

definition address_request :: "string \<Rightarrow> LoadBalancerPoolMemberRequest" where
  "address_request a =
     \<lparr>pmq_Name = '''', pmq_Subnet = '''', pmq_ProtocolPort = 0, pmq_Address = a, pmq_Tags = None\<rparr>"

definition put_calls ::
  "string \<Rightarrow> LoadBalancerPoolMember list \<Rightarrow> LoadBalancerPoolMemberRequest \<Rightarrow> api_call list" where
  "put_calls pool cur d =
     (case index_by pm_Name cur (pmq_Name d) of
        None \<Rightarrow> [CreateMember pool d]
      | Some m \<Rightarrow>
          if pm_Address m \<noteq> pmq_Address d
          then [UpdateMember pool (pm_UUID m) (address_request (pmq_Address d))] else [])"

definition drop_calls ::
  "string \<Rightarrow> LoadBalancerPoolMemberRequest list \<Rightarrow> LoadBalancerPoolMember \<Rightarrow> api_call list" where
  "drop_calls pool des m =
     (case index_by pmq_Name des (pm_Name m) of
        None \<Rightarrow> [DeleteMember pool (pm_UUID m)] | Some _ \<Rightarrow> [])"

definition member_plan ::
  "string \<Rightarrow> LoadBalancerPoolMember list \<Rightarrow> LoadBalancerPoolMemberRequest list \<Rightarrow> api_call list" where
  "member_plan pool cur des =
     concat (map (put_calls pool cur) des) @ concat (map (drop_calls pool des) cur)"

abbreviation poolOf :: "'w cst \<Rightarrow> string" where
  "poolOf s \<equiv> cst_LoadBalancerPoolID (statusOf s)"

lemma addOrUpdate_loop:
  "wp (goFor ds (addOrUpdateMember S (index_by pm_Name cur)))
     (\<lambda>r s'. case r of
         None \<Rightarrow> poolOf s' = poolOf s \<and>
           st_calls s' = st_calls s @ concat (map (put_calls (poolOf s) cur) ds)
       | Some res \<Rightarrow> \<not> IsZero res)
     (\<lambda>_ _. True) s"
proof (rule wp_goFor_trace [where P = "\<lambda>t. poolOf t = poolOf s" and Q = "\<lambda>res. \<not> IsZero res"])
  show "wp (addOrUpdateMember S (index_by pm_Name cur) d)
      (\<lambda>r t'. case r of
          None \<Rightarrow> poolOf t' = poolOf s \<and> st_calls t' = st_calls t @ put_calls (poolOf s) cur d
        | Some res \<Rightarrow> \<not> IsZero res) (\<lambda>_ _. True) t"
    if "poolOf t = poolOf s" for d and t :: "'a cst"
    unfolding addOrUpdateMember_def createLoadBalancerMember_def updateLoadBalancerMember_def
    using that by (auto simp: wp put_calls_def address_request_def
        split: prod.split sum.split option.split)
qed simp

lemma remove_loop:
  "wp (goFor ms (removeMember S (index_by pmq_Name des)))
     (\<lambda>r s'. case r of
         None \<Rightarrow> poolOf s' = poolOf s \<and>
           st_calls s' = st_calls s @ concat (map (drop_calls (poolOf s) des) ms)
       | Some res \<Rightarrow> False)
     (\<lambda>_ _. True) s"
proof (rule wp_goFor_trace [where P = "\<lambda>t. poolOf t = poolOf s" and Q = "\<lambda>_. False"])
  show "wp (removeMember S (index_by pmq_Name des) m)
      (\<lambda>r t'. case r of
          None \<Rightarrow> poolOf t' = poolOf s \<and> st_calls t' = st_calls t @ drop_calls (poolOf s) des m
        | Some res \<Rightarrow> False) (\<lambda>_ _. True) t"
    if "poolOf t = poolOf s" for m and t :: "'a cst"
    unfolding removeMember_def deleteLoadBalancerMember_def
    using that by (auto simp: wp drop_calls_def split: prod.split sum.split option.split)
qed simp

definition members_answer ::
  "'w ClusterScope \<Rightarrow> 'w cst \<Rightarrow>
   (LoadBalancerPoolMember list \<times> LoadBalancerPoolMemberRequest list) option" where
  "members_answer S s =
     (case mem_List (LoadBalancerPoolMembers (sc_CloudscaleClient S)) (poolOf s) (st_world s) of
        (Inl e, w) \<Rightarrow> None
      | (Inr cur, w) \<Rightarrow>
          (case k_ListCloudscaleMachines (sc_client S) (om_Namespace (cl_Meta (st_obj s)))
                  (lbMachineLabels S) w of
             (Inl e, w') \<Rightarrow> None
           | (Inr ms, w') \<Rightarrow>
               (case desired_of (st_obj s) ms of Inl e \<Rightarrow> None | Inr des \<Rightarrow> Some (cur, des))))"

lemma reconcileLBMembers_plan:
  "wp (reconcileLBMembers S)
     (\<lambda>res s'. IsZero res \<longrightarrow> (\<exists>cur des. members_answer S s = Some (cur, des) \<and>
        st_calls s' = st_calls s @ [ListMembers (poolOf s), KubeList ''CloudscaleMachine'' (lbMachineLabels S)]
          @ member_plan (poolOf s) cur des))
     (\<lambda>_ _. True) s"
proof -
  have rem: "wp (goFor cur (removeMember S (index_by pmq_Name des))) (\<lambda>_. wp (goReturn zeroResult)
        (\<lambda>res s'. st_calls s' = st_calls t @ concat (map (drop_calls (poolOf t) des) cur)) (\<lambda>_ _. True))
      (\<lambda>_ _. True) t" for cur des t
    by (rule wp_mono [OF remove_loop]) (simp_all add: wp split: option.splits)
  show ?thesis
    unfolding reconcileLBMembers_def
    by (auto simp: wp wp_getDesiredLoadBalancerMembers members_answer_def member_plan_def
        split: prod.split sum.split option.splits
        intro!: wp_mono [OF addOrUpdate_loop] wp_mono [OF rem])
qed

section \<open>The plan reaches the desired pool\<close>

text \<open>
  What the API does with a member request on a pool: a create adds a member with an id of its
  choice, an update changes the address of the member with the given id, a delete removes it.
\<close>

fun pool_step ::
  "(LoadBalancerPoolMemberRequest \<Rightarrow> string) \<Rightarrow> api_call \<Rightarrow>
   LoadBalancerPoolMember list \<Rightarrow> LoadBalancerPoolMember list" where
  "pool_step fresh (CreateMember p d) ms =
     ms @ [\<lparr>pm_UUID = fresh d, pm_Name = pmq_Name d, pm_Address = pmq_Address d,
            pm_ProtocolPort = pmq_ProtocolPort d, pm_MonitorStatus = ''''\<rparr>]"
| "pool_step fresh (UpdateMember p u q) ms =
     map (\<lambda>m. if pm_UUID m = u then m\<lparr>pm_Address := pmq_Address q\<rparr> else m) ms"
| "pool_step fresh (DeleteMember p u) ms = filter (\<lambda>m. pm_UUID m \<noteq> u) ms"
| "pool_step fresh c ms = ms"

definition run_pool ::
  "(LoadBalancerPoolMemberRequest \<Rightarrow> string) \<Rightarrow> api_call list \<Rightarrow>
   LoadBalancerPoolMember list \<Rightarrow> LoadBalancerPoolMember list" where
  "run_pool fresh cs ms = fold (pool_step fresh) cs ms"

lemma run_pool_simps [simp]:
  "run_pool fresh [] ms = ms"
  "run_pool fresh [c] ms = pool_step fresh c ms"
  "run_pool fresh (cs @ ds) ms = run_pool fresh ds (run_pool fresh cs ms)"
  by (simp_all add: run_pool_def)

definition new_member ::
  "(LoadBalancerPoolMemberRequest \<Rightarrow> string) \<Rightarrow> LoadBalancerPoolMemberRequest \<Rightarrow> LoadBalancerPoolMember" where
  "new_member fresh d =
     \<lparr>pm_UUID = fresh d, pm_Name = pmq_Name d, pm_Address = pmq_Address d,
      pm_ProtocolPort = pmq_ProtocolPort d, pm_MonitorStatus = ''''\<rparr>"

definition readdress ::
  "LoadBalancerPoolMemberRequest list \<Rightarrow> LoadBalancerPoolMember \<Rightarrow> LoadBalancerPoolMember" where
  "readdress ds m =
     (case find (\<lambda>d. pmq_Name d = pm_Name m) ds of
        None \<Rightarrow> m | Some d \<Rightarrow> m\<lparr>pm_Address := pmq_Address d\<rparr>)"

lemma readdress_simps [simp]:
  "pm_UUID (readdress ds m) = pm_UUID m" "pm_Name (readdress ds m) = pm_Name m"
  by (simp_all add: readdress_def split: option.split)

lemma readdress_other: "pm_Name m \<notin> pmq_Name ` set ds \<Longrightarrow> readdress ds m = m"
proof -
  assume "pm_Name m \<notin> pmq_Name ` set ds"
  then have "find (\<lambda>d. pmq_Name d = pm_Name m) ds = None" by (auto simp: find_None_iff image_iff)
  then show ?thesis by (simp add: readdress_def)
qed

lemma readdress_snoc:
  assumes "pmq_Name d \<notin> pmq_Name ` set ds"
  shows "readdress (ds @ [d]) m =
    (if pm_Name m = pmq_Name d then m\<lparr>pm_Address := pmq_Address d\<rparr> else readdress ds m)"
proof (cases "pm_Name m = pmq_Name d")
  case True
  with assms have "find (\<lambda>d. pmq_Name d = pm_Name m) ds = None"
    by (auto simp: find_None_iff image_iff)
  with True show ?thesis by (simp add: readdress_def find_append)
next
  case False
  then show ?thesis by (auto simp: readdress_def find_append split: option.split)
qed

lemma run_puts:
  assumes "distinct (map pm_UUID cur)" and "distinct (map pm_Name cur)"
    and "\<And>d. fresh d \<notin> pm_UUID ` set cur" and "distinct (map pmq_Name ds)"
  shows "run_pool fresh (concat (map (put_calls pool cur) ds)) cur =
    map (readdress ds) cur @ map (new_member fresh) (filter (\<lambda>d. pmq_Name d \<notin> pm_Name ` set cur) ds)"
  using assms(4)
proof (induction ds rule: rev_induct)
  case Nil
  then show ?case by (simp add: readdress_def)
next
  case (snoc d ds)
  then have nd: "pmq_Name d \<notin> pmq_Name ` set ds" by simp
  let ?new = "map (new_member fresh) (filter (\<lambda>d. pmq_Name d \<notin> pm_Name ` set cur) ds)"
  have IH: "run_pool fresh (concat (map (put_calls pool cur) ds)) cur = map (readdress ds) cur @ ?new"
    using snoc by simp
  show ?case
  proof (cases "index_by pm_Name cur (pmq_Name d)")
    case None
    then have "pmq_Name d \<notin> pm_Name ` set cur" by (simp add: index_by_None_iff)
    moreover from this have "map (readdress (ds @ [d])) cur = map (readdress ds) cur"
      by (intro map_cong) (auto simp: readdress_snoc [OF nd] image_iff)
    moreover from None have "put_calls pool cur d = [CreateMember pool d]" by (simp add: put_calls_def)
    ultimately show ?thesis
      using IH by (simp add: new_member_def [of _ d])
  next
    case (Some m)
    then have m: "m \<in> set cur" "pm_Name m = pmq_Name d" by (auto dest: index_by_SomeD)
    have same: "m' = m" if "m' \<in> set cur" "pm_Name m' = pmq_Name d" for m'
      using assms(2) m that by (metis distinct_map inj_onD)
    have uuid: "m' = m" if "m' \<in> set cur" "pm_UUID m' = pm_UUID m" for m'
      using assms(1) m that by (metis distinct_map inj_onD)
    have old: "readdress ds m = m" by (rule readdress_other) (use nd m in simp)
    have "pool_step fresh (UpdateMember pool (pm_UUID m) (address_request (pmq_Address d)))
        (map (readdress ds) cur @ ?new) = map (readdress (ds @ [d])) cur @ ?new"
      using assms(3) m(1)
      by (auto simp: address_request_def readdress_snoc [OF nd] new_member_def m(2) old
          dest: uuid same)
    moreover have "map (readdress (ds @ [d])) cur = map (readdress ds) cur"
      if "pm_Address m = pmq_Address d"
      using that by (auto simp: readdress_snoc [OF nd] old dest!: same)
    moreover have "pmq_Name d \<in> pm_Name ` set cur" using m by (metis image_eqI)
    moreover from Some have "put_calls pool cur d =
        (if pm_Address m \<noteq> pmq_Address d
         then [UpdateMember pool (pm_UUID m) (address_request (pmq_Address d))] else [])"
      by (simp add: put_calls_def)
    ultimately show ?thesis
      using IH by simp
  qed
qed

lemma run_drops:
  "run_pool fresh (concat (map (drop_calls pool des) ms)) xs =
     filter (\<lambda>x. pm_UUID x \<notin> pm_UUID ` {m \<in> set ms. pm_Name m \<notin> pmq_Name ` set des}) xs"
proof (induction ms arbitrary: xs)
  case Nil
  then show ?case by simp
next
  case (Cons m ms)
  have calls: "drop_calls pool des m =
      (if pm_Name m \<in> pmq_Name ` set des then [] else [DeleteMember pool (pm_UUID m)])"
    using index_by_None_iff [of pmq_Name des "pm_Name m"]
    by (auto simp: drop_calls_def split: option.split)
  have "{m' \<in> set (m # ms). pm_Name m' \<notin> pmq_Name ` set des} =
      (if pm_Name m \<in> pmq_Name ` set des then {} else {m}) \<union>
      {m' \<in> set ms. pm_Name m' \<notin> pmq_Name ` set des}" by auto
  with Cons show ?case by (auto simp: calls intro!: filter_cong)
qed

text \<open>The members that stay have the addresses of the desired members of their names.\<close>

lemma readdressed_members:
  assumes "distinct (map pmq_Name des)"
  shows "(\<lambda>m. (pm_Name m, pm_Address m)) ` readdress des ` {m \<in> set cur. pm_Name m \<in> pmq_Name ` set des} =
    (\<lambda>d. (pmq_Name d, pmq_Address d)) ` {d \<in> set des. pmq_Name d \<in> pm_Name ` set cur}"
proof -
  let ?v = "\<lambda>m. (pm_Name m, pm_Address m)"
  have re: "?v (readdress des m) = (pmq_Name d, pmq_Address d)"
    if "d \<in> set des" "pm_Name m = pmq_Name d" for d m
  proof -
    from find_exists [OF that(1), of "\<lambda>d. pmq_Name d = pm_Name m"] that(2) obtain d' where
      "find (\<lambda>d. pmq_Name d = pm_Name m) des = Some d'" by auto
    moreover from this have "d' = d"
      using assms that by (metis (mono_tags, lifting) distinct_map find_SomeD inj_onD)
    ultimately show ?thesis by (simp add: readdress_def that(2))
  qed
  show ?thesis
  proof (rule set_eqI, rule iffI)
    fix x assume "x \<in> ?v ` readdress des ` {m \<in> set cur. pm_Name m \<in> pmq_Name ` set des}"
    then obtain m d where "m \<in> set cur" "d \<in> set des" "pm_Name m = pmq_Name d"
      "x = ?v (readdress des m)" by auto
    with re [of d m] show
      "x \<in> (\<lambda>d. (pmq_Name d, pmq_Address d)) ` {d \<in> set des. pmq_Name d \<in> pm_Name ` set cur}"
      by (metis (mono_tags, lifting) image_eqI mem_Collect_eq)
  next
    fix x assume "x \<in> (\<lambda>d. (pmq_Name d, pmq_Address d)) ` {d \<in> set des. pmq_Name d \<in> pm_Name ` set cur}"
    then obtain m d where "m \<in> set cur" "d \<in> set des" "pm_Name m = pmq_Name d"
      "x = (pmq_Name d, pmq_Address d)" by auto
    with re [of d m] show "x \<in> ?v ` readdress des ` {m \<in> set cur. pm_Name m \<in> pmq_Name ` set des}"
      by (metis (mono_tags, lifting) image_eqI mem_Collect_eq)
  qed
qed

lemma member_plan_reaches:
  assumes "distinct (map pm_UUID cur)" and "distinct (map pm_Name cur)"
    and "\<And>d. fresh d \<notin> pm_UUID ` set cur" and "distinct (map pmq_Name des)"
  shows "(\<lambda>m. (pm_Name m, pm_Address m)) ` set (run_pool fresh (member_plan pool cur des) cur) =
    (\<lambda>d. (pmq_Name d, pmq_Address d)) ` set des"
proof -
  define gone where "gone = pm_UUID ` {m \<in> set cur. pm_Name m \<notin> pmq_Name ` set des}"
  let ?new = "filter (\<lambda>d. pmq_Name d \<notin> pm_Name ` set cur) des"
  let ?v = "\<lambda>m. (pm_Name m, pm_Address m)"
  have kept: "pm_UUID m \<in> gone \<longleftrightarrow> pm_Name m \<notin> pmq_Name ` set des" if "m \<in> set cur" for m
  proof -
    have "m' = m" if "m' \<in> set cur" "pm_UUID m' = pm_UUID m" for m'
      using assms(1) \<open>m \<in> set cur\<close> that by (metis distinct_map inj_onD)
    then have "pm_UUID m \<in> gone \<longleftrightarrow> (\<exists>m' \<in> set cur. m' = m \<and> pm_Name m' \<notin> pmq_Name ` set des)"
      unfolding gone_def by auto
    with that show ?thesis by blast
  qed
  have new: "fresh d \<notin> gone" for d using assms(3) unfolding gone_def by blast
  have "set (run_pool fresh (member_plan pool cur des) cur) =
      readdress des ` {m \<in> set cur. pm_Name m \<in> pmq_Name ` set des} \<union> new_member fresh ` set ?new"
    unfolding member_plan_def run_pool_simps run_puts [OF assms] run_drops gone_def [symmetric]
    using new by (auto simp: kept new_member_def)
  then have "?v ` set (run_pool fresh (member_plan pool cur des) cur) =
      ?v ` readdress des ` {m \<in> set cur. pm_Name m \<in> pmq_Name ` set des} \<union>
      ?v ` new_member fresh ` set ?new" by (simp add: image_Un)
  also have "?v ` readdress des ` {m \<in> set cur. pm_Name m \<in> pmq_Name ` set des} =
      (\<lambda>d. (pmq_Name d, pmq_Address d)) ` {d \<in> set des. pmq_Name d \<in> pm_Name ` set cur}"
    by (rule readdressed_members [OF assms(4)])
  also have "?v ` new_member fresh ` set ?new =
      (\<lambda>d. (pmq_Name d, pmq_Address d)) ` {d \<in> set des. pmq_Name d \<notin> pm_Name ` set cur}"
    by (auto simp: new_member_def image_iff)
  finally show ?thesis by auto
qed

section \<open>Desired members\<close>

definition in_member_subnet :: "CloudscaleCluster \<Rightarrow> LoadBalancerPoolMemberRequest \<Rightarrow> bool" where
  "in_member_subnet c d \<longleftrightarrow>
     (\<exists>cidr ip net a. getPoolMemberSubnetID c = Inr (pmq_Subnet d) \<and>
        getMemberSubnetCIDR c (pmq_Subnet d) = Inr cidr \<and> net_ParseCIDR cidr = Inr (ip, net) \<and>
        net_ParseIP (pmq_Address d) = Some a \<and> IPNet_Contains net a)"

lemma desired_ofD:
  assumes "desired_of c ms = Inr des" and "d \<in> set des"
  obtains m where "m \<in> set ms" and "pmq_Name d = om_Name (cm_Meta m)"
    and "\<lparr>ma_Type = MachineInternalIP, ma_Address = pmq_Address d\<rparr> \<in> set (mst_Addresses (cm_Status m))"
    and "pmq_ProtocolPort d = lb_APIServerPort (cs_ControlPlaneLoadBalancer (cl_Spec c))"
    and "in_member_subnet c d"
proof -
  from assms(1) obtain sid cidr ip net where
    r: "getPoolMemberSubnetID c = Inr sid" "getMemberSubnetCIDR c sid = Inr cidr"
      "net_ParseCIDR cidr = Inr (ip, net)"
    and des: "des = List.map_filter (desiredMember c sid net) ms"
    by (auto simp: desired_of_def split: sum.splits prod.splits)
  from des assms(2) obtain m where m: "m \<in> set ms" and d: "desiredMember c sid net m = Some d"
    by (auto simp: List.map_filter_def)
  from d obtain a where
    f: "find (\<lambda>a. ma_Type a = MachineInternalIP \<and> ma_Address a \<noteq> '''' \<and>
                 (case net_ParseIP (ma_Address a) of
                    None \<Rightarrow> False | Some ip \<Rightarrow> IPNet_Contains net ip))
         (mst_Addresses (cm_Status m)) = Some a"
    and dd: "pmq_Name d = om_Name (cm_Meta m)" "pmq_Address d = ma_Address a" "pmq_Subnet d = sid"
      "pmq_ProtocolPort d = lb_APIServerPort (cs_ControlPlaneLoadBalancer (cl_Spec c))"
    by (auto simp: desiredMember_def memberAddress_def)
  have "a = \<lparr>ma_Type = MachineInternalIP, ma_Address = pmq_Address d\<rparr>"
    using find_SomeD(2) [OF f] dd(2) by (cases a) simp
  moreover have "in_member_subnet c d"
    using find_SomeD(2) [OF f] dd r by (auto simp: in_member_subnet_def split: option.splits)
  ultimately show ?thesis using that [of m] m dd find_SomeD(1) [OF f] by simp
qed

lemma desired_of_distinct:
  assumes "desired_of c ms = Inr des" and "distinct (map (\<lambda>m. om_Name (cm_Meta m)) ms)"
  shows "distinct (map pmq_Name des)"
proof -
  have "distinct (map pmq_Name (List.map_filter (desiredMember c sid net) ms)) \<and>
      pmq_Name ` set (List.map_filter (desiredMember c sid net) ms) \<subseteq> (\<lambda>m. om_Name (cm_Meta m)) ` set ms"
    for sid net
    using assms(2)
  proof (induction ms)
    case Nil
    then show ?case by (simp add: List.map_filter_def)
  next
    case (Cons m ms)
    then show ?case by (auto simp: List.map_filter_def desiredMember_def image_iff)
  qed
  with assms(1) show ?thesis
    by (auto simp: desired_of_def split: sum.splits prod.splits)
qed

section \<open>Requests\<close>

text \<open>
  Reads; creates with the cluster's ownership tag; changes of the pool's members; the listing of the
  control-plane machines.
\<close>

definition lb_call :: "str_map \<Rightarrow> api_call \<Rightarrow> bool" where
  "lb_call tags c \<longleftrightarrow>
     (case c of
        Get k i \<Rightarrow> k = KLoadBalancer \<or> k = KPool \<or> k = KListener \<or> k = KHealthMonitor
      | List k t \<Rightarrow> (k = KLoadBalancer \<or> k = KPool \<or> k = KListener \<or> k = KHealthMonitor) \<and> t = tags
      | Create (NewLoadBalancer req) \<Rightarrow> lbq_Tags req = tags
      | Create (NewPool req) \<Rightarrow> lpq_Tags req = tags
      | Create (NewListener req) \<Rightarrow> llq_Tags req = tags
      | Create (NewHealthMonitor req) \<Rightarrow> lhq_Tags req = tags
      | ListMembers p \<Rightarrow> True
      | CreateMember p req \<Rightarrow> True
      | UpdateMember p u req \<Rightarrow> True
      | DeleteMember p u \<Rightarrow> True
      | KubeList k t \<Rightarrow> k = ''CloudscaleMachine''
      | _ \<Rightarrow> False)"

lemma goLift_owned: "keeps (owned P T) (goLift r)"
  unfolding goLift_def by (intro owned_intros)

lemma lbStep_owned: "keeps (owned P T) m \<Longrightarrow> keeps (owned P T) (lbStep msg pending m)"
  unfolding lbStep_def by (intro owned_intros)

lemma lb_part_calls:
  "keeps (owned (lb_call T) T) (reconcileLB S)" "keeps (owned (lb_call T) T) (reconcileLBPool S)"
  "keeps (owned (lb_call T) T) (reconcileLBListener S)"
  "keeps (owned (lb_call T) T) (reconcileLBHealthMonitor S)"
  unfolding reconcileLB_def reconcileLBPool_def reconcileLBListener_def reconcileLBHealthMonitor_def
  by (intro owned_intros goLift_owned; simp add: lb_call_def)+

lemma reconcileLBMembers_calls: "keeps (owned (lb_call T) T) (reconcileLBMembers S)"
  unfolding reconcileLBMembers_def addOrUpdateMember_def removeMember_def createLoadBalancerMember_def
    updateLoadBalancerMember_def deleteLoadBalancerMember_def getDesiredLoadBalancerMembers_def
  by (intro owned_intros goLift_owned; simp add: lb_call_def)

lemma reconcileLoadBalancer_calls:
  "emits (lb_call (clusterOwnershipTags (st_obj s))) s (snd (reconcileLoadBalancer S s))"
proof (rule owned_emits)
  let ?T = "clusterOwnershipTags (st_obj s)"
  have tags: "clusterOwnershipTags (Cluster_setCondition S t st r m c) = clusterOwnershipTags c"
    for t st r m c by (simp add: clusterOwnershipTags_def ClusterTagKey_def)
  have "keeps (owned (lb_call ?T) ?T) (reconcileLoadBalancerBody S)"
    unfolding reconcileLoadBalancerBody_def reconcileLBParts_def lbDiagnostics_def
    by (intro owned_intros lbStep_owned lb_part_calls reconcileLBMembers_calls; simp add: lb_call_def)
  then show "keeps (owned (lb_call ?T) ?T) (reconcileLoadBalancer S)"
    unfolding reconcileLoadBalancer_def modify_obj_def
    by (intro owned_intros)
      (auto simp: owned_def tags emits.frame_refl split: sum.split option.split)
qed

section \<open>Deletion and the disabled load balancer\<close>

definition delete_lb_calls :: "CloudscaleCluster \<Rightarrow> api_call list" where
  "delete_lb_calls c =
     (if lbEnabled (cl_Spec c) \<and> cst_LoadBalancerID (cl_Status c) \<noteq> ''''
      then [Delete KLoadBalancer (cst_LoadBalancerID (cl_Status c))] else [])"

lemma deleteLoadBalancer_spec:
  "wp (deleteLoadBalancer S)
     (\<lambda>_ s'. st_calls s' = st_calls s @ delete_lb_calls (st_obj s) \<and>
        (lbEnabled (specOf s) \<longrightarrow>
           lb_ids (statusOf s') = ('''', '''', '''', '''') \<and> cst_LoadBalancerMemberIDs (statusOf s') = []) \<and>
        (\<not> lbEnabled (specOf s) \<longrightarrow> s' = s))
     (\<lambda>e s'. lbEnabled (specOf s) \<and> lb_ids (statusOf s') = lb_ids (statusOf s) \<and>
        st_calls s' = st_calls s @ delete_lb_calls (st_obj s) \<and> \<not> IsNotFound (Some e)) s"
  unfolding deleteLoadBalancer_def
  by (auto simp: wp delete_lb_calls_def lb_ids_def split: option.split sum.split prod.split)

lemma reconcileLoadBalancer_disabled:
  "\<not> lbEnabled (specOf s) \<Longrightarrow>
     reconcileLoadBalancer S s =
       (Inr (\<lparr>lbs_ipAddress = '''', lbs_ready = True\<rparr>, zeroResult),
        s\<lparr>st_obj := Cluster_setCondition S LoadBalancerReadyCondition ConditionTrue
                       LoadBalancerDisabledReason '''' (st_obj s)\<rparr>)"
  by (cases s) (simp add: reconcileLoadBalancer_def goBind_def goGets_def goReturn_def modify_obj_def
      goModify_def)

section \<open>A create that times out\<close>

text \<open>
  When the create request of the load balancer times out, the reconcile asks for a requeue, as it
  should; the deferred function then finds neither an error nor the pending flag, which is set only
  later, and reports the load balancer as running although none is recorded.
\<close>

lemma reconcileLoadBalancer_timeout:
  assumes "scope_ok S" and "lbEnabled (specOf s)" and "lb_Network (cs_ControlPlaneLoadBalancer (specOf s)) = ''''"
    and "cst_LoadBalancerID (statusOf s) = ''''"
    and "\<And>t w. svc_List (LoadBalancers (sc_CloudscaleClient S)) t w = (Inr [], w)"
    and "\<And>q w. svc_Create (LoadBalancers (sc_CloudscaleClient S)) q w = (Inl e, w)"
    and "IsTimeoutError (Some e)"
  shows "wp (reconcileLoadBalancer S)
    (\<lambda>r s'. r = (noLbStatus, requeueAfter (5 * time_Second)) \<and>
       cst_LoadBalancerID (statusOf s') = '''' \<and>
       cond S s' LoadBalancerReadyCondition =
         Some \<lparr>co_Type = LoadBalancerReadyCondition, co_Status = ConditionTrue,
               co_Reason = LoadBalancerRunningReason, co_Message = ''''\<rparr>)
    (\<lambda>_ _. False) s"
  unfolding reconcileLoadBalancer_def reconcileLoadBalancerBody_def reconcileLB_def
  using assms by (simp add: wp wp_ensureResource)

end
