(* ===== verification/Cluster_FloatingIP.thy ===== *)
theory Cluster_FloatingIP
  imports Sample_Cloud
begin

text \<open>
  The control plane's floating IP, \<^verbatim>\<open>cloudscalecluster_floatingip.go\<close>: a pre-existing address is
  looked up and assigned, a managed one is found by id or tag and created otherwise; deletion
  removes a managed address only. The reconciler's client and the scope's are the same value.
\<close>

section \<open>Definitions\<close>

definition createFloatingIPTimeoutRequeueAfter :: Duration where
  "createFloatingIPTimeoutRequeueAfter = 5 * time_Second"

record floatingIPTarget =
  lbUUID :: string
  serverUUID :: string

definition noTarget :: floatingIPTarget where
  "noTarget = \<lparr>lbUUID = '''', serverUUID = ''''\<rparr>"

definition floatingIPTarget_String :: "floatingIPTarget \<Rightarrow> string" where
  "floatingIPTarget_String t =
     (if lbUUID t \<noteq> '''' then ''lb:'' @ lbUUID t else ''server:'' @ serverUUID t)"

definition cpMachineLabels :: "'w ClusterScope \<Rightarrow> str_map" where
  "cpMachineLabels S =
     [(ClusterNameLabel, om_Name (capi_Meta (sc_Cluster S))), (MachineControlPlaneLabel, '''')]"

definition getFloatingIPTarget :: "'w ClusterScope \<Rightarrow> ('w cst, floatingIPTarget) proc" where
  "getFloatingIPTarget S =
     goBind (goGets st_obj) (\<lambda>c.
     if ptr_Deref (lb_Enabled (cs_ControlPlaneLoadBalancer (cl_Spec c))) True then
       (let lbID = cst_LoadBalancerID (cl_Status c) in
        if lbID = '''' then goError (fmt_Errorf ''waiting for load balancer to be provisioned'' [])
        else goReturn (noTarget\<lparr>lbUUID := lbID\<rparr>))
     else
       goBind (goWrap (fmt_Errorw ''listing CP machines: %w'' [])
                (api (KubeList ''CloudscaleMachine'' (cpMachineLabels S))
                   (k_ListCloudscaleMachines (sc_client S) (om_Namespace (cl_Meta c)) (cpMachineLabels S))))
         (\<lambda>machines.
            case find (\<lambda>m. mst_ServerID (cm_Status m) \<noteq> '''') machines of
              Some m \<Rightarrow> goReturn (noTarget\<lparr>serverUUID := mst_ServerID (cm_Status m)\<rparr>)
            | None \<Rightarrow>
                goError (fmt_Errorf ''waiting for a control plane server to be provisioned'' [])))"

definition noPublicInterfaceMessage :: string where
  "noPublicInterfaceMessage =
     ''floating IP cannot be assigned to control plane server: server must have a public interface when the load balancer is disabled; add {type: public} to the control-plane machine template interfaces''"

definition assignmentUpdate :: "floatingIPTarget \<Rightarrow> FloatingIP \<Rightarrow> FloatingIPUpdateRequest option" where
  "assignmentUpdate target fip =
     (if lbUUID target \<noteq> '''' \<and> (case fip_LoadBalancer fip of None \<Rightarrow> True | Some u \<Rightarrow> u \<noteq> lbUUID target)
      then Some \<lparr>fur_LoadBalancer = lbUUID target, fur_Server = ''''\<rparr>
      else if serverUUID target \<noteq> '''' \<and>
              (case fip_Server fip of None \<Rightarrow> True | Some u \<Rightarrow> u \<noteq> serverUUID target)
      then Some \<lparr>fur_LoadBalancer = '''', fur_Server = serverUUID target\<rparr>
      else None)"

definition ensureFloatingIPAssignment :: "'w ClusterScope \<Rightarrow> FloatingIP \<Rightarrow> ('w cst, unit) proc" where
  "ensureFloatingIPAssignment S fip =
     goBind (goTry (getFloatingIPTarget S)) (\<lambda>r.
     case r of
       Inl err \<Rightarrow> goReturn ()
     | Inr target \<Rightarrow>
         (case assignmentUpdate target fip of
            None \<Rightarrow> goReturn ()
          | Some updateReq \<Rightarrow>
              goBind (goGets (\<lambda>s. cst_FloatingIP (statusOf s))) (\<lambda>floatingIP.
              goBind (goWrap (\<lambda>err. if IsFloatingIPNoPublicInterface (Some err)
                                   then fmt_Errorf noPublicInterfaceMessage []
                                   else fmt_Errorw ''updating floating IP assignment: %w'' [] err)
                        (api (UpdateFloatingIP floatingIP updateReq)
                           (svc_Update (FloatingIPs (sc_CloudscaleClient S)) floatingIP updateReq)))
                (\<lambda>_. Eventf EventTypeNormal ''FloatingIPReassigned'' ''UpdateFloatingIP''
                        ''Reassigned floating IP %s to %s''
                        [FS floatingIP, FS (floatingIPTarget_String target)]))))"

definition reconcilePreExistingFloatingIP :: "'w ClusterScope \<Rightarrow> string \<Rightarrow> ('w cst, unit) proc" where
  "reconcilePreExistingFloatingIP S ip =
     goBind (goWrap (fmt_Errorw ''getting pre-existing floating IP %s: %w'' [FS ip])
               (api (Get KFloatingIP ip) (svc_Get (FloatingIPs (sc_CloudscaleClient S)) ip)))
       (\<lambda>fip.
     goBind (goGets (\<lambda>s. cs_Region (specOf s))) (\<lambda>region.
     if (case fip_Region fip of None \<Rightarrow> False | Some slug \<Rightarrow> slug \<noteq> region) then
       goError (fmt_Errorf ''pre-existing floating IP %s is in region %q, expected region %q''
                  [FS ip, FS (ptr_Deref (fip_Region fip) ''''), FS region])
     else
       goBind (modify_status (\<lambda>st. st\<lparr>cst_FloatingIP := fip_IP fip\<rparr>))
         (\<lambda>_. ensureFloatingIPAssignment S fip)))"

definition reconcileManagedFloatingIP ::
  "'w ClusterScope \<Rightarrow> FloatingIPSpec \<Rightarrow> ('w cst, Result) proc" where
  "reconcileManagedFloatingIP S fipSpec =
     goBind (goGets st_obj) (\<lambda>c.
     let tags = clusterOwnershipTags c in
     goBind (ensureResource KFloatingIP (cst_FloatingIP (cl_Status c)) ''floating IP''
               (FloatingIPs (sc_CloudscaleClient S)) fip_IP tags)
       (\<lambda>(fip, id).
     goBind (modify_status (\<lambda>st. st\<lparr>cst_FloatingIP := id\<rparr>)) (\<lambda>_.
     if id \<noteq> '''' then
       (case fip of
          None \<Rightarrow> goError (Panic ''nil floating IP'')
        | Some fip \<Rightarrow>
            goBind (ensureFloatingIPAssignment S fip) (\<lambda>_. goReturn zeroResult))
     else
       (let ipVersion = (if fips_IPFamily fipSpec = Some IPFamilyIPv6 then 6 else 4) in
        goBind (goTry (getFloatingIPTarget S)) (\<lambda>r.
        let target = (case r of Inl err \<Rightarrow> noTarget | Inr target \<Rightarrow> target);
            req = \<lparr>fcr_IPVersion = ipVersion, fcr_Region = cs_Region (cl_Spec c),
                   fcr_LoadBalancer = lbUUID target,
                   fcr_Server = (if lbUUID target \<noteq> '''' then '''' else serverUUID target),
                   fcr_Tags = tags\<rparr>
        in
        goStep (createStep createFloatingIPTimeoutRequeueAfter ''creating floating IP: %w''
                  (api (Create (NewFloatingIP req))
                     (svc_Create (FloatingIPs (sc_CloudscaleClient S)) req)))
          (\<lambda>fip.
        goBind (modify_status (\<lambda>st. st\<lparr>cst_FloatingIP := fip_IP fip\<rparr>)) (\<lambda>_.
        goBind (Eventf EventTypeNormal ''FloatingIPCreated'' ''CreateFloatingIP''
                  ''Created floating IP %s'' [FS (fip_IP fip)])
          (\<lambda>_. goReturn zeroResult))))))))"

definition reconcileFloatingIP :: "'w ClusterScope \<Rightarrow> ('w cst, Result) proc" where
  "reconcileFloatingIP S =
     goBind (goGets (\<lambda>s. cs_FloatingIP (specOf s))) (\<lambda>fipSpec.
     case fipSpec of
       None \<Rightarrow>
         goBind (modify_obj (Cluster_setCondition S FloatingIPReadyCondition ConditionTrue
                               FloatingIPDisabledReason ''''))
           (\<lambda>_. goReturn zeroResult)
     | Some fipSpec \<Rightarrow>
         goDefer (\<lambda>ret. st_obj_update
             (case ret of
                Inl err \<Rightarrow> Cluster_setCondition S FloatingIPReadyCondition ConditionFalse
                             FloatingIPErrorReason (error_text err)
              | Inr _ \<Rightarrow> Cluster_setCondition S FloatingIPReadyCondition ConditionTrue
                           FloatingIPProvisionedReason ''''))
           (if fips_Address fipSpec \<noteq> '''' then
              goBind (reconcilePreExistingFloatingIP S (fips_Address fipSpec))
                (\<lambda>_. goReturn zeroResult)
            else reconcileManagedFloatingIP S fipSpec))"

definition deleteFloatingIP :: "'w ClusterScope \<Rightarrow> ('w cst, unit) proc" where
  "deleteFloatingIP S =
     goBind (goGets (\<lambda>s. cs_FloatingIP (specOf s))) (\<lambda>fipSpec.
     case fipSpec of
       None \<Rightarrow> goReturn ()
     | Some fipSpec \<Rightarrow>
         if fips_Address fipSpec \<noteq> '''' then goReturn ()
         else
           goDefer (\<lambda>ret. st_obj_update
               (case ret of
                  Inl err \<Rightarrow> Cluster_setCondition S FloatingIPReadyCondition ConditionFalse
                               FloatingIPErrorReason
                               (fmt_Sprintf ''Failed to delete floating IP: %v'' [FE err])
                | Inr _ \<Rightarrow> Cluster_setCondition S FloatingIPReadyCondition ConditionFalse
                             FloatingIPDeletingReason ''Floating IP has been deleted''))
             (goBind (goGets (\<lambda>s. cst_FloatingIP (statusOf s))) (\<lambda>floatingIP.
              if floatingIP = '''' then goReturn ()
              else
                goBind (goTry (api (Delete KFloatingIP floatingIP)
                          (svc_Delete (FloatingIPs (sc_CloudscaleClient S)) floatingIP)))
                  (\<lambda>r. case hard_error (err_of r) of
                      Some e \<Rightarrow> goError (fmt_Errorw ''deleting floating IP: %w'' [] e)
                    | None \<Rightarrow>
                        goBind (Eventf EventTypeNormal ''FloatingIPDeleted'' ''DeleteFloatingIP''
                                  ''Deleted floating IP %s'' [FS floatingIP])
                          (\<lambda>_. modify_status (\<lambda>st. st\<lparr>cst_FloatingIP := ''''\<rparr>))))))"

section \<open>Frames\<close>

abbreviation fip_frame :: "'w cst \<Rightarrow> 'w cst \<Rightarrow> bool" where
  "fip_frame \<equiv> obj_frame (erase (cst_FloatingIP_update (\<lambda>_. '''')))"

lemma getFloatingIPTarget_frame: "keeps (obj_frame f) (getFloatingIPTarget S)"
  unfolding getFloatingIPTarget_def by (intro frame_intros)

lemma ensureFloatingIPAssignment_frame: "keeps (obj_frame f) (ensureFloatingIPAssignment S fip)"
  unfolding ensureFloatingIPAssignment_def by (intro frame_intros getFloatingIPTarget_frame)

lemma reconcileFloatingIP_frame: "keeps fip_frame (reconcileFloatingIP S)"
  unfolding reconcileFloatingIP_def reconcilePreExistingFloatingIP_def reconcileManagedFloatingIP_def
  by (intro frame_intros keeps_erase_modify_status getFloatingIPTarget_frame
      ensureFloatingIPAssignment_frame keeps_obj_modify_obj)
    (auto simp: obj_frame_def split: sum.split)

lemma deleteFloatingIP_frame: "keeps fip_frame (deleteFloatingIP S)"
  unfolding deleteFloatingIP_def
  by (intro frame_intros keeps_erase_modify_status) (auto simp: obj_frame_def split: sum.split)

section \<open>Requests\<close>

text \<open>Reads, a tagged create, a reassignment and the listing of control-plane machines; no delete.\<close>

definition fip_call :: "str_map \<Rightarrow> api_call \<Rightarrow> bool" where
  "fip_call tags c \<longleftrightarrow>
     (case c of
        Get k i \<Rightarrow> k = KFloatingIP
      | List k t \<Rightarrow> k = KFloatingIP \<and> t = tags
      | Create (NewFloatingIP req) \<Rightarrow> fcr_Tags req = tags
      | UpdateFloatingIP i req \<Rightarrow> True
      | KubeList k t \<Rightarrow> k = ''CloudscaleMachine''
      | _ \<Rightarrow> False)"

lemma getFloatingIPTarget_calls: "keeps (emits (fip_call tags)) (getFloatingIPTarget S)"
  unfolding getFloatingIPTarget_def by (intro emits_intros) (simp_all add: fip_call_def)

lemma ensureFloatingIPAssignment_calls:
  "keeps (emits (fip_call tags)) (ensureFloatingIPAssignment S fip)"
  unfolding ensureFloatingIPAssignment_def
  by (intro emits_intros getFloatingIPTarget_calls) (simp_all add: fip_call_def)

lemma reconcilePreExistingFloatingIP_calls:
  "keeps (emits (fip_call tags)) (reconcilePreExistingFloatingIP S ip)"
  unfolding reconcilePreExistingFloatingIP_def
  by (intro emits_intros keeps_emits_modify_status ensureFloatingIPAssignment_calls)
    (simp_all add: fip_call_def)

lemma reconcileManagedFloatingIP_calls:
  "wp (reconcileManagedFloatingIP S f)
     (\<lambda>_. emits (fip_call (clusterOwnershipTags (st_obj s))) s)
     (\<lambda>_. emits (fip_call (clusterOwnershipTags (st_obj s))) s) s"
  unfolding reconcileManagedFloatingIP_def wp_goGets_bind
  by (rule wp_keeps, intro emits_intros keeps_emits_modify_status ensureFloatingIPAssignment_calls
      getFloatingIPTarget_calls) (simp_all add: fip_call_def)

lemma reconcileFloatingIP_calls:
  "wp (reconcileFloatingIP S)
     (\<lambda>_. emits (fip_call (clusterOwnershipTags (st_obj s))) s)
     (\<lambda>_. emits (fip_call (clusterOwnershipTags (st_obj s))) s) s"
  unfolding reconcileFloatingIP_def
  by (auto simp: wp emits.frame_refl split: option.split
      intro!: wp_mono [OF reconcileManagedFloatingIP_calls]
        wp_mono [OF wp_keeps [OF reconcilePreExistingFloatingIP_calls]])

section \<open>The assignment\<close>

text \<open>
  The API's view of a floating IP: \<open>asg w ip\<close> is the load balancer the address \<open>ip\<close> is assigned to
  in the world \<open>w\<close>. A read reports it, and a create or an update that names a load balancer
  establishes it.
\<close>

definition fip_api_ok :: "'w Client \<Rightarrow> ('w \<Rightarrow> string \<Rightarrow> string option) \<Rightarrow> bool" where
  "fip_api_ok cli asg \<longleftrightarrow>
     (\<forall>i w f w'. svc_Get (FloatingIPs cli) i w = (Inr f, w') \<longrightarrow>
        fip_IP f \<noteq> '''' \<and> fip_LoadBalancer f = asg w' i \<and> asg w' (fip_IP f) = asg w' i) \<and>
     (\<forall>t w fs w'. svc_List (FloatingIPs cli) t w = (Inr fs, w') \<longrightarrow>
        list_all (\<lambda>f. fip_IP f \<noteq> '''' \<and> fip_LoadBalancer f = asg w' (fip_IP f)) fs) \<and>
     (\<forall>q w f w'. svc_Create (FloatingIPs cli) q w = (Inr f, w') \<longrightarrow>
        fip_IP f \<noteq> '''' \<and>
        (fcr_LoadBalancer q \<noteq> '''' \<longrightarrow> asg w' (fip_IP f) = Some (fcr_LoadBalancer q))) \<and>
     (\<forall>i q w w'. svc_Update (FloatingIPs cli) i q w = (Inr (), w') \<longrightarrow> fur_LoadBalancer q \<noteq> '''' \<longrightarrow>
        asg w' i = Some (fur_LoadBalancer q))"

lemma fip_api_okD:
  assumes "fip_api_ok cli asg"
  shows "svc_Get (FloatingIPs cli) i w = (Inr f, w') \<Longrightarrow>
      fip_IP f \<noteq> '''' \<and> fip_LoadBalancer f = asg w' i \<and> asg w' (fip_IP f) = asg w' i"
    and "svc_List (FloatingIPs cli) t w = (Inr fs, w') \<Longrightarrow>
      list_all (\<lambda>f. fip_IP f \<noteq> '''' \<and> fip_LoadBalancer f = asg w' (fip_IP f)) fs"
    and "svc_Create (FloatingIPs cli) q w = (Inr f, w') \<Longrightarrow>
      fip_IP f \<noteq> '''' \<and>
      (fcr_LoadBalancer q \<noteq> '''' \<longrightarrow> asg w' (fip_IP f) = Some (fcr_LoadBalancer q))"
    and "svc_Update (FloatingIPs cli) i uq w = (Inr u, w') \<Longrightarrow> fur_LoadBalancer uq \<noteq> '''' \<Longrightarrow>
      asg w' i = Some (fur_LoadBalancer uq)"
  using assms by (simp_all add: fip_api_ok_def)

text \<open>With a load balancer, the target is that load balancer and nothing is asked of Kubernetes.\<close>

definition lb_target :: "CloudscaleCluster \<Rightarrow> string \<Rightarrow> bool" where
  "lb_target c lb \<longleftrightarrow>
     ptr_Deref (lb_Enabled (cs_ControlPlaneLoadBalancer (cl_Spec c))) True \<and>
     cst_LoadBalancerID (cl_Status c) = lb \<and> lb \<noteq> ''''"

lemma lb_target_simps [simp]:
  "lb_target (c\<lparr>cl_Status := st\<lparr>cst_FloatingIP := ip\<rparr>\<rparr>) lb = lb_target (c\<lparr>cl_Status := st\<rparr>) lb"
  "lb_target (c\<lparr>cl_Status := cl_Status c\<rparr>) lb = lb_target c lb"
  by (simp_all add: lb_target_def)

lemma wp_getFloatingIPTarget_lb:
  "lb_target (st_obj s) lb \<Longrightarrow>
     wp (getFloatingIPTarget S) Q E s = Q (noTarget\<lparr>lbUUID := lb\<rparr>) s"
  unfolding getFloatingIPTarget_def lb_target_def by (auto simp: wp)

definition assigned :: "('w \<Rightarrow> string \<Rightarrow> string option) \<Rightarrow> string \<Rightarrow> 'w cst \<Rightarrow> bool" where
  "assigned asg lb s \<longleftrightarrow>
     cst_FloatingIP (statusOf s) \<noteq> '''' \<and> asg (st_world s) (cst_FloatingIP (statusOf s)) = Some lb"

lemma assigned_setCondition [simp]:
  "assigned asg lb (s\<lparr>st_obj := Cluster_setCondition S t st r m (st_obj s)\<rparr>) = assigned asg lb s"
  "assigned asg lb (st_obj_update (Cluster_setCondition S t st r m) s) = assigned asg lb s"
  "assigned asg lb (s\<lparr>st_events := es\<rparr>) = assigned asg lb s"
  by (simp_all add: assigned_def)

lemma wp_ensureFloatingIPAssignment_lb:
  assumes "lb_target (st_obj s) lb"
  shows "wp (ensureFloatingIPAssignment S fip) Q E s =
    (if fip_LoadBalancer fip = Some lb then Q () s
     else wp (goWrap (\<lambda>err. if IsFloatingIPNoPublicInterface (Some err)
                                   then fmt_Errorf noPublicInterfaceMessage []
                                   else fmt_Errorw ''updating floating IP assignment: %w'' [] err)
               (api (UpdateFloatingIP (cst_FloatingIP (statusOf s)) \<lparr>fur_LoadBalancer = lb, fur_Server = ''''\<rparr>)
                  (svc_Update (FloatingIPs (sc_CloudscaleClient S)) (cst_FloatingIP (statusOf s))
                     \<lparr>fur_LoadBalancer = lb, fur_Server = ''''\<rparr>)))
            (\<lambda>_. wp (Eventf EventTypeNormal ''FloatingIPReassigned'' ''UpdateFloatingIP''
                        ''Reassigned floating IP %s to %s''
                        [FS (cst_FloatingIP (statusOf s)),
                         FS (floatingIPTarget_String (noTarget\<lparr>lbUUID := lb\<rparr>))]) Q E) E s)"
proof -
  have "lb \<noteq> ''''" using assms by (simp add: lb_target_def)
  then have "assignmentUpdate (noTarget\<lparr>lbUUID := lb\<rparr>) fip =
      (if fip_LoadBalancer fip = Some lb then None
       else Some \<lparr>fur_LoadBalancer = lb, fur_Server = ''''\<rparr>)"
    by (simp add: assignmentUpdate_def noTarget_def split: option.split)
  then show ?thesis
    unfolding ensureFloatingIPAssignment_def
    by (simp add: wp_goBind wp_goTry wp_case_sum wp_case_option wp_getFloatingIPTarget_lb [OF assms]
        wp_goReturn wp_goGets)
qed

lemma ensureFloatingIPAssignment_assigns:
  assumes "fip_api_ok (sc_CloudscaleClient S) asg" and "lb_target (st_obj s) lb"
    and "cst_FloatingIP (statusOf s) \<noteq> ''''"
    and "fip_LoadBalancer fip = asg (st_world s) (cst_FloatingIP (statusOf s))"
  shows "wp (ensureFloatingIPAssignment S fip) (\<lambda>_. assigned asg lb) (\<lambda>_ _. True) s"
proof -
  have "lb \<noteq> ''''" using assms(2) by (simp add: lb_target_def)
  with assms(3,4) fip_api_okD(4) [OF assms(1), where w = "st_world s"
      and i = "cst_FloatingIP (statusOf s)" and uq = "\<lparr>fur_LoadBalancer = lb, fur_Server = ''''\<rparr>"]
  show ?thesis
    by (simp add: wp_ensureFloatingIPAssignment_lb [OF assms(2)] wp assigned_def
        split: sum.split prod.split)
qed

lemma reconcilePreExistingFloatingIP_assigns:
  assumes "fip_api_ok (sc_CloudscaleClient S) asg" and "lb_target (st_obj s) lb"
  shows "wp (reconcilePreExistingFloatingIP S ip) (\<lambda>_. assigned asg lb) (\<lambda>_ _. True) s"
  unfolding reconcilePreExistingFloatingIP_def
  using assms(2)
  by (auto simp: wp split: option.split sum.split prod.split
      intro!: ensureFloatingIPAssignment_assigns [OF assms(1)] dest!: fip_api_okD(1) [OF assms(1)])

lemma createFloatingIPTimeout_pos [simp]: "createFloatingIPTimeoutRequeueAfter \<noteq> 0"
  by (simp add: createFloatingIPTimeoutRequeueAfter_def)

lemma reconcileManagedFloatingIP_assigns:
  assumes api: "fip_api_ok (sc_CloudscaleClient S) asg" and lb: "lb_target (st_obj s) lb"
  shows "wp (reconcileManagedFloatingIP S f) (\<lambda>res s'. IsZero res \<longrightarrow> assigned asg lb s')
    (\<lambda>_ _. True) s"
proof -
  have found: "wp (ensureFloatingIPAssignment S fip)
      (\<lambda>_. wp (goReturn zeroResult) (\<lambda>res s'. IsZero res \<longrightarrow> assigned asg lb s') (\<lambda>_ _. True))
      (\<lambda>_ _. True) t"
    if "lb_target (st_obj t) lb" "cst_FloatingIP (statusOf t) \<noteq> ''''"
      "fip_LoadBalancer fip = asg (st_world t) (cst_FloatingIP (statusOf t))" for fip t
    by (rule wp_mono [OF ensureFloatingIPAssignment_assigns [OF api that]]; simp add: wp)
  have ne: "lb \<noteq> ''''" using lb by (simp add: lb_target_def)
  show ?thesis
    unfolding reconcileManagedFloatingIP_def wp_goGets_bind Let_def wp_goBind [of "ensureResource _ _ _ _ _ _"]
    apply (rule wp_ensureResource_casesI)
    subgoal by (auto simp: wp lb dest!: fip_api_okD(1) [OF api] intro!: found)
    subgoal by (auto simp: wp lb dest!: fip_api_okD(2) [OF api] intro!: found)
    subgoal
      by (auto simp: wp lb ne wp_getFloatingIPTarget_lb [where lb = lb] noTarget_def assigned_def
          split: prod.split sum.split dest!: fip_api_okD(3) [OF api])
    subgoal by simp
    done
qed

lemma reconcileFloatingIP_assigns:
  assumes api: "fip_api_ok (sc_CloudscaleClient S) asg" and lb: "lb_target (st_obj s) lb"
    and "cs_FloatingIP (specOf s) = Some f"
  shows "wp (reconcileFloatingIP S) (\<lambda>res s'. IsZero res \<longrightarrow> assigned asg lb s') (\<lambda>_ _. True) s"
  unfolding reconcileFloatingIP_def
  by (auto simp: wp assms(3) intro!: wp_mono [OF reconcilePreExistingFloatingIP_assigns [OF api lb]]
      wp_mono [OF reconcileManagedFloatingIP_assigns [OF api lb]])

section \<open>Deletion\<close>

text \<open>
  A floating IP that the spec names by address is left alone, object and cloud alike. A managed one
  is deleted by exactly one request, a 404 counts as deleted, and the status is cleared only then.
\<close>

definition fip_managed :: "CloudscaleClusterSpec \<Rightarrow> bool" where
  "fip_managed spec \<longleftrightarrow> (case cs_FloatingIP spec of None \<Rightarrow> False | Some f \<Rightarrow> fips_Address f = '''')"

definition delete_fip_calls :: "CloudscaleCluster \<Rightarrow> api_call list" where
  "delete_fip_calls c =
     (if fip_managed (cl_Spec c) \<and> cst_FloatingIP (cl_Status c) \<noteq> ''''
      then [Delete KFloatingIP (cst_FloatingIP (cl_Status c))] else [])"

lemma deleteFloatingIP_spec:
  "wp (deleteFloatingIP S)
     (\<lambda>_ s'. st_calls s' = st_calls s @ delete_fip_calls (st_obj s) \<and>
        (fip_managed (specOf s) \<longrightarrow> cst_FloatingIP (statusOf s') = '''') \<and>
        (\<not> fip_managed (specOf s) \<longrightarrow> s' = s))
     (\<lambda>e s'. fip_managed (specOf s) \<and> cst_FloatingIP (statusOf s') = cst_FloatingIP (statusOf s) \<and>
        st_calls s' = st_calls s @ delete_fip_calls (st_obj s) \<and> \<not> IsNotFound (Some e)) s"
  unfolding deleteFloatingIP_def
  by (auto simp: wp fip_managed_def delete_fip_calls_def split: option.split sum.split prod.split)

end
