(* ===== verification/Cluster_ServerGroup.thy ===== *)
theory Cluster_ServerGroup
  imports Sample_Cloud
begin

text \<open>
  Server groups at cluster deletion, \<^verbatim>\<open>cloudscalecluster_servergroup.go\<close>: the groups with the
  cluster's tag are deleted once they are empty; a group that still holds a server of this cluster
  postpones the deletion, one that holds other servers is left in place.
\<close>

section \<open>Definitions\<close>

definition errServerGroupNotEmpty :: go_error where
  "errServerGroupNotEmpty = Sentinel ''server group still contains owned servers''"

definition getOwnedServerIDs :: "'w ClusterScope \<Rightarrow> ('w cst, string list) proc" where
  "getOwnedServerIDs S =
     goBind (goGets st_obj) (\<lambda>c.
     let labels = [(ClusterNameLabel, om_Name (capi_Meta (sc_Cluster S)))] in
     goBind (goWrap (fmt_Errorw ''listing CloudscaleMachines: %w'' [])
              (api (KubeList ''CloudscaleMachine'' labels)
                 (k_ListCloudscaleMachines (sc_client S) (om_Namespace (cl_Meta c)) labels)))
       (\<lambda>machines.
          goReturn (filter (\<lambda>id. id \<noteq> '''') (map (\<lambda>m. mst_ServerID (cm_Status m)) machines))))"

text \<open>The body of the loop over the groups: the inner loop only computes two flags.\<close>

definition deleteServerGroup ::
  "'w ClusterScope \<Rightarrow> string list \<Rightarrow> ServerGroup \<Rightarrow> ('w cst, unit option) proc" where
  "deleteServerGroup S ownedServerIDs g =
     (let hasOwnedServers = list_ex (\<lambda>u. u \<in> set ownedServerIDs) (sgr_Servers g);
          hasForeignServers = list_ex (\<lambda>u. u \<notin> set ownedServerIDs) (sgr_Servers g)
      in
      if hasOwnedServers then goError errServerGroupNotEmpty
      else if hasForeignServers then goReturn None
      else
        goBind (goTry (api (Delete KServerGroup (sgr_UUID g))
                  (svc_Delete (ServerGroups (sc_CloudscaleClient S)) (sgr_UUID g))))
          (\<lambda>r. case hard_error (err_of r) of
              Some e \<Rightarrow> goError (fmt_Errorw ''deleting server group %s: %w'' [FS (sgr_UUID g)] e)
            | None \<Rightarrow> goReturn None))"

definition deleteServerGroups :: "'w ClusterScope \<Rightarrow> ('w cst, unit) proc" where
  "deleteServerGroups S =
     goBind (goWrap (fmt_Errorw ''listing owned servers: %w'' []) (getOwnedServerIDs S))
       (\<lambda>ownedServerIDs.
     goBind (goGets (\<lambda>s. clusterOwnershipTags (st_obj s))) (\<lambda>tags.
     goBind (goWrap (fmt_Errorw ''listing server groups: %w'' [])
              (api (List KServerGroup tags)
                 (svc_List (ServerGroups (sc_CloudscaleClient S)) tags)))
       (\<lambda>groups.
     goBind (goFor groups (deleteServerGroup S ownedServerIDs)) (\<lambda>_. goReturn ()))))"

section \<open>Lemmas\<close>

lemma deleteServerGroups_frame: "keeps (obj_frame f) (deleteServerGroups S)"
  unfolding deleteServerGroups_def deleteServerGroup_def getOwnedServerIDs_def
  by (intro frame_intros)

lemma wp_getOwnedServerIDs:
  "wp (getOwnedServerIDs S) Q E s =
     (let labels = [(ClusterNameLabel, om_Name (capi_Meta (sc_Cluster S)))] in
      case k_ListCloudscaleMachines (sc_client S) (om_Namespace (cl_Meta (st_obj s))) labels (st_world s) of
        (Inl e, w) \<Rightarrow> E (fmt_Errorw ''listing CloudscaleMachines: %w'' [] e)
                        (after [KubeList ''CloudscaleMachine'' labels] w s)
      | (Inr ms, w) \<Rightarrow> Q (filter (\<lambda>id. id \<noteq> '''') (map (\<lambda>m. mst_ServerID (cm_Status m)) ms))
                         (after [KubeList ''CloudscaleMachine'' labels] w s))"
  unfolding getOwnedServerIDs_def by (simp add: wp Let_def split: prod.split sum.split)

text \<open>
  \<open>groups_answer S s\<close> is what the API answers to the listing of the cluster's server groups, when
  both listings succeed: the machines' server ids and the groups.
\<close>

definition groups_answer ::
  "'w ClusterScope \<Rightarrow> 'w cst \<Rightarrow> (string list \<times> ServerGroup list) option" where
  "groups_answer S s =
     (let labels = [(ClusterNameLabel, om_Name (capi_Meta (sc_Cluster S)))] in
      case k_ListCloudscaleMachines (sc_client S) (om_Namespace (cl_Meta (st_obj s))) labels (st_world s) of
        (Inl e, w) \<Rightarrow> None
      | (Inr ms, w) \<Rightarrow>
          (case svc_List (ServerGroups (sc_CloudscaleClient S)) (clusterOwnershipTags (st_obj s)) w of
             (Inl e, w') \<Rightarrow> None
           | (Inr gs, w') \<Rightarrow>
               Some (filter (\<lambda>id. id \<noteq> '''') (map (\<lambda>m. mst_ServerID (cm_Status m)) ms), gs)))"

definition group_reads :: "'w ClusterScope \<Rightarrow> 'w cst \<Rightarrow> api_call list" where
  "group_reads S s =
     [KubeList ''CloudscaleMachine'' [(ClusterNameLabel, om_Name (capi_Meta (sc_Cluster S)))],
      List KServerGroup (clusterOwnershipTags (st_obj s))]"

definition delete_group_calls :: "ServerGroup list \<Rightarrow> api_call list" where
  "delete_group_calls gs =
     map (\<lambda>g. Delete KServerGroup (sgr_UUID g)) (filter (\<lambda>g. sgr_Servers g = []) gs)"

lemma delete_group_calls_simps [simp]:
  "delete_group_calls [] = []"
  "delete_group_calls (g # gs) =
     (if sgr_Servers g = [] then Delete KServerGroup (sgr_UUID g) # delete_group_calls gs
      else delete_group_calls gs)"
  by (simp_all add: delete_group_calls_def)

definition holds_owned :: "string list \<Rightarrow> ServerGroup \<Rightarrow> bool" where
  "holds_owned ids g \<longleftrightarrow> list_ex (\<lambda>u. u \<in> set ids) (sgr_Servers g)"

text \<open>Where the deletion loop stops with an error, and the deletes it has sent until then.\<close>

definition group_stop :: "string list \<Rightarrow> ServerGroup list \<Rightarrow> api_call list \<Rightarrow> go_error \<Rightarrow> bool" where
  "group_stop ids gs cs e \<longleftrightarrow>
     (\<exists>pre g post. gs = pre @ g # post \<and> list_all (\<lambda>g. \<not> holds_owned ids g) pre \<and>
        (if holds_owned ids g then e = errServerGroupNotEmpty \<and> cs = delete_group_calls pre
         else sgr_Servers g = [] \<and> cs = delete_group_calls (pre @ [g])))"

lemma group_stop_Cons:
  assumes "group_stop ids gs cs e" and "\<not> holds_owned ids g"
  shows "group_stop ids (g # gs) (delete_group_calls [g] @ cs) e"
proof -
  from assms(1) obtain pre h post where
    gs: "gs = pre @ h # post" "list_all (\<lambda>g. \<not> holds_owned ids g) pre"
    and r: "if holds_owned ids h then e = errServerGroupNotEmpty \<and> cs = delete_group_calls pre
       else sgr_Servers h = [] \<and> cs = delete_group_calls (pre @ [h])"
    unfolding group_stop_def by blast
  show ?thesis
    unfolding group_stop_def
    by (rule exI [of _ "g # pre"], rule exI [of _ h], rule exI [of _ post])
      (use gs r assms(2) in \<open>auto simp: delete_group_calls_def split: if_splits\<close>)
qed

lemma group_stop_here:
  "holds_owned ids g \<Longrightarrow> group_stop ids (g # gs) [] errServerGroupNotEmpty"
  "\<not> holds_owned ids g \<Longrightarrow> sgr_Servers g = [] \<Longrightarrow>
     group_stop ids (g # gs) [Delete KServerGroup (sgr_UUID g)] e"
  unfolding group_stop_def by (rule exI [of _ "[]"]; simp)+

lemma deleteServerGroup_step:
  "wp (deleteServerGroup S ids g)
     (\<lambda>r s'. r = None \<and> \<not> holds_owned ids g \<and> st_calls s' = st_calls s @ delete_group_calls [g])
     (\<lambda>e s'. \<exists>cs. st_calls s' = st_calls s @ cs \<and> group_stop ids (g # gs) cs e) s"
proof -
  have "sgr_Servers g = []" if "\<not> list_ex (\<lambda>u. u \<in> set ids) (sgr_Servers g)"
    "\<not> list_ex (\<lambda>u. u \<notin> set ids) (sgr_Servers g)"
    using that by (cases "sgr_Servers g") (auto simp: list_ex_iff)
  then show ?thesis
    unfolding deleteServerGroup_def Let_def
    by (auto simp: wp holds_owned_def [symmetric] group_stop_here split: prod.split sum.split)
qed

lemma delete_groups_loop:
  "wp (goFor gs (deleteServerGroup S ids))
     (\<lambda>_ s'. st_calls s' = st_calls s @ delete_group_calls gs \<and> list_all (\<lambda>g. \<not> holds_owned ids g) gs)
     (\<lambda>e s'. \<exists>cs. st_calls s' = st_calls s @ cs \<and> group_stop ids gs cs e) s"
proof (induction gs arbitrary: s)
  case Nil
  then show ?case by (simp add: wp)
next
  case (Cons g gs)
  have next_groups: "wp (goFor gs (deleteServerGroup S ids))
      (\<lambda>_ s''. st_calls s'' = st_calls s @ delete_group_calls (g # gs) \<and>
         list_all (\<lambda>g. \<not> holds_owned ids g) (g # gs))
      (\<lambda>e s''. \<exists>cs. st_calls s'' = st_calls s @ cs \<and> group_stop ids (g # gs) cs e) s'"
    if "\<not> holds_owned ids g" "st_calls s' = st_calls s @ delete_group_calls [g]" for s'
    by (rule wp_mono [OF Cons.IH])
      (use that group_stop_Cons [of ids gs _ _ g] in \<open>auto simp: delete_group_calls_def split: if_splits\<close>)
  show ?case
    unfolding wp_goFor_Cons
    by (rule wp_mono [OF deleteServerGroup_step [where gs = gs]])
      (simp add: next_groups del: delete_group_calls_simps list.pred_inject, assumption)
qed

text \<open>
  The whole deletion. On success both listings were answered, no listed group holds a server of
  this cluster, and exactly the empty groups were deleted, in the listed order.
\<close>

lemma deleteServerGroups_spec:
  "wp (deleteServerGroups S)
     (\<lambda>_ s'. \<exists>ids gs. groups_answer S s = Some (ids, gs) \<and>
        list_all (\<lambda>g. \<not> holds_owned ids g) gs \<and>
        st_calls s' = st_calls s @ group_reads S s @ delete_group_calls gs)
     (\<lambda>e s'. (case groups_answer S s of
         None \<Rightarrow> st_calls s' = st_calls s @ take 1 (group_reads S s) \<or>
                 st_calls s' = st_calls s @ group_reads S s
       | Some (ids, gs) \<Rightarrow>
           (\<exists>cs. group_stop ids gs cs e \<and> st_calls s' = st_calls s @ group_reads S s @ cs))) s"
  unfolding deleteServerGroups_def
  by (auto simp: wp wp_getOwnedServerIDs Let_def groups_answer_def group_reads_def
      split: prod.split sum.split intro!: wp_mono [OF delete_groups_loop])

end
