(* ===== verification/Cluster_Controller.thy ===== *)
theory Cluster_Controller
  imports Scope_Close Cluster_Network Cluster_Router Cluster_LoadBalancer Cluster_FloatingIP Cluster_ServerGroup
begin

text \<open>
  The CloudscaleCluster controller, \<^verbatim>\<open>cloudscalecluster_controller.go\<close>: a reconcile runs the parts
  in the order networks, routers, load balancer, floating IP, then derives the control plane
  endpoint and the provisioned flag; a deletion runs floating IP, load balancer, server groups,
  routers, networks and then removes the finalizer.
\<close>

section \<open>Definitions\<close>

definition reconcileControlPlaneEndpoint :: "string \<Rightarrow> ('w cst, unit) proc" where
  "reconcileControlPlaneEndpoint lbIPAddress =
     goBind (goGets st_obj) (\<lambda>cluster.
     if ep_Host (cs_ControlPlaneEndpoint (cl_Spec cluster)) \<noteq> '''' then goReturn ()
     else
       (case (if cs_FloatingIP (cl_Spec cluster) \<noteq> None
              then Some (cst_FloatingIP (cl_Status cluster), ''floating IP'')
              else if ptr_Deref (lb_Enabled (cs_ControlPlaneLoadBalancer (cl_Spec cluster))) True
              then Some (lbIPAddress, ''load balancer'')
              else None) of
          None \<Rightarrow> goReturn ()
        | Some (host, source) \<Rightarrow>
            if host = '''' then goReturn ()
            else
              let port = lb_APIServerPort (cs_ControlPlaneLoadBalancer (cl_Spec cluster)) in
              goBind (modify_obj (\<lambda>c. c\<lparr>cl_Spec := (cl_Spec c)\<lparr>cs_ControlPlaneEndpoint :=
                                       \<lparr>ep_Host = host, ep_Port = port\<rparr>\<rparr>\<rparr>))
                (\<lambda>_. Eventf EventTypeNormal ''ControlPlaneSet'' ''SetControlPlaneEndpoint''
                        ''Control plane endpoint set to %s:%d (%s)'' [FS host, FD port, FS source])))"

definition isInfrastructureProvisioned :: "CloudscaleCluster \<Rightarrow> bool" where
  "isInfrastructureProvisioned c \<longleftrightarrow>
     cst_Networks (cl_Status c) \<noteq> [] \<and>
     list_all (\<lambda>ns. ns_NetworkID ns \<noteq> '''' \<and> ns_SubnetID ns \<noteq> '''') (cst_Networks (cl_Status c)) \<and>
     list_all
       (\<lambda>routerSpec.
          (case GetRouterStatus (cl_Status c) (rt_Name routerSpec) of
             None \<Rightarrow> False
           | Some rs \<Rightarrow>
               rs_RouterID rs \<noteq> '''' \<and>
               list_all
                 (\<lambda>ifaceSpec.
                    (case GetInterfaceStatus rs (ri_Network ifaceSpec) of
                       None \<Rightarrow> False | Some iface \<Rightarrow> ris_InterfaceID iface \<noteq> ''''))
                 (elems (rt_Interfaces routerSpec))))
       (elems (cs_Routers (cl_Spec c))) \<and>
     (ptr_Deref (lb_Enabled (cs_ControlPlaneLoadBalancer (cl_Spec c))) True \<longrightarrow>
        cst_LoadBalancerID (cl_Status c) \<noteq> '''' \<and> cst_LoadBalancerPoolID (cl_Status c) \<noteq> '''' \<and>
        cst_LoadBalancerListenerID (cl_Status c) \<noteq> '''') \<and>
     (cs_FloatingIP (cl_Spec c) \<noteq> None \<longrightarrow> cst_FloatingIP (cl_Status c) \<noteq> '''') \<and>
     ep_Host (cs_ControlPlaneEndpoint (cl_Spec c)) \<noteq> ''''"

text \<open>A sub-reconcile: its error is wrapped, its requeue is returned at once.\<close>

definition subReconcile ::
  "string \<Rightarrow> ('s, Result) proc \<Rightarrow> ('s, Result) proc \<Rightarrow> ('s, Result) proc" where
  "subReconcile msg m k =
     goBind (goWrap (fmt_Errorw msg []) m)
       (\<lambda>result. if \<not> IsZero result then goReturn result else k)"

text \<open>The end of \<^verbatim>\<open>reconcileNormal\<close>: endpoint, provisioned flag, requeue while waiting.\<close>

definition finishNormal :: "'w ClusterScope \<Rightarrow> lbStatus \<Rightarrow> ('w cst, Result) proc" where
  "finishNormal S lb =
     goBind (reconcileControlPlaneEndpoint (lbs_ipAddress lb)) (\<lambda>_.
     goBind (goGets (\<lambda>s. isInfrastructureProvisioned (st_obj s))) (\<lambda>provisioned.
     goBind (modify_status (\<lambda>st. st\<lparr>cst_Initialization := Some \<lparr>cinit_Provisioned = Some provisioned\<rparr>\<rparr>))
       (\<lambda>_.
     if \<not> lbs_ready lb \<or> \<not> ptr_Deref (capi_ControlPlaneInitialized (sc_Cluster S)) False
     then goReturn (requeueAfter (10 * time_Second))
     else goReturn zeroResult)))"

definition reconcileNormal :: "'w ClusterScope \<Rightarrow> ('w cst, Result) proc" where
  "reconcileNormal S =
     goDefer (\<lambda>_. st_obj_update (Cluster_setReadyCondition S))
       (subReconcile ''reconciling network: %w'' (reconcileNetwork S)
       (subReconcile ''reconciling routers: %w'' (reconcileRouters S)
       (goBind (goWrap (fmt_Errorw ''reconciling load balancer: %w'' []) (reconcileLoadBalancer S))
          (\<lambda>(lb, result).
             if \<not> IsZero result then goReturn result
             else
               subReconcile ''reconciling floating IP: %w'' (reconcileFloatingIP S)
                 (finishNormal S lb)))))"

definition reconcileDelete :: "'w ClusterScope \<Rightarrow> ('w cst, Result) proc" where
  "reconcileDelete S =
     goBind (modify_obj (Cluster_setCondition S DeletingCondition ConditionTrue DeletingReason
                           ''Deleting infrastructure resources'')) (\<lambda>_.
     goBind (goWrap (fmt_Errorw ''deleting floating IP: %w'' []) (deleteFloatingIP S)) (\<lambda>_.
     goBind (goWrap (fmt_Errorw ''deleting load balancer: %w'' []) (deleteLoadBalancer S)) (\<lambda>_.
     goBind (goTry (deleteServerGroups S)) (\<lambda>r.
     case r of
       Inl err \<Rightarrow>
         if errors_Is err errServerGroupNotEmpty then goReturn (requeueAfter (10 * time_Second))
         else goError (fmt_Errorw ''deleting server groups: %w'' [] err)
     | Inr _ \<Rightarrow>
     goBind (goWrap (fmt_Errorw ''deleting routers: %w'' []) (deleteRouters S)) (\<lambda>_.
     goBind (goTry (deleteNetwork S)) (\<lambda>r.
     case r of
       Inl err \<Rightarrow>
         if errors_Is err errNetworkNotReady then goReturn (requeueAfter (10 * time_Second))
         else goError (fmt_Errorw ''deleting network: %w'' [] err)
     | Inr _ \<Rightarrow>
     goBind (modify_obj (Cluster_setCondition S ReadyCondition ConditionFalse DeletingReason
                           ''Infrastructure has been deleted'')) (\<lambda>_.
     goBind (modify_obj (\<lambda>c. c\<lparr>cl_Meta := (cl_Meta c)\<lparr>om_Finalizers :=
                              lib_RemoveFinalizer (sc_lib S) (om_Finalizers (cl_Meta c)) ClusterFinalizer\<rparr>\<rparr>))
       (\<lambda>_. goReturn zeroResult))))))))"

text \<open>
  The part of \<^verbatim>\<open>Reconcile\<close> after the scope was created: the deferred close, with the
  \<^verbatim>\<open>WithStatusObservedGeneration\<close> option only when no error is returned, around the deletion or the
  finalizer and the normal reconcile.
\<close>

definition Cluster_ReconcileScope :: "'w ClusterScope \<Rightarrow> ('w cst, Result) proc" where
  "Cluster_ReconcileScope S =
     goBind (goGets st_obj) (\<lambda>c.
     goFinally (\<lambda>ret. Cluster_Close S (case ret of Inl _ \<Rightarrow> False | Inr _ \<Rightarrow> True))
       (if om_DeletionTimestamp (cl_Meta c) \<noteq> None then reconcileDelete S
        else
          goBind (if \<not> lib_ContainsFinalizer (sc_lib S) (om_Finalizers (cl_Meta c)) ClusterFinalizer
                  then modify_obj (\<lambda>c. c\<lparr>cl_Meta := (cl_Meta c)\<lparr>om_Finalizers :=
                           lib_AddFinalizer (sc_lib S) (om_Finalizers (cl_Meta c)) ClusterFinalizer\<rparr>\<rparr>)
                  else goReturn ())
            (\<lambda>_. reconcileNormal S)))"

text \<open>
  \<^verbatim>\<open>Reconcile\<close> of a request. The library, the Kubernetes client and the constructor of the
  cloudscale.ch client are parameters; the object read becomes the object of the state.
\<close>

definition Cluster_Reconcile ::
  "lib \<Rightarrow> 'w kube \<Rightarrow> (string \<Rightarrow> 'w Client) \<Rightarrow> string \<Rightarrow> string \<Rightarrow> ('w cst, Result) proc" where
  "Cluster_Reconcile L k newClient namespace name =
     goBind (goTry (api (KubeGet ''CloudscaleCluster'' namespace name)
               (k_GetCloudscaleCluster k namespace name)))
       (\<lambda>r. case r of
           Inl err \<Rightarrow> if apierrors_IsNotFound err then goReturn zeroResult else goError err
         | Inr obj \<Rightarrow>
     goBind (modify_obj (\<lambda>_. obj)) (\<lambda>_.
     goBind (api (KubeGet ''Cluster'' namespace '''') (k_GetOwnerCluster k (cl_Meta obj)))
       (\<lambda>owner. case owner of
           None \<Rightarrow> goReturn zeroResult
         | Some cluster \<Rightarrow>
     if lib_IsPaused L cluster (cl_Meta obj) then
       goBind (modify_obj (obj_setCondition (lib_conditions L) Cluster_GetConditions
                 Cluster_SetConditions PausedCondition ConditionTrue PausedReason ''''))
         (\<lambda>_. goReturn zeroResult)
     else
     goBind (modify_obj (\<lambda>c. Cluster_SetConditions
               (conditions_Delete (lib_conditions L) (Cluster_GetConditions c) PausedCondition) c)) (\<lambda>_.
     goBind (goWrap (fmt_Errorw ''failed to get cloudscale.ch credentials: %w'' [])
              (GetToken k (CredentialsSecretRef obj) (om_Namespace (cl_Meta obj))))
       (\<lambda>token.
     goBind (goGets st_obj) (\<lambda>c.
     case NewClusterScope L (Some k) (Some cluster) (Some c) (Some (newClient token)) of
       Inl err \<Rightarrow> goError (fmt_Errorw ''failed to create cluster scope: %w'' [] err)
     | Inr S \<Rightarrow> Cluster_ReconcileScope S))))))"

text \<open>The watch on machines: a control-plane machine maps to the clusters with its cluster label.\<close>

definition cloudscaleMachineToCluster ::
  "'w kube \<Rightarrow> CloudscaleMachine \<Rightarrow> (('w, 'o) st, (string \<times> string) list) proc" where
  "cloudscaleMachineToCluster c machine =
     (if map_of (om_Labels (cm_Meta machine)) MachineControlPlaneLabel = None then goReturn []
      else
        (case map_of (om_Labels (cm_Meta machine)) ClusterNameLabel of
           None \<Rightarrow> goReturn []
         | Some clusterName \<Rightarrow>
             goBind (goTry (api (KubeList ''CloudscaleCluster'' [(ClusterNameLabel, clusterName)])
                       (k_ListCloudscaleClusters c (om_Namespace (cm_Meta machine))
                          [(ClusterNameLabel, clusterName)])))
               (\<lambda>r. case r of
                   Inl err \<Rightarrow> goReturn []
                 | Inr clusters \<Rightarrow>
                     goReturn (map (\<lambda>c. (om_Namespace (cl_Meta c), om_Name (cl_Meta c))) clusters))))"

section \<open>What each part leaves alone\<close>

lemma net_frameD:
  assumes "net_frame s s'"
  shows "specOf s' = specOf s" "cl_Meta (st_obj s') = cl_Meta (st_obj s)"
    "lb_ids (statusOf s') = lb_ids (statusOf s)" "cst_FloatingIP (statusOf s') = cst_FloatingIP (statusOf s)"
    "cst_Routers (statusOf s') = cst_Routers (statusOf s)"
    "cst_Initialization (statusOf s') = cst_Initialization (statusOf s)"
  using erase_frameD(1,2) [OF assms] erase_frameD(3) [OF assms, of lb_ids]
    erase_frameD(3) [OF assms, of cst_FloatingIP] erase_frameD(3) [OF assms, of cst_Routers]
    erase_frameD(3) [OF assms, of cst_Initialization]
  by (simp_all add: lb_ids_def)

lemma router_frameD:
  assumes "router_frame s s'"
  shows "specOf s' = specOf s" "cl_Meta (st_obj s') = cl_Meta (st_obj s)"
    "lb_ids (statusOf s') = lb_ids (statusOf s)" "cst_FloatingIP (statusOf s') = cst_FloatingIP (statusOf s)"
    "cst_Networks (statusOf s') = cst_Networks (statusOf s)"
    "cst_Initialization (statusOf s') = cst_Initialization (statusOf s)"
  using erase_frameD(1,2) [OF assms] erase_frameD(3) [OF assms, of lb_ids]
    erase_frameD(3) [OF assms, of cst_FloatingIP] erase_frameD(3) [OF assms, of cst_Networks]
    erase_frameD(3) [OF assms, of cst_Initialization]
  by (simp_all add: lb_ids_def)

lemma lb_frameD:
  assumes "lb_frame s s'"
  shows "specOf s' = specOf s" "cl_Meta (st_obj s') = cl_Meta (st_obj s)"
    "cst_Routers (statusOf s') = cst_Routers (statusOf s)"
    "cst_FloatingIP (statusOf s') = cst_FloatingIP (statusOf s)"
    "cst_Networks (statusOf s') = cst_Networks (statusOf s)"
    "cst_Initialization (statusOf s') = cst_Initialization (statusOf s)"
  using erase_frameD(1,2) [OF assms] erase_frameD(3) [OF assms, of cst_Routers]
    erase_frameD(3) [OF assms, of cst_FloatingIP] erase_frameD(3) [OF assms, of cst_Networks]
    erase_frameD(3) [OF assms, of cst_Initialization]
  by simp_all

lemma fip_frameD:
  assumes "fip_frame s s'"
  shows "specOf s' = specOf s" "cl_Meta (st_obj s') = cl_Meta (st_obj s)"
    "lb_ids (statusOf s') = lb_ids (statusOf s)" "cst_Routers (statusOf s') = cst_Routers (statusOf s)"
    "cst_Networks (statusOf s') = cst_Networks (statusOf s)"
    "cst_Initialization (statusOf s') = cst_Initialization (statusOf s)"
  using erase_frameD(1,2) [OF assms] erase_frameD(3) [OF assms, of lb_ids]
    erase_frameD(3) [OF assms, of cst_Routers] erase_frameD(3) [OF assms, of cst_Networks]
    erase_frameD(3) [OF assms, of cst_Initialization]
  by (simp_all add: lb_ids_def)

section \<open>Deletion\<close>

abbreviation metaOf :: "'w cst \<Rightarrow> ObjectMeta" where
  "metaOf s \<equiv> cl_Meta (st_obj s)"

text \<open>Each deletion step with its frame, for both outcomes.\<close>

lemmas delete_steps =
  wp_conj [OF deleteFloatingIP_spec wp_keeps [OF deleteFloatingIP_frame]]
  wp_conj [OF deleteLoadBalancer_spec wp_keeps [OF deleteLoadBalancer_frame]]
  wp_conj [OF deleteServerGroups_spec wp_keeps [OF deleteServerGroups_frame [where f = "\<lambda>c. c"]]]
  wp_conj [OF deleteRouters_spec wp_keeps [OF deleteRouters_frame]]
  wp_conj [OF deleteNetwork_spec wp_keeps [OF deleteNetwork_frame]]

text \<open>What a completed deletion has done to the status.\<close>

definition infra_gone :: "CloudscaleCluster \<Rightarrow> CloudscaleClusterStatus \<Rightarrow> bool" where
  "infra_gone c st' \<longleftrightarrow>
     (fip_managed (cl_Spec c) \<longrightarrow> cst_FloatingIP st' = '''') \<and>
     (lbEnabled (cl_Spec c) \<longrightarrow> lb_ids st' = ('''', '''', '''', '''')) \<and>
     list_all (\<lambda>r. \<not> rs_Managed r \<and> \<not> hasManagedInterface r) (cst_Routers st') \<and>
     cst_Networks st' = filter (\<lambda>n. \<not> ns_Managed n) (cst_Networks (cl_Status c))"

text \<open>The requests of a completed deletion, in order.\<close>

definition delete_trace ::
  "CloudscaleCluster \<Rightarrow> 'w ClusterScope \<Rightarrow> api_call list \<Rightarrow> bool" where
  "delete_trace c S cs \<longleftrightarrow>
     (\<exists>gs routers.
        list_all (delete_router_call (cst_Routers (cl_Status c))) routers \<and>
        cs = delete_fip_calls c @ delete_lb_calls c @
             [KubeList ''CloudscaleMachine'' [(ClusterNameLabel, om_Name (capi_Meta (sc_Cluster S)))],
              List KServerGroup (clusterOwnershipTags c)] @ delete_group_calls gs @ routers @
             delete_network_calls (cst_Networks (cl_Status c)))"

definition delete_done :: "'w ClusterScope \<Rightarrow> 'w cst \<Rightarrow> Result \<Rightarrow> 'w cst \<Rightarrow> bool" where
  "delete_done S s res s' \<longleftrightarrow>
     (if IsZero res then
        metaOf s' = (metaOf s)\<lparr>om_Finalizers := lib_RemoveFinalizer (sc_lib S) (om_Finalizers (metaOf s))
                                                ClusterFinalizer\<rparr> \<and>
        infra_gone (st_obj s) (statusOf s') \<and>
        (\<exists>cs. st_calls s' = st_calls s @ cs \<and> delete_trace (st_obj s) S cs)
      else metaOf s' = metaOf s)"

lemma delete_lb_calls_ids:
  "delete_lb_calls c =
     (if lbEnabled (cl_Spec c) \<and> fst (lb_ids (cl_Status c)) \<noteq> ''''
      then [Delete KLoadBalancer (fst (lb_ids (cl_Status c)))] else [])"
  by (simp add: delete_lb_calls_def lb_ids_def)

lemma deleteFloatingIP_step:
  "wp (deleteFloatingIP S)
     (\<lambda>_ s'. specOf s' = specOf s \<and> metaOf s' = metaOf s \<and> lb_ids (statusOf s') = lb_ids (statusOf s) \<and>
        cst_Routers (statusOf s') = cst_Routers (statusOf s) \<and>
        cst_Networks (statusOf s') = cst_Networks (statusOf s) \<and>
        (fip_managed (specOf s) \<longrightarrow> cst_FloatingIP (statusOf s') = '''') \<and>
        st_calls s' = st_calls s @ delete_fip_calls (st_obj s))
     (\<lambda>_ s'. metaOf s' = metaOf s) s"
  by (rule wp_mono [OF delete_steps(1)]) (auto dest: fip_frameD)

lemma deleteLoadBalancer_step:
  "wp (deleteLoadBalancer S)
     (\<lambda>_ s'. specOf s' = specOf s \<and> metaOf s' = metaOf s \<and>
        cst_FloatingIP (statusOf s') = cst_FloatingIP (statusOf s) \<and>
        cst_Routers (statusOf s') = cst_Routers (statusOf s) \<and>
        cst_Networks (statusOf s') = cst_Networks (statusOf s) \<and>
        (lbEnabled (specOf s) \<longrightarrow> lb_ids (statusOf s') = ('''', '''', '''', '''')) \<and>
        st_calls s' = st_calls s @ delete_lb_calls (st_obj s))
     (\<lambda>_ s'. metaOf s' = metaOf s) s"
  by (rule wp_mono [OF delete_steps(2)]) (auto dest: lb_frameD)

lemma deleteServerGroups_step:
  "wp (deleteServerGroups S)
     (\<lambda>_ s'. st_obj s' = st_obj s \<and>
        (\<exists>gs. st_calls s' = st_calls s @ group_reads S s @ delete_group_calls gs))
     (\<lambda>_ s'. metaOf s' = metaOf s) s"
  by (rule wp_mono [OF delete_steps(3)]) (auto simp: obj_frame_def)

lemma deleteRouters_step:
  "wp (deleteRouters S)
     (\<lambda>_ s'. specOf s' = specOf s \<and> metaOf s' = metaOf s \<and> lb_ids (statusOf s') = lb_ids (statusOf s) \<and>
        cst_FloatingIP (statusOf s') = cst_FloatingIP (statusOf s) \<and>
        cst_Networks (statusOf s') = cst_Networks (statusOf s) \<and>
        list_all (\<lambda>r. \<not> rs_Managed r \<and> \<not> hasManagedInterface r) (cst_Routers (statusOf s')) \<and>
        (\<exists>cs. st_calls s' = st_calls s @ cs \<and>
              list_all (delete_router_call (cst_Routers (statusOf s))) cs))
     (\<lambda>_ s'. metaOf s' = metaOf s) s"
  by (rule wp_mono [OF delete_steps(4)]) (auto simp: emits_def list_all_iff dest: router_frameD)

lemma deleteNetwork_step:
  "wp (deleteNetwork S)
     (\<lambda>_ s'. specOf s' = specOf s \<and> metaOf s' = metaOf s \<and> lb_ids (statusOf s') = lb_ids (statusOf s) \<and>
        cst_FloatingIP (statusOf s') = cst_FloatingIP (statusOf s) \<and>
        cst_Routers (statusOf s') = cst_Routers (statusOf s) \<and>
        cst_Networks (statusOf s') = filter (\<lambda>n. \<not> ns_Managed n) (cst_Networks (statusOf s)) \<and>
        st_calls s' = st_calls s @ delete_network_calls (cst_Networks (statusOf s)))
     (\<lambda>_ s'. metaOf s' = metaOf s) s"
  by (rule wp_mono [OF delete_steps(5)]) (auto dest: net_frameD)

lemma reconcileDelete_spec:
  "wp (reconcileDelete S) (delete_done S s) (\<lambda>_ s'. metaOf s' = metaOf s) s"
  unfolding reconcileDelete_def
  apply (simp add: wp)
  apply (rule wp_mono [OF deleteFloatingIP_step]; simp add: wp)
  apply (rule wp_mono [OF deleteLoadBalancer_step]; simp add: wp)
  apply (rule wp_mono [OF deleteServerGroups_step]; simp add: wp delete_done_def)
  apply (rule wp_mono [OF deleteRouters_step]; simp add: wp)
  apply (rule wp_mono [OF deleteNetwork_step]; simp add: wp)
  subgoal
    apply (elim conjE exE)
    apply (simp add: delete_done_def infra_gone_def delete_trace_def group_reads_def delete_fip_calls_def
        delete_lb_calls_ids clusterOwnershipTags_def ClusterTagKey_def cong: if_cong)
    apply (intro exI conjI; (rule refl | assumption))
    done
  subgoal by (simp add: delete_done_def)
  done

section \<open>The parts of a reconcile\<close>

lemma status_setters_conditions:
  "cst_Conditions (setNetworkStatus n i sn cidr managed mtu st) = cst_Conditions st"
  "cst_Conditions (setRouterStatus r rid st) = cst_Conditions st"
  "cst_Conditions (fst (setRouterInterfaceStatus rn nn i managed st)) = cst_Conditions st"
  by (simp_all add: setNetworkStatus_def setRouterStatus_def setRouterInterfaceStatus_def Let_def
      split: option.split prod.split)

lemma cond_frame_set:
  "scope_ok S \<Longrightarrow>
     cond_frame S t s (s\<lparr>st_obj := Cluster_setCondition S t st r m (st_obj s)\<rparr>)"
  by (simp add: cond_frame_def)

lemma reconcileNetwork_cond: "scope_ok S \<Longrightarrow> keeps (cond_frame S NetworkReadyCondition) (reconcileNetwork S)"
  unfolding reconcileNetwork_def reconcilePreExistingNetwork_def reconcileManagedNetwork_def
  by (intro cond_intros)
    (auto simp: cond_frame_setCondition status_setters_conditions split: sum.split)

lemma reconcileRouters_cond: "scope_ok S \<Longrightarrow> keeps (cond_frame S RouterReadyCondition) (reconcileRouters S)"
  unfolding reconcileRouters_def reconcileRouter_def adoptRouter_def ensureManagedRouter_def
    reconcileRouterInterfaces_def reconcileRouterInterface_def adoptRouterInterface_def
    claimRouterInterface_def createRouterInterface_def modifyRouterInterfaceStatus_def
  by (intro cond_intros)
    (auto simp: cond_frame_set status_setters_conditions split: sum.split)

lemma reconcileLoadBalancer_cond:
  "scope_ok S \<Longrightarrow> keeps (cond_frame S LoadBalancerReadyCondition) (reconcileLoadBalancer S)"
  unfolding reconcileLoadBalancer_def reconcileLoadBalancerBody_def reconcileLBParts_def lbDiagnostics_def
    reconcileLB_def reconcileLBPool_def reconcileLBListener_def reconcileLBHealthMonitor_def lbStep_def
    reconcileLBMembers_def addOrUpdateMember_def removeMember_def createLoadBalancerMember_def
    updateLoadBalancerMember_def deleteLoadBalancerMember_def goLift_def getDesiredLoadBalancerMembers_def
  by (intro cond_intros) (auto simp: cond_frame_setCondition split: sum.split option.split)

lemma reconcileFloatingIP_cond:
  "scope_ok S \<Longrightarrow> keeps (cond_frame S FloatingIPReadyCondition) (reconcileFloatingIP S)"
  unfolding reconcileFloatingIP_def reconcilePreExistingFloatingIP_def reconcileManagedFloatingIP_def
   ensureFloatingIPAssignment_def getFloatingIPTarget_def
  by (intro cond_intros) (auto simp: cond_frame_setCondition split: sum.split)
text \<open>The requests a reconcile may send: those of its parts, for the spec and tags it started with.\<close>

definition reconcile_call :: "'w ClusterScope \<Rightarrow> CloudscaleCluster \<Rightarrow> api_call \<Rightarrow> bool" where
  "reconcile_call S c a \<longleftrightarrow>
     network_call S (elems (cs_Networks (cl_Spec c))) a \<or> router_call S (elems (cs_Routers (cl_Spec c))) a \<or>
     lb_call (clusterOwnershipTags c) a \<or> fip_call (clusterOwnershipTags c) a"

lemma reconcile_call_cong:
  "cl_Spec c = cl_Spec c' \<Longrightarrow> cl_Meta c = cl_Meta c' \<Longrightarrow> reconcile_call S c = reconcile_call S c'"
  by (rule ext) (simp add: reconcile_call_def clusterOwnershipTags_def ClusterTagKey_def)

definition part_ok :: "'w ClusterScope \<Rightarrow> string \<Rightarrow> 'w cst \<Rightarrow> 'w cst \<Rightarrow> bool" where
  "part_ok S t s s' \<longleftrightarrow>
     specOf s' = specOf s \<and> metaOf s' = metaOf s \<and> emits (reconcile_call S (st_obj s)) s s' \<and>
     (scope_ok S \<longrightarrow> cond_frame S t s s')"

lemma part_okI:
  assumes "emits P s (snd (m s))" and "specOf (snd (m s)) = specOf s" and "metaOf (snd (m s)) = metaOf s"
    and "scope_ok S \<Longrightarrow> keeps (cond_frame S t) m" and "\<And>a. P a \<Longrightarrow> reconcile_call S (st_obj s) a"
  shows "wp m (\<lambda>_. part_ok S t s) (\<lambda>_. part_ok S t s) s"
  using assms emits_mono [OF assms(1)] by (simp add: wp_snd part_ok_def keeps_snd)

lemma reconcileNetwork_part:
  "wp (reconcileNetwork S) (\<lambda>_. part_ok S NetworkReadyCondition s) (\<lambda>_. part_ok S NetworkReadyCondition s) s"
  by (rule part_okI [OF wp_sndI [OF reconcileNetwork_calls]])
    (simp_all add: net_frameD [OF keeps_snd [OF reconcileNetwork_frame]] reconcileNetwork_cond reconcile_call_def)

lemma reconcileRouters_part:
  "wp (reconcileRouters S) (\<lambda>_. part_ok S RouterReadyCondition s) (\<lambda>_. part_ok S RouterReadyCondition s) s"
  by (rule part_okI [OF wp_sndI [OF reconcileRouters_calls]])
    (simp_all add: router_frameD [OF keeps_snd [OF reconcileRouters_frame]] reconcileRouters_cond reconcile_call_def)

lemma reconcileLoadBalancer_part:
  "wp (reconcileLoadBalancer S) (\<lambda>_. part_ok S LoadBalancerReadyCondition s)
     (\<lambda>_. part_ok S LoadBalancerReadyCondition s) s"
  by (rule part_okI [OF reconcileLoadBalancer_calls])
    (simp_all add: lb_frameD [OF keeps_snd [OF reconcileLoadBalancer_frame]] reconcileLoadBalancer_cond
      reconcile_call_def)

lemma reconcileFloatingIP_part:
  "wp (reconcileFloatingIP S) (\<lambda>_. part_ok S FloatingIPReadyCondition s)
     (\<lambda>_. part_ok S FloatingIPReadyCondition s) s"
  by (rule part_okI [OF wp_sndI [OF reconcileFloatingIP_calls]])
    (simp_all add: fip_frameD [OF keeps_snd [OF reconcileFloatingIP_frame]] reconcileFloatingIP_cond
      reconcile_call_def)

lemma reconcileNetwork_ready:
  "scope_ok S \<Longrightarrow> wp (reconcileNetwork S) (\<lambda>_ s'. condTrue S s' NetworkReadyCondition) (\<lambda>_ _. True) s"
  unfolding reconcileNetwork_def wp_goDefer by (rule wp_trivI) (simp_all add: condTrue_iff)

lemma reconcileRouters_ready:
  "scope_ok S \<Longrightarrow>
     wp (reconcileRouters S) (\<lambda>res s'. IsZero res \<longrightarrow> condTrue S s' RouterReadyCondition) (\<lambda>_ _. True) s"
  by (rule wp_mono [OF reconcileRouters_condition]) simp_all

lemma reconcileLoadBalancer_ready:
  assumes "scope_ok S" and "lb_api_ok (sc_CloudscaleClient S)"
  shows "wp (reconcileLoadBalancer S)
    (\<lambda>(lb, res) s'. IsZero res \<longrightarrow> lbs_ready lb \<longrightarrow> condTrue S s' LoadBalancerReadyCondition) (\<lambda>_ _. True) s"
proof (cases "lbEnabled (specOf s)")
  case True
  show ?thesis by (rule wp_mono [OF reconcileLoadBalancer_spec [OF assms(2,1) True]]) auto
next
  case False
  then show ?thesis by (simp add: wp_def reconcileLoadBalancer_disabled condTrue_iff assms(1))
qed

lemma reconcileFloatingIP_ready:
  "scope_ok S \<Longrightarrow> wp (reconcileFloatingIP S) (\<lambda>_ s'. condTrue S s' FloatingIPReadyCondition) (\<lambda>_ _. True) s"
  unfolding reconcileFloatingIP_def
  by (auto simp: wp condTrue_iff split: option.split intro!: wp_trivI)

lemma condTrue_frame:
  "scope_ok S \<Longrightarrow> cond_frame S t s s' \<Longrightarrow> t' \<noteq> t \<Longrightarrow> condTrue S s' t' = condTrue S s t'"
  by (simp add: cond_frame_def condTrue_iff)
section \<open>The endpoint\<close>

text \<open>
  The endpoint is written once: a host that is set stays; otherwise the floating IP, when one is
  configured, has precedence over the load balancer's address.
\<close>

definition endpoint_after :: "CloudscaleCluster \<Rightarrow> string \<Rightarrow> APIEndpoint" where
  "endpoint_after c ip =
     (let e = cs_ControlPlaneEndpoint (cl_Spec c);
          host = (if cs_FloatingIP (cl_Spec c) \<noteq> None then cst_FloatingIP (cl_Status c)
                  else if lbEnabled (cl_Spec c) then ip else '''')
      in if ep_Host e \<noteq> '''' \<or> host = '''' then e
         else \<lparr>ep_Host = host, ep_Port = lb_APIServerPort (cs_ControlPlaneLoadBalancer (cl_Spec c))\<rparr>)"

lemma reconcileControlPlaneEndpoint_spec:
  "wp (reconcileControlPlaneEndpoint ip)
     (\<lambda>_ s'. st_obj s' = (st_obj s)\<lparr>cl_Spec := (specOf s)\<lparr>cs_ControlPlaneEndpoint := endpoint_after (st_obj s) ip\<rparr>\<rparr> \<and>
        st_calls s' = st_calls s)
     (\<lambda>_ _. False) s"
  unfolding reconcileControlPlaneEndpoint_def
  by (auto simp: wp endpoint_after_def lbEnabled_def Let_def split: option.split)

definition same_but_endpoint :: "'w cst \<Rightarrow> 'w cst \<Rightarrow> bool" where
  "same_but_endpoint s s' \<longleftrightarrow>
     metaOf s' = metaOf s \<and>
     (let e = cs_ControlPlaneEndpoint (specOf s') in
        specOf s' = (specOf s)\<lparr>cs_ControlPlaneEndpoint := e\<rparr> \<and>
        (e = cs_ControlPlaneEndpoint (specOf s) \<or>
         ep_Host (cs_ControlPlaneEndpoint (specOf s)) = '''' \<and> ep_Host e \<noteq> '''' \<and>
         ep_Port e = lb_APIServerPort (cs_ControlPlaneLoadBalancer (specOf s)) \<and>
         (cs_FloatingIP (specOf s) \<noteq> None \<longrightarrow> ep_Host e = cst_FloatingIP (statusOf s'))))"

definition normal_done :: "'w ClusterScope \<Rightarrow> 'w cst \<Rightarrow> 'w cst \<Rightarrow> bool" where
  "normal_done S s s' \<longleftrightarrow>
     same_but_endpoint s s' \<and> emits (reconcile_call S (st_obj s)) s s' "

definition up_to_date :: "'w ClusterScope \<Rightarrow> 'w cst \<Rightarrow> bool" where
  "up_to_date S s' \<longleftrightarrow>
     list_all (condTrue S s') Cluster_subConditions \<and>
     capi_ControlPlaneInitialized (sc_Cluster S) = Some True \<and>
     cst_Initialization (statusOf s') =
       Some \<lparr>cinit_Provisioned = Some (isInfrastructureProvisioned (st_obj s'))\<rparr>"

lemma cond_obj_cong: "cst_Conditions (statusOf s) = cst_Conditions (statusOf s') \<Longrightarrow> condTrue S s = condTrue S s'"
  by (rule ext) (simp add: condTrue_def obj_IsTrue_def Cluster_GetConditions_def)

lemma finishNormal_spec:
  "wp (finishNormal S lb)
     (\<lambda>res s'. same_but_endpoint s s' \<and> emits P s s' \<and> cst_Conditions (statusOf s') = cst_Conditions (statusOf s) \<and>
        cst_Initialization (statusOf s') =
          Some \<lparr>cinit_Provisioned = Some (isInfrastructureProvisioned (st_obj s'))\<rparr> \<and>
        (IsZero res \<longrightarrow> lbs_ready lb \<and> capi_ControlPlaneInitialized (sc_Cluster S) = Some True))
     (\<lambda>_ _. False) s"
  unfolding finishNormal_def
  by (auto simp: wp isInfrastructureProvisioned_def same_but_endpoint_def emits_def endpoint_after_def Let_def
      ptr_Deref_def GetRouterStatus_def split: option.splits if_splits
     intro!: wp_mono [OF reconcileControlPlaneEndpoint_spec])
section \<open>A whole reconcile\<close>

lemma part_ok_done: "part_ok S t s s' \<Longrightarrow> normal_done S s s'"
  by (simp add: part_ok_def normal_done_def same_but_endpoint_def)

lemma part_ok_then:
  assumes "part_ok S t s s'" and "normal_done S s' s''"
  shows "normal_done S s s''"
proof -
  from assms(1) have "reconcile_call S (st_obj s') = reconcile_call S (st_obj s)"
    by (intro reconcile_call_cong) (simp_all add: part_ok_def)
  with assms show ?thesis
    by (auto simp: part_ok_def normal_done_def same_but_endpoint_def Let_def intro: emits.frame_trans)
qed

lemma subReconcile_done:
  assumes "wp m (\<lambda>_. part_ok S t s) (\<lambda>_. part_ok S t s) s"
    and "\<And>s'. wp k (\<lambda>_. normal_done S s') (\<lambda>_. normal_done S s') s'"
  shows "wp (subReconcile msg m k) (\<lambda>_. normal_done S s) (\<lambda>_. normal_done S s) s"
  unfolding subReconcile_def
  by (auto simp: wp part_ok_done intro!: wp_mono [OF assms(1)] wp_mono [OF assms(2)] intro: part_ok_then)

lemma finishNormal_done: "wp (finishNormal S lb) (\<lambda>_. normal_done S s) (\<lambda>_. normal_done S s) s"
  by (rule wp_mono [OF finishNormal_spec]) (auto simp: normal_done_def)

lemma normal_done_ready:
  "normal_done S s (st_obj_update (Cluster_setReadyCondition S) s') = normal_done S s s'"
  by (simp add: normal_done_def same_but_endpoint_def emits_def)

lemma reconcileNormal_done:
  "wp (reconcileNormal S) (\<lambda>_. normal_done S s) (\<lambda>_. normal_done S s) s"
  unfolding reconcileNormal_def wp_goDefer normal_done_ready
  apply (intro subReconcile_done [OF reconcileNetwork_part] subReconcile_done [OF reconcileRouters_part])
  by (auto simp: wp part_ok_done split: prod.split intro: part_ok_then
      intro!: wp_mono [OF reconcileLoadBalancer_part]
        wp_mono [OF subReconcile_done [OF reconcileFloatingIP_part finishNormal_done]])

lemma isInfrastructureProvisioned_ready [simp]:
  "isInfrastructureProvisioned (Cluster_setReadyCondition S c) = isInfrastructureProvisioned c"
  unfolding Cluster_setReadyCondition_def
  by (rule setReadyFrom_frame) (simp add: isInfrastructureProvisioned_def Cluster_SetConditions_def GetRouterStatus_def)

lemma condTrue_ready:
  assumes "scope_ok S"
  shows "condTrue S (st_obj_update (Cluster_setReadyCondition S) s) ReadyCondition \<longleftrightarrow>
    list_all (condTrue S s) Cluster_subConditions"
  using assms
  by (simp add: condTrue_def Cluster_setReadyCondition_def ccond.setReadyFrom_IsTrue list_all_iff)

lemma condTrue_ready_other:
  "scope_ok S \<Longrightarrow> t \<noteq> ReadyCondition \<Longrightarrow>
     condTrue S (st_obj_update (Cluster_setReadyCondition S) s) t = condTrue S s t"
  by (simp add: condTrue_iff cond_def Cluster_setReadyCondition_def ccond.setReadyFrom_other)
   
lemma subConditions_collect:
  assumes "scope_ok S" and "part_ok S RouterReadyCondition s1 s2"
    and "part_ok S LoadBalancerReadyCondition s2 s3" and "part_ok S FloatingIPReadyCondition s3 s4"
    and "condTrue S s1 NetworkReadyCondition" and "condTrue S s2 RouterReadyCondition"
    and "condTrue S s3 LoadBalancerReadyCondition" and "condTrue S s4 FloatingIPReadyCondition"
    and "cst_Conditions (statusOf s5) = cst_Conditions (statusOf s4)"
  shows "list_all (condTrue S s5) Cluster_subConditions"
proof -
  have "cond_frame S RouterReadyCondition s1 s2" "cond_frame S LoadBalancerReadyCondition s2 s3"
    "cond_frame S FloatingIPReadyCondition s3 s4"
    using assms(1-4) by (simp_all add: part_ok_def)
  note fr = this [THEN condTrue_frame [OF assms(1)]]
  have "condTrue S s5 = condTrue S s4" by (rule cond_obj_cong) (rule assms(9))
  then show ?thesis by (simp add: Cluster_subConditions_def fr assms(5-8))
qed

lemma up_to_date_ready:
  assumes "scope_ok S" and "list_all (condTrue S s) Cluster_subConditions"
    and "capi_ControlPlaneInitialized (sc_Cluster S) = Some True"
    and "cst_Initialization (statusOf s) = Some \<lparr>cinit_Provisioned = Some (isInfrastructureProvisioned (st_obj s))\<rparr>"
  shows "up_to_date S (st_obj_update (Cluster_setReadyCondition S) s)"
  using assms by (simp add: up_to_date_def condTrue_ready_other Cluster_subConditions_def)

lemma reconcileNormal_ready:
  assumes "scope_ok S" and "lb_api_ok (sc_CloudscaleClient S)"
  shows "wp (reconcileNormal S)
    (\<lambda>res s'. IsZero res \<longrightarrow> up_to_date S s' \<and> condTrue S s' ReadyCondition) (\<lambda>_ _. True) s"
proof -
  note parts =
    wp_conj [OF reconcileNetwork_part reconcileNetwork_ready [OF assms(1)]]
    wp_conj [OF reconcileRouters_part reconcileRouters_ready [OF assms(1)]]
    wp_conj [OF reconcileLoadBalancer_part reconcileLoadBalancer_ready [OF assms]]
    wp_conj [OF reconcileFloatingIP_part reconcileFloatingIP_ready [OF assms(1)]]
  show ?thesis
    unfolding reconcileNormal_def wp_goDefer subReconcile_def
    apply (simp add: wp split: prod.split)
    apply (rule wp_mono [OF parts(1)]; simp add: wp split: prod.split)
    apply (intro impI)
    apply (rule wp_mono [OF parts(2)]; simp add: wp split: prod.split)
    apply (intro impI)
    apply (rule wp_mono [OF parts(3)]; clarsimp simp: wp split: prod.split)
    apply (rule wp_mono [OF parts(4)]; clarsimp simp: wp split: prod.split)
    apply (rule wp_mono [OF finishNormal_spec [where P = "\<lambda>_. True"]])
     apply (auto simp: condTrue_ready assms intro!: up_to_date_ready intro: subConditions_collect)
    done
qed

section \<open>Reconcile and its patch\<close>

lemma reconcile_call_kind:
  "reconcile_call S c a \<Longrightarrow> \<not> is_patch a \<and> (\<forall>k i. a \<noteq> Delete k i) \<and> (\<forall>r i. a \<noteq> DeleteInterface r i)"
  by (cases a) (auto simp: reconcile_call_def network_call_def router_call_def lb_call_def fip_call_def is_patch_def)

lemma reconcileNormal_no_patch:
  "wp (reconcileNormal S) (\<lambda>_. no_patch s) (\<lambda>_. no_patch s) s"
  by (rule wp_mono [OF reconcileNormal_done])
    (auto simp: normal_done_def dest: reconcile_call_kind elim!: emits_mono)

lemma reconcileDelete_no_patch: "keeps (no_patch) (reconcileDelete S)"
  unfolding reconcileDelete_def deleteFloatingIP_def deleteLoadBalancer_def deleteServerGroups_def
    deleteServerGroup_def getOwnedServerIDs_def deleteRouters_def deleteRouterInterfaces_def deleteNetwork_def
  by (intro emits_intros keeps_emits_modify_status) (simp_all add: is_patch_def emits.frame_refl)

lemma addFinalizer_then_normal:
  "wp (goBind (if b then modify_obj f else goReturn ()) (\<lambda>_. reconcileNormal S))
     (\<lambda>_. no_patch s) (\<lambda>_. no_patch s) s"
  by (auto simp: wp emits_def intro!: wp_mono [OF reconcileNormal_no_patch])

lemma Cluster_ReconcileScope_patches:
  "wp (Cluster_ReconcileScope S) (\<lambda>_. patched_last True s) (\<lambda>_ s'. \<exists>b. patched_last b s s') s"
  unfolding Cluster_ReconcileScope_def wp_goGets_bind
  by (rule cclose.wp_closed, cases "om_DeletionTimestamp (metaOf s) = None")
    (simp_all only: if_True if_False not_not simp_thms addFinalizer_then_normal
      wp_keeps [OF reconcileDelete_no_patch])

lemma Cluster_Reconcile_patches:
  "wp (Cluster_Reconcile L k newClient ns n)
     (\<lambda>_ s'. emits is_kube_get s s' \<or> patched_last True s s')
     (\<lambda>_ s'. emits is_kube_get s s' \<or> (\<exists>b. patched_last b s s')) s"
  unfolding Cluster_Reconcile_def
  by (auto simp: wp emits.frame_refl emits_got split: prod.split sum.split option.split
      dest!: emits_get intro!: wp_mono [OF GetToken_reads] wp_mono [OF Cluster_ReconcileScope_patches])
    (blast dest: patched_last_after)+

text \<open>
  A paused cluster: two reads, no change in the cloud, and no patch, so the Paused condition that
  was set on the copy read is not stored.
\<close>

lemma Cluster_Reconcile_paused:
  assumes "k_GetCloudscaleCluster k ns n (st_world s) = (Inr obj, w)"
    and "k_GetOwnerCluster k (cl_Meta obj) w = (Inr (Some cluster), w')"
    and "lib_IsPaused L cluster (cl_Meta obj)"
  shows "wp (Cluster_Reconcile L k newClient ns n)
    (\<lambda>res s'. IsZero res \<and> st_world s' = w' \<and>
       st_calls s' = st_calls s @ [KubeGet ''CloudscaleCluster'' ns n, KubeGet ''Cluster'' ns ''''])
    (\<lambda>_ _. False) s"
  unfolding Cluster_Reconcile_def by (simp add: wp assms)

section \<open>Machines that trigger a cluster\<close>

lemma cloudscaleMachineToCluster_spec:
  "wp (cloudscaleMachineToCluster k m)
     (\<lambda>reqs s'. reqs \<noteq> [] \<longrightarrow>
        map_of (om_Labels (cm_Meta m)) MachineControlPlaneLabel \<noteq> None \<and>
        (\<exists>cn cs w. map_of (om_Labels (cm_Meta m)) ClusterNameLabel = Some cn \<and>
           k_ListCloudscaleClusters k (om_Namespace (cm_Meta m)) [(ClusterNameLabel, cn)] (st_world s) = (Inr cs, w) \<and>
           reqs = map (\<lambda>c. (om_Namespace (cl_Meta c), om_Name (cl_Meta c))) cs))
     (\<lambda>_ _. False) s"
  unfolding cloudscaleMachineToCluster_def
  by (auto simp: wp split: option.split prod.split sum.split)

end
