(* ===== verification/Cluster_Properties.thy ===== *)
theory Cluster_Properties
  imports Cluster_Controller
begin

text \<open>
  The properties of the cluster controller: what a reconcile that has nothing left to wait for has
  achieved, what it never does, and what it keeps of the object.
\<close>

section \<open>A complete reconcile\<close>

text \<open>The end of a reconcile changes only the endpoint, the provisioned flag and the events.\<close>

lemma finishNormal_keeps:
  "wp (finishNormal S lb)
     (\<lambda>_ s'. cst_Networks (statusOf s') = cst_Networks (statusOf s) \<and>
        cst_Routers (statusOf s') = cst_Routers (statusOf s) \<and>
        lb_ids (statusOf s') = lb_ids (statusOf s) \<and>
        cst_FloatingIP (statusOf s') = cst_FloatingIP (statusOf s) \<and> st_world s' = st_world s)
     (\<lambda>_ _. False) s"
  unfolding finishNormal_def reconcileControlPlaneEndpoint_def
  by (auto simp: wp Let_def lb_ids_def split: option.split)

text \<open>Everything the spec asks for exists, and the floating IP points at the load balancer.\<close>

definition infrastructure_complete ::
  "('w \<Rightarrow> string \<Rightarrow> string option) \<Rightarrow> CloudscaleClusterSpec \<Rightarrow> 'w cst \<Rightarrow> bool" where
  "infrastructure_complete asg spec s \<longleftrightarrow>
     list_all (\<lambda>n. network_provisioned n (statusOf s)) (elems (cs_Networks spec)) \<and>
     list_all (\<lambda>r. router_provisioned r (statusOf s)) (elems (cs_Routers spec)) \<and>
     (lbEnabled spec \<longrightarrow> lb_provisioned (statusOf s)) \<and>
     (lbEnabled spec \<and> cs_FloatingIP spec \<noteq> None \<longrightarrow> assigned asg (cst_LoadBalancerID (statusOf s)) s)"

definition cloud_api_ok :: "'w Client \<Rightarrow> ('w \<Rightarrow> string \<Rightarrow> string option) \<Rightarrow> bool" where
  "cloud_api_ok cli asg \<longleftrightarrow>
     networks_api_ok cli \<and> routers_api_ok cli \<and> lb_api_ok cli \<and> fip_api_ok cli asg"

lemma network_provisioned_cong:
  "cst_Networks st' = cst_Networks st \<Longrightarrow> network_provisioned n st' = network_provisioned n st"
  by (simp add: network_provisioned_def GetNetworkStatus_def)

lemma router_provisioned_cong:
  "cst_Routers st' = cst_Routers st \<Longrightarrow> router_provisioned r st' = router_provisioned r st"
  by (simp add: router_provisioned_def has_router_def has_iface_def router_id_def iface_id_def GetRouterStatus_def)

lemma complete_frame:
  assumes "cst_Networks (statusOf s') = cst_Networks (statusOf s)"
    and "cst_Routers (statusOf s') = cst_Routers (statusOf s)"
    and "lb_ids (statusOf s') = lb_ids (statusOf s)"
    and "cst_FloatingIP (statusOf s') = cst_FloatingIP (statusOf s)" and "st_world s' = st_world s"
  shows "infrastructure_complete asg spec s' = infrastructure_complete asg spec s"
  using assms lb_provisioned_ids [OF assms(3)]
  by (simp add: infrastructure_complete_def network_provisioned_cong [OF assms(1)]
      router_provisioned_cong [OF assms(2)] assigned_def lb_ids_def)

lemma reconcileNetwork_complete:
  assumes "networks_api_ok (sc_CloudscaleClient S)" and "distinct (map net_Name (elems (cs_Networks (specOf s))))"
  shows "wp (reconcileNetwork S)
    (\<lambda>res s'. specOf s' = specOf s \<and> (IsZero res \<longrightarrow>
       list_all (\<lambda>n. network_provisioned n (statusOf s')) (elems (cs_Networks (specOf s)))))
    (\<lambda>_ _. True) s"
  by (rule wp_mono [OF wp_conj [OF reconcileNetwork_provisions [OF assms] wp_keeps [OF reconcileNetwork_frame]]])
    (auto simp: list_all_iff dest: net_frameD)

lemma reconcileRouters_complete:
  assumes "routers_api_ok (sc_CloudscaleClient S)"
  shows "wp (reconcileRouters S)
    (\<lambda>res s'. specOf s' = specOf s \<and> cst_Networks (statusOf s') = cst_Networks (statusOf s) \<and> (IsZero res \<longrightarrow>
       list_all (\<lambda>r. router_provisioned r (statusOf s')) (elems (cs_Routers (specOf s)))))
    (\<lambda>_ _. True) s"
  by (rule wp_mono [OF wp_conj [OF reconcileRouters_provisions [OF assms] wp_keeps [OF reconcileRouters_frame]]])
    (auto simp: list_all_iff dest: router_frameD)

lemma reconcileLoadBalancer_complete:
  assumes "lb_api_ok (sc_CloudscaleClient S)" and "scope_ok S"
  shows "wp (reconcileLoadBalancer S)
    (\<lambda>(lb, res) s'. specOf s' = specOf s \<and> cst_Networks (statusOf s') = cst_Networks (statusOf s) \<and>
       cst_Routers (statusOf s') = cst_Routers (statusOf s) \<and>
       (IsZero res \<longrightarrow> lbEnabled (specOf s) \<longrightarrow> lb_provisioned (statusOf s')))
    (\<lambda>_ _. True) s"
proof (cases "lbEnabled (specOf s)")
  case True
  show ?thesis
    by (rule wp_mono [OF wp_conj [OF reconcileLoadBalancer_spec [OF assms True]
          wp_keeps [OF reconcileLoadBalancer_frame]]]) (auto dest: lb_frameD)
next
  case False
  then show ?thesis by (simp add: wp_def reconcileLoadBalancer_disabled)
qed

lemma reconcileFloatingIP_complete:
  assumes "fip_api_ok (sc_CloudscaleClient S) asg"
    and "lbEnabled (specOf s) \<Longrightarrow> lb_provisioned (statusOf s)"
  shows "wp (reconcileFloatingIP S)
    (\<lambda>res s'. specOf s' = specOf s \<and> cst_Networks (statusOf s') = cst_Networks (statusOf s) \<and>
       cst_Routers (statusOf s') = cst_Routers (statusOf s) \<and> lb_ids (statusOf s') = lb_ids (statusOf s) \<and>
       (IsZero res \<longrightarrow> lbEnabled (specOf s) \<and> cs_FloatingIP (specOf s) \<noteq> None \<longrightarrow>
          assigned asg (cst_LoadBalancerID (statusOf s)) s'))
    (\<lambda>_ _. True) s"
proof (cases "lbEnabled (specOf s) \<and> cs_FloatingIP (specOf s) \<noteq> None")
  case True
  then obtain f where f: "cs_FloatingIP (specOf s) = Some f" by auto
  from True assms(2) have "lb_target (st_obj s) (cst_LoadBalancerID (statusOf s))"
    by (simp add: lb_target_def lbEnabled_def lb_provisioned_def)
  from reconcileFloatingIP_assigns [OF assms(1) this f] show ?thesis
    by (rule wp_mono [OF wp_conj [OF _ wp_keeps [OF reconcileFloatingIP_frame]]]) (auto dest: fip_frameD)
next
  case False
  then show ?thesis
    by (auto intro!: wp_mono [OF wp_keeps [OF reconcileFloatingIP_frame]] dest: fip_frameD)
qed

lemma complete_collect:
  assumes "list_all (\<lambda>n. network_provisioned n (statusOf s1)) (elems (cs_Networks spec))"
    and "list_all (\<lambda>r. router_provisioned r (statusOf s2)) (elems (cs_Routers spec))"
    and "lbEnabled spec \<Longrightarrow> lb_provisioned (statusOf s3)"
    and "lbEnabled spec \<and> cs_FloatingIP spec \<noteq> None \<Longrightarrow> assigned asg (cst_LoadBalancerID (statusOf s3)) s4"
    and "cst_Networks (statusOf s5) = cst_Networks (statusOf s1)"
    and "cst_Routers (statusOf s5) = cst_Routers (statusOf s2)"
    and "lb_ids (statusOf s5) = lb_ids (statusOf s3)"
    and "cst_FloatingIP (statusOf s5) = cst_FloatingIP (statusOf s4)" and "st_world s5 = st_world s4"
  shows "infrastructure_complete asg spec s5"
proof -
  have "cst_LoadBalancerID (statusOf s5) = cst_LoadBalancerID (statusOf s3)"
    using assms(7) by (simp add: lb_ids_def)
  then show ?thesis
    using assms(1-4) network_provisioned_cong [OF assms(5)] router_provisioned_cong [OF assms(6)]
      lb_provisioned_ids [OF assms(7)]
    by (simp add: infrastructure_complete_def assigned_def assms(8,9))
qed

lemma lb_ids_ready [simp]: "lb_ids (cl_Status (Cluster_setReadyCondition S c)) = lb_ids (cl_Status c)"
  unfolding Cluster_setReadyCondition_def
  by (rule setReadyFrom_frame) (simp add: lb_ids_def Cluster_SetConditions_def)

lemma reconcileNormal_complete:
  assumes "scope_ok S" and api: "cloud_api_ok (sc_CloudscaleClient S) asg"
    and "distinct (map net_Name (elems (cs_Networks (specOf s))))"
  shows "wp (reconcileNormal S)
    (\<lambda>res s'. IsZero res \<longrightarrow> infrastructure_complete asg (specOf s) s') (\<lambda>_ _. True) s"
proof -
  note api = api [unfolded cloud_api_ok_def]
  have ready: "infrastructure_complete asg spec (st_obj_update (Cluster_setReadyCondition S) s') =
      infrastructure_complete asg spec s'" for spec s'
    by (rule complete_frame) simp_all
  show ?thesis
    unfolding reconcileNormal_def wp_goDefer ready subReconcile_def
    apply (simp add: wp split: prod.split)
    apply (rule wp_mono [OF reconcileNetwork_complete [of S s]]; use api assms in \<open>simp add: wp\<close>)
    apply (intro impI)
    apply (rule wp_mono [OF reconcileRouters_complete [of S]]; use api in \<open>simp add: wp\<close>)
    apply (intro impI)
    apply (rule wp_mono [OF reconcileLoadBalancer_complete [of S]]; use api assms in \<open>clarsimp simp: wp\<close>)
    apply (rule wp_mono [OF reconcileFloatingIP_complete [of S asg]]; use api in \<open>clarsimp simp: wp\<close>)
    apply (rule wp_mono [OF finishNormal_keeps]; clarsimp)
    apply (rule complete_collect; (assumption | simp))
    done
qed

section \<open>A cloud with one floating IP\<close>

text \<open>
  The sample cloud with a floating IP whose assignment is the state of the world, and a cluster
  whose control plane is up: the parameters the hypotheses below are shown to hold at.
\<close>

definition tracked_fip :: "string option \<Rightarrow> FloatingIP" where
  "tracked_fip lb = sample_fip\<lparr>fip_LoadBalancer := lb\<rparr>"

definition tracked_client :: "string option Client" where
  "tracked_client = sample_client\<lparr>FloatingIPs :=
     \<lparr>svc_Create = (\<lambda>q w. let lb = (if fcr_LoadBalancer q = '''' then None else Some (fcr_LoadBalancer q))
                         in (Inr (tracked_fip lb), lb)),
      svc_Get = (\<lambda>i w. (Inr (tracked_fip w), w)), svc_List = (\<lambda>t w. (Inr [], w)),
      svc_Delete = (\<lambda>i w. (Inr (), None)),
      svc_Update = (\<lambda>i q w. (Inr (), Some (fur_LoadBalancer q)))\<rparr>\<rparr>"

definition tracked_asg :: "string option \<Rightarrow> string \<Rightarrow> string option" where
  "tracked_asg w ip = w"

definition up_capi :: Cluster where
  "up_capi = sample_capi\<lparr>capi_ControlPlaneInitialized := Some True\<rparr>"

definition tracked_scope :: "string option ClusterScope" where
  "tracked_scope = sample_scope\<lparr>sc_CloudscaleClient := tracked_client, sc_Cluster := up_capi\<rparr>"

lemma tracked_client_services [simp]:
  "Networks tracked_client = Networks sample_client" "Subnets tracked_client = Subnets sample_client"
  "Routers tracked_client = Routers sample_client" "LoadBalancers tracked_client = LoadBalancers sample_client"
  "LoadBalancerPools tracked_client = LoadBalancerPools sample_client"
  "LoadBalancerListeners tracked_client = LoadBalancerListeners sample_client"
  "LoadBalancerHealthMonitors tracked_client = LoadBalancerHealthMonitors sample_client"
  by (simp_all add: tracked_client_def)

lemma tracked_scope_simps [simp]:
  "sc_CloudscaleClient tracked_scope = tracked_client" "sc_lib tracked_scope = list_lib"
  by (simp_all add: tracked_scope_def sample_scope_def)

lemma sample_routers_api_ok: "routers_api_ok sample_client"
  by (simp add: routers_api_ok_def sample_client_def service_results_def router_ok_def sample_router_def
      sample_interface_def)

lemma sample_lb_api_ok: "lb_api_ok sample_client"
  by (simp add: lb_api_ok_def sample_client_ids)

lemma tracked_fip_api_ok: "fip_api_ok tracked_client tracked_asg"
  by (simp add: fip_api_ok_def tracked_client_def tracked_asg_def tracked_fip_def sample_fip_def Let_def)

lemma tracked_api_ok: "cloud_api_ok tracked_client tracked_asg"
  using sample_networks_api_ok [where 'a = "string option"] sample_routers_api_ok [where 'a = "string option"]
    sample_lb_api_ok [where 'a = "string option"]
  by (simp add: cloud_api_ok_def tracked_fip_api_ok networks_api_ok_def routers_api_ok_def lb_api_ok_def)

lemma tracked_scope_ok: "scope_ok tracked_scope"
  using sample_scope_ok(1) by (simp add: sample_scope_def)

abbreviation tracked_start :: "string option cst" where
  "tracked_start \<equiv> start_in None sample_cluster"

lemma tracked_run:
  "reconcileNormal tracked_scope tracked_start =
     (Inr zeroResult, snd (reconcileNormal tracked_scope tracked_start))"
  by (rule prod_eqI) (simp, code_simp, simp)

section \<open>Properties of a reconcile\<close>

text \<open>
  C1. A reconcile that succeeds and has nothing left to wait for has built what the spec asks for:
  every network and router has its ids in the status, the load balancer with its pool, listener and
  health monitor exists, the floating IP is assigned to that load balancer in the cloud, all
  conditions are true and Ready is true. The hypotheses are the documented behaviour of the API
  (resources have ids; a floating IP's assignment is what was last requested) and the distinct
  network names the CRD enforces.
\<close>

theorem reconcile_builds_the_spec:
  assumes "scope_ok S" and "cloud_api_ok (sc_CloudscaleClient S) asg"
    and "distinct (map net_Name (elems (cs_Networks (specOf s))))"
    and "reconcileNormal S s = (Inr res, s')" and "IsZero res"
  shows "infrastructure_complete asg (specOf s) s' \<and> up_to_date S s' \<and> condTrue S s' ReadyCondition"
  using wp_okD [OF reconcileNormal_complete [OF assms(1-3)] assms(4)]
    wp_okD [OF reconcileNormal_ready [OF assms(1)] assms(4)] assms(2,5)
  by (simp add: cloud_api_ok_def)

theorem reconcile_builds_the_spec_witness:
  "infrastructure_complete tracked_asg sample_spec (snd (reconcileNormal tracked_scope tracked_start)) \<and>
   condTrue tracked_scope (snd (reconcileNormal tracked_scope tracked_start)) ReadyCondition"
proof -
  have "distinct (map net_Name (elems (cs_Networks (specOf tracked_start))))"
    by (simp add: sample_cluster_def) (simp add: sample_spec_def)
  with reconcile_builds_the_spec [OF tracked_scope_ok, of tracked_asg, OF _ _ tracked_run] tracked_api_ok
  show ?thesis by (simp add: sample_cluster_def)
qed

text \<open>
  C16. A reconcile, whatever the API answers and whether it succeeds or fails, only sends the
  requests of its parts: reads, creates tagged with this cluster, interface attachments the spec
  lists, member changes of the own pool and the floating IP assignment. It deletes no network,
  router, interface, load balancer, floating IP, server or server group.
\<close>

theorem reconcile_never_deletes:
  "\<exists>cs. st_calls (snd (reconcileNormal S s)) = st_calls s @ cs \<and>
     list_all (\<lambda>a. reconcile_call S (st_obj s) a \<and> (\<forall>k i. a \<noteq> Delete k i) \<and> (\<forall>r i. a \<noteq> DeleteInterface r i)) cs"
  using wp_sndI [OF reconcileNormal_done, of S s]
  by (auto simp: normal_done_def emits_def list_all_iff) (blast dest: reconcile_call_kind)+

text \<open>
  C17. A reconcile changes nothing of the metadata and of the spec but the control plane endpoint,
  and that only from an empty host to a host, with the API server port of the spec.
\<close>

theorem endpoint_written_once:
  "let s' = snd (reconcileNormal S s); e = cs_ControlPlaneEndpoint (specOf s);
       e' = cs_ControlPlaneEndpoint (specOf s')
   in metaOf s' = metaOf s \<and> specOf s' = (specOf s)\<lparr>cs_ControlPlaneEndpoint := e'\<rparr> \<and>
      (e' = e \<or> ep_Host e = '''' \<and> ep_Host e' \<noteq> '''' \<and>
         ep_Port e' = lb_APIServerPort (cs_ControlPlaneLoadBalancer (specOf s)))"
  using wp_sndI [OF reconcileNormal_done, of S s]
  by (auto simp: normal_done_def same_but_endpoint_def Let_def)

text \<open>
  Deriving the Ready condition, the last thing a reconcile does to the status, makes it true
  exactly when every sub-condition is: it neither hides nor invents a failing part.
\<close>

lemma ready_iff_all_parts_ready:
  assumes "scope_ok S"
  shows "condTrue S (st_obj_update (Cluster_setReadyCondition S) s) ReadyCondition \<longleftrightarrow>
    list_all (condTrue S s) Cluster_subConditions"
  by (rule condTrue_ready [OF assms])

text \<open>The status lists stay finite maps: one entry per network, router and router interface.\<close>

lemma keeps_inv_of_frame:
  assumes "keeps R m" and "\<And>s s'. R s s' \<Longrightarrow> P (st_obj s) \<Longrightarrow> P (st_obj s')"
  shows "keeps (obj_inv P) m"
  using assms unfolding keeps_def obj_inv_def by blast

definition status_wf :: "CloudscaleCluster \<Rightarrow> bool" where
  "status_wf c \<longleftrightarrow> networks_distinct c \<and> routers_distinct c"

lemma status_wf_cong:
  "cst_Networks (cl_Status c') = cst_Networks (cl_Status c) \<Longrightarrow>
   cst_Routers (cl_Status c') = cst_Routers (cl_Status c) \<Longrightarrow> status_wf c' = status_wf c"
  by (simp add: status_wf_def networks_distinct_def routers_distinct_def)

lemma status_wf_parts:
  "keeps (obj_inv status_wf) (reconcileNetwork S)" "keeps (obj_inv status_wf) (reconcileRouters S)"
  "keeps (obj_inv status_wf) (reconcileLoadBalancer S)" "keeps (obj_inv status_wf) (reconcileFloatingIP S)"
  "keeps (obj_inv status_wf) (finishNormal S lb)"
proof -
  show "keeps (obj_inv status_wf) (reconcileNetwork S)"
    using reconcileNetwork_distinct [of S]
    by (simp add: keeps_def obj_inv_def status_wf_def routers_distinct_def
        net_frameD(5) [OF keeps_snd [OF reconcileNetwork_frame]])
  show "keeps (obj_inv status_wf) (reconcileRouters S)"
    using reconcileRouters_distinct [of S]
    by (simp add: keeps_def obj_inv_def status_wf_def networks_distinct_def
        router_frameD(5) [OF keeps_snd [OF reconcileRouters_frame]])
  show "keeps (obj_inv status_wf) (reconcileLoadBalancer S)"
    by (rule keeps_inv_of_frame [OF reconcileLoadBalancer_frame])
      (metis lb_frameD(3,5) status_wf_cong)
  show "keeps (obj_inv status_wf) (reconcileFloatingIP S)"
    by (rule keeps_inv_of_frame [OF reconcileFloatingIP_frame])
      (metis fip_frameD(4,5) status_wf_cong)
  show "keeps (obj_inv status_wf) (finishNormal S lb)"
    unfolding finishNormal_def reconcileControlPlaneEndpoint_def modify_status_def
    by (intro inv_intros keeps_inv_modify_obj) (auto simp: status_wf_def networks_distinct_def routers_distinct_def)
qed

lemma reconcileNormal_status_wf: "keeps (obj_inv status_wf) (reconcileNormal S)"
  unfolding reconcileNormal_def subReconcile_def
  by (intro inv_intros status_wf_parts)
    (auto simp: obj_inv_def status_wf_def networks_distinct_def routers_distinct_def)

text \<open>
  C15. The status lists of networks, routers and router interfaces are finite maps, one entry per
  name, and stay so through a reconcile, whatever the API answers.
\<close>

theorem status_stays_well_formed:
  assumes "status_wf (st_obj s)"
  shows "status_wf (st_obj (snd (reconcileNormal S s)))"
  using keeps_snd [OF reconcileNormal_status_wf, of s S] assms by (simp add: obj_inv_def)

theorem status_stays_well_formed_witness:
  "status_wf sample_cluster \<and> status_wf (st_obj (snd (reconcileNormal tracked_scope tracked_start)))"
proof -
  have "status_wf (st_obj tracked_start)"
    by (simp add: status_wf_def networks_distinct_def routers_distinct_def sample_cluster_def empty_status_def)
  with status_stays_well_formed [OF this] show ?thesis by simp
qed

text \<open>
  C32. A reconcile request either only reads, or it sends exactly one patch, as its last call, so
  that what the reconcile did to the object is stored whether it succeeds or fails. When it succeeds
  the patch also advances the observed generation.
\<close>

theorem reconcile_patches_once:
  "wp (Cluster_Reconcile L k newClient ns n)
     (\<lambda>_ s'. emits is_kube_get s s' \<or> patched_last True s s')
     (\<lambda>_ s'. emits is_kube_get s s' \<or> (\<exists>b. patched_last b s s')) s"
  by (rule Cluster_Reconcile_patches)

end
