(* ===== verification/Cluster_Deletion.thy ===== *)
theory Cluster_Deletion
  imports Cluster_Controller
begin

text \<open>
  What the deletion of a cluster leaves in the cloud. The resources that exist are an observation
  \<open>live\<close> of the world; the API promises that a deletion it confirms, or answers with not found, leaves
  the resource out of \<open>live\<close>, and that nothing the deletion sends adds to \<open>live\<close>.
\<close>

section \<open>The resources that exist\<close>

definition shrink_law :: "('w \<Rightarrow> (kind \<times> string) set) \<Rightarrow> ('w, 'a) call \<Rightarrow> bool" where
  "shrink_law live f \<longleftrightarrow> (\<forall>w. live (snd (f w)) \<subseteq> live w)"

definition delete_law :: "('w \<Rightarrow> (kind \<times> string) set) \<Rightarrow> kind \<Rightarrow> (string \<Rightarrow> ('w, unit) call) \<Rightarrow> bool" where
  "delete_law live k del \<longleftrightarrow> (\<forall>i. shrink_law live (del i)) \<and>
     (\<forall>i w. hard_error (err_of (fst (del i w))) = None \<longrightarrow> (k, i) \<notin> live (snd (del i w)))"

definition deletion_api_ok :: "('w \<Rightarrow> (kind \<times> string) set) \<Rightarrow> 'w ClusterScope \<Rightarrow> bool" where
  "deletion_api_ok live S \<longleftrightarrow>
     (let cli = sc_CloudscaleClient S in
      delete_law live KFloatingIP (svc_Delete (FloatingIPs cli)) \<and>
      delete_law live KLoadBalancer (svc_Delete (LoadBalancers cli)) \<and>
      delete_law live KServerGroup (svc_Delete (ServerGroups cli)) \<and>
      delete_law live KRouter (svc_Delete (Routers cli)) \<and>
      delete_law live KNetwork (svc_Delete (Networks cli)) \<and>
      (\<forall>i. shrink_law live (svc_Get (Routers cli) i)) \<and>
      (\<forall>r i. shrink_law live (svc_DeleteInterface (Routers cli) r i)) \<and>
      (\<forall>t. shrink_law live (svc_List (ServerGroups cli) t)) \<and>
      (\<forall>ns l. shrink_law live (k_ListCloudscaleMachines (sc_client S) ns l)))"

text \<open>The resources that a cluster records as its own.\<close>

definition managed_resources :: "CloudscaleCluster \<Rightarrow> (kind \<times> string) set" where
  "managed_resources c =
     {(KFloatingIP, i) |i. fip_managed (cl_Spec c) \<and> i = cst_FloatingIP (cl_Status c) \<and> i \<noteq> ''''} \<union>
     {(KLoadBalancer, i) |i. lbEnabled (cl_Spec c) \<and> i = fst (lb_ids (cl_Status c)) \<and> i \<noteq> ''''} \<union>
     {(KRouter, rs_RouterID r) |r. r \<in> set (cst_Routers (cl_Status c)) \<and> rs_Managed r \<and> rs_RouterID r \<noteq> ''''} \<union>
     {(KNetwork, ns_NetworkID n) |n. n \<in> set (cst_Networks (cl_Status c)) \<and> ns_Managed n \<and> ns_NetworkID n \<noteq> ''''}"

section \<open>Nothing comes back\<close>

definition shrinks :: "('w \<Rightarrow> (kind \<times> string) set) \<Rightarrow> ('w, 'o) st \<Rightarrow> ('w, 'o) st \<Rightarrow> bool" where
  "shrinks live s s' \<longleftrightarrow> live (st_world s') \<subseteq> live (st_world s)"

interpretation shrink: frame_relation "shrinks live" for live
  by unfold_locales (auto simp: shrinks_def)

lemma keeps_shrinks_api: "shrink_law live f \<Longrightarrow> keeps (shrinks live) (api c f)"
  by (auto simp: keeps_def shrinks_def shrink_law_def api_def split: prod.split) (metis snd_conv subsetD)

lemma keeps_shrinks_Eventf: "keeps (shrinks live) (Eventf ty reason action f args)"
  by (simp add: keeps_def shrinks_def Eventf_def goModify_def)

lemma keeps_shrinks_modify_obj: "keeps (shrinks live) (modify_obj f)"
  by (simp add: keeps_def shrinks_def modify_obj_def goModify_def)

lemmas shrink_intros =
  shrink.keeps_intros keeps_shrinks_api keeps_shrinks_Eventf keeps_shrinks_modify_obj

lemma delete_lawD: "delete_law live k del \<Longrightarrow> shrink_law live (del i)"
  "delete_law live k del \<Longrightarrow> del i w = (r, w') \<Longrightarrow> hard_error (err_of r) = None \<Longrightarrow> (k, i) \<notin> live w'"
  by (auto simp: delete_law_def) (metis fst_conv snd_conv)

lemma delete_law_gone:
  assumes "delete_law live k del"
  shows "del i w = (Inr u, w') \<Longrightarrow> (k, i) \<notin> live w'"
    and "del i w = (Inl e, w') \<Longrightarrow> IsNotFound (Some e) \<Longrightarrow> (k, i) \<notin> live w'"
  using delete_lawD(2) [OF assms] by (fastforce simp: hard_error_def IsNotFound_def)+

lemma deletion_api_okD:
  assumes "deletion_api_ok live S"
  shows "delete_law live KFloatingIP (svc_Delete (FloatingIPs (sc_CloudscaleClient S)))"
    and "delete_law live KLoadBalancer (svc_Delete (LoadBalancers (sc_CloudscaleClient S)))"
    and "delete_law live KServerGroup (svc_Delete (ServerGroups (sc_CloudscaleClient S)))"
    and "delete_law live KRouter (svc_Delete (Routers (sc_CloudscaleClient S)))"
    and "delete_law live KNetwork (svc_Delete (Networks (sc_CloudscaleClient S)))"
    and "shrink_law live (svc_Get (Routers (sc_CloudscaleClient S)) i)"
    and "shrink_law live (svc_DeleteInterface (Routers (sc_CloudscaleClient S)) r i)"
    and "shrink_law live (svc_List (ServerGroups (sc_CloudscaleClient S)) t)"
    and "shrink_law live (k_ListCloudscaleMachines (sc_client S) ns l)"
  using assms by (simp_all add: deletion_api_ok_def Let_def)

lemmas deletion_shrink_laws =
  delete_lawD(1) [OF deletion_api_okD(1)] delete_lawD(1) [OF deletion_api_okD(2)]
  delete_lawD(1) [OF deletion_api_okD(3)] delete_lawD(1) [OF deletion_api_okD(4)]
  delete_lawD(1) [OF deletion_api_okD(5)] deletion_api_okD(6-9)

lemma delete_parts_shrink:
  assumes "deletion_api_ok live S"
  shows "keeps (shrinks live) (deleteLoadBalancer S)"
    and "keeps (shrinks live) (deleteServerGroups S)"
    and "keeps (shrinks live) (deleteRouterInterfaces S rs)"
    and "keeps (shrinks live) (deleteRouters S)"
    and "keeps (shrinks live) (deleteNetwork S)"
proof -
  note laws = deletion_shrink_laws [OF assms]
  show "keeps (shrinks live) (deleteLoadBalancer S)"
    unfolding deleteLoadBalancer_def modify_status_def
    by (intro shrink_intros laws) (simp add: shrinks_def)
  show "keeps (shrinks live) (deleteServerGroups S)"
    unfolding deleteServerGroups_def getOwnedServerIDs_def deleteServerGroup_def
    by (intro shrink_intros laws)
  show ifaces: "keeps (shrinks live) (deleteRouterInterfaces S rs)" for rs
    unfolding deleteRouterInterfaces_def by (intro shrink_intros laws)
  show "keeps (shrinks live) (deleteRouters S)"
    unfolding deleteRouters_def modify_status_def
    by (intro shrink_intros laws ifaces) (simp add: shrinks_def)
  show "keeps (shrinks live) (deleteNetwork S)"
    unfolding deleteNetwork_def modify_status_def
    by (intro shrink_intros laws) (simp add: shrinks_def)
qed

section \<open>What each part has removed\<close>

lemma deleteFloatingIP_gone:
  assumes "deletion_api_ok live S"
  shows "wp (deleteFloatingIP S)
    (\<lambda>_ s'. fip_managed (specOf s) \<and> cst_FloatingIP (statusOf s) \<noteq> '''' \<longrightarrow>
       (KFloatingIP, cst_FloatingIP (statusOf s)) \<notin> live (st_world s')) (\<lambda>_ _. True) s"
  unfolding deleteFloatingIP_def
  by (auto simp: wp fip_managed_def hard_error_def split: option.split sum.split prod.split
      dest: delete_law_gone [OF deletion_api_okD(1) [OF assms]])

lemma deleteLoadBalancer_gone:
  assumes "deletion_api_ok live S"
  shows "wp (deleteLoadBalancer S)
    (\<lambda>_ s'. lbEnabled (specOf s) \<and> fst (lb_ids (statusOf s)) \<noteq> '''' \<longrightarrow>
       (KLoadBalancer, fst (lb_ids (statusOf s))) \<notin> live (st_world s')) (\<lambda>_ _. True) s"
  unfolding deleteLoadBalancer_def
  by (auto simp: wp lb_ids_def hard_error_def split: option.split sum.split prod.split
      dest: delete_law_gone [OF deletion_api_okD(2) [OF assms]])

text \<open>The routers and networks that the loops have passed without an error are gone.\<close>

definition passed_gone ::
  "('w \<Rightarrow> (kind \<times> string) set) \<Rightarrow> kind \<Rightarrow> ('a \<Rightarrow> bool) \<Rightarrow> ('a \<Rightarrow> string) \<Rightarrow> 'a list \<Rightarrow> 'b list \<times> go_error list \<Rightarrow>
   ('w, 'o) st \<Rightarrow> bool" where
  "passed_gone live k managed ident pre acc s \<longleftrightarrow>
     snd acc = [] \<longrightarrow> (\<forall>x\<in>set pre. managed x \<and> ident x \<noteq> '''' \<longrightarrow> (k, ident x) \<notin> live (st_world s))"

lemma passed_gone_step:
  assumes "passed_gone live k managed ident pre acc s" and "shrinks live s s'"
    and "snd acc' = [] \<Longrightarrow> snd acc = []"
    and "snd acc' = [] \<Longrightarrow> managed x \<Longrightarrow> ident x \<noteq> '''' \<Longrightarrow> (k, ident x) \<notin> live (st_world s')"
  shows "passed_gone live k managed ident (pre @ [x]) acc' s'"
  using assms by (auto simp: passed_gone_def shrinks_def)

lemma passed_gone_loop:
  fixes body :: "'b list \<times> go_error list \<Rightarrow> 'a \<Rightarrow> (('w, 'o) st, 'b list \<times> go_error list) proc"
  assumes "\<And>acc x. x \<in> set xs \<Longrightarrow> keeps (shrinks live) (body acc x)"
    and "\<And>acc x t. x \<in> set xs \<Longrightarrow> wp (body acc x)
      (\<lambda>acc' s'. snd acc' = [] \<longrightarrow> snd acc = [] \<and>
         (managed x \<and> ident x \<noteq> [] \<longrightarrow> (k, ident x) \<notin> live (st_world s'))) (\<lambda>_ _. True) t"
  shows "wp (goFold body ([], []) xs) (passed_gone live k managed ident xs) (\<lambda>_ _. True) s"
proof (rule wp_goFold_prefix [where I = "passed_gone live k managed ident"])
  fix pre x post and acc :: "'b list \<times> go_error list" and t :: "('w, 'o) st"
  assume "xs = pre @ x # post" and pre: "passed_gone live k managed ident pre acc t"
  then have x: "x \<in> set xs" by simp
  show "wp (body acc x) (passed_gone live k managed ident (pre @ [x])) (\<lambda>_ _. True) t"
    by (rule wp_mono [OF wp_conj [OF assms(2) [OF x] wp_keeps [OF assms(1) [OF x]]]])
      (auto intro: passed_gone_step [OF pre])
qed (simp_all add: passed_gone_def)

lemma deleteNetwork_gone:
  assumes "deletion_api_ok live S"
  shows "wp (deleteNetwork S)
    (\<lambda>_ s'. list_all (\<lambda>n. ns_Managed n \<and> ns_NetworkID n \<noteq> [] \<longrightarrow> (KNetwork, ns_NetworkID n) \<notin> live (st_world s'))
       (cst_Networks (statusOf s))) (\<lambda>_ _. True) s"
  unfolding deleteNetwork_def
  apply (simp add: wp)
  apply (rule wp_mono [OF passed_gone_loop [where k = KNetwork and managed = ns_Managed and ident = ns_NetworkID
        and live = live]])
  subgoal for acc n by (cases acc) (auto intro!: shrink_intros deletion_shrink_laws [OF assms])
  subgoal for acc n t
    by (cases acc) (auto simp: wp hard_error_def split: sum.split prod.split option.split
        dest: delete_law_gone [OF deletion_api_okD(5) [OF assms]])
  subgoal for acc t
    by (cases acc) (auto simp: wp passed_gone_def errors_Join_def list_all_iff split: option.split if_splits)
  subgoal by simp
  done

lemma deleteRouters_gone:
  assumes "deletion_api_ok live S"
  shows "wp (deleteRouters S)
    (\<lambda>_ s'. list_all (\<lambda>r. rs_Managed r \<and> rs_RouterID r \<noteq> [] \<longrightarrow> (KRouter, rs_RouterID r) \<notin> live (st_world s'))
       (cst_Routers (statusOf s))) (\<lambda>_ _. True) s"
  unfolding deleteRouters_def
  apply (simp add: wp)
  apply (rule wp_mono [OF passed_gone_loop [where k = KRouter and managed = rs_Managed and ident = rs_RouterID
        and live = live]])
  subgoal for acc r
    by (cases acc) (auto intro!: shrink_intros deletion_shrink_laws [OF assms] delete_parts_shrink [OF assms])
  subgoal for acc r t
    by (cases acc) (auto simp: wp hard_error_def split: sum.split prod.split option.split
        intro!: wp_mono [OF deleteRouterInterfaces_spec] dest: delete_law_gone [OF deletion_api_okD(4) [OF assms]])
  subgoal for acc t
    by (cases acc) (auto simp: wp passed_gone_def errors_Join_def list_all_iff split: option.split if_splits)
  subgoal by simp
  done

lemma managed_goneI:
  assumes "fip_managed (cl_Spec c) \<and> cst_FloatingIP (cl_Status c) \<noteq> [] \<longrightarrow>
      (KFloatingIP, cst_FloatingIP (cl_Status c)) \<notin> live (st_world s1)"
    and "lbEnabled (cl_Spec c) \<and> fst (lb_ids (cl_Status c)) \<noteq> [] \<longrightarrow>
      (KLoadBalancer, fst (lb_ids (cl_Status c))) \<notin> live (st_world s2)"
    and "list_all (\<lambda>r. rs_Managed r \<and> rs_RouterID r \<noteq> [] \<longrightarrow> (KRouter, rs_RouterID r) \<notin> live (st_world s4))
      (cst_Routers (cl_Status c))"
    and "list_all (\<lambda>n. ns_Managed n \<and> ns_NetworkID n \<noteq> [] \<longrightarrow> (KNetwork, ns_NetworkID n) \<notin> live (st_world s5))
      (cst_Networks (cl_Status c))"
    and "shrinks live s1 s2" and "shrinks live s2 s3" and "shrinks live s3 s4" and "shrinks live s4 s5"
  shows "managed_resources c \<inter> live (st_world s5) = {}"
proof -
  have "live (st_world s5) \<subseteq> live (st_world s4)" "live (st_world s5) \<subseteq> live (st_world s2)"
    "live (st_world s5) \<subseteq> live (st_world s1)"
    using assms(5-8) unfolding shrinks_def by blast+
  with assms(1-4) show ?thesis by (auto simp: managed_resources_def list_all_iff)
qed

text \<open>A completed deletion leaves none of the cluster's resources in the cloud.\<close>

lemma reconcileDelete_gone:
  assumes "deletion_api_ok live S"
  shows "wp (reconcileDelete S)
    (\<lambda>res s'. IsZero res \<longrightarrow> managed_resources (st_obj s) \<inter> live (st_world s') = {}) (\<lambda>_ _. True) s"
  unfolding reconcileDelete_def
  apply (simp add: wp)
  apply (rule wp_mono [OF wp_conj [OF deleteFloatingIP_step deleteFloatingIP_gone [OF assms]]]; simp add: wp)
  apply (rule wp_mono [OF wp_conj [OF wp_conj [OF deleteLoadBalancer_step deleteLoadBalancer_gone [OF assms]]
          wp_keeps [OF delete_parts_shrink(1) [OF assms]]]]; simp add: wp)
  apply (rule wp_mono [OF wp_conj [OF deleteServerGroups_step wp_keeps [OF delete_parts_shrink(2) [OF assms]]]];
      simp add: wp)
  apply (rule wp_mono [OF wp_conj [OF wp_conj [OF deleteRouters_step deleteRouters_gone [OF assms]]
          wp_keeps [OF delete_parts_shrink(4) [OF assms]]]]; simp add: wp)
  apply (rule wp_mono [OF wp_conj [OF wp_conj [OF deleteNetwork_step deleteNetwork_gone [OF assms]]
          wp_keeps [OF delete_parts_shrink(5) [OF assms]]]]; simp add: wp)
  apply (elim conjE)
  apply (rule managed_goneI; assumption)
  done

end
