(* ===== verification/Cluster_Part_Properties.thy ===== *)
theory Cluster_Part_Properties
  imports Cluster_Properties Cluster_Deletion
begin

text \<open>
  The properties of the parts of the cluster controller: deletion in order and without touching
  what is pre-existing, the load-balancer pool, the router interfaces, and the shared lookups.
\<close>

section \<open>Deletion\<close>

text \<open>
  C4. When the deletion of a cluster completes, the finalizer is gone, every managed id has been
  cleared from the status, pre-existing networks are still listed, and the requests sent are the
  floating IP, the load balancer, the server groups, the routers and the networks, in this order; and
  none of the resources that the status recorded as the cluster's own exists any more, if the API
  keeps to it that a confirmed deletion removes the resource and nothing sent here creates one. In
  every other outcome the finalizer, and all other metadata, are kept.
\<close>

theorem deletion_is_complete_and_ordered:
  assumes "deletion_api_ok live S"
  shows "wp (reconcileDelete S)
    (\<lambda>res s'. delete_done S s res s' \<and>
       (IsZero res \<longrightarrow> managed_resources (st_obj s) \<inter> live (st_world s') = {}))
    (\<lambda>_ s'. metaOf s' = metaOf s) s"
  by (rule wp_mono [OF wp_conj [OF reconcileDelete_spec reconcileDelete_gone [OF assms]]]) simp_all

text \<open>A cloud whose world is the list of the resources in it.\<close>

definition stock_delete :: "kind \<Rightarrow> string \<Rightarrow> ((kind \<times> string) list, unit) call" where
  "stock_delete k i w =
     (if (k, i) \<in> set w then (Inr (), removeAll (k, i) w) else (Inl (ErrorResponse 404 ''''), w))"

definition stock_scope :: "(kind \<times> string) list ClusterScope" where
  "stock_scope = sample_scope\<lparr>sc_CloudscaleClient := sample_client
     \<lparr>Networks := (Networks sample_client)\<lparr>svc_Delete := stock_delete KNetwork\<rparr>,
      Routers := (Routers sample_client)\<lparr>svc_Delete := stock_delete KRouter\<rparr>,
      ServerGroups := (ServerGroups sample_client)\<lparr>svc_Delete := stock_delete KServerGroup\<rparr>,
      LoadBalancers := (LoadBalancers sample_client)\<lparr>svc_Delete := stock_delete KLoadBalancer\<rparr>,
      FloatingIPs := (FloatingIPs sample_client)\<lparr>svc_Delete := stock_delete KFloatingIP\<rparr>\<rparr>\<rparr>"

definition recorded_cluster :: CloudscaleCluster where
  "recorded_cluster = sample_cluster\<lparr>cl_Status := empty_status\<lparr>cst_LoadBalancerID := ''lb-id'', cst_Networks :=
     [\<lparr>ns_Name = ''net'', ns_NetworkID = ''net-id'', ns_SubnetID = ''sub-id'', ns_CIDR = ''10.0.0.0/24'',
       ns_MTU = 9000, ns_Managed = True, ns_GatewayAddress = ''''\<rparr>]\<rparr>\<rparr>"

definition recorded_start :: "((kind \<times> string) list, CloudscaleCluster) st" where
  "recorded_start = start_in [(KNetwork, ''net-id''), (KLoadBalancer, ''lb-id''), (KNetwork, ''other'')] recorded_cluster"

lemma stock_api_ok: "deletion_api_ok set stock_scope"
  by (auto simp: deletion_api_ok_def stock_scope_def sample_scope_def sample_client_def stub_service_def
      sample_kube_def delete_law_def shrink_law_def stock_delete_def Let_def)

theorem deletion_is_complete_and_ordered_witness:
  "set (st_world (snd (reconcileDelete stock_scope recorded_start))) \<inter>
     {(KNetwork, ''net-id''), (KLoadBalancer, ''lb-id'')} = {}"
proof -
  have run: "reconcileDelete stock_scope recorded_start = (Inr zeroResult, snd (reconcileDelete stock_scope recorded_start))"
    by (rule prod_eqI) (simp, code_simp, simp)
  have "{(KNetwork, ''net-id''), (KLoadBalancer, ''lb-id'')} \<subseteq> managed_resources (st_obj recorded_start)"
    by (auto simp: managed_resources_def recorded_start_def recorded_cluster_def start_in_def lb_ids_def
        sample_cluster_def sample_spec_def empty_status_def lbEnabled_def)
  then show ?thesis
    using wp_okD [OF deletion_is_complete_and_ordered [OF stock_api_ok] run] by auto
qed

text \<open>What the API answers to the deletion of the recorded floating IP.\<close>

definition fip_answer :: "'w ClusterScope \<Rightarrow> 'w cst \<Rightarrow> go_error option" where
  "fip_answer S s =
     err_of (fst (svc_Delete (FloatingIPs (sc_CloudscaleClient S)) (cst_FloatingIP (statusOf s)) (st_world s)))"

lemma deleteFloatingIP_answer:
  "wp (deleteFloatingIP S)
     (\<lambda>_ s'. fip_managed (specOf s) \<and> cst_FloatingIP (statusOf s) \<noteq> [] \<longrightarrow> hard_error (fip_answer S s) = None)
     (\<lambda>_ s'. cst_FloatingIP (statusOf s) \<noteq> [] \<and> hard_error (fip_answer S s) \<noteq> None) s"
  unfolding deleteFloatingIP_def
  by (auto simp: wp fip_managed_def fip_answer_def split: option.split sum.split prod.split)

text \<open>
  C25. Deleting the floating IP of a cluster: one that the spec names by address is left alone,
  object and cloud; a managed one is deleted by at most one request, its status is cleared only after
  the API confirmed the deletion or answered that it does not exist, and kept on any other error.
\<close>

theorem foreign_floating_ip_kept:
  "wp (deleteFloatingIP S)
     (\<lambda>_ s'. if fip_managed (specOf s)
        then st_calls s' = st_calls s @ delete_fip_calls (st_obj s) \<and> cst_FloatingIP (statusOf s') = '''' \<and>
             (cst_FloatingIP (statusOf s) = '''' \<or> hard_error (fip_answer S s) = None)
        else s' = s)
     (\<lambda>e s'. fip_managed (specOf s) \<and> cst_FloatingIP (statusOf s') = cst_FloatingIP (statusOf s) \<and>
        cst_FloatingIP (statusOf s) \<noteq> '''' \<and> hard_error (fip_answer S s) \<noteq> None) s"
  by (rule wp_mono [OF wp_conj [OF deleteFloatingIP_spec deleteFloatingIP_answer]]) (auto split: if_splits)



text \<open>
  C28. Deleting the server groups: a group is deleted only if it is empty. On success no listed group
  holds a server of this cluster and exactly the empty groups were deleted, in the listed order. The
  first group that still holds one stops the deletion with the error that makes the controller wait.
\<close>

theorem only_empty_server_groups_deleted:
  "wp (deleteServerGroups S)
     (\<lambda>_ s'. \<exists>ids gs. groups_answer S s = Some (ids, gs) \<and>
        list_all (\<lambda>g. \<not> holds_owned ids g) gs \<and>
        st_calls s' = st_calls s @ group_reads S s @ delete_group_calls gs)
     (\<lambda>e s'. (case groups_answer S s of
         None \<Rightarrow> st_calls s' = st_calls s @ take 1 (group_reads S s) \<or>
                 st_calls s' = st_calls s @ group_reads S s
       | Some (ids, gs) \<Rightarrow>
           (\<exists>cs. group_stop ids gs cs e \<and> st_calls s' = st_calls s @ group_reads S s @ cs))) s"
  by (rule deleteServerGroups_spec)

section \<open>The load balancer\<close>


text \<open>
  A pool with a stale member and a desired one: the witness also shows a removal.
\<close>

definition stale_member :: LoadBalancerPoolMember where
  "stale_member = sample_member\<lparr>pm_UUID := ''stale-id'', pm_Name := ''gone-0'', pm_Address := ''10.0.0.9''\<rparr>"

definition pool_kube :: "unit kube" where
  "pool_kube = sample_kube\<lparr>k_ListCloudscaleMachines := (\<lambda>ns t w. (Inr
     [sample_machine\<lparr>cm_Status := (cm_Status sample_machine)\<lparr>mst_Addresses :=
        [\<lparr>ma_Type = MachineInternalIP, ma_Address = ''10.0.0.7''\<rparr>]\<rparr>\<rparr>], w))\<rparr>"

definition pool_client :: "unit Client" where
  "pool_client = sample_client\<lparr>LoadBalancerPoolMembers :=
     (LoadBalancerPoolMembers sample_client)\<lparr>mem_List := (\<lambda>p w. (Inr [stale_member], w))\<rparr>\<rparr>"

definition pool_scope :: "unit ClusterScope" where
  "pool_scope = sample_scope\<lparr>sc_client := pool_kube, sc_CloudscaleClient := pool_client\<rparr>"

definition pool_cluster :: CloudscaleCluster where
  "pool_cluster = sample_cluster\<lparr>cl_Status := empty_status\<lparr>cst_LoadBalancerID := ''lb-id'',
     cst_LoadBalancerPoolID := ''pool-id'',
     cst_Networks := [\<lparr>ns_Name = ''net'', ns_NetworkID = ''net-id'', ns_SubnetID = ''sub-id'',
       ns_CIDR = ''10.0.0.0/24'', ns_MTU = 9000, ns_Managed = True, ns_GatewayAddress = ''''\<rparr>]\<rparr>\<rparr>"

definition pool_request :: LoadBalancerPoolMemberRequest where
  "pool_request = \<lparr>pmq_Name = ''cp-0'', pmq_Subnet = ''sub-id'', pmq_ProtocolPort = 6443,
     pmq_Address = ''10.0.0.7'', pmq_Tags = Some (clusterOwnershipTags pool_cluster)\<rparr>"


lemma getDesiredLoadBalancerMembers_answer:
  "wp (getDesiredLoadBalancerMembers S)
     (\<lambda>des _. \<exists>ms w. k_ListCloudscaleMachines (sc_client S) (om_Namespace (metaOf s)) (lbMachineLabels S)
         (st_world s) = (Inr ms, w) \<and> desired_of (st_obj s) ms = Inr des) (\<lambda>_ _. True) s"
  by (auto simp: wp_getDesiredLoadBalancerMembers split: prod.split sum.split)

text \<open>
  C14. Every desired pool member is an internal address of one of the control-plane machines of the
  cluster that lies inside the CIDR of the pool's subnet, and it is asked for under the machine's
  name, on the API server port and in that subnet.
\<close>

theorem desired_members_in_subnet:
  assumes "getDesiredLoadBalancerMembers S s = (Inr des, s')"
  shows "\<exists>machines w. k_ListCloudscaleMachines (sc_client S) (om_Namespace (metaOf s)) (lbMachineLabels S)
        (st_world s) = (Inr machines, w) \<and>
      list_all (\<lambda>d. in_member_subnet (st_obj s) d \<and>
        pmq_ProtocolPort d = lb_APIServerPort (cs_ControlPlaneLoadBalancer (specOf s)) \<and>
        list_ex (\<lambda>m. pmq_Name d = om_Name (cm_Meta m) \<and>
          \<lparr>ma_Type = MachineInternalIP, ma_Address = pmq_Address d\<rparr> \<in> set (mst_Addresses (cm_Status m)))
          machines) des"
proof -
  from wp_okD [OF getDesiredLoadBalancerMembers_answer assms] obtain ms w where
    ms: "k_ListCloudscaleMachines (sc_client S) (om_Namespace (metaOf s)) (lbMachineLabels S)
        (st_world s) = (Inr ms, w)" and des: "desired_of (st_obj s) ms = Inr des" by blast
  show ?thesis
    by (rule exI [of _ ms], rule exI [of _ w], rule conjI [OF ms], unfold list_all_iff list_ex_iff)
      (blast elim: desired_ofD [OF des])
qed

theorem desired_members_in_subnet_witness:
  "in_member_subnet pool_cluster pool_request"
proof -
  have "getDesiredLoadBalancerMembers pool_scope (start pool_cluster) =
      (Inr [pool_request], snd (getDesiredLoadBalancerMembers pool_scope (start pool_cluster)))"
    by (rule prod_eqI) (simp, code_simp, simp)
  from desired_members_in_subnet [OF this] show ?thesis by auto
qed

text \<open>
  C38. When the creation of the load balancer times out, the reconcile asks to be called again in five
  seconds and records no load balancer, but it reports the load balancer as ready and running.
\<close>

theorem creation_timeout_reported_as_ready:
  assumes "scope_ok S" and "lbEnabled (specOf s)" and "lb_Network (cs_ControlPlaneLoadBalancer (specOf s)) = ''''"
    and "cst_LoadBalancerID (statusOf s) = ''''"
    and "\<And>t w. svc_List (LoadBalancers (sc_CloudscaleClient S)) t w = (Inr [], w)"
    and "\<And>q w. svc_Create (LoadBalancers (sc_CloudscaleClient S)) q w = (Inl e, w)"
    and "IsTimeoutError (Some e)"
  shows "wp (reconcileLoadBalancer S)
    (\<lambda>r s'. r = (noLbStatus, requeueAfter (5 * time_Second)) \<and> cst_LoadBalancerID (statusOf s') = '''' \<and>
       cond S s' LoadBalancerReadyCondition =
         Some \<lparr>co_Type = LoadBalancerReadyCondition, co_Status = ConditionTrue,
               co_Reason = LoadBalancerRunningReason, co_Message = ''''\<rparr>)
    (\<lambda>_ _. False) s"
  by (rule reconcileLoadBalancer_timeout [OF assms])

definition slow_client :: "unit Client" where
  "slow_client = sample_client\<lparr>LoadBalancers :=
     (LoadBalancers sample_client)\<lparr>svc_Create := (\<lambda>q w. (Inl ErrDeadlineExceeded, w))\<rparr>\<rparr>"

definition slow_scope :: "unit ClusterScope" where
  "slow_scope = sample_scope\<lparr>sc_CloudscaleClient := slow_client\<rparr>"

theorem creation_timeout_reported_as_ready_witness:
  "wp (reconcileLoadBalancer slow_scope)
    (\<lambda>r s'. r = (noLbStatus, requeueAfter (5 * time_Second)) \<and> cst_LoadBalancerID (statusOf s') = '''' \<and>
       cond slow_scope s' LoadBalancerReadyCondition =
         Some \<lparr>co_Type = LoadBalancerReadyCondition, co_Status = ConditionTrue,
               co_Reason = LoadBalancerRunningReason, co_Message = ''''\<rparr>)
    (\<lambda>_ _. False) (start sample_cluster)"
proof (rule creation_timeout_reported_as_ready [where e = ErrDeadlineExceeded])
  show "scope_ok slow_scope" using sample_scope_ok(1) by (simp add: slow_scope_def sample_scope_def)
  show "IsTimeoutError (Some ErrDeadlineExceeded)" by code_simp
qed (simp_all add: slow_scope_def slow_client_def sample_client_def stub_service_def sample_cluster_def
    empty_status_def sample_spec_def lbEnabled_def)

section \<open>Routers\<close>

text \<open>
  The RouterReady condition follows the reconcile: it is true exactly when the reconcile
  succeeded with nothing to wait for, and after an error it is false and carries the error's text.
\<close>

lemma router_condition_follows_reconcile:
  assumes "scope_ok S"
  shows "wp (reconcileRouters S)
    (\<lambda>res s'. condTrue S s' RouterReadyCondition \<longleftrightarrow> IsZero res)
    (\<lambda>e s'. cond S s' RouterReadyCondition =
       Some \<lparr>co_Type = RouterReadyCondition, co_Status = ConditionFalse, co_Reason = RouterErrorReason,
             co_Message = error_text e\<rparr>) s"
  by (rule reconcileRouters_condition [OF assms])









section \<open>Shared lookups\<close>



text \<open>
  C31. The API token comes from the secret the cluster references, in the cluster's own namespace when
  the reference names none; one Kubernetes read is sent and nothing is changed. A token is never
  empty, and a secret without the key, or with an empty one, is an error that names the secret.
\<close>

theorem token_from_referenced_secret:
  "wp (GetToken k ref ns)
     (\<lambda>token s'. let n = (if oref_Namespace ref = '''' then ns else oref_Namespace ref) in
        token \<noteq> '''' \<and> st_obj s' = st_obj s \<and>
        st_calls s' = st_calls s @ [KubeGet ''Secret'' n (oref_Name ref)] \<and>
        (\<exists>data w. k_GetSecret k n (oref_Name ref) (st_world s) = (Inr data, w) \<and> map_of data TokenKey = Some token))
     (\<lambda>e s'. let n = (if oref_Namespace ref = '''' then ns else oref_Namespace ref) in
        st_obj s' = st_obj s \<and> st_calls s' = st_calls s @ [KubeGet ''Secret'' n (oref_Name ref)] \<and>
        (case k_GetSecret k n (oref_Name ref) (st_world s) of
           (Inl err, w) \<Rightarrow> e = fmt_Errorw ''failed to get credentials secret %s/%s: %w'' [FS n, FS (oref_Name ref)] err
         | (Inr data, w) \<Rightarrow>
             (case map_of data TokenKey of
                None \<Rightarrow> e = fmt_Errorf ''secret %s/%s does not contain key %q'' [FS n, FS (oref_Name ref), FS TokenKey]
              | Some t \<Rightarrow> t = '''' \<and> e = fmt_Errorf ''secret %s/%s has empty token'' [FS n, FS (oref_Name ref)]))) s"
  unfolding GetToken_def Let_def by (auto simp: wp split: prod.split sum.split option.split)

text \<open>
  C39. A paused cluster is left alone: two Kubernetes reads, no request to the cloud and no patch. The
  Paused condition that the code sets on the object it read is therefore never stored.
\<close>

theorem paused_cluster_not_patched:
  assumes "k_GetCloudscaleCluster k ns n (st_world s) = (Inr obj, w)"
    and "k_GetOwnerCluster k (cl_Meta obj) w = (Inr (Some cluster), w')"
    and "lib_IsPaused L cluster (cl_Meta obj)"
  shows "wp (Cluster_Reconcile L k newClient ns n)
    (\<lambda>res s'. IsZero res \<and> st_world s' = w' \<and>
       st_calls s' = st_calls s @ [KubeGet ''CloudscaleCluster'' ns n, KubeGet ''Cluster'' ns ''''])
    (\<lambda>_ _. False) s"
  by (rule Cluster_Reconcile_paused [OF assms])

definition paused_kube :: "unit kube" where
  "paused_kube = sample_kube\<lparr>k_GetOwnerCluster := (\<lambda>m w. (Inr (Some (sample_capi\<lparr>capi_Paused := Some True\<rparr>)), w))\<rparr>"

theorem paused_cluster_not_patched_witness:
  "wp (Cluster_Reconcile list_lib paused_kube (\<lambda>_. sample_client) ''default'' ''demo'')
    (\<lambda>res s'. IsZero res \<and>
       st_calls s' = [KubeGet ''CloudscaleCluster'' ''default'' ''demo'', KubeGet ''Cluster'' ''default'' ''''])
    (\<lambda>_ _. False) (start sample_cluster)"
  by (rule wp_mono [OF paused_cluster_not_patched [where obj = sample_cluster
        and cluster = "sample_capi\<lparr>capi_Paused := Some True\<rparr>"]])
    (simp_all add: paused_kube_def sample_kube_def list_lib_def)

end
