(* ===== verification/Machine_State.thy ===== *)
theory Machine_State
  imports Sample_Cloud
begin

text \<open>
  The state of a machine reconcile: the CloudscaleMachine being reconciled, its spec and status,
  \<^verbatim>\<open>setCondition\<close> and \<^verbatim>\<open>setReadyCondition\<close> of \<^verbatim>\<open>cloudscalemachine_controller.go\<close>, and what
  setting a condition leaves alone.
\<close>

type_synonym 'w mst = "('w, CloudscaleMachine) st"

abbreviation mspecOf :: "'w mst \<Rightarrow> CloudscaleMachineSpec" where
  "mspecOf s \<equiv> cm_Spec (st_obj s)"

abbreviation mstatusOf :: "'w mst \<Rightarrow> CloudscaleMachineStatus" where
  "mstatusOf s \<equiv> cm_Status (st_obj s)"

definition modify_mstatus ::
  "(CloudscaleMachineStatus \<Rightarrow> CloudscaleMachineStatus) \<Rightarrow> ('w mst, unit) proc" where
  "modify_mstatus f = modify_obj (\<lambda>m. m\<lparr>cm_Status := f (cm_Status m)\<rparr>)"

lemma wp_modify_mstatus [wp]:
  "wp (modify_mstatus f) Q E =
     (\<lambda>s. Q () (s\<lparr>st_obj := (st_obj s)\<lparr>cm_Status := f (mstatusOf s)\<rparr>\<rparr>))"
  unfolding modify_mstatus_def by (simp add: wp)

definition Machine_setCondition ::
  "lib \<Rightarrow> string \<Rightarrow> string \<Rightarrow> string \<Rightarrow> string \<Rightarrow> CloudscaleMachine \<Rightarrow> CloudscaleMachine" where
  "Machine_setCondition L condType status reason message =
     obj_setCondition (lib_conditions L) Machine_GetConditions Machine_SetConditions
       condType status reason message"

definition Machine_subConditions :: "string list" where
  "Machine_subConditions = [ServerReadyCondition]"

definition Machine_setReadyCondition :: "lib \<Rightarrow> CloudscaleMachine \<Rightarrow> CloudscaleMachine" where
  "Machine_setReadyCondition L =
     setReadyFrom (lib_conditions L) Machine_GetConditions Machine_SetConditions Machine_subConditions"

definition mcondition :: "lib \<Rightarrow> CloudscaleMachine \<Rightarrow> string \<Rightarrow> Condition option" where
  "mcondition L m t = obj_Get (lib_conditions L) Machine_GetConditions m t"

definition mcondTrue :: "lib \<Rightarrow> CloudscaleMachine \<Rightarrow> string \<Rightarrow> bool" where
  "mcondTrue L m t = obj_IsTrue (lib_conditions L) Machine_GetConditions m t"

abbreviation lib_ok :: "lib \<Rightarrow> bool" where
  "lib_ok L \<equiv> conditions_ok (lib_conditions L)"

lemma mcondTrue_iff:
  "lib_ok L \<Longrightarrow> mcondTrue L m t \<longleftrightarrow> (\<exists>c. mcondition L m t = Some c \<and> co_Status c = ConditionTrue)"
  by (simp add: mcondition_def mcondTrue_def mcond.IsTrue_iff)

lemma mcondition_set [simp]:
  "lib_ok L \<Longrightarrow>
     mcondition L (Machine_setCondition L t st r msg m) t =
       Some \<lparr>co_Type = t, co_Status = st, co_Reason = r, co_Message = msg\<rparr>"
  "lib_ok L \<Longrightarrow> t' \<noteq> t \<Longrightarrow>
     mcondition L (Machine_setCondition L t st r msg m) t' = mcondition L m t'"
  by (simp_all add: mcondition_def Machine_setCondition_def mcond.Get_setCondition_same
      mcond.Get_setCondition_other)

text \<open>Everything of a machine but its conditions.\<close>

definition no_conditions :: "CloudscaleMachine \<Rightarrow> CloudscaleMachine" where
  "no_conditions m = m\<lparr>cm_Status := (cm_Status m)\<lparr>mst_Conditions := []\<rparr>\<rparr>"

lemma no_conditions_set [simp]:
  "no_conditions (Machine_setCondition L t st r msg m) = no_conditions m"
  by (simp add: no_conditions_def Machine_setCondition_def obj_setCondition_def Machine_SetConditions_def)

lemma no_conditions_ready [simp]:
  "no_conditions (Machine_setReadyCondition L m) = no_conditions m"
  unfolding Machine_setReadyCondition_def
  by (rule setReadyFrom_frame) (simp add: no_conditions_def Machine_SetConditions_def)

lemma no_conditions_views:
  assumes "no_conditions m = no_conditions m'"
  shows "cm_Meta m = cm_Meta m'" "cm_Spec m = cm_Spec m'"
    "mst_Initialization (cm_Status m) = mst_Initialization (cm_Status m')"
    "mst_ServerID (cm_Status m) = mst_ServerID (cm_Status m')"
    "mst_ServerGroupID (cm_Status m) = mst_ServerGroupID (cm_Status m')"
    "mst_Addresses (cm_Status m) = mst_Addresses (cm_Status m')"
  using arg_cong [OF assms, of cm_Meta] arg_cong [OF assms, of cm_Spec]
    arg_cong [OF assms, of "\<lambda>m. mst_Initialization (cm_Status m)"]
    arg_cong [OF assms, of "\<lambda>m. mst_ServerID (cm_Status m)"]
    arg_cong [OF assms, of "\<lambda>m. mst_ServerGroupID (cm_Status m)"]
    arg_cong [OF assms, of "\<lambda>m. mst_Addresses (cm_Status m)"]
  by (simp_all add: no_conditions_def)

lemmas Machine_setCondition_views [simp] = no_conditions_views [OF no_conditions_set]
lemmas Machine_setReadyCondition_views [simp] = no_conditions_views [OF no_conditions_ready]

lemma mcondTrue_ready:
  "lib_ok L \<Longrightarrow>
     mcondTrue L (Machine_setReadyCondition L m) ReadyCondition \<longleftrightarrow> mcondTrue L m ServerReadyCondition"
  unfolding mcondTrue_def Machine_setReadyCondition_def
  by (subst mcond.setReadyFrom_IsTrue) (simp_all add: Machine_subConditions_def)

lemma mcondition_ready_other:
  "lib_ok L \<Longrightarrow> t \<noteq> ReadyCondition \<Longrightarrow>
     mcondition L (Machine_setReadyCondition L m) t = mcondition L m t"
  by (simp add: mcondition_def Machine_setReadyCondition_def mcond.setReadyFrom_other)

end
