(* ===== verification/Machine_Server.thy ===== *)
theory Machine_Server
  imports Machine_State
begin

text \<open>
  The server of a machine, \<^verbatim>\<open>cloudscalemachine_server.go\<close>: a recorded server is read, an unrecorded
  one is looked up by its tag, and only when neither exists is one created; the status, the
  provider id and the addresses follow the server, and the ServerReady condition its state.
\<close>

section \<open>Definitions\<close>

definition InterfaceTypePublic :: string where "InterfaceTypePublic = ''public''"

definition ServerStatusChanging :: string where "ServerStatusChanging = ''changing''"
definition ServerStatusRunning :: string where "ServerStatusRunning = ''running''"
definition ServerStatusStopped :: string where "ServerStatusStopped = ''stopped''"
definition ServerStatusPaused :: string where "ServerStatusPaused = ''paused''"
definition ServerStatusRescueRunning :: string where "ServerStatusRescueRunning = ''rescue_running''"
definition ServerStatusRescueStopped :: string where "ServerStatusRescueStopped = ''rescue_stopped''"
definition ServerStatusError :: string where "ServerStatusError = ''error''"
definition ServerStatusUnknown :: string where "ServerStatusUnknown = ''unknown''"

definition ServerStatusPollInterval :: Duration where
  "ServerStatusPollInterval = 5 * time_Second"

definition machineLookupTag :: "'w MachineScope \<Rightarrow> CloudscaleMachine \<Rightarrow> str_map" where
  "machineLookupTag S m =
     [(MachineTagKey m (om_Name (capi_Meta (msc_Cluster S))),
       fmt_Sprintf ''%s/%s/%s'' [FS (om_Namespace (capi_Meta (msc_Cluster S))),
         FS (om_Name (capi_Meta (msc_Cluster S))), FS (om_Name (cm_Meta m))])]"

definition machineCreateTags :: "'w MachineScope \<Rightarrow> CloudscaleMachine \<Rightarrow> str_map" where
  "machineCreateTags S m =
     maps_Copy (machineLookupTag S m) (case ms_Tags (cm_Spec m) of None \<Rightarrow> [] | Some tags \<Rightarrow> tags)"

text \<open>The loop over \<^verbatim>\<open>spec.interfaces\<close>, with the requests and the family collected so far.\<close>

fun interfaceRequestsFrom ::
  "CloudscaleClusterStatus \<Rightarrow> InterfaceSpec list \<Rightarrow> string list \<Rightarrow> IPFamily option \<Rightarrow>
   go_error + (string list \<times> IPFamily option)" where
  "interfaceRequestsFrom st [] reqs ipFamily = Inr (reqs, ipFamily)"
| "interfaceRequestsFrom st (iface # ifaces) reqs ipFamily =
     (if if_Type iface = InterfaceTypePublic then
        interfaceRequestsFrom st ifaces (reqs @ [InterfaceTypePublic]) (if_IPFamily iface)
      else if if_Network iface \<noteq> '''' then
        (case GetNetworkStatus st (if_Network iface) of
           None \<Rightarrow> Inl (fmt_Errorf ''network %q not found in cluster status'' [FS (if_Network iface)])
         | Some ns \<Rightarrow>
             if ns_NetworkID ns = '''' then
               Inl (fmt_Errorf ''network %q not yet provisioned'' [FS (if_Network iface)])
             else interfaceRequestsFrom st ifaces (reqs @ [ns_NetworkID ns]) ipFamily)
      else Inl (fmt_Errorf ''interface must have either type or network set'' []))"

definition buildInterfaceRequests ::
  "'w MachineScope \<Rightarrow> CloudscaleMachine \<Rightarrow> go_error + (string list \<times> IPFamily option)" where
  "buildInterfaceRequests S m =
     (let ifaceSpecs = elems (ms_Interfaces (cm_Spec m));
          networks = cst_Networks (cl_Status (msc_CloudscaleCluster S))
      in if ifaceSpecs = [] then
           (case networks of
              [] \<Rightarrow> Inl (fmt_Errorf ''cluster has no networks provisioned yet'' [])
            | firstNetwork # _ \<Rightarrow> Inr ([InterfaceTypePublic, ns_NetworkID firstNetwork], None))
         else interfaceRequestsFrom (cl_Status (msc_CloudscaleCluster S)) ifaceSpecs [] None)"

definition ipFamilyToUseIPV6 :: "IPFamily option \<Rightarrow> bool option" where
  "ipFamilyToUseIPV6 ipFamily =
     (case ipFamily of
        None \<Rightarrow> None
      | Some f \<Rightarrow>
          if f = IPFamilyDualStack \<or> f = IPFamilyIPv6 then Some True
          else if f = IPFamilyIPv4 then Some False
          else None)"

text \<open>The request for a new server.\<close>

definition serverRequest ::
  "'w MachineScope \<Rightarrow> CloudscaleMachine \<Rightarrow> string \<Rightarrow> string list \<Rightarrow> IPFamily option \<Rightarrow> ServerRequest" where
  "serverRequest S m bootstrapData interfaces ipFamily =
     \<lparr>svr_Name = om_Name (cm_Meta m), svr_Flavor = ms_Flavor (cm_Spec m),
      svr_Image = ms_Image (cm_Spec m), svr_Zone = cs_Zone (cl_Spec (msc_CloudscaleCluster S)),
      svr_Tags = machineCreateTags S m, svr_UserData = bootstrapData, svr_Interfaces = interfaces,
      svr_UseIPV6 = ipFamilyToUseIPV6 ipFamily, svr_SSHKeys = [],
      svr_VolumeSizeGB = (if ms_RootVolumeSize (cm_Spec m) > 0 then ms_RootVolumeSize (cm_Spec m) else 0),
      svr_ServerGroups =
        (if mst_ServerGroupID (cm_Status m) \<noteq> '''' then [mst_ServerGroupID (cm_Status m)] else [])\<rparr>"

definition serverAddresses :: "Server \<Rightarrow> MachineAddress list" where
  "serverAddresses server =
     concat (map (\<lambda>iface. map (\<lambda>addr.
         \<lparr>ma_Type = (if svi_Type iface = InterfaceTypePublic then MachineExternalIP
                     else MachineInternalIP),
          ma_Address = addr\<rparr>) (svi_Addresses iface)) (sv_Interfaces server))"

definition updateMachineFromServer :: "Server \<Rightarrow> CloudscaleMachine \<Rightarrow> CloudscaleMachine" where
  "updateMachineFromServer server m =
     (let m' = SetProviderID (sv_UUID server) m
      in m'\<lparr>cm_Status := (cm_Status m')\<lparr>mst_Addresses := serverAddresses server\<rparr>\<rparr>)"

definition setServerStatusCondition :: "lib \<Rightarrow> Server \<Rightarrow> CloudscaleMachine \<Rightarrow> CloudscaleMachine" where
  "setServerStatusCondition L server m =
     (let status = sv_Status server;
          isAlreadyProvisioned = (case mst_Initialization (cm_Status m) of
              None \<Rightarrow> False | Some i \<Rightarrow> ptr_Deref (minit_Provisioned i) False);
          notReady = Machine_setCondition L ServerReadyCondition ConditionFalse
      in if status = ServerStatusRunning then
           Machine_setCondition L ServerReadyCondition ConditionTrue ServerRunningReason '''' m
         else if status = ServerStatusChanging then
           (if isAlreadyProvisioned then notReady ServerChangingReason ''Server is transitioning'' m
            else notReady ServerStartingReason ''Server is being created'' m)
         else if status = ServerStatusStopped then
           notReady ServerStoppedReason ''Server is stopped'' m
         else if status = ServerStatusRescueRunning \<or> status = ServerStatusRescueStopped then
           notReady ServerInRescueModeReason
             (fmt_Sprintf ''Server is in rescue mode (status: %s)'' [FS status]) m
         else if status = ServerStatusPaused \<or> status = ServerStatusError \<or> status = ServerStatusUnknown then
           notReady ServerInternalErrorReason
             (fmt_Sprintf ''Server has internal issue (status: %s), contact cloudscale.ch support''
                [FS status]) m
         else notReady ServerErrorReason (fmt_Sprintf ''Unknown server status: %s'' [FS status]) m)"

text \<open>The end of each branch that found or made a server.\<close>

definition foundServer :: "Server \<Rightarrow> ('w mst, Result \<times> Server option) proc" where
  "foundServer server =
     goBind (modify_obj (updateMachineFromServer server)) (\<lambda>_.
     goReturn (if sv_Status server = ServerStatusChanging then requeueAfter ServerStatusPollInterval
               else zeroResult, Some server))"

definition verifyServer :: "'w MachineScope \<Rightarrow> string \<Rightarrow> ('w mst, Result \<times> Server option) proc" where
  "verifyServer S serverID =
     goBind (goTry (api (Get KServer serverID) (svc_Get (Servers (msc_CloudscaleClient S)) serverID)))
       (\<lambda>r. case r of
           Inr server \<Rightarrow> foundServer server
         | Inl err \<Rightarrow>
             if IsNotFound (Some err) then
               goBind (modify_obj (Machine_setCondition (msc_lib S) ServerReadyCondition ConditionFalse
                         ServerDeletedExternallyReason
                         (fmt_Sprintf ''Server %s was deleted outside of CAPI'' [FS serverID])))
                 (\<lambda>_. goReturn (zeroResult, None))
             else goError (fmt_Errorw ''getting server: %w'' [] err))"

definition createServer :: "'w MachineScope \<Rightarrow> ('w mst, Result \<times> Server option) proc" where
  "createServer S =
     goBind (goWrap (fmt_Errorw ''getting bootstrap data: %w'' []) (GetBootstrapData S)) (\<lambda>bootstrapData.
     goBind (goGets st_obj) (\<lambda>m.
     case buildInterfaceRequests S m of
       Inl err \<Rightarrow> goError (fmt_Errorw ''building interface requests: %w'' [] err)
     | Inr (interfaces, ipFamily) \<Rightarrow>
         let req = serverRequest S m bootstrapData interfaces ipFamily in
         goStep
           (goBind (createStep (30 * time_Second) ''creating server: %w''
                      (api (Create (NewServer req)) (svc_Create (Servers (msc_CloudscaleClient S)) req)))
              (\<lambda>x. goReturn (case x of Inl res \<Rightarrow> Inl (res, None) | Inr server \<Rightarrow> Inr server)))
           (\<lambda>server.
              goBind (modify_mstatus (\<lambda>st. st\<lparr>mst_ServerID := sv_UUID server\<rparr>)) (\<lambda>_.
              goBind (Eventf EventTypeNormal ''ServerCreated'' ''CreateServer''
                        ''Created server %s in zone %s'' [FS (sv_UUID server), FS (svr_Zone req)]) (\<lambda>_.
              foundServer server)))))"

definition adoptOrCreateServer :: "'w MachineScope \<Rightarrow> ('w mst, Result \<times> Server option) proc" where
  "adoptOrCreateServer S =
     goBind (goGets (\<lambda>s. machineLookupTag S (st_obj s))) (\<lambda>tags.
     goBind (goWrap (fmt_Errorw ''listing servers: %w'' [])
              (api (List KServer tags) (svc_List (Servers (msc_CloudscaleClient S)) tags)))
       (\<lambda>servers.
     if length servers > 1 then
       goError (fmt_Errorf ''found %d servers matching tag filter, expected at most 1''
                  [FD (int (length servers))])
     else
       (case servers of
          server # _ \<Rightarrow>
            goBind (modify_mstatus (\<lambda>st. st\<lparr>mst_ServerID := sv_UUID server\<rparr>)) (\<lambda>_. foundServer server)
        | [] \<Rightarrow> createServer S)))"

definition reconcileServer :: "'w MachineScope \<Rightarrow> ('w mst, Result) proc" where
  "reconcileServer S =
     goBind
       (goDefer (\<lambda>ret. st_obj_update
           (case ret of
              Inl err \<Rightarrow> Machine_setCondition (msc_lib S) ServerReadyCondition ConditionFalse
                           ServerErrorReason (error_text err)
            | Inr (_, Some server) \<Rightarrow> setServerStatusCondition (msc_lib S) server
            | Inr (_, None) \<Rightarrow> (\<lambda>m. m)))
          (goBind (goGets (\<lambda>s. mst_ServerID (mstatusOf s))) (\<lambda>serverID.
           if serverID \<noteq> '''' then verifyServer S serverID else adoptOrCreateServer S)))
       (\<lambda>(result, _). goReturn result)"

definition deleteServer :: "'w MachineScope \<Rightarrow> ('w mst, unit) proc" where
  "deleteServer S =
     goDefer (\<lambda>ret. st_obj_update
         (case ret of
            Inl err \<Rightarrow> Machine_setCondition (msc_lib S) ServerReadyCondition ConditionFalse
                         ServerErrorReason (error_text err)
          | Inr _ \<Rightarrow> Machine_setCondition (msc_lib S) ServerReadyCondition ConditionFalse
                       ServerDeletingReason ''Server has been deleted''))
       (goBind (goGets (\<lambda>s. mst_ServerID (mstatusOf s))) (\<lambda>serverID.
        if serverID = '''' then goReturn ()
        else
          goBind (goTry (api (Delete KServer serverID)
                    (svc_Delete (Servers (msc_CloudscaleClient S)) serverID)))
            (\<lambda>r. case hard_error (err_of r) of
                Some err \<Rightarrow> goError (fmt_Errorw ''deleting server: %w'' [] err)
              | None \<Rightarrow>
                  goBind (Eventf EventTypeNormal ''ServerDeleted'' ''DeleteServer'' ''Deleted server %s''
                            [FS serverID])
                    (\<lambda>_. modify_mstatus (\<lambda>st. st\<lparr>mst_ServerID := ''''\<rparr>)))))"

section \<open>Requests\<close>

text \<open>
  A recorded server is read and nothing else is requested. Without a record the first request is
  the lookup by tag, and a create is sent only after a lookup that found nothing.
\<close>

definition server_trace :: "'w MachineScope \<Rightarrow> CloudscaleMachine \<Rightarrow> 'w \<Rightarrow> api_call list \<Rightarrow> bool" where
  "server_trace S m w cs \<longleftrightarrow>
     (let i = mst_ServerID (cm_Status m); tags = machineLookupTag S m in
      if i \<noteq> '''' then cs = [Get KServer i]
      else
        (\<exists>rest. cs = List KServer tags # rest \<and>
           (rest \<noteq> [] \<longrightarrow> fst (svc_List (Servers (msc_CloudscaleClient S)) tags w) = Inr []) \<and>
           (rest = [] \<or> (\<exists>ns n. rest = [KubeGet ''Secret'' ns n]) \<or>
            (\<exists>ns n data ifs fam. buildInterfaceRequests S m = Inr (ifs, fam) \<and>
               rest = [KubeGet ''Secret'' ns n, Create (NewServer (serverRequest S m data ifs fam))]))))"

lemma wp_foundServer:
  "wp (foundServer server) Q E =
     (\<lambda>s. Q (if sv_Status server = ServerStatusChanging then requeueAfter ServerStatusPollInterval
            else zeroResult, Some server) (s\<lparr>st_obj := updateMachineFromServer server (st_obj s)\<rparr>))"
  unfolding foundServer_def by (rule ext) (simp add: wp)

lemma reconcileServer_trace:
  "wp (reconcileServer S)
     (\<lambda>_ s'. \<exists>cs. st_calls s' = st_calls s @ cs \<and> server_trace S (st_obj s) (st_world s) cs)
     (\<lambda>_ s'. \<exists>cs. st_calls s' = st_calls s @ cs \<and> server_trace S (st_obj s) (st_world s) cs) s"
  unfolding reconcileServer_def verifyServer_def adoptOrCreateServer_def createServer_def GetBootstrapData_def
  by (auto simp: wp wp_foundServer Let_def server_trace_def split: prod.split sum.split option.split list.split)

section \<open>The machine follows its server\<close>

text \<open>
  What the API promises: the resources it returns have an id, and a server read by its id is the
  server with that id.
\<close>

definition servers_api_ok :: "'w Client \<Rightarrow> bool" where
  "servers_api_ok cli \<longleftrightarrow>
     service_ids (Servers cli) sv_UUID \<and>
     (\<forall>i w x w'. svc_Get (Servers cli) i w = (Inr x, w') \<longrightarrow> sv_UUID x = i)"

definition follows_server :: "lib \<Rightarrow> Server \<Rightarrow> Result \<Rightarrow> CloudscaleMachine \<Rightarrow> bool" where
  "follows_server L server res m \<longleftrightarrow>
     mst_ServerID (cm_Status m) = sv_UUID server \<and> sv_UUID server \<noteq> '''' \<and>
     ms_ProviderID (cm_Spec m) = Some (''cloudscale://'' @ sv_UUID server) \<and>
     mst_Addresses (cm_Status m) = serverAddresses server \<and>
     (mcondTrue L m ServerReadyCondition \<longleftrightarrow> sv_Status server = ServerStatusRunning) \<and>
     (IsZero res \<longleftrightarrow> sv_Status server \<noteq> ServerStatusChanging)"

definition deleted_externally :: "lib \<Rightarrow> CloudscaleMachine \<Rightarrow> Result \<Rightarrow> CloudscaleMachine \<Rightarrow> bool" where
  "deleted_externally L m res m' \<longleftrightarrow>
     IsZero res \<and> mst_ServerID (cm_Status m) \<noteq> '''' \<and> no_conditions m' = no_conditions m \<and>
     (\<exists>msg. mcondition L m' ServerReadyCondition =
        Some \<lparr>co_Type = ServerReadyCondition, co_Status = ConditionFalse,
              co_Reason = ServerDeletedExternallyReason, co_Message = msg\<rparr>)"

lemma Sprintf_providerID: "fmt_Sprintf ''cloudscale://%s'' [FS i] = ''cloudscale://'' @ i"
  by (simp add: fmt_Sprintf.simps fmt_verb_def)

lemma setServerStatusCondition_no_conditions [simp]:
  "no_conditions (setServerStatusCondition L server m) = no_conditions m"
  by (simp add: setServerStatusCondition_def Let_def)

lemmas setServerStatusCondition_views [simp] =
  no_conditions_views [OF setServerStatusCondition_no_conditions]

lemma setServerStatusCondition_ready:
  "lib_ok L \<Longrightarrow>
     mcondTrue L (setServerStatusCondition L server m) ServerReadyCondition \<longleftrightarrow>
       sv_Status server = ServerStatusRunning"
  by (simp add: setServerStatusCondition_def Let_def mcondTrue_iff)

lemma pollInterval_nonzero [simp]: "ServerStatusPollInterval \<noteq> 0"
  by (simp add: ServerStatusPollInterval_def)

lemma follows_serverI:
  assumes "lib_ok L" and "mst_ServerID (cm_Status m) = sv_UUID server" and "sv_UUID server \<noteq> ''''"
  shows "follows_server L server
     (if sv_Status server = ServerStatusChanging then requeueAfter ServerStatusPollInterval else zeroResult)
     (setServerStatusCondition L server (updateMachineFromServer server m))"
  using assms
  by (simp add: follows_server_def setServerStatusCondition_ready updateMachineFromServer_def
      SetProviderID_def Sprintf_providerID)

text \<open>How a reconcile of the server ends when it returns no error.\<close>

definition server_outcome :: "lib \<Rightarrow> CloudscaleMachine \<Rightarrow> Result \<Rightarrow> CloudscaleMachine \<Rightarrow> bool" where
  "server_outcome L m res m' \<longleftrightarrow>
     (\<exists>server. follows_server L server res m') \<or> deleted_externally L m res m' \<or>
     \<not> IsZero res \<and> m' = m"

lemma server_outcome_found:
  assumes "lib_ok L" and "mst_ServerID (cm_Status m) = sv_UUID server" and "sv_UUID server \<noteq> ''''"
  shows "server_outcome L m0
     (if sv_Status server = ServerStatusChanging then requeueAfter ServerStatusPollInterval else zeroResult)
     (setServerStatusCondition L server (updateMachineFromServer server m))"
  using follows_serverI [OF assms] unfolding server_outcome_def by blast

text \<open>The object after the deferred condition, for the server the body ended with.\<close>

definition with_status :: "lib \<Rightarrow> Server option \<Rightarrow> CloudscaleMachine \<Rightarrow> CloudscaleMachine" where
  "with_status L srv m = (case srv of None \<Rightarrow> m | Some server \<Rightarrow> setServerStatusCondition L server m)"

lemma with_status_None [simp]: "with_status L None m = m"
  by (simp add: with_status_def)

lemma servers_api_okD:
  assumes "servers_api_ok cli"
  shows "svc_Create (Servers cli) q w = (Inr x, w') \<Longrightarrow> sv_UUID x \<noteq> ''''"
    and "svc_Get (Servers cli) i w = (Inr x, w') \<Longrightarrow> sv_UUID x = i"
    and "svc_List (Servers cli) t w = (Inr (x # xs), w') \<Longrightarrow> sv_UUID x \<noteq> ''''"
  using assms unfolding servers_api_ok_def service_results_def by (blast, blast, fastforce)

lemma foundServer_outcome:
  assumes "lib_ok L" and "mst_ServerID (mstatusOf s) = sv_UUID server" and "sv_UUID server \<noteq> ''''"
  shows "wp (foundServer server)
     (\<lambda>(res, srv) s'. server_outcome L m0 res (with_status L srv (st_obj s'))) E s"
  using server_outcome_found [OF assms, of m0] by (simp add: wp_foundServer with_status_def)

lemma verifyServer_outcome:
  assumes "servers_api_ok (msc_CloudscaleClient S)" and "lib_ok (msc_lib S)"
    and "mst_ServerID (mstatusOf s) \<noteq> ''''"
  shows "wp (verifyServer S (mst_ServerID (mstatusOf s)))
     (\<lambda>(res, srv) s'. server_outcome (msc_lib S) (st_obj s) res (with_status (msc_lib S) srv (st_obj s')))
     (\<lambda>_ _. True) s"
  unfolding verifyServer_def
  using assms servers_api_okD(2) [OF assms(1)]
  by (auto simp: wp with_status_def server_outcome_def [of _ _ zeroResult] deleted_externally_def
      split: prod.split sum.split intro!: foundServer_outcome)

lemma createServer_outcome:
  assumes "servers_api_ok (msc_CloudscaleClient S)" and "lib_ok (msc_lib S)"
  shows "wp (createServer S)
     (\<lambda>(res, srv) s'. server_outcome (msc_lib S) (st_obj s) res (with_status (msc_lib S) srv (st_obj s')))
     (\<lambda>_ _. True) s"
  unfolding createServer_def GetBootstrapData_def
  using assms servers_api_okD(1) [OF assms(1)]
  by (auto simp: wp Let_def server_outcome_def [of _ _ "requeueAfter (30 * time_Second)"]
      split: prod.split sum.split option.split intro!: foundServer_outcome)

lemma adoptOrCreateServer_outcome:
  assumes "servers_api_ok (msc_CloudscaleClient S)" and "lib_ok (msc_lib S)"
  shows "wp (adoptOrCreateServer S)
     (\<lambda>(res, srv) s'. server_outcome (msc_lib S) (st_obj s) res (with_status (msc_lib S) srv (st_obj s')))
     (\<lambda>_ _. True) s"
  unfolding adoptOrCreateServer_def
  using assms servers_api_okD(3) [OF assms(1)]
  by (auto simp: wp split: prod.split sum.split list.split
      intro!: foundServer_outcome wp_mono [OF createServer_outcome [OF assms]])

lemma reconcileServer_spec:
  assumes "servers_api_ok (msc_CloudscaleClient S)" and "lib_ok (msc_lib S)"
  shows "wp (reconcileServer S)
    (\<lambda>res s'. server_outcome (msc_lib S) (st_obj s) res (st_obj s'))
    (\<lambda>e s'. mcondition (msc_lib S) (st_obj s') ServerReadyCondition =
       Some \<lparr>co_Type = ServerReadyCondition, co_Status = ConditionFalse, co_Reason = ServerErrorReason,
             co_Message = error_text e\<rparr>) s"
  unfolding reconcileServer_def
  by (auto simp: wp assms(2) with_status_def split: prod.split option.splits
      intro!: wp_mono [OF verifyServer_outcome [OF assms]] wp_mono [OF adoptOrCreateServer_outcome [OF assms]])

section \<open>Frame\<close>

text \<open>The server code writes the conditions, the provider id, the server id and the addresses.\<close>

definition server_frame :: "CloudscaleMachine \<Rightarrow> CloudscaleMachine" where
  "server_frame m = m\<lparr>cm_Spec := (cm_Spec m)\<lparr>ms_ProviderID := None\<rparr>,
     cm_Status := (cm_Status m)\<lparr>mst_Conditions := [], mst_ServerID := '''', mst_Addresses := []\<rparr>\<rparr>"

lemma server_frame_set [simp]:
  "server_frame (Machine_setCondition L t st r msg m) = server_frame m"
  "server_frame (setServerStatusCondition L server m) = server_frame m"
  "server_frame (updateMachineFromServer server m) = server_frame m"
  "server_frame (m\<lparr>cm_Status := (cm_Status m)\<lparr>mst_ServerID := i\<rparr>\<rparr>) = server_frame m"
  by (auto simp: server_frame_def Machine_setCondition_def obj_setCondition_def Machine_SetConditions_def
      setServerStatusCondition_def Let_def updateMachineFromServer_def SetProviderID_def)

lemma reconcileServer_frame: "keeps (obj_frame server_frame) (reconcileServer S)"
  unfolding reconcileServer_def verifyServer_def adoptOrCreateServer_def createServer_def
    GetBootstrapData_def foundServer_def modify_mstatus_def
  by (intro frame_intros keeps_obj_modify_obj) (auto simp: obj_frame_def split: sum.split option.split)

lemma deleteServer_frame: "keeps (obj_frame server_frame) (deleteServer S)"
  unfolding deleteServer_def modify_mstatus_def
  by (intro frame_intros keeps_obj_modify_obj) (auto simp: obj_frame_def split: sum.split)

section \<open>Deletion\<close>

lemma deleteServer_spec:
  "wp (deleteServer S)
     (\<lambda>_ s'. mst_ServerID (mstatusOf s') = '''' \<and>
        st_calls s' = st_calls s @ (if mst_ServerID (mstatusOf s) = '''' then []
                                    else [Delete KServer (mst_ServerID (mstatusOf s))]))
     (\<lambda>e s'. mst_ServerID (mstatusOf s) \<noteq> '''' \<and> mst_ServerID (mstatusOf s') = mst_ServerID (mstatusOf s) \<and>
        \<not> IsNotFound (Some e) \<and>
        st_calls s' = st_calls s @ [Delete KServer (mst_ServerID (mstatusOf s))]) s"
  unfolding deleteServer_def
  by (auto simp: wp split: option.split sum.split prod.split)

section \<open>Tags\<close>

text \<open>
  The tags of a new server contain the tag it is looked up by, unless the user's tags overwrite
  that key.
\<close>

definition matches_filter :: "str_map \<Rightarrow> str_map \<Rightarrow> bool" where
  "matches_filter tag_filter tags \<longleftrightarrow> list_all (\<lambda>(k, v). map_of tags k = Some v) tag_filter"

lemma machineCreateTags_lookup:
  assumes "\<And>tags. ms_Tags (cm_Spec m) = Some tags \<Longrightarrow>
      MachineTagKey m (om_Name (capi_Meta (msc_Cluster S))) \<notin> fst ` set tags"
  shows "matches_filter (machineLookupTag S m) (machineCreateTags S m)"
  using assms
  by (cases "ms_Tags (cm_Spec m)")
    (simp_all add: matches_filter_def machineCreateTags_def machineLookupTag_def maps_Copy_other)

section \<open>Interfaces\<close>

text \<open>The network of the request for one interface of the spec.\<close>

definition resolveInterface :: "CloudscaleClusterStatus \<Rightarrow> InterfaceSpec \<Rightarrow> string option" where
  "resolveInterface st iface =
     (if if_Type iface = InterfaceTypePublic then Some InterfaceTypePublic
      else if if_Network iface = '''' then None
      else (case GetNetworkStatus st (if_Network iface) of
              None \<Rightarrow> None | Some ns \<Rightarrow> if ns_NetworkID ns = '''' then None else Some (ns_NetworkID ns)))"

lemma interfaceRequestsFrom_iff:
  "interfaceRequestsFrom st ifaces reqs fam = Inr (reqs', fam') \<Longrightarrow>
     map Some reqs' = map Some reqs @ map (resolveInterface st) ifaces"
  by (induction ifaces arbitrary: reqs fam)
    (auto simp: resolveInterface_def split: if_splits option.splits)

lemma interfaceRequestsFrom_total:
  "list_all (\<lambda>i. resolveInterface st i \<noteq> None) ifaces \<Longrightarrow>
     \<exists>r. interfaceRequestsFrom st ifaces reqs fam = Inr r"
  by (induction ifaces arbitrary: reqs fam)
    (auto simp: resolveInterface_def split: if_splits option.splits)

end
