(* ===== verification/Machine_ServerGroup.thy ===== *)
theory Machine_ServerGroup
  imports Machine_State
begin

text \<open>
  The server group of a machine, \<^verbatim>\<open>cloudscalemachine_servergroup.go\<close>: all machines of a cluster
  that name the same group share one, found by name and zone among the groups with the cluster's
  tag and created when there is none. Machines are reconciled concurrently and the API accepts
  duplicates, so the lookup and the create run under a mutex. The code is translated for one
  machine; the interleaving of several machines is a step relation over the shared list of groups
  and the holder of the mutex.
\<close>

section \<open>Definitions\<close>

definition findServerGroup :: "string \<Rightarrow> string \<Rightarrow> ServerGroup list \<Rightarrow> ServerGroup option" where
  "findServerGroup groupName zone groups = find (\<lambda>g. sgr_Name g = groupName \<and> sgr_Zone g = zone) groups"

definition serverGroupRequest :: "'w MachineScope \<Rightarrow> string \<Rightarrow> ServerGroupRequest" where
  "serverGroupRequest S groupName =
     \<lparr>sgq_Name = groupName, sgq_Type = ''anti-affinity'',
      sgq_Zone = cs_Zone (cl_Spec (msc_CloudscaleCluster S)),
      sgq_Tags = clusterOwnershipTags (msc_CloudscaleCluster S)\<rparr>"

text \<open>The section between \<^verbatim>\<open>serverGroupMu.Lock()\<close> and the deferred \<^verbatim>\<open>Unlock()\<close>.\<close>

definition ensureServerGroup :: "'w MachineScope \<Rightarrow> string \<Rightarrow> ('w mst, Result) proc" where
  "ensureServerGroup S groupName =
     (let zone = cs_Zone (cl_Spec (msc_CloudscaleCluster S));
          tags = clusterOwnershipTags (msc_CloudscaleCluster S);
          svc = ServerGroups (msc_CloudscaleClient S);
          req = serverGroupRequest S groupName
      in goBind (goWrap (fmt_Errorw ''listing server groups: %w'' [])
                  (api (List KServerGroup tags) (svc_List svc tags)))
           (\<lambda>groups.
         case findServerGroup groupName zone groups of
           Some g \<Rightarrow>
             goBind (modify_mstatus (\<lambda>st. st\<lparr>mst_ServerGroupID := sgr_UUID g\<rparr>)) (\<lambda>_. goReturn zeroResult)
         | None \<Rightarrow>
             goStep (createStep (5 * time_Second) ''creating server group: %w''
                       (api (Create (NewServerGroup req)) (svc_Create svc req)))
               (\<lambda>group.
                  goBind (modify_mstatus (\<lambda>st. st\<lparr>mst_ServerGroupID := sgr_UUID group\<rparr>))
                    (\<lambda>_. goReturn zeroResult))))"

text \<open>Whether the recorded group still exists; the record of one that is gone is cleared.\<close>

definition verifyServerGroup :: "'w MachineScope \<Rightarrow> ('w mst, bool) proc" where
  "verifyServerGroup S =
     goBind (goGets (\<lambda>s. mst_ServerGroupID (mstatusOf s))) (\<lambda>groupID.
     if groupID \<noteq> '''' then
       goBind (goTry (api (Get KServerGroup groupID)
                 (svc_Get (ServerGroups (msc_CloudscaleClient S)) groupID)))
         (\<lambda>r. case r of
             Inr _ \<Rightarrow> goReturn True
           | Inl err \<Rightarrow>
               if \<not> IsNotFound (Some err) then goError (fmt_Errorw ''getting server group: %w'' [] err)
               else
                 goBind (modify_mstatus (\<lambda>st. st\<lparr>mst_ServerGroupID := ''''\<rparr>)) (\<lambda>_. goReturn False))
     else goReturn False)"

definition reconcileServerGroup :: "'w MachineScope \<Rightarrow> ('w mst, Result) proc" where
  "reconcileServerGroup S =
     goDefer (\<lambda>ret. st_obj_update
         (case ret of
            Inl err \<Rightarrow> Machine_setCondition (msc_lib S) ServerGroupReadyCondition ConditionFalse
                         ServerGroupErrorReason (error_text err)
          | Inr _ \<Rightarrow> Machine_setCondition (msc_lib S) ServerGroupReadyCondition ConditionTrue
                       ServerGroupReadyReason ''''))
       (goBind (goGets (\<lambda>s. ms_ServerGroup (mspecOf s))) (\<lambda>serverGroup.
        case serverGroup of
          None \<Rightarrow> goReturn zeroResult
        | Some spec \<Rightarrow>
            goBind (verifyServerGroup S) (\<lambda>exists.
            if exists then goReturn zeroResult else ensureServerGroup S (sgs_Name spec))))"

definition Machine_deleteServerGroup :: "CloudscaleMachine \<Rightarrow> CloudscaleMachine" where
  "Machine_deleteServerGroup m =
     (if ms_ServerGroup (cm_Spec m) = None then m
      else m\<lparr>cm_Status := (cm_Status m)\<lparr>mst_ServerGroupID := ''''\<rparr>\<rparr>)"

section \<open>One machine\<close>

text \<open>
  A reconcile that is not a requeue leaves a group id: the recorded one, when the API still knows
  it, or that of a group with the name of the spec and the zone of the cluster.
\<close>

definition groups_api_ok :: "'w Client \<Rightarrow> bool" where
  "groups_api_ok cli \<longleftrightarrow>
     service_ids (ServerGroups cli) sgr_UUID \<and>
     (\<forall>q w g w'. svc_Create (ServerGroups cli) q w = (Inr g, w') \<longrightarrow>
        sgr_Name g = sgq_Name q \<and> sgr_Zone g = sgq_Zone q)"

lemma groups_api_okD:
  assumes "groups_api_ok cli"
  shows "svc_Create (ServerGroups cli) q w = (Inr g, w') \<Longrightarrow>
      sgr_UUID g \<noteq> '''' \<and> sgr_Name g = sgq_Name q \<and> sgr_Zone g = sgq_Zone q"
    and "svc_List (ServerGroups cli) t w = (Inr gs, w') \<Longrightarrow> g \<in> set gs \<Longrightarrow> sgr_UUID g \<noteq> ''''"
  using assms unfolding groups_api_ok_def service_results_def list_all_iff by (blast, blast)

lemma findServerGroup_SomeD:
  "findServerGroup n z gs = Some g \<Longrightarrow> g \<in> set gs \<and> sgr_Name g = n \<and> sgr_Zone g = z"
  unfolding findServerGroup_def using find_SomeD by fastforce

lemma findServerGroup_None_iff:
  "findServerGroup n z gs = None \<longleftrightarrow> (n, z) \<notin> (\<lambda>g. (sgr_Name g, sgr_Zone g)) ` set gs"
  unfolding findServerGroup_def by (auto simp: find_None_iff)

text \<open>A group the API returned, from a lookup by the cluster's tags or as the answer to a create.\<close>

definition group_answered :: "'w MachineScope \<Rightarrow> ServerGroup \<Rightarrow> bool" where
  "group_answered S g \<longleftrightarrow>
     (\<exists>gs w w'. svc_List (ServerGroups (msc_CloudscaleClient S))
        (clusterOwnershipTags (msc_CloudscaleCluster S)) w = (Inr gs, w') \<and> g \<in> set gs) \<or>
     (\<exists>q w w'. svc_Create (ServerGroups (msc_CloudscaleClient S)) q w = (Inr g, w') \<and>
        sgq_Tags q = clusterOwnershipTags (msc_CloudscaleCluster S))"

definition group_chosen :: "'w MachineScope \<Rightarrow> string \<Rightarrow> string \<Rightarrow> bool" where
  "group_chosen S groupName i \<longleftrightarrow>
     i \<noteq> '''' \<and>
     (\<exists>g. group_answered S g \<and> sgr_UUID g = i \<and> sgr_Name g = groupName \<and>
        sgr_Zone g = cs_Zone (cl_Spec (msc_CloudscaleCluster S)))"

lemma ensureServerGroup_spec:
  assumes "groups_api_ok (msc_CloudscaleClient S)"
  shows "wp (ensureServerGroup S n)
    (\<lambda>res s'. (IsZero res \<longrightarrow> group_chosen S n (mst_ServerGroupID (mstatusOf s'))) \<and>
       (\<not> IsZero res \<longrightarrow> st_obj s' = st_obj s))
    (\<lambda>_ s'. st_obj s' = st_obj s) s"
  unfolding ensureServerGroup_def Let_def
  using groups_api_okD [OF assms]
  by (fastforce simp: wp group_chosen_def group_answered_def serverGroupRequest_def
      dest: findServerGroup_SomeD split: prod.split sum.split option.split)

text \<open>What the group code may write: the conditions and the group id.\<close>

definition group_frame :: "CloudscaleMachine \<Rightarrow> CloudscaleMachine" where
  "group_frame m = m\<lparr>cm_Status := (cm_Status m)\<lparr>mst_Conditions := [], mst_ServerGroupID := ''''\<rparr>\<rparr>"

lemma group_frame_set [simp]:
  "group_frame (Machine_setCondition L t st r msg m) = group_frame m"
  "group_frame (m\<lparr>cm_Status := (cm_Status m)\<lparr>mst_ServerGroupID := i\<rparr>\<rparr>) = group_frame m"
  by (simp_all add: group_frame_def Machine_setCondition_def obj_setCondition_def Machine_SetConditions_def)

lemma reconcileServerGroup_frame: "keeps (obj_frame group_frame) (reconcileServerGroup S)"
  unfolding reconcileServerGroup_def verifyServerGroup_def ensureServerGroup_def modify_mstatus_def
  by (intro frame_intros keeps_obj_modify_obj) (auto simp: obj_frame_def split: sum.split)

lemma reconcileServerGroup_spec:
  assumes "groups_api_ok (msc_CloudscaleClient S)" and "ms_ServerGroup (mspecOf s) = Some spec"
  shows "wp (reconcileServerGroup S)
    (\<lambda>res s'. IsZero res \<longrightarrow>
       mst_ServerGroupID (mstatusOf s') = mst_ServerGroupID (mstatusOf s) \<and>
         mst_ServerGroupID (mstatusOf s) \<noteq> '''' \<or>
       group_chosen S (sgs_Name spec) (mst_ServerGroupID (mstatusOf s')))
    (\<lambda>_ _. True) s"
  unfolding reconcileServerGroup_def verifyServerGroup_def
  by (auto simp: wp assms(2) split: prod.split sum.split
      intro!: wp_mono [OF ensureServerGroup_spec [OF assms(1)]])

section \<open>Several machines\<close>

text \<open>
  Worker \<open>i\<close> wants the group \<open>want i\<close>, a name and a zone. It is outside the section, inside before
  the lookup, inside with the answer of the lookup, or done. The requests act on the shared list
  of groups with the cluster's tag when they are answered; a create may fail, or time out and
  have been carried out all the same, and then the worker is requeued.
\<close>

datatype sg_pc = SgIdle | SgLocked | SgListed "ServerGroup list" | SgDone

record sg_state =
  sg_holder :: "nat option"
  sg_groups :: "ServerGroup list"
  sg_pc :: "nat \<Rightarrow> sg_pc"

definition leave :: "nat \<Rightarrow> sg_pc \<Rightarrow> ServerGroup list \<Rightarrow> sg_state \<Rightarrow> sg_state" where
  "leave i pc gs s = s\<lparr>sg_holder := None, sg_groups := gs, sg_pc := (sg_pc s)(i := pc)\<rparr>"

inductive sg_step :: "(nat \<Rightarrow> string \<times> string) \<Rightarrow> sg_state \<Rightarrow> sg_state \<Rightarrow> bool" for want where
  lock: "sg_pc s i = SgIdle \<Longrightarrow> sg_holder s = None \<Longrightarrow>
     sg_step want s (s\<lparr>sg_holder := Some i, sg_pc := (sg_pc s)(i := SgLocked)\<rparr>)"
| listed: "sg_pc s i = SgLocked \<Longrightarrow>
     sg_step want s (s\<lparr>sg_pc := (sg_pc s)(i := SgListed (sg_groups s))\<rparr>)"
| list_failed: "sg_pc s i = SgLocked \<Longrightarrow> sg_step want s (leave i SgIdle (sg_groups s) s)"
| found: "sg_pc s i = SgListed gs \<Longrightarrow> findServerGroup (fst (want i)) (snd (want i)) gs \<noteq> None \<Longrightarrow>
     sg_step want s (leave i SgDone (sg_groups s) s)"
| created: "sg_pc s i = SgListed gs \<Longrightarrow> findServerGroup (fst (want i)) (snd (want i)) gs = None \<Longrightarrow>
     sgr_Name g = fst (want i) \<Longrightarrow> sgr_Zone g = snd (want i) \<Longrightarrow>
     sg_step want s (leave i SgDone (sg_groups s @ [g]) s)"
| created_timeout: "sg_pc s i = SgListed gs \<Longrightarrow>
     findServerGroup (fst (want i)) (snd (want i)) gs = None \<Longrightarrow>
     sgr_Name g = fst (want i) \<Longrightarrow> sgr_Zone g = snd (want i) \<Longrightarrow>
     sg_step want s (leave i SgIdle (sg_groups s @ [g]) s)"
| create_failed: "sg_pc s i = SgListed gs \<Longrightarrow>
     findServerGroup (fst (want i)) (snd (want i)) gs = None \<Longrightarrow>
     sg_step want s (leave i SgIdle (sg_groups s) s)"

inductive_cases sg_stepE: "sg_step want s s'"

definition group_key :: "ServerGroup \<Rightarrow> string \<times> string" where
  "group_key g = (sgr_Name g, sgr_Zone g)"

definition inside :: "sg_pc \<Rightarrow> bool" where
  "inside pc \<longleftrightarrow> (case pc of SgLocked \<Rightarrow> True | SgListed _ \<Rightarrow> True | _ \<Rightarrow> False)"

lemma inside_simps [simp]:
  "inside SgLocked" "inside (SgListed gs)" "\<not> inside SgIdle" "\<not> inside SgDone"
  by (simp_all add: inside_def)

definition sg_inv :: "sg_state \<Rightarrow> bool" where
  "sg_inv s \<longleftrightarrow>
     distinct (map group_key (sg_groups s)) \<and>
     (\<forall>i. inside (sg_pc s i) \<longrightarrow> sg_holder s = Some i) \<and>
     (\<forall>i gs. sg_pc s i = SgListed gs \<longrightarrow> gs = sg_groups s)"

lemma sg_inv_leave:
  assumes "sg_inv s" and "inside (sg_pc s i)" and "\<not> inside pc" and "distinct (map group_key gs)"
  shows "sg_inv (leave i pc gs s)"
proof -
  have others: "\<not> inside (sg_pc s j)" if "j \<noteq> i" for j
    using assms(1,2) that unfolding sg_inv_def by (metis option.inject)
  then have "sg_pc s j \<noteq> SgListed hs" if "j \<noteq> i" for j hs
    using that inside_simps(2) by metis
  with others assms(3,4) show ?thesis by (auto simp: sg_inv_def leave_def)
qed

lemma sg_inv_distinct: "sg_inv s \<Longrightarrow> distinct (map group_key (sg_groups s))"
  by (simp add: sg_inv_def)

lemma sg_create_fresh:
  assumes "sg_inv s" and "sg_pc s i = SgListed gs" and "findServerGroup n z gs = None"
    and "sgr_Name g = n" and "sgr_Zone g = z"
  shows "distinct (map group_key (sg_groups s @ [g]))"
proof -
  have "gs = sg_groups s" "distinct (map group_key (sg_groups s))"
    using assms(1,2) by (auto simp: sg_inv_def)
  with assms(3-5) show ?thesis by (auto simp: findServerGroup_None_iff group_key_def)
qed

lemma sg_step_inv:
  assumes "sg_step want s s'" and "sg_inv s"
  shows "sg_inv s'"
  using assms
proof cases
  case (lock i)
  with assms(2) show ?thesis by (auto simp: sg_inv_def)
next
  case (listed i)
  with assms(2) show ?thesis by (auto simp: sg_inv_def)
next
  case (list_failed i)
  with assms(2) show ?thesis using sg_inv_distinct [OF assms(2)] by (simp add: sg_inv_leave)
next
  case (found i gs)
  with assms(2) show ?thesis using sg_inv_distinct [OF assms(2)] by (simp add: sg_inv_leave)
next
  case (created i gs g)
  then show ?thesis using sg_create_fresh [OF assms(2) created(2-5)] assms(2) by (auto intro!: sg_inv_leave)
next
  case (created_timeout i gs g)
  then show ?thesis using sg_create_fresh [OF assms(2) created_timeout(2-5)] assms(2) by (auto intro!: sg_inv_leave)
next
  case (create_failed i gs)
  with assms(2) show ?thesis using sg_inv_distinct [OF assms(2)] by (simp add: sg_inv_leave)
qed

lemma sg_reachable_inv: "(sg_step want)\<^sup>*\<^sup>* s s' \<Longrightarrow> sg_inv s \<Longrightarrow> sg_inv s'"
  by (induction rule: rtranclp_induct) (auto intro: sg_step_inv)

text \<open>All workers outside, the lock free.\<close>

definition sg_start :: "ServerGroup list \<Rightarrow> sg_state" where
  "sg_start gs = \<lparr>sg_holder = None, sg_groups = gs, sg_pc = (\<lambda>_. SgIdle)\<rparr>"

lemma sg_start_inv: "distinct (map group_key gs) \<Longrightarrow> sg_inv (sg_start gs)"
  by (simp add: sg_inv_def sg_start_def)

section \<open>The code takes these steps\<close>

text \<open>
  The shared list as a world: a lookup answers all of it, a create appends the group of the request.
\<close>

definition group_of :: "ServerGroupRequest \<Rightarrow> string \<Rightarrow> ServerGroup" where
  "group_of q i = \<lparr>sgr_UUID = i, sgr_Name = sgq_Name q, sgr_Zone = sgq_Zone q, sgr_Servers = []\<rparr>"

definition shared_groups ::
  "(ServerGroup list \<Rightarrow> string) \<Rightarrow> (ServerGroup list, ServerGroupRequest, ServerGroup) service" where
  "shared_groups fresh =
     \<lparr>svc_Create = (\<lambda>q gs. (Inr (group_of q (fresh gs)), gs @ [group_of q (fresh gs)])),
      svc_Get = (\<lambda>i gs. case find (\<lambda>g. sgr_UUID g = i) gs of
                   Some g \<Rightarrow> (Inr g, gs) | None \<Rightarrow> (Inl (ErrorResponse 404 ''''), gs)),
      svc_List = (\<lambda>t gs. (Inr gs, gs)),
      svc_Delete = (\<lambda>i gs. (Inr (), filter (\<lambda>g. sgr_UUID g \<noteq> i) gs))\<rparr>"

lemma ensureServerGroup_steps:
  assumes "ServerGroups (msc_CloudscaleClient S) = shared_groups fresh"
    and "want i = (n, cs_Zone (cl_Spec (msc_CloudscaleCluster S)))"
    and "sg_groups t = st_world s" and "sg_pc t i = SgIdle" and "sg_holder t = None"
  shows "wp (ensureServerGroup S n)
    (\<lambda>res s'. IsZero res \<and> (sg_step want)\<^sup>*\<^sup>* t (leave i SgDone (st_world s') t)) (\<lambda>_ _. False) s"
proof -
  let ?t1 = "t\<lparr>sg_holder := Some i, sg_pc := (sg_pc t)(i := SgLocked)\<rparr>"
  let ?t2 = "?t1\<lparr>sg_pc := (sg_pc ?t1)(i := SgListed (sg_groups ?t1))\<rparr>"
  have "sg_step want t ?t1" using assms(4,5) by (rule sg_step.lock)
  moreover have "sg_step want ?t1 ?t2" by (rule sg_step.listed) simp
  ultimately have reach: "(sg_step want)\<^sup>*\<^sup>* t ?t2" by (meson converse_rtranclp_into_rtranclp r_into_rtranclp)
  have fnd: "(sg_step want)\<^sup>*\<^sup>* t (leave i SgDone (st_world s) t)"
    if "findServerGroup n (snd (want i)) (st_world s) \<noteq> None"
  proof -
    have "sg_step want ?t2 (leave i SgDone (sg_groups ?t2) ?t2)"
      by (rule sg_step.found [where gs = "st_world s"]) (use that assms(2,3) in auto)
    with reach show ?thesis using assms(3) by (simp add: leave_def)
  qed
  have crt: "(sg_step want)\<^sup>*\<^sup>* t (leave i SgDone (st_world s @ [g]) t)"
    if "findServerGroup n (snd (want i)) (st_world s) = None" "sgr_Name g = n" "sgr_Zone g = snd (want i)" for g
  proof -
    have "sg_step want ?t2 (leave i SgDone (sg_groups ?t2 @ [g]) ?t2)"
      by (rule sg_step.created [where gs = "st_world s"]) (use that assms(2,3) in auto)
    with reach show ?thesis using assms(3) by (simp add: leave_def)
  qed
  show ?thesis
    unfolding ensureServerGroup_def Let_def
    using fnd crt assms(1,2)
    by (auto simp: wp shared_groups_def serverGroupRequest_def group_of_def split: option.split)
qed

section \<open>Progress of the machines that share server groups\<close>

text \<open>The lock is free exactly when no worker is inside its section.\<close>

definition sg_lock_inv :: "sg_state \<Rightarrow> bool" where
  "sg_lock_inv s \<longleftrightarrow> (\<forall>i. inside (sg_pc s i) \<longleftrightarrow> sg_holder s = Some i)"

lemma sg_lock_inv_leave: "sg_lock_inv s \<Longrightarrow> inside (sg_pc s i) \<Longrightarrow> \<not> inside pc \<Longrightarrow> sg_lock_inv (leave i pc gs s)"
  by (auto simp: sg_lock_inv_def leave_def)

lemma sg_step_lock_inv:
  assumes "sg_step want s s'" and "sg_lock_inv s"
  shows "sg_lock_inv s'"
  using assms
proof cases
  case (lock i)
  with assms(2) show ?thesis by (simp add: sg_lock_inv_def)
next
  case (listed i)
  with assms(2) show ?thesis by (simp add: sg_lock_inv_def) (metis inside_simps(1))
qed (use assms(2) in \<open>simp_all add: sg_lock_inv_leave\<close>)

lemma sg_start_lock_inv: "sg_lock_inv (sg_start gs)"
  by (simp add: sg_lock_inv_def sg_start_def)

lemma sg_reachable_lock_inv: "(sg_step want)\<^sup>*\<^sup>* s s' \<Longrightarrow> sg_lock_inv s \<Longrightarrow> sg_lock_inv s'"
  by (induction rule: rtranclp_induct) (auto intro: sg_step_lock_inv)

text \<open>A worker that has its lookup answered can finish, whatever the answer is.\<close>

lemma sg_listed_finishes:
  assumes "sg_pc s i = SgListed gs"
  shows "\<exists>hs. sg_step want s (leave i SgDone hs s)"
proof (cases "findServerGroup (fst (want i)) (snd (want i)) gs")
  case None
  let ?g = "\<lparr>sgr_UUID = '''', sgr_Name = fst (want i), sgr_Zone = snd (want i), sgr_Servers = []\<rparr>"
  have "sg_step want s (leave i SgDone (sg_groups s @ [?g]) s)"
    by (rule sg_step.created [where gs = gs]) (simp_all add: assms None)
  then show ?thesis by blast
next
  case (Some g)
  then show ?thesis using sg_step.found [OF assms] by blast
qed

lemma sg_inside_finishes:
  assumes "inside (sg_pc s i)"
  shows "\<exists>hs. (sg_step want)\<^sup>*\<^sup>* s (leave i SgDone hs s)"
proof (cases "sg_pc s i")
  case SgLocked
  let ?t = "s\<lparr>sg_pc := (sg_pc s)(i := SgListed (sg_groups s))\<rparr>"
  obtain hs where "sg_step want ?t (leave i SgDone hs ?t)"
    using sg_listed_finishes [of ?t i "sg_groups s" want] by auto
  moreover have "leave i SgDone hs ?t = leave i SgDone hs s" by (simp add: leave_def)
  ultimately have "sg_step want ?t (leave i SgDone hs s)" by simp
  then have "(sg_step want)\<^sup>*\<^sup>* ?t (leave i SgDone hs s)" ..
  with sg_step.listed [OF SgLocked] have "(sg_step want)\<^sup>*\<^sup>* s (leave i SgDone hs s)"
    by (rule converse_rtranclp_into_rtranclp)
  then show ?thesis ..
next
  case (SgListed gs)
  then show ?thesis using sg_listed_finishes by blast
qed (use assms in simp_all)

lemma sg_idle_finishes:
  assumes "sg_pc s i = SgIdle" and "sg_holder s = None"
  shows "\<exists>hs. (sg_step want)\<^sup>*\<^sup>* s (leave i SgDone hs s)"
proof -
  let ?t = "s\<lparr>sg_holder := Some i, sg_pc := (sg_pc s)(i := SgLocked)\<rparr>"
  obtain hs where "(sg_step want)\<^sup>*\<^sup>* ?t (leave i SgDone hs ?t)"
    using sg_inside_finishes [of ?t i want] by auto
  moreover have "leave i SgDone hs ?t = leave i SgDone hs s" by (simp add: leave_def)
  ultimately have "(sg_step want)\<^sup>*\<^sup>* ?t (leave i SgDone hs s)" by simp
  with sg_step.lock [OF assms] have "(sg_step want)\<^sup>*\<^sup>* s (leave i SgDone hs s)"
    by (rule converse_rtranclp_into_rtranclp)
  then show ?thesis ..
qed

lemma sg_can_finish:
  assumes "sg_lock_inv s"
  shows "\<exists>s'. (sg_step want)\<^sup>*\<^sup>* s s' \<and> sg_pc s' i = SgDone"
proof -
  have free: "\<exists>s'. (sg_step want)\<^sup>*\<^sup>* t s' \<and> sg_pc s' i = SgDone"
    if "sg_holder t = None" "sg_lock_inv t" for t
  proof (cases "sg_pc t i")
    case SgIdle
    obtain hs where "(sg_step want)\<^sup>*\<^sup>* t (leave i SgDone hs t)"
      using sg_idle_finishes SgIdle \<open>sg_holder t = None\<close> by blast
    then show ?thesis by (intro exI [of _ "leave i SgDone hs t"]) (simp add: leave_def)
  next
    case SgLocked
    then have "inside (sg_pc t i)" by simp
    with that show ?thesis by (simp add: sg_lock_inv_def)
  next
    case (SgListed gs)
    then have "inside (sg_pc t i)" by simp
    with that show ?thesis by (simp add: sg_lock_inv_def)
  next
    case SgDone
    then show ?thesis by blast
  qed
  show ?thesis
  proof (cases "sg_holder s")
    case None
    then show ?thesis using free assms by blast
  next
    case (Some j)
    then have j: "inside (sg_pc s j)" using assms by (simp add: sg_lock_inv_def)
    then obtain hs where "(sg_step want)\<^sup>*\<^sup>* s (leave j SgDone hs s)" using sg_inside_finishes by blast
    moreover obtain s' where "(sg_step want)\<^sup>*\<^sup>* (leave j SgDone hs s) s'" "sg_pc s' i = SgDone"
      using free [of "leave j SgDone hs s"] sg_lock_inv_leave [OF assms j] by (auto simp: leave_def)
    ultimately show ?thesis using rtranclp_trans [of "sg_step want" s _ s'] by blast
  qed
qed

text \<open>A step of one of \<open>n\<close> workers in which no request fails, and the number of such steps left.\<close>

definition sg_ok_step :: "(nat \<Rightarrow> string \<times> string) \<Rightarrow> nat \<Rightarrow> sg_state \<Rightarrow> sg_state \<Rightarrow> bool" where
  "sg_ok_step want n s s' \<longleftrightarrow> sg_step want s s' \<and>
     (\<exists>i<n. sg_pc s' i \<noteq> sg_pc s i \<and> sg_pc s' i \<noteq> SgIdle)"

definition sg_rank :: "sg_pc \<Rightarrow> nat" where
  "sg_rank pc = (case pc of SgIdle \<Rightarrow> 3 | SgLocked \<Rightarrow> 2 | SgListed _ \<Rightarrow> 1 | SgDone \<Rightarrow> 0)"

definition sg_left :: "nat \<Rightarrow> sg_state \<Rightarrow> nat" where
  "sg_left n s = (\<Sum>i<n. sg_rank (sg_pc s i))"

lemma sg_ok_step_cases:
  assumes "sg_ok_step want n s s'"
  obtains i pc where "i < n" "sg_pc s' = (sg_pc s)(i := pc)" "Suc (sg_rank pc) = sg_rank (sg_pc s i)"
proof -
  obtain j where j: "j < n" "sg_pc s' j \<noteq> sg_pc s j" "sg_pc s' j \<noteq> SgIdle" and step: "sg_step want s s'"
    using assms by (auto simp: sg_ok_step_def)
  from step j have "sg_pc s' = (sg_pc s)(j := sg_pc s' j) \<and> Suc (sg_rank (sg_pc s' j)) = sg_rank (sg_pc s j)"
    by cases (simp_all add: leave_def sg_rank_def split: if_splits)
  with j that show thesis by blast
qed

lemma sum_update_less:
  fixes f :: "'a \<Rightarrow> nat" and i n :: nat
  assumes "i < n" and "Suc (f pc) = f (p i)"
  shows "Suc (\<Sum>j<n. f ((p(i := pc)) j)) = (\<Sum>j<n. f (p j))"
proof -
  have split: "(\<Sum>j<n. g j) = g i + (\<Sum>j\<in>{..<n} - {i}. g j)" for g :: "nat \<Rightarrow> nat"
    using assms(1) by (intro sum.remove) auto
  have "(\<Sum>j<n. f (p j)) = f (p i) + (\<Sum>j\<in>{..<n} - {i}. f (p j))" by (rule split)
  moreover have "(\<Sum>j<n. f ((p(i := pc)) j)) = f pc + (\<Sum>j\<in>{..<n} - {i}. f ((p(i := pc)) j))"
    using split [of "\<lambda>j. f ((p(i := pc)) j)"] by simp
  moreover have "(\<Sum>j\<in>{..<n} - {i}. f ((p(i := pc)) j)) = (\<Sum>j\<in>{..<n} - {i}. f (p j))"
    by (rule sum.cong) auto
  ultimately show ?thesis using assms(2) by simp
qed

lemma sg_ok_step_left: "sg_ok_step want n s s' \<Longrightarrow> Suc (sg_left n s') = sg_left n s"
  by (erule sg_ok_step_cases) (simp only: sg_left_def sum_update_less)

lemma sg_ok_run_left: "((sg_ok_step want n) ^^ k) s s' \<Longrightarrow> k + sg_left n s' = sg_left n s"
proof (induction k arbitrary: s')
  case (Suc k)
  then obtain t where "((sg_ok_step want n) ^^ k) s t" "sg_ok_step want n t s'" by auto
  with Suc.IH [of t] sg_ok_step_left [of want n t s'] show ?case by simp
qed simp

text \<open>In a run of the \<open>n\<close> workers the lock is held by one of them; such a run is stuck only at its end.\<close>

lemma sg_ok_run_holder:
  "((sg_ok_step want n) ^^ k) (sg_start gs) s \<Longrightarrow> sg_lock_inv s \<and> (\<forall>i\<ge>n. sg_pc s i = SgIdle)"
proof (induction k arbitrary: s)
  case 0
  then have "s = sg_start gs" by auto
  then show ?case using sg_start_lock_inv [of gs] by (simp add: sg_start_def)
next
  case (Suc k)
  then obtain t where "((sg_ok_step want n) ^^ k) (sg_start gs) t" and step: "sg_ok_step want n t s" by auto
  with Suc.IH have t: "sg_lock_inv t" "\<forall>i\<ge>n. sg_pc t i = SgIdle" by auto
  from t(1) step have "sg_lock_inv s" by (auto simp: sg_ok_step_def intro: sg_step_lock_inv)
  moreover obtain j pc where "j < n" "sg_pc s = (sg_pc t)(j := pc)" using sg_ok_step_cases [OF step] .
  ultimately show ?case using t(2) by auto
qed

lemma sg_inside_ok_step:
  assumes "inside (sg_pc s i)" and "i < n"
  shows "\<exists>s'. sg_ok_step want n s s'"
proof (cases "sg_pc s i")
  case SgLocked
  have "sg_ok_step want n s (s\<lparr>sg_pc := (sg_pc s)(i := SgListed (sg_groups s))\<rparr>)"
    unfolding sg_ok_step_def
    by (intro conjI exI [of _ i] sg_step.listed [OF SgLocked]) (simp_all add: SgLocked assms(2))
  then show ?thesis ..
next
  case (SgListed gs)
  then obtain hs where "sg_step want s (leave i SgDone hs s)" using sg_listed_finishes by blast
  then have "sg_ok_step want n s (leave i SgDone hs s)"
    unfolding sg_ok_step_def
    by (intro conjI exI [of _ i]) (simp_all add: SgListed assms(2) leave_def)
  then show ?thesis ..
qed (use assms in simp_all)

lemma sg_ok_stuck:
  assumes "sg_lock_inv s" and "\<forall>i\<ge>n. sg_pc s i = SgIdle" and "\<nexists>s'. sg_ok_step want n s s'" and "i < n"
  shows "sg_pc s i = SgDone"
proof -
  have outside: "\<not> inside (sg_pc s j)" for j
    using sg_inside_ok_step [of s j n want] assms(2,3) by (cases "j < n") auto
  then have "sg_holder s = None" using assms(1) by (cases "sg_holder s") (auto simp: sg_lock_inv_def)
  then have "sg_ok_step want n s (s\<lparr>sg_holder := Some i, sg_pc := (sg_pc s)(i := SgLocked)\<rparr>)"
    if "sg_pc s i = SgIdle"
    unfolding sg_ok_step_def
    by (intro conjI exI [of _ i] sg_step.lock [OF that]) (simp_all add: that assms(4))
  then have "sg_pc s i \<noteq> SgIdle" using assms(3) by blast
  with outside [of i] show ?thesis by (cases "sg_pc s i") auto
qed

lemma sg_left_0_iff: "sg_left n s = 0 \<longleftrightarrow> (\<forall>i<n. sg_pc s i = SgDone)"
proof -
  have "sg_rank pc = 0 \<longleftrightarrow> pc = SgDone" for pc by (cases pc) (simp_all add: sg_rank_def)
  then show ?thesis by (auto simp: sg_left_def)
qed

lemma sg_left_start: "sg_left n (sg_start gs) = 3 * n"
  by (simp add: sg_left_def sg_start_def sg_rank_def)

end
