(* ===== verification/Machine_Controller.thy ===== *)
theory Machine_Controller
  imports Scope_Close Machine_Server Machine_ServerGroup
begin

text \<open>
  The CloudscaleMachine controller, \<^verbatim>\<open>cloudscalemachine_controller.go\<close>: a reconcile waits for the
  cluster's infrastructure and the bootstrap data, ensures the server group and the server, and
  records once that the machine was provisioned; a deletion deletes the server and then removes
  the finalizer.
\<close>

section \<open>Definitions\<close>

definition markProvisioned :: "CloudscaleMachineStatus \<Rightarrow> CloudscaleMachineStatus" where
  "markProvisioned st =
     st\<lparr>mst_Initialization :=
          Some ((case mst_Initialization st of None \<Rightarrow> \<lparr>minit_Provisioned = None\<rparr> | Some i \<Rightarrow> i)
                \<lparr>minit_Provisioned := Some True\<rparr>)\<rparr>"

definition Machine_reconcileNormal :: "'w MachineScope \<Rightarrow> ('w mst, Result) proc" where
  "Machine_reconcileNormal S =
     goDefer (\<lambda>_. st_obj_update (Machine_setReadyCondition (msc_lib S)))
       (if mach_DataSecretName (msc_Machine S) = None then
          goBind (modify_obj (Machine_setCondition (msc_lib S) ServerReadyCondition ConditionFalse
                    WaitingForBootstrapDataReason ''Waiting for bootstrap data to be available''))
            (\<lambda>_. goReturn zeroResult)
        else
          goStep
            (goBind (goGets (\<lambda>s. ms_ServerGroup (mspecOf s))) (\<lambda>serverGroup.
             if serverGroup \<noteq> None then
               goBind (reconcileServerGroup S)
                 (\<lambda>result. goReturn (if \<not> IsZero result then Inl result else Inr ()))
             else goReturn (Inr ())))
            (\<lambda>_.
               goBind (goWrap (fmt_Errorw ''reconciling server: %w'' []) (reconcileServer S)) (\<lambda>result.
               goBind (goGets (\<lambda>s. mcondTrue (msc_lib S) (st_obj s) ServerReadyCondition)) (\<lambda>ready.
               goBind (if ready then modify_mstatus markProvisioned else goReturn ())
                 (\<lambda>_. goReturn result)))))"

definition Machine_reconcileDelete :: "'w MachineScope \<Rightarrow> ('w mst, Result) proc" where
  "Machine_reconcileDelete S =
     goBind (modify_obj (Machine_setCondition (msc_lib S) DeletingCondition ConditionTrue DeletingReason
                           ''Deleting server'')) (\<lambda>_.
     goBind (goWrap (fmt_Errorw ''deleting server: %w'' []) (deleteServer S)) (\<lambda>_.
     goBind (modify_obj Machine_deleteServerGroup) (\<lambda>_.
     goBind (modify_obj (Machine_setCondition (msc_lib S) ReadyCondition ConditionFalse DeletingReason
                           ''Machine infrastructure has been deleted'')) (\<lambda>_.
     goBind (modify_obj (\<lambda>m. m\<lparr>cm_Meta := (cm_Meta m)\<lparr>om_Finalizers :=
                 lib_RemoveFinalizer (msc_lib S) (om_Finalizers (cm_Meta m)) MachineFinalizer\<rparr>\<rparr>))
       (\<lambda>_. goReturn zeroResult)))))"

text \<open>The part of \<^verbatim>\<open>Reconcile\<close> after the scope was created.\<close>

definition Machine_ReconcileScope :: "'w MachineScope \<Rightarrow> ('w mst, Result) proc" where
  "Machine_ReconcileScope S =
     goBind (goGets st_obj) (\<lambda>m.
     goFinally (\<lambda>ret. Machine_Close S (case ret of Inl _ \<Rightarrow> False | Inr _ \<Rightarrow> True))
       (if om_DeletionTimestamp (cm_Meta m) \<noteq> None then Machine_reconcileDelete S
        else
          goBind (if \<not> lib_ContainsFinalizer (msc_lib S) (om_Finalizers (cm_Meta m)) MachineFinalizer
                  then modify_obj (\<lambda>m. m\<lparr>cm_Meta := (cm_Meta m)\<lparr>om_Finalizers :=
                           lib_AddFinalizer (msc_lib S) (om_Finalizers (cm_Meta m)) MachineFinalizer\<rparr>\<rparr>)
                  else goReturn ())
            (\<lambda>_. Machine_reconcileNormal S)))"

definition infrastructureReady :: "CloudscaleCluster \<Rightarrow> bool" where
  "infrastructureReady c \<longleftrightarrow>
     (case cst_Initialization (cl_Status c) of
        None \<Rightarrow> False
      | Some i \<Rightarrow> (case cinit_Provisioned i of None \<Rightarrow> False | Some p \<Rightarrow> p))"

text \<open>
  \<^verbatim>\<open>Reconcile\<close> of a request. The library, the Kubernetes client and the constructor of the
  cloudscale.ch client are parameters; the object read becomes the object of the state.
\<close>

definition Machine_Reconcile ::
  "lib \<Rightarrow> 'w kube \<Rightarrow> (string \<Rightarrow> 'w Client) \<Rightarrow> string \<Rightarrow> string \<Rightarrow> ('w mst, Result) proc" where
  "Machine_Reconcile L k newClient namespace name =
     goBind (goTry (api (KubeGet ''CloudscaleMachine'' namespace name)
               (k_GetCloudscaleMachine k namespace name)))
       (\<lambda>r. case r of
           Inl err \<Rightarrow> if apierrors_IsNotFound err then goReturn zeroResult else goError err
         | Inr obj \<Rightarrow>
     goBind (modify_obj (\<lambda>_. obj)) (\<lambda>_.
     goBind (api (KubeGet ''Machine'' namespace '''') (k_GetOwnerMachine k (cm_Meta obj)))
       (\<lambda>owner. case owner of
           None \<Rightarrow> goReturn zeroResult
         | Some machine \<Rightarrow>
     goBind (goTry (api (KubeGet ''Cluster'' namespace '''') (k_GetClusterFromMetadata k (mach_Meta machine))))
       (\<lambda>r. case r of
           Inl _ \<Rightarrow> goReturn zeroResult
         | Inr cluster \<Rightarrow>
     if lib_IsPaused L cluster (cm_Meta obj) then
       goBind (modify_obj (Machine_setCondition L PausedCondition ConditionTrue PausedReason ''''))
         (\<lambda>_. goReturn zeroResult)
     else
     goBind (modify_obj (\<lambda>m. Machine_SetConditions
               (conditions_Delete (lib_conditions L) (Machine_GetConditions m) PausedCondition) m)) (\<lambda>_.
     goBind (goTry (api (KubeGet ''CloudscaleCluster'' (om_Namespace (cm_Meta obj))
                           (capi_InfrastructureRefName cluster))
               (k_GetCloudscaleCluster k (om_Namespace (cm_Meta obj)) (capi_InfrastructureRefName cluster))))
       (\<lambda>r. case r of
           Inl _ \<Rightarrow> goReturn zeroResult
         | Inr cloudscaleCluster \<Rightarrow>
     if \<not> infrastructureReady cloudscaleCluster then
       goBind (modify_obj (Machine_setCondition L ServerReadyCondition ConditionFalse
                 WaitingForClusterInfrastructureReason
                 ''Waiting for cluster infrastructure to be provisioned'')) (\<lambda>_.
       goBind (modify_obj (Machine_setReadyCondition L)) (\<lambda>_. goReturn zeroResult))
     else
     goBind (goWrap (fmt_Errorw ''failed to get cloudscale.ch credentials: %w'' [])
              (GetToken k (CredentialsSecretRef cloudscaleCluster) (om_Namespace (cl_Meta cloudscaleCluster))))
       (\<lambda>token.
     goBind (goGets st_obj) (\<lambda>m.
     case NewMachineScope L (Some k) (Some cluster) (Some machine) (Some cloudscaleCluster) (Some m)
            (Some (newClient token)) of
       Inl err \<Rightarrow> goError (fmt_Errorw ''failed to create machine scope: %w'' [] err)
     | Inr S \<Rightarrow> Machine_ReconcileScope S))))))))"

text \<open>The watch on clusters: a cluster that is not being deleted maps to the machines of its owner.\<close>

definition cloudscaleClusterToCloudscaleMachines ::
  "'w kube \<Rightarrow> CloudscaleCluster \<Rightarrow> (('w, 'o) st, (string \<times> string) list) proc" where
  "cloudscaleClusterToCloudscaleMachines k cloudscaleCluster =
     (if om_DeletionTimestamp (cl_Meta cloudscaleCluster) \<noteq> None then goReturn []
      else
        goBind (goTry (api (KubeGet ''Cluster'' (om_Namespace (cl_Meta cloudscaleCluster)) '''')
                  (k_GetOwnerCluster k (cl_Meta cloudscaleCluster))))
          (\<lambda>r. case r of
              Inl _ \<Rightarrow> goReturn []
            | Inr None \<Rightarrow> goReturn []
            | Inr (Some cluster) \<Rightarrow>
                goBind (goTry (api (KubeList ''Machine'' [(ClusterNameLabel, om_Name (capi_Meta cluster))])
                          (k_ListMachines k (om_Namespace (capi_Meta cluster))
                             [(ClusterNameLabel, om_Name (capi_Meta cluster))])))
                  (\<lambda>r. case r of
                      Inl _ \<Rightarrow> goReturn []
                    | Inr machines \<Rightarrow>
                        goReturn (map (\<lambda>m. (om_Namespace (mach_Meta m), mach_InfrastructureRefName m))
                          (filter (\<lambda>m. mach_InfrastructureRefKind m = ''CloudscaleMachine'') machines)))))"

section \<open>The provisioned flag\<close>

definition provisioned :: "CloudscaleMachine \<Rightarrow> bool" where
  "provisioned m \<longleftrightarrow>
     (case mst_Initialization (cm_Status m) of None \<Rightarrow> False | Some i \<Rightarrow> minit_Provisioned i = Some True)"

lemma keeps_frame_view:
  assumes "keeps (obj_frame f) m" and "\<And>x. g (f x) = g x"
  shows "keeps (obj_frame g) m"
  using assms by (auto simp: keeps_def obj_frame_def) metis

lemmas server_keeps = keeps_frame_view [OF reconcileServer_frame]
lemmas group_keeps = keeps_frame_view [OF reconcileServerGroup_frame]

text \<open>What a reconcile leaves alone: everything but the conditions, the provider id and the status fields it fills.\<close>

definition identity_of :: "CloudscaleMachine \<Rightarrow> ObjectMeta \<times> CloudscaleMachineSpec" where
  "identity_of m = (cm_Meta m, (cm_Spec m)\<lparr>ms_ProviderID := None\<rparr>)"

lemma reconcile_parts_keep:
  "keeps (obj_frame (\<lambda>m. mst_Initialization (cm_Status m))) (reconcileServer S)"
  "keeps (obj_frame (\<lambda>m. mst_Initialization (cm_Status m))) (reconcileServerGroup S)"
  "keeps (obj_frame identity_of) (reconcileServer S)"
  "keeps (obj_frame identity_of) (reconcileServerGroup S)"
  "keeps (obj_frame (\<lambda>m. mst_ServerID (cm_Status m))) (reconcileServerGroup S)"
  by (rule server_keeps group_keeps, simp add: server_frame_def group_frame_def identity_of_def)+

lemma Machine_setReadyCondition_simps [simp]:
  "provisioned (Machine_setReadyCondition L m) = provisioned m"
  "provisioned (Machine_setCondition L t st r msg m) = provisioned m"
  "identity_of (Machine_setReadyCondition L m) = identity_of m"
  "identity_of (Machine_setCondition L t st r msg m) = identity_of m"
  by (simp_all add: provisioned_def identity_of_def)

lemma markProvisioned_simps [simp]:
  "provisioned (m\<lparr>cm_Status := markProvisioned (cm_Status m)\<rparr>)"
  "mcondition L (m\<lparr>cm_Status := markProvisioned st\<rparr>) t = mcondition L (m\<lparr>cm_Status := st\<rparr>) t"
  "identity_of (m\<lparr>cm_Status := st'\<rparr>) = identity_of m"
  by (simp_all add: provisioned_def markProvisioned_def mcondition_def obj_Get_def Machine_GetConditions_def
      identity_of_def split: option.split)

definition latched :: "lib \<Rightarrow> CloudscaleMachine \<Rightarrow> CloudscaleMachine \<Rightarrow> bool" where
  "latched L m m' \<longleftrightarrow>
     identity_of m' = identity_of m \<and> (provisioned m \<longrightarrow> provisioned m') \<and>
     (provisioned m' \<longrightarrow> provisioned m \<or> mcondTrue L m' ServerReadyCondition) \<and>
     (mcondTrue L m' ReadyCondition \<longleftrightarrow> mcondTrue L m' ServerReadyCondition)"

lemma latched_ready:
  assumes "lib_ok L" and "identity_of m' = identity_of m" and "provisioned m \<longrightarrow> provisioned m'"
    and "provisioned m' \<longrightarrow> provisioned m \<or> mcondTrue L m' ServerReadyCondition"
  shows "latched L m (Machine_setReadyCondition L m')"
  using assms by (simp add: latched_def mcondTrue_ready) (simp add: mcondTrue_iff mcondition_ready_other)

lemma parts_provisioned:
  "wp (reconcileServer S)
     (\<lambda>_ s'. identity_of (st_obj s') = identity_of (st_obj s) \<and> provisioned (st_obj s') = provisioned (st_obj s))
     (\<lambda>_ s'. identity_of (st_obj s') = identity_of (st_obj s) \<and> provisioned (st_obj s') = provisioned (st_obj s)) s"
  "wp (reconcileServerGroup S)
     (\<lambda>_ s'. identity_of (st_obj s') = identity_of (st_obj s) \<and> provisioned (st_obj s') = provisioned (st_obj s))
     (\<lambda>_ s'. identity_of (st_obj s') = identity_of (st_obj s) \<and> provisioned (st_obj s') = provisioned (st_obj s)) s"
  using reconcile_parts_keep(1-4) [THEN keeps_snd, of s S]
  by (simp_all add: wp_snd obj_frame_def provisioned_def)

lemma Machine_reconcileNormal_latched:
  assumes "lib_ok (msc_lib S)"
  shows "wp (Machine_reconcileNormal S)
    (\<lambda>_ s'. latched (msc_lib S) (st_obj s) (st_obj s'))
    (\<lambda>_ s'. latched (msc_lib S) (st_obj s) (st_obj s')) s"
  unfolding Machine_reconcileNormal_def
  by (auto simp: wp assms mcondTrue_iff intro!: latched_ready
      wp_mono [OF parts_provisioned(1)] wp_mono [OF parts_provisioned(2)])

section \<open>The server of a ready machine\<close>

text \<open>
  A reconcile that is not a requeue and ends with Ready true has a running server: its id, provider
  id and addresses are recorded and the machine is marked provisioned.
\<close>

lemma mcondTrue_views:
  "lib_ok L \<Longrightarrow> mcondTrue L (Machine_setReadyCondition L m) ServerReadyCondition = mcondTrue L m ServerReadyCondition"
  "lib_ok L \<Longrightarrow> mcondTrue L (m\<lparr>cm_Status := markProvisioned (cm_Status m)\<rparr>) t = mcondTrue L m t"
  by (simp_all add: mcondTrue_iff mcondition_ready_other)

lemma follows_server_kept [simp]:
  "lib_ok L \<Longrightarrow> follows_server L server res (Machine_setReadyCondition L m) = follows_server L server res m"
  "lib_ok L \<Longrightarrow>
     follows_server L server res (m\<lparr>cm_Status := markProvisioned (cm_Status m)\<rparr>) = follows_server L server res m"
  by (simp_all add: follows_server_def mcondTrue_views) (simp add: markProvisioned_def)

lemma outcome_running:
  assumes "lib_ok L" and "server_outcome L m res m'" and "IsZero res" and "mcondTrue L m' ServerReadyCondition"
  shows "\<exists>server. follows_server L server zeroResult m' \<and> sv_Status server = ServerStatusRunning"
proof -
  have "\<not> deleted_externally L m res m'"
    using assms(1,4) by (auto simp: deleted_externally_def mcondTrue_iff)
  with assms(2,3) obtain server where "follows_server L server res m'" by (auto simp: server_outcome_def)
  moreover have "res = zeroResult" using assms(3) by (simp add: IsZero_def)
  ultimately show ?thesis using assms(4) by (auto simp: follows_server_def)
qed

definition running_machine :: "lib \<Rightarrow> CloudscaleMachine \<Rightarrow> bool" where
  "running_machine L m \<longleftrightarrow>
     provisioned m \<and>
     (\<exists>server. follows_server L server zeroResult m \<and> sv_Status server = ServerStatusRunning)"

lemma Machine_reconcileNormal_ready:
  assumes "servers_api_ok (msc_CloudscaleClient S)" and "lib_ok (msc_lib S)"
  shows "wp (Machine_reconcileNormal S)
    (\<lambda>res s'. IsZero res \<longrightarrow> mcondTrue (msc_lib S) (st_obj s') ReadyCondition \<longrightarrow>
       running_machine (msc_lib S) (st_obj s'))
    (\<lambda>_ _. True) s"
proof -
  let ?L = "msc_lib S"
  have "wp (reconcileServer S)
      (\<lambda>res s'. (mcondTrue ?L (st_obj s') ServerReadyCondition \<longrightarrow> IsZero res \<longrightarrow>
           running_machine ?L (Machine_setReadyCondition ?L
             (st_obj s'\<lparr>cm_Status := markProvisioned (mstatusOf s')\<rparr>))) )
      (\<lambda>_ _. True) t" for t
    by (rule wp_mono [OF reconcileServer_spec [OF assms]])
      (auto simp: running_machine_def assms(2) dest!: outcome_running [OF assms(2)])
  note tail = this
  show ?thesis
    unfolding Machine_reconcileNormal_def
    by (auto simp: wp assms(2) mcondTrue_ready mcondTrue_views mcondTrue_iff [of ?L "Machine_setCondition _ _ _ _ _ _"]
        intro!: wp_trivI [where m = "reconcileServerGroup S"] wp_mono [OF tail])
qed

section \<open>Requests of a reconcile\<close>

definition machine_call :: "'w MachineScope \<Rightarrow> api_call \<Rightarrow> bool" where
  "machine_call S c \<longleftrightarrow>
     (case c of
        Get k i \<Rightarrow> k = KServer \<or> k = KServerGroup
      | List k t \<Rightarrow> k = KServer \<or> k = KServerGroup \<and> t = clusterOwnershipTags (msc_CloudscaleCluster S)
      | Create (NewServer req) \<Rightarrow> svr_Zone req = cs_Zone (cl_Spec (msc_CloudscaleCluster S))
      | Create (NewServerGroup req) \<Rightarrow>
          sgq_Zone req = cs_Zone (cl_Spec (msc_CloudscaleCluster S)) \<and>
          sgq_Tags req = clusterOwnershipTags (msc_CloudscaleCluster S)
      | KubeGet k ns n \<Rightarrow> k = ''Secret''
      | _ \<Rightarrow> False)"

lemma Machine_reconcileNormal_calls: "keeps (emits (machine_call S)) (Machine_reconcileNormal S)"
  unfolding Machine_reconcileNormal_def reconcileServer_def verifyServer_def adoptOrCreateServer_def
    createServer_def GetBootstrapData_def foundServer_def modify_mstatus_def reconcileServerGroup_def
    verifyServerGroup_def ensureServerGroup_def
  by (intro emits_intros)
    (auto simp: machine_call_def serverRequest_def serverGroupRequest_def emits_got emits.frame_refl
      split: sum.split option.split)

section \<open>Deletion\<close>

text \<open>
  The finalizer goes exactly when the server is gone; otherwise the metadata and the server id stay
  and the deletion is tried again. The shared server group is never deleted here.
\<close>

lemma Machine_reconcileDelete_spec:
  "wp (Machine_reconcileDelete S)
     (\<lambda>res s'. IsZero res \<and> mst_ServerID (mstatusOf s') = '''' \<and>
        (ms_ServerGroup (mspecOf s) \<noteq> None \<longrightarrow> mst_ServerGroupID (mstatusOf s') = '''') \<and>
        cm_Meta (st_obj s') = (cm_Meta (st_obj s))\<lparr>om_Finalizers :=
          lib_RemoveFinalizer (msc_lib S) (om_Finalizers (cm_Meta (st_obj s))) MachineFinalizer\<rparr> \<and>
        st_calls s' = st_calls s @ (if mst_ServerID (mstatusOf s) = '''' then []
                                    else [Delete KServer (mst_ServerID (mstatusOf s))]))
     (\<lambda>_ s'. cm_Meta (st_obj s') = cm_Meta (st_obj s) \<and> mst_ServerID (mstatusOf s) \<noteq> '''' \<and>
        mst_ServerID (mstatusOf s') = mst_ServerID (mstatusOf s) \<and>
        st_calls s' = st_calls s @ [Delete KServer (mst_ServerID (mstatusOf s))]) s"
proof -
  have fr: "keeps (obj_frame (\<lambda>m. (cm_Meta m, ms_ServerGroup (cm_Spec m)))) (deleteServer S)"
    by (rule keeps_frame_view [OF deleteServer_frame]) (simp add: server_frame_def)
  show ?thesis
    unfolding Machine_reconcileDelete_def
    by (auto simp: wp obj_frame_def Machine_deleteServerGroup_def
        intro!: wp_mono [OF wp_conj [OF deleteServer_spec wp_keeps [OF fr]]])
qed

section \<open>Reconcile\<close>

lemma machine_call_no_patch: "machine_call S c \<Longrightarrow> \<not> is_patch c"
  by (cases c) (auto simp: machine_call_def is_patch_def)

lemma Machine_bodies_no_patch:
  "wp (goBind (if b then modify_obj f else goReturn ()) (\<lambda>_. Machine_reconcileNormal S)) (\<lambda>_. no_patch s) (\<lambda>_. no_patch s) s"
  "wp (Machine_reconcileDelete S) (\<lambda>_. no_patch s) (\<lambda>_. no_patch s) s"
proof -
  have *: "wp (Machine_reconcileNormal S) (\<lambda>_. no_patch t) (\<lambda>_. no_patch t) t" for t
    by (rule wp_mono [OF wp_keeps [OF Machine_reconcileNormal_calls]]) (auto dest: machine_call_no_patch elim: emits_mono)
  show "wp (goBind (if b then modify_obj f else goReturn ()) (\<lambda>_. Machine_reconcileNormal S)) (\<lambda>_. no_patch s) (\<lambda>_. no_patch s) s"
    by (auto simp: wp emits_def intro!: wp_mono [OF *])
  show "wp (Machine_reconcileDelete S) (\<lambda>_. no_patch s) (\<lambda>_. no_patch s) s"
    by (rule wp_mono [OF Machine_reconcileDelete_spec]) (auto simp: emits_def is_patch_def split: if_splits)
qed

lemma Machine_ReconcileScope_patches:
  "wp (Machine_ReconcileScope S) (\<lambda>_. patched_last True s) (\<lambda>_ s'. \<exists>b. patched_last b s s') s"
  unfolding Machine_ReconcileScope_def wp_goGets_bind
  by (rule mclose.wp_closed, cases "om_DeletionTimestamp (cm_Meta (st_obj s)) = None")
    (simp_all only: if_True if_False not_not simp_thms Machine_bodies_no_patch)

lemma Machine_Reconcile_patches:
  "wp (Machine_Reconcile L k newClient ns n)
     (\<lambda>_ s'. emits is_kube_get s s' \<or> patched_last True s s')
     (\<lambda>_ s'. emits is_kube_get s s' \<or> (\<exists>b. patched_last b s s')) s"
  unfolding Machine_Reconcile_def
  by (auto simp: wp emits.frame_refl emits_got split: prod.split sum.split option.split
      dest!: emits_get intro!: wp_mono [OF GetToken_reads] wp_mono [OF Machine_ReconcileScope_patches])
    (blast dest: patched_last_after)+

text \<open>
  While the cluster's infrastructure is not ready, a reconcile only reads: the waiting condition is
  set on the copy that was read and not stored, and a deletion does not start.
\<close>

lemma Machine_Reconcile_waiting:
  assumes "k_GetCloudscaleMachine k ns n (st_world s) = (Inr obj, w1)"
    and "k_GetOwnerMachine k (cm_Meta obj) w1 = (Inr (Some machine), w2)"
    and "k_GetClusterFromMetadata k (mach_Meta machine) w2 = (Inr cluster, w3)"
    and "k_GetCloudscaleCluster k (om_Namespace (cm_Meta obj)) (capi_InfrastructureRefName cluster) w3 =
           (Inr cc, w4)"
    and "\<not> infrastructureReady cc" and "\<not> lib_IsPaused L cluster (cm_Meta obj)"
  shows "wp (Machine_Reconcile L k newClient ns n)
    (\<lambda>res s'. IsZero res \<and> st_world s' = w4 \<and> emits is_kube_get s s' \<and>
       identity_of (st_obj s') = identity_of obj)
    (\<lambda>_ _. False) s"
  unfolding Machine_Reconcile_def
  by (simp add: wp assms emits_got emits.frame_refl) (simp add: identity_of_def Machine_SetConditions_def)

section \<open>Clusters that trigger machines\<close>

lemma cloudscaleClusterToCloudscaleMachines_spec:
  "wp (cloudscaleClusterToCloudscaleMachines k c)
     (\<lambda>reqs s'. reqs \<noteq> [] \<longrightarrow>
        om_DeletionTimestamp (cl_Meta c) = None \<and>
        (\<exists>cluster machines w w' w''.
           k_GetOwnerCluster k (cl_Meta c) w = (Inr (Some cluster), w') \<and>
           k_ListMachines k (om_Namespace (capi_Meta cluster))
             [(ClusterNameLabel, om_Name (capi_Meta cluster))] w' = (Inr machines, w'') \<and>
           reqs = map (\<lambda>m. (om_Namespace (mach_Meta m), mach_InfrastructureRefName m))
             (filter (\<lambda>m. mach_InfrastructureRefKind m = ''CloudscaleMachine'') machines)))
     (\<lambda>_ _. False) s"
  unfolding cloudscaleClusterToCloudscaleMachines_def
  by (auto simp: wp split: option.split prod.split sum.split) blast

end
