(* ===== verification/Machine_Properties.thy ===== *)
theory Machine_Properties
  imports Machine_Controller
begin

text \<open>
  The properties of the machine controller: one server per machine, the machine follows its server,
  the provisioned flag is latched, and the server groups that several machines share.
\<close>

section \<open>A cloud with servers\<close>

text \<open>The sample cloud with servers that are read by their id, and a scope of one machine.\<close>

definition server_client :: "unit Client" where
  "server_client = sample_client\<lparr>Servers := (Servers sample_client)\<lparr>svc_Get :=
     (\<lambda>i w. (if i = '''' then Inl (ErrorResponse 404 '''') else Inr (sample_server\<lparr>sv_UUID := i\<rparr>), w))\<rparr>\<rparr>"

definition server_scope :: "unit MachineScope" where
  "server_scope = sample_machine_scope\<lparr>msc_CloudscaleClient := server_client,
     msc_CloudscaleCluster := sample_cluster\<lparr>cl_Status := empty_status\<lparr>cst_Networks :=
       [\<lparr>ns_Name = ''net'', ns_NetworkID = ''net-id'', ns_SubnetID = ''sub-id'', ns_CIDR = ''10.0.0.0/24'',
         ns_MTU = 9000, ns_Managed = True, ns_GatewayAddress = ''''\<rparr>]\<rparr>\<rparr>\<rparr>"

lemma server_scope_ok: "servers_api_ok (msc_CloudscaleClient server_scope)" "lib_ok (msc_lib server_scope)"
  by (auto simp: servers_api_ok_def server_scope_def server_client_def sample_client_def stub_service_def
      service_results_def sample_server_def sample_machine_scope_def list_lib_ok split: if_splits)

section \<open>One server per machine\<close>

text \<open>
  C2. A machine never gets a second server. With a recorded server the only request is the read of
  that server, also when the API answers that it is gone. Without one, the first request is the
  lookup by the machine's tag, and a create, for a request built from the spec, is sent only after a
  lookup that found nothing. This holds for every answer of the API.
\<close>

theorem never_a_second_server:
  "\<exists>cs. st_calls (snd (reconcileServer S s)) = st_calls s @ cs \<and> server_trace S (st_obj s) (st_world s) cs"
  by (rule wp_sndI [OF reconcileServer_trace])



text \<open>
  C18. Machine initialization is a latch: a reconcile never takes the provisioned flag back and sets
  it only when the server is ready; it changes neither the metadata nor any field of the spec but the
  provider id; and Ready is true exactly when the server is ready. This holds for errors too.
\<close>

theorem provisioned_is_latched:
  assumes "lib_ok (msc_lib S)"
  shows "latched (msc_lib S) (st_obj s) (st_obj (snd (Machine_reconcileNormal S s)))"
  using wp_sndI [OF Machine_reconcileNormal_latched [OF assms]] .

theorem provisioned_is_latched_witness:
  "latched list_lib sample_machine (st_obj (snd (Machine_reconcileNormal server_scope (start sample_machine))))"
  using provisioned_is_latched [OF server_scope_ok(2), of "start sample_machine"]
  by (simp add: server_scope_def sample_machine_scope_def)



text \<open>What the API answers to the deletion of the recorded server.\<close>

definition server_answer :: "'w MachineScope \<Rightarrow> 'w mst \<Rightarrow> go_error option" where
  "server_answer S s =
     err_of (fst (svc_Delete (Servers (msc_CloudscaleClient S)) (mst_ServerID (mstatusOf s)) (st_world s)))"

lemma deleteServer_answer:
  "wp (deleteServer S)
     (\<lambda>_ s'. mst_ServerID (mstatusOf s) = [] \<or> hard_error (server_answer S s) = None)
     (\<lambda>_ s'. hard_error (server_answer S s) \<noteq> None) s"
  unfolding deleteServer_def
  by (auto simp: wp server_answer_def split: option.split sum.split prod.split)

lemma Machine_reconcileDelete_answer:
  "wp (Machine_reconcileDelete S)
     (\<lambda>_ s'. mst_ServerID (mstatusOf s) = [] \<or> hard_error (server_answer S s) = None)
     (\<lambda>_ s'. hard_error (server_answer S s) \<noteq> None) s"
  unfolding Machine_reconcileDelete_def
  by (auto simp: wp server_answer_def Machine_deleteServerGroup_def
      intro!: wp_mono [OF deleteServer_answer])

text \<open>
  C20. Deleting a machine: the finalizer is removed exactly when the recorded server was deleted, or
  the API answered that it does not exist, by at most one request; otherwise the metadata and the
  server id are kept, so the deletion is tried again. The shared server group is never deleted here.
\<close>

theorem machine_deleted_with_its_server:
  "wp (Machine_reconcileDelete S)
     (\<lambda>res s'. IsZero res \<and> mst_ServerID (mstatusOf s') = '''' \<and>
        cm_Meta (st_obj s') = (cm_Meta (st_obj s))\<lparr>om_Finalizers :=
          lib_RemoveFinalizer (msc_lib S) (om_Finalizers (cm_Meta (st_obj s))) MachineFinalizer\<rparr> \<and>
        st_calls s' = st_calls s @ (if mst_ServerID (mstatusOf s) = '''' then []
                                    else [Delete KServer (mst_ServerID (mstatusOf s))]) \<and>
        (mst_ServerID (mstatusOf s) = '''' \<or> hard_error (server_answer S s) = None))
     (\<lambda>_ s'. cm_Meta (st_obj s') = cm_Meta (st_obj s) \<and> mst_ServerID (mstatusOf s) \<noteq> '''' \<and>
        mst_ServerID (mstatusOf s') = mst_ServerID (mstatusOf s) \<and>
        st_calls s' = st_calls s @ [Delete KServer (mst_ServerID (mstatusOf s))] \<and>
        hard_error (server_answer S s) \<noteq> None) s"
  by (rule wp_mono [OF wp_conj [OF Machine_reconcileDelete_spec Machine_reconcileDelete_answer]]) auto

text \<open>
  C40. While the cluster's infrastructure is not ready, the reconcile of a machine only reads: it
  succeeds without a requeue and without a patch. The condition that says what the machine waits for
  is therefore never stored, and the deletion of a machine does not start either.
\<close>

theorem waiting_machine_not_patched:
  assumes "k_GetCloudscaleMachine k ns n (st_world s) = (Inr obj, w1)"
    and "k_GetOwnerMachine k (cm_Meta obj) w1 = (Inr (Some machine), w2)"
    and "k_GetClusterFromMetadata k (mach_Meta machine) w2 = (Inr cluster, w3)"
    and "k_GetCloudscaleCluster k (om_Namespace (cm_Meta obj)) (capi_InfrastructureRefName cluster) w3 =
           (Inr cc, w4)"
    and "\<not> infrastructureReady cc" and "\<not> lib_IsPaused L cluster (cm_Meta obj)"
  shows "wp (Machine_Reconcile L k newClient ns n)
    (\<lambda>res s'. IsZero res \<and> st_world s' = w4 \<and> emits is_kube_get s s' \<and> identity_of (st_obj s') = identity_of obj)
    (\<lambda>_ _. False) s"
  by (rule Machine_Reconcile_waiting [OF assms])

theorem waiting_machine_not_patched_witness:
  "wp (Machine_Reconcile list_lib (sample_kube :: unit kube) (\<lambda>_. sample_client) ''default'' ''cp-0'')
    (\<lambda>res s'. IsZero res \<and> emits is_kube_get (start sample_machine) s') (\<lambda>_ _. False) (start sample_machine)"
  by (rule wp_mono [OF waiting_machine_not_patched [where obj = sample_machine
        and machine = sample_capi_machine and cluster = sample_capi and cc = sample_cluster]])
    (simp_all add: sample_kube_def list_lib_def infrastructureReady_def sample_cluster_def empty_status_def
      sample_capi_def)

section \<open>Shared server groups\<close>

text \<open>
  C3. Machines that are reconciled concurrently never create two server groups of the same name in
  the same zone: in every state reached from groups without duplicates, by any interleaving of any
  number of machines and with any failures and timeouts, there are no duplicates, and at most one
  machine is between its lookup and its create.
\<close>

theorem server_groups_not_duplicated:
  assumes "(sg_step want)\<^sup>*\<^sup>* (sg_start gs) s" and "distinct (map group_key gs)"
  shows "distinct (map group_key (sg_groups s)) \<and> (inside (sg_pc s i) \<and> inside (sg_pc s j) \<longrightarrow> i = j)"
  using sg_reachable_inv [OF assms(1) sg_start_inv [OF assms(2)]] unfolding sg_inv_def by (metis option.inject)

definition two_machines :: "nat \<Rightarrow> string \<times> string" where
  "two_machines i = (''cp'', ''lpg1'')"

definition first_in :: sg_state where
  "first_in = (sg_start [])\<lparr>sg_holder := Some 0, sg_pc := (\<lambda>_. SgIdle)(0 := SgLocked)\<rparr>"

lemma first_in_step: "sg_step two_machines (sg_start []) first_in"
  using sg_step.lock [of "sg_start []" 0 two_machines] by (simp add: first_in_def sg_start_def)

lemma first_in_reached: "(sg_step two_machines)\<^sup>*\<^sup>* (sg_start []) first_in"
  using first_in_step ..

theorem server_groups_not_duplicated_witness:
  "distinct (map group_key (sg_groups first_in)) \<and> inside (sg_pc first_in 0) \<and> \<not> inside (sg_pc first_in 1)"
  using server_groups_not_duplicated [OF first_in_reached, of 0 1]
  by (simp add: first_in_def)





text \<open>
  C11. The lock is never left held and no machine is starved for good: in every state that machines
  can reach, failures and timeouts included, every machine can still get its server group.
\<close>

theorem every_machine_can_get_its_group:
  assumes "(sg_step want)\<^sup>*\<^sup>* (sg_start gs) s"
  shows "\<exists>s'. (sg_step want)\<^sup>*\<^sup>* s s' \<and> sg_pc s' i = SgDone"
  using sg_can_finish sg_reachable_lock_inv [OF assms sg_start_lock_inv] .

theorem every_machine_can_get_its_group_witness:
  "\<exists>s'. (sg_step two_machines)\<^sup>*\<^sup>* first_in s' \<and> sg_pc s' 1 = SgDone"
  using every_machine_can_get_its_group [OF first_in_reached] .

text \<open>
  C12. While no request fails, \<open>n\<close> machines are done after exactly \<open>3 * n\<close> steps in whatever order
  they take them: a run has taken as many steps as its machines have come nearer to the end, and it
  cannot go on exactly when every machine has its group.
\<close>

theorem fault_free_run_terminates:
  assumes "((sg_ok_step want n) ^^ k) (sg_start gs) s"
  shows "k + sg_left n s = 3 * n \<and>
    ((\<nexists>s'. sg_ok_step want n s s') \<longleftrightarrow> k = 3 * n) \<and> (k = 3 * n \<longleftrightarrow> (\<forall>i<n. sg_pc s i = SgDone))"
proof -
  have left: "k + sg_left n s = 3 * n" using sg_ok_run_left [OF assms] by (simp add: sg_left_start)
  then have fin: "k = 3 * n \<longleftrightarrow> (\<forall>i<n. sg_pc s i = SgDone)" using sg_left_0_iff [of n s] by auto
  moreover have "\<nexists>s'. sg_ok_step want n s s'" if "k = 3 * n"
    using that left sg_ok_step_left [of want n s] by auto
  ultimately show ?thesis using left sg_ok_stuck [of s n want] sg_ok_run_holder [OF assms] by blast
qed

theorem fault_free_run_terminates_witness:
  "1 + sg_left 2 first_in = 6 \<and> (\<exists>s'. sg_ok_step two_machines 2 first_in s')"
proof -
  have "sg_ok_step two_machines 2 (sg_start []) first_in"
    using first_in_step by (auto simp: sg_ok_step_def first_in_def sg_start_def intro!: exI [of _ 0])
  then have "((sg_ok_step two_machines 2) ^^ 1) (sg_start []) first_in" by auto
  from fault_free_run_terminates [OF this] show ?thesis by auto
qed

end
