(* ===== verification/Webhook_Field.thy ===== *)
theory Webhook_Field
  imports Api_Types
begin

text \<open>
  What the webhooks say: the field paths and field errors of the Kubernetes API machinery, as
  data with one constructor per kind of error the webhooks raise, and the answer of a validating
  webhook, its warnings and its error if any.
\<close>

section \<open>Field errors\<close>

datatype path_elem = PChild string | PIndex int | PKey string

type_synonym field_path = "path_elem list"

definition Child :: "field_path \<Rightarrow> string \<Rightarrow> field_path" where
  "Child p name = p @ [PChild name]"

definition Index :: "field_path \<Rightarrow> int \<Rightarrow> field_path" where
  "Index p i = p @ [PIndex i]"

definition Key :: "field_path \<Rightarrow> string \<Rightarrow> field_path" where
  "Key p k = p @ [PKey k]"

definition NewPath :: "string list \<Rightarrow> field_path" where
  "NewPath names = map PChild names"

datatype FieldError =
    Invalid field_path string string
  | Forbidden field_path string
  | Required field_path string
  | NotFound field_path string
  | Duplicate field_path string
  | TooMany field_path int int

text \<open>\<^verbatim>\<open>if cond { allErrs = append(allErrs, err) }\<close>: the errors that one test contributes.\<close>

definition errIf :: "bool \<Rightarrow> FieldError \<Rightarrow> FieldError list" where
  "errIf c e = (if c then [e] else [])"

lemma errIf_simps [simp]:
  "errIf True e = [e]" "errIf False e = []" "errIf c e = [] \<longleftrightarrow> \<not> c"
  by (simp_all add: errIf_def)

text \<open>\<^verbatim>\<open>for i, x := range xs\<close> appending the errors of each element.\<close>

fun rangeErrs :: "(int \<Rightarrow> 'a \<Rightarrow> FieldError list) \<Rightarrow> int \<Rightarrow> 'a list \<Rightarrow> FieldError list" where
  "rangeErrs f i [] = []"
| "rangeErrs f i (x # xs) = f i x @ rangeErrs f (i + 1) xs"

lemma rangeErrs_Nil_iff:
  assumes "\<And>i x. x \<in> set xs \<Longrightarrow> f i x = [] \<longleftrightarrow> P x"
  shows "rangeErrs f i xs = [] \<longleftrightarrow> list_all P xs"
  using assms by (induction xs arbitrary: i) auto

text \<open>The position of the last element with a key, as the index maps of the webhooks store it.\<close>

definition position_by :: "('a \<Rightarrow> 'k) \<Rightarrow> 'a list \<Rightarrow> 'k \<Rightarrow> int" where
  "position_by key xs k =
     (case index_by (\<lambda>p. key (snd p)) (zip (map int [0..<length xs]) xs) k of
        None \<Rightarrow> 0 | Some (i, _) \<Rightarrow> i)"

section \<open>Answers\<close>

datatype admission_error =
    NewInvalid string string "FieldError list"
  | NewBadRequest string

type_synonym admission_answer = "string list \<times> admission_error option"

definition accepted :: "admission_answer \<Rightarrow> bool" where
  "accepted a \<longleftrightarrow> snd a = None"

text \<open>\<^verbatim>\<open>if len(allErrs) > 0 { return warnings, apierrors.NewInvalid(...) }; return warnings, nil\<close>\<close>

definition answer :: "string list \<Rightarrow> string \<Rightarrow> string \<Rightarrow> FieldError list \<Rightarrow> admission_answer" where
  "answer warnings kind name allErrs =
     (warnings, if allErrs \<noteq> [] then Some (NewInvalid kind name allErrs) else None)"

lemma accepted_answer [simp]: "accepted (answer w kind name errs) \<longleftrightarrow> errs = []"
  by (simp add: accepted_def answer_def)

section \<open>Deep equality of string maps\<close>

text \<open>\<^verbatim>\<open>reflect.DeepEqual\<close> on maps: both nil, or both not nil with the same entries in any order.\<close>

definition str_map_DeepEqual :: "str_map option \<Rightarrow> str_map option \<Rightarrow> bool" where
  "str_map_DeepEqual a b =
     (case (a, b) of
        (None, None) \<Rightarrow> True
      | (Some x, Some y) \<Rightarrow> list_all (\<lambda>k. map_of x k = map_of y k) (map fst x @ map fst y)
      | _ \<Rightarrow> False)"

lemma map_of_agree:
  "list_all (\<lambda>k. map_of x k = map_of y k) (map fst x @ map fst y) \<longleftrightarrow> map_of x = map_of y"
proof
  assume *: "list_all (\<lambda>k. map_of x k = map_of y k) (map fst x @ map fst y)"
  show "map_of x = map_of y"
  proof
    fix k
    show "map_of x k = map_of y k"
    proof (cases "k \<in> fst ` set x \<union> fst ` set y")
      case True
      with * show ?thesis by (auto simp: list_all_iff)
    next
      case False
      then have "map_of x k = None" "map_of y k = None"
        by (simp_all only: map_of_eq_None_iff) auto
      then show ?thesis by simp
    qed
  qed
qed (simp add: list_all_iff)

lemma str_map_DeepEqual_iff:
  "str_map_DeepEqual a b \<longleftrightarrow> map_option map_of a = map_option map_of b"
  by (auto simp: str_map_DeepEqual_def map_of_agree [simplified] split: option.split)

lemma str_map_DeepEqual_refl [simp]: "str_map_DeepEqual a a"
  by (simp add: str_map_DeepEqual_iff)

section \<open>The history of an object\<close>

text \<open>
  The objects of a kind that can be stored while its webhooks are in force: created through the
  defaulting and the validating webhook, then updated through both.
\<close>

inductive admitted ::
  "('o \<Rightarrow> 'o) \<Rightarrow> ('o \<Rightarrow> admission_answer) \<Rightarrow> ('o \<Rightarrow> 'o \<Rightarrow> admission_answer) \<Rightarrow> 'o \<Rightarrow> 'o \<Rightarrow> bool"
  for default create update o0 where
  created: "o0 = default req \<Longrightarrow> accepted (create o0) \<Longrightarrow> admitted default create update o0 o0"
| updated: "admitted default create update o0 old \<Longrightarrow> new = default req \<Longrightarrow>
     accepted (update old new) \<Longrightarrow> admitted default create update o0 new"

text \<open>
  The contract of a kind's webhooks: defaulting is idempotent, creation establishes a property of
  the object that an accepted update keeps, and accepted updates compose.
\<close>

locale admission =
  fixes default :: "'o \<Rightarrow> 'o"
    and create :: "'o \<Rightarrow> admission_answer"
    and update :: "'o \<Rightarrow> 'o \<Rightarrow> admission_answer"
    and ok :: "'o \<Rightarrow> bool"
    and kept :: "'o \<Rightarrow> 'o \<Rightarrow> bool"
  assumes default_idem: "default (default x) = default x"
    and create_ok: "accepted (create x) \<Longrightarrow> ok x"
    and update_kept: "accepted (update x y) \<Longrightarrow> kept x y"
    and update_ok: "accepted (update x y) \<Longrightarrow> ok x \<Longrightarrow> ok y"
    and kept_trans: "kept x y \<Longrightarrow> kept y z \<Longrightarrow> kept x z"
begin

lemma admitted_inv:
  "admitted default create update o0 x \<Longrightarrow> ok x \<and> (x = o0 \<or> kept o0 x) \<and> default x = x"
proof (induction rule: admitted.induct)
  case (created req)
  then show ?case by (auto simp: default_idem intro: create_ok)
next
  case (updated old new req)
  then show ?case
    by (auto simp: default_idem dest: update_kept update_ok intro: kept_trans)
qed

text \<open>Two moments of one history: the later object keeps what the earlier one had.\<close>

lemma admitted_from:
  "admitted default create update o0 x \<Longrightarrow> accepted (update x (default y)) \<Longrightarrow>
     admitted default create update o0 (default y) \<and> kept x (default y)"
  by (auto intro: admitted.updated dest: update_kept)

end

end
