(* ===== verification/Region_Flavor.thy ===== *)
theory Region_Flavor
  imports Sdk
begin

text \<open>
  The lookup tables built once from the API's regions and flavors, \<^verbatim>\<open>regions.go\<close> and
  \<^verbatim>\<open>flavors.go\<close>. A Go map is an association list whose entries are replaced by \<^const>\<open>AList.update\<close>;
  the order in which \<^verbatim>\<open>range\<close> visits a map is a parameter. The quantities of a resource list
  are of the type that \<^verbatim>\<open>resource.MustParse\<close>, a parameter, returns.
\<close>

section \<open>Regions\<close>

record Zone =
  zone_Slug :: string

record Region =
  reg_Slug :: string
  reg_Zones :: "Zone list"

record RegionInfo =
  ri_regions :: "(string \<times> string list) list"
  ri_zones :: "(string \<times> string) list"

definition addRegion :: "Region \<Rightarrow> RegionInfo \<Rightarrow> RegionInfo" where
  "addRegion r ri =
     \<lparr>ri_regions = AList.update (reg_Slug r) (map zone_Slug (reg_Zones r)) (ri_regions ri),
      ri_zones = fold (\<lambda>z. AList.update (zone_Slug z) (reg_Slug r)) (reg_Zones r) (ri_zones ri)\<rparr>"

definition NewRegionInfo :: "Region list \<Rightarrow> RegionInfo" where
  "NewRegionInfo regions = fold addRegion regions \<lparr>ri_regions = [], ri_zones = []\<rparr>"

definition ZoneBelongsToRegion :: "RegionInfo \<Rightarrow> string \<Rightarrow> string \<Rightarrow> bool" where
  "ZoneBelongsToRegion ri zone region \<longleftrightarrow>
     (case map_of (ri_zones ri) zone of None \<Rightarrow> False | Some zoneRegion \<Rightarrow> zoneRegion = region)"

definition GetDefaultZoneForRegion :: "RegionInfo \<Rightarrow> string \<Rightarrow> string" where
  "GetDefaultZoneForRegion ri region =
     (case map_of (ri_regions ri) region of
        None \<Rightarrow> '''' | Some [] \<Rightarrow> '''' | Some (z # _) \<Rightarrow> z)"

definition IsValidZone :: "RegionInfo \<Rightarrow> string \<Rightarrow> bool" where
  "IsValidZone ri zone \<longleftrightarrow> map_of (ri_zones ri) zone \<noteq> None"

definition GetAllRegions :: "(string list \<Rightarrow> string list) \<Rightarrow> RegionInfo \<Rightarrow> string list" where
  "GetAllRegions order ri = order (map fst (ri_regions ri))"

text \<open>
  The tables against the API's answer. Slugs of regions and of zones are unique in that answer.
\<close>

abbreviation zones_of :: "Region \<Rightarrow> string set" where
  "zones_of r \<equiv> zone_Slug ` set (reg_Zones r)"

definition regions_ok :: "Region list \<Rightarrow> bool" where
  "regions_ok regions \<longleftrightarrow>
     distinct (map reg_Slug regions) \<and>
     distinct (concat (map (\<lambda>r. map zone_Slug (reg_Zones r)) regions))"

definition in_region :: "Region list \<Rightarrow> string \<Rightarrow> string \<Rightarrow> bool" where
  "in_region regions zone region \<longleftrightarrow> list_ex (\<lambda>r. reg_Slug r = region \<and> zone \<in> zones_of r) regions"

lemma regions_ok_Cons:
  "regions_ok (r # rs) \<Longrightarrow>
     regions_ok rs \<and> reg_Slug r \<notin> reg_Slug ` set rs \<and> (\<forall>r'\<in>set rs. zones_of r \<inter> zones_of r' = {})"
  by (auto simp: regions_ok_def)

lemma map_of_fold_update:
  "map_of (fold (\<lambda>z. AList.update (f z) v) zs al) k = (if k \<in> f ` set zs then Some v else map_of al k)"
  by (induction zs arbitrary: al) (auto simp: update_conv)

lemma fold_addRegion_zones:
  "regions_ok rs \<Longrightarrow>
     map_of (ri_zones (fold addRegion rs ri)) z = Some g \<longleftrightarrow>
       in_region rs z g \<or> (\<forall>r\<in>set rs. z \<notin> zones_of r) \<and> map_of (ri_zones ri) z = Some g"
proof (induction rs arbitrary: ri)
  case Nil
  then show ?case by (simp add: in_region_def)
next
  case (Cons r rs)
  note ok = regions_ok_Cons [OF Cons.prems]
  have "z \<in> zones_of r \<Longrightarrow> \<not> in_region rs z g' \<and> (\<forall>r\<in>set rs. z \<notin> zones_of r)" for g'
    using ok by (fastforce simp: in_region_def list_ex_iff)
  with Cons.IH [of "addRegion r ri"] ok show ?case
    by (auto simp: addRegion_def map_of_fold_update in_region_def)
qed

lemma fold_addRegion_other:
  "g \<notin> reg_Slug ` set rs \<Longrightarrow> map_of (ri_regions (fold addRegion rs ri)) g = map_of (ri_regions ri) g"
  by (induction rs arbitrary: ri) (auto simp: addRegion_def update_conv)

lemma fold_addRegion_regions:
  "regions_ok rs \<Longrightarrow> r \<in> set rs \<Longrightarrow>
     map_of (ri_regions (fold addRegion rs ri)) (reg_Slug r) = Some (map zone_Slug (reg_Zones r))"
proof (induction rs arbitrary: ri)
  case Nil
  then show ?case by simp
next
  case (Cons r' rs)
  note ok = regions_ok_Cons [OF Cons.prems(1)]
  show ?case
  proof (cases "r \<in> set rs")
    case True
    with Cons.IH ok show ?thesis by simp
  next
    case False
    with Cons.prems(2) have "r' = r" by simp
    with ok show ?thesis
      by (simp add: fold_addRegion_other) (simp add: addRegion_def update_conv)
  qed
qed

lemma ZoneBelongsToRegion_iff:
  "regions_ok rs \<Longrightarrow> ZoneBelongsToRegion (NewRegionInfo rs) z g \<longleftrightarrow> in_region rs z g"
  using fold_addRegion_zones [of rs "\<lparr>ri_regions = [], ri_zones = []\<rparr>" z g]
  by (auto simp: ZoneBelongsToRegion_def NewRegionInfo_def split: option.split)

lemma IsValidZone_iff:
  "regions_ok rs \<Longrightarrow> IsValidZone (NewRegionInfo rs) z \<longleftrightarrow> (\<exists>g. in_region rs z g)"
  by (simp add: ZoneBelongsToRegion_iff [symmetric] ZoneBelongsToRegion_def IsValidZone_def
      split: option.split) auto

lemma GetDefaultZoneForRegion_in:
  assumes "regions_ok rs" and "GetDefaultZoneForRegion (NewRegionInfo rs) g \<noteq> ''''"
  shows "in_region rs (GetDefaultZoneForRegion (NewRegionInfo rs) g) g"
proof (cases "g \<in> reg_Slug ` set rs")
  case True
  then obtain r where r: "r \<in> set rs" "g = reg_Slug r" by auto
  have "map_of (ri_regions (NewRegionInfo rs)) g = Some (map zone_Slug (reg_Zones r))"
    unfolding NewRegionInfo_def r(2) by (rule fold_addRegion_regions [OF assms(1) r(1)])
  with assms(2) r show ?thesis
    by (cases "reg_Zones r") (auto simp: GetDefaultZoneForRegion_def in_region_def list_ex_iff)
next
  case False
  then have "map_of (ri_regions (NewRegionInfo rs)) g = None"
    by (simp add: NewRegionInfo_def fold_addRegion_other)
  with assms(2) show ?thesis by (simp add: GetDefaultZoneForRegion_def)
qed

section \<open>Flavors\<close>

definition ResourceNvidiaGPU :: string where "ResourceNvidiaGPU = ''nvidia.com/gpu''"
definition ResourceCPU :: string where "ResourceCPU = ''cpu''"
definition ResourceMemory :: string where "ResourceMemory = ''memory''"

record GPU =
  gpu_Count :: int

record Flavor =
  fl_Slug :: string
  fl_VCPUCount :: int
  fl_MemoryGB :: int
  fl_GPU :: "GPU option"

record FlavorInfo =
  fi_flavors :: "(string \<times> Flavor) list"

definition NewFlavorInfo :: "Flavor list \<Rightarrow> FlavorInfo" where
  "NewFlavorInfo flavors = \<lparr>fi_flavors = fold (\<lambda>f. AList.update (fl_Slug f) f) flavors []\<rparr>"

definition IsValidFlavor :: "FlavorInfo \<Rightarrow> string \<Rightarrow> bool" where
  "IsValidFlavor fi slug \<longleftrightarrow> map_of (fi_flavors fi) slug \<noteq> None"

definition GetFlavor :: "FlavorInfo \<Rightarrow> string \<Rightarrow> Flavor option" where
  "GetFlavor fi slug = (case map_of (fi_flavors fi) slug of None \<Rightarrow> None | Some f \<Rightarrow> Some f)"

definition GetCapacity ::
  "(string \<Rightarrow> 'q) \<Rightarrow> FlavorInfo \<Rightarrow> string \<Rightarrow> go_error + (string \<times> 'q) list" where
  "GetCapacity mustParse fi slug =
     (case map_of (fi_flavors fi) slug of
        None \<Rightarrow> Inl (fmt_Errorf ''unknown flavor: %s'' [FS slug])
      | Some flavor \<Rightarrow>
          let capacity = [(ResourceCPU, mustParse (fmt_Sprintf ''%d'' [FD (fl_VCPUCount flavor)])),
                          (ResourceMemory, mustParse (fmt_Sprintf ''%dGi'' [FD (fl_MemoryGB flavor)]))]
          in Inr
               (case fl_GPU flavor of
                  Some gpu \<Rightarrow>
                    if gpu_Count gpu > 0 then
                      AList.update ResourceNvidiaGPU (mustParse (fmt_Sprintf ''%d'' [FD (gpu_Count gpu)])) capacity
                    else capacity
                | None \<Rightarrow> capacity))"

definition GetAllFlavors :: "(string list \<Rightarrow> string list) \<Rightarrow> FlavorInfo \<Rightarrow> string list" where
  "GetAllFlavors order fi = order (map fst (fi_flavors fi))"

lemma map_of_NewFlavorInfo:
  "map_of (fi_flavors (NewFlavorInfo fs)) slug = find (\<lambda>f. fl_Slug f = slug) (rev fs)"
proof -
  have "map_of (fold (\<lambda>f. AList.update (fl_Slug f) f) fs al) slug =
      (case find (\<lambda>f. fl_Slug f = slug) (rev fs) of None \<Rightarrow> map_of al slug | Some f \<Rightarrow> Some f)" for al
    by (induction fs rule: rev_induct) (auto simp: update_conv)
  then show ?thesis by (simp add: NewFlavorInfo_def split: option.split)
qed

lemma IsValidFlavor_iff: "IsValidFlavor (NewFlavorInfo fs) slug \<longleftrightarrow> slug \<in> fl_Slug ` set fs"
  by (auto simp: IsValidFlavor_def map_of_NewFlavorInfo find_None_iff image_iff)

lemma GetCapacity_iff: "(\<exists>c. GetCapacity p fi slug = Inr c) \<longleftrightarrow> IsValidFlavor fi slug"
  by (auto simp: GetCapacity_def IsValidFlavor_def Let_def split: option.split)

lemma GetCapacity_value:
  assumes "map_of (fi_flavors fi) slug = Some f"
  shows "\<exists>c. GetCapacity p fi slug = Inr c \<and>
    map_of c ResourceCPU = Some (p (strconv_Itoa (fl_VCPUCount f))) \<and>
    map_of c ResourceMemory = Some (p (strconv_Itoa (fl_MemoryGB f) @ ''Gi'')) \<and>
    map_of c ResourceNvidiaGPU =
      (case fl_GPU f of Some g \<Rightarrow> if gpu_Count g > 0 then Some (p (strconv_Itoa (gpu_Count g))) else None
       | None \<Rightarrow> None)"
  using assms
  by (auto simp: GetCapacity_def Let_def fmt_Sprintf.simps fmt_verb_def ResourceCPU_def ResourceMemory_def
      ResourceNvidiaGPU_def update_conv split: option.split)

end
