(* ===== verification/Template_Controller.thy ===== *)
theory Template_Controller
  imports Scope_Close Region_Flavor
begin

text \<open>
  The CloudscaleMachineTemplate controller, \<^verbatim>\<open>cloudscalemachinetemplate_controller.go\<close>: the
  capacity of the template's flavor is written to its status, for scaling from zero. The
  Kubernetes calls are parameters.
\<close>

section \<open>Definitions\<close>

record CloudscaleMachineTemplateResource =
  tr_Spec :: CloudscaleMachineSpec

record CloudscaleMachineTemplateSpec =
  mts_Template :: CloudscaleMachineTemplateResource

record 'q CloudscaleMachineTemplateStatus =
  tst_ObservedGeneration :: int
  tst_Capacity :: "(string \<times> 'q) list"
  tst_Conditions :: "Condition list"

record 'q CloudscaleMachineTemplate =
  mt_Meta :: ObjectMeta
  mt_Spec :: CloudscaleMachineTemplateSpec
  mt_Status :: "'q CloudscaleMachineTemplateStatus"

record ('w, 'q) template_kube =
  tk_Get :: "string \<Rightarrow> string \<Rightarrow> ('w, 'q CloudscaleMachineTemplate) call"
  tk_NewHelper :: "'q CloudscaleMachineTemplate \<Rightarrow> go_error option"
  tk_Patch :: "'q CloudscaleMachineTemplate \<Rightarrow> 'q CloudscaleMachineTemplate \<Rightarrow> ('w, unit) call"

definition templateFlavor :: "'q CloudscaleMachineTemplate \<Rightarrow> string" where
  "templateFlavor t = ms_Flavor (tr_Spec (mts_Template (mt_Spec t)))"

definition Template_Reconcile ::
  "('w, 'q) template_kube \<Rightarrow> (string \<Rightarrow> 'q) \<Rightarrow> FlavorInfo option \<Rightarrow> string \<Rightarrow> string \<Rightarrow>
   (('w, 'q CloudscaleMachineTemplate) st, Result) proc" where
  "Template_Reconcile k mustParse flavorInfo namespace name =
     goBind (goTry (api (KubeGet ''CloudscaleMachineTemplate'' namespace name) (tk_Get k namespace name)))
       (\<lambda>r. case r of
           Inl err \<Rightarrow> if apierrors_IsNotFound err then goReturn zeroResult else goError err
         | Inr template \<Rightarrow>
     goBind (modify_obj (\<lambda>_. template)) (\<lambda>_.
     case flavorInfo of
       None \<Rightarrow> goReturn zeroResult
     | Some fi \<Rightarrow>
     (case tk_NewHelper k template of
        Some err \<Rightarrow> goError err
      | None \<Rightarrow>
     if templateFlavor template = '''' then goReturn zeroResult
     else
       (case GetCapacity mustParse fi (templateFlavor template) of
          Inl _ \<Rightarrow> goReturn zeroResult
        | Inr capacity \<Rightarrow>
            goBind (modify_obj (\<lambda>t. t\<lparr>mt_Status := (mt_Status t)\<lparr>tst_Capacity := capacity\<rparr>\<rparr>)) (\<lambda>_.
            goBind (goGets st_obj) (\<lambda>t.
            goBind (api (KubePatch True) (tk_Patch k template t)) (\<lambda>_. goReturn zeroResult)))))))"

section \<open>What is written\<close>

text \<open>
  A template is patched exactly when its flavor is known, and then its status holds the capacity
  of that flavor; in every other case the object that was read is unchanged and nothing is sent.
\<close>

definition capacity_written :: "(string \<Rightarrow> 'q) \<Rightarrow> FlavorInfo \<Rightarrow> 'q CloudscaleMachineTemplate \<Rightarrow>
  'q CloudscaleMachineTemplate \<Rightarrow> bool" where
  "capacity_written p fi t t' \<longleftrightarrow>
     GetCapacity p fi (templateFlavor t) = Inr (tst_Capacity (mt_Status t')) \<and>
     t' = t\<lparr>mt_Status := (mt_Status t)\<lparr>tst_Capacity := tst_Capacity (mt_Status t')\<rparr>\<rparr>"

lemma Template_Reconcile_spec:
  assumes "tk_Get k ns n (st_world s) = (Inr t, w)" and "tk_NewHelper k t = None"
  shows "wp (Template_Reconcile k p (Some fi) ns n)
    (\<lambda>res s'. IsZero res \<and>
       (if templateFlavor t \<noteq> '''' \<and> IsValidFlavor fi (templateFlavor t)
        then patched_last True s s' \<and> capacity_written p fi t (st_obj s')
        else st_obj s' = t \<and> emits is_kube_get s s'))
    (\<lambda>e s'. IsValidFlavor fi (templateFlavor t) \<and> patched_last True s s') s"
proof -
  have iff: "IsValidFlavor fi (templateFlavor t) \<longleftrightarrow> (\<exists>c. GetCapacity p fi (templateFlavor t) = Inr c)"
    by (simp add: GetCapacity_iff)
  show ?thesis
    unfolding Template_Reconcile_def
    by (auto simp: wp assms iff capacity_written_def emits_def patched_last_def is_patch_def
        split: sum.split prod.split option.split)
qed

end
