(* ===== verification/Machine_Webhook.thy ===== *)
theory Machine_Webhook
  imports Webhook_Field Machine_Server Template_Controller
begin

text \<open>
  Defaulting and validation of CloudscaleMachine and CloudscaleMachineTemplate,
  \<^verbatim>\<open>cloudscalemachine_validation.go\<close>, \<^verbatim>\<open>cloudscalemachine_webhook.go\<close> and
  \<^verbatim>\<open>cloudscalemachinetemplate_webhook.go\<close>: what a spec must satisfy to be admitted, what an
  update may not change, and what the machine controller may rely on for an admitted spec.
\<close>

section \<open>Definitions\<close>

definition defaultInterfaceIPFamily :: "InterfaceSpec slice \<Rightarrow> InterfaceSpec slice" where
  "defaultInterfaceIPFamily interfaces =
     map_option (map (\<lambda>iface.
       if if_Type iface = ''public'' \<and> if_IPFamily iface = None
       then iface\<lparr>if_IPFamily := Some IPFamilyDualStack\<rparr> else iface)) interfaces"

definition validateTags :: "str_map option \<Rightarrow> field_path \<Rightarrow> FieldError list" where
  "validateTags tags fldPath =
     concat (map (\<lambda>(key, _).
       errIf (strings_HasPrefix key NameCloudscaleProviderPrefix)
         (Forbidden (Key fldPath key)
            (''tag key prefix '' @ NameCloudscaleProviderPrefix @ '' is reserved for internal use'')))
       (case tags of None \<Rightarrow> [] | Some kvs \<Rightarrow> kvs))"

definition validateInterface :: "field_path \<Rightarrow> InterfaceSpec \<Rightarrow> FieldError list" where
  "validateInterface ifacePath iface =
     errIf ((if_Type iface \<noteq> '''') = (if_Network iface \<noteq> ''''))
       (Invalid ifacePath '''' ''exactly one of type or network must be specified'') @
     (case if_IPFamily iface of
        None \<Rightarrow> []
      | Some ipFamily \<Rightarrow>
          errIf (if_Type iface \<noteq> ''public'')
            (Invalid (Child ifacePath ''ipFamily'') ipFamily
               ''ipFamily can only be set on public interfaces (type: public)''))"

definition validateInterfaces :: "InterfaceSpec slice \<Rightarrow> field_path \<Rightarrow> FieldError list" where
  "validateInterfaces interfaces fldPath =
     (if elems interfaces = [] then []
      else
        let publicCount = int (length (filter (\<lambda>i. if_Type i = ''public'') (elems interfaces)))
        in rangeErrs (\<lambda>i. validateInterface (Index fldPath i)) 0 (elems interfaces) @
           errIf (publicCount > 1) (TooMany fldPath publicCount 1))"

definition validateMachineSpec ::
  "CloudscaleMachineSpec \<Rightarrow> FlavorInfo option \<Rightarrow> field_path \<Rightarrow> FieldError list" where
  "validateMachineSpec spec flavorInfo fldPath =
     (case flavorInfo of
        None \<Rightarrow> []
      | Some fi \<Rightarrow>
          errIf (\<not> IsValidFlavor fi (ms_Flavor spec))
            (Invalid (Child fldPath ''flavor'') (ms_Flavor spec) ''unknown flavor'')) @
     validateTags (ms_Tags spec) (Child fldPath ''tags'') @
     validateInterfaces (ms_Interfaces spec) (Child fldPath ''interfaces'')"

definition validateMachineSpecUpdate ::
  "CloudscaleMachineSpec \<Rightarrow> CloudscaleMachineSpec \<Rightarrow> field_path \<Rightarrow> FieldError list" where
  "validateMachineSpecUpdate newSpec oldSpec fldPath =
     errIf (ms_Image newSpec \<noteq> ms_Image oldSpec)
       (Forbidden (Child fldPath ''image'') ''field is immutable'') @
     errIf (ms_Flavor newSpec \<noteq> ms_Flavor oldSpec)
       (Forbidden (Child fldPath ''flavor'') ''field is immutable'') @
     errIf (ms_RootVolumeSize newSpec \<noteq> ms_RootVolumeSize oldSpec)
       (Forbidden (Child fldPath ''rootVolumeSize'') ''field is immutable'') @
     errIf (case ms_ProviderID oldSpec of
              None \<Rightarrow> False
            | Some oldID \<Rightarrow> (case ms_ProviderID newSpec of None \<Rightarrow> True | Some newID \<Rightarrow> newID \<noteq> oldID))
       (Forbidden (Child fldPath ''providerID'') ''field is immutable once set'') @
     errIf (ms_Interfaces newSpec \<noteq> ms_Interfaces oldSpec)
       (Forbidden (Child fldPath ''interfaces'') ''field is immutable'') @
     errIf (ms_ServerGroup newSpec \<noteq> ms_ServerGroup oldSpec)
       (Forbidden (Child fldPath ''serverGroup'') ''field is immutable'') @
     validateTags (ms_Tags newSpec) (Child fldPath ''tags'')"

subsection \<open>CloudscaleMachine\<close>

definition Machine_Default :: "CloudscaleMachine \<Rightarrow> CloudscaleMachine" where
  "Machine_Default obj =
     obj\<lparr>cm_Spec := (cm_Spec obj)\<lparr>ms_Interfaces := defaultInterfaceIPFamily (ms_Interfaces (cm_Spec obj))\<rparr>\<rparr>"

definition Machine_ValidateCreate :: "FlavorInfo option \<Rightarrow> CloudscaleMachine \<Rightarrow> admission_answer" where
  "Machine_ValidateCreate flavorInfo obj =
     answer [] ''CloudscaleMachine'' (om_Name (cm_Meta obj))
       (validateMachineSpec (cm_Spec obj) flavorInfo (NewPath [''spec'']))"

definition Machine_ValidateUpdate :: "CloudscaleMachine \<Rightarrow> CloudscaleMachine \<Rightarrow> admission_answer" where
  "Machine_ValidateUpdate oldObj newObj =
     answer [] ''CloudscaleMachine'' (om_Name (cm_Meta newObj))
       (validateMachineSpecUpdate (cm_Spec newObj) (cm_Spec oldObj) (NewPath [''spec'']))"

definition Machine_ValidateDelete :: "CloudscaleMachine \<Rightarrow> admission_answer" where
  "Machine_ValidateDelete obj = ([], None)"

subsection \<open>CloudscaleMachineTemplate\<close>

text \<open>
  \<^verbatim>\<open>reflect.DeepEqual\<close> of two machine specs; only the tags are a map. The admission request of the
  context and the test for a dry run of the topology controller are parameters.
\<close>

definition machineSpec_DeepEqual :: "CloudscaleMachineSpec \<Rightarrow> CloudscaleMachineSpec \<Rightarrow> bool" where
  "machineSpec_DeepEqual a b \<longleftrightarrow>
     str_map_DeepEqual (ms_Tags a) (ms_Tags b) \<and> a\<lparr>ms_Tags := ms_Tags b\<rparr> = b"

definition templateSpec :: "'q CloudscaleMachineTemplate \<Rightarrow> CloudscaleMachineSpec" where
  "templateSpec t = tr_Spec (mts_Template (mt_Spec t))"

definition Template_Default :: "'q CloudscaleMachineTemplate \<Rightarrow> 'q CloudscaleMachineTemplate" where
  "Template_Default obj =
     obj\<lparr>mt_Spec := (mt_Spec obj)\<lparr>mts_Template := (mts_Template (mt_Spec obj))\<lparr>tr_Spec :=
       (templateSpec obj)\<lparr>ms_Interfaces := defaultInterfaceIPFamily (ms_Interfaces (templateSpec obj))\<rparr>\<rparr>\<rparr>\<rparr>"

definition Template_ValidateCreate ::
  "FlavorInfo option \<Rightarrow> 'q CloudscaleMachineTemplate \<Rightarrow> admission_answer" where
  "Template_ValidateCreate flavorInfo obj =
     answer [] ''CloudscaleMachineTemplate'' (om_Name (mt_Meta obj))
       (validateMachineSpec (templateSpec obj) flavorInfo (NewPath [''spec'', ''template'', ''spec'']))"

definition Template_ValidateUpdate ::
  "go_error + 'r \<Rightarrow> ('r \<Rightarrow> 'q CloudscaleMachineTemplate \<Rightarrow> bool) \<Rightarrow>
   'q CloudscaleMachineTemplate \<Rightarrow> 'q CloudscaleMachineTemplate \<Rightarrow> admission_answer" where
  "Template_ValidateUpdate request IsDryRunRequest oldObj newObj =
     (case request of
        Inl err \<Rightarrow>
          ([], Some (NewBadRequest
                 (fmt_Sprintf ''expected an admission.Request inside context: %v'' [FE err])))
      | Inr req \<Rightarrow>
          if \<not> IsDryRunRequest req newObj \<and> \<not> machineSpec_DeepEqual (templateSpec newObj) (templateSpec oldObj)
          then ([], Some (NewInvalid ''CloudscaleMachineTemplate'' (om_Name (mt_Meta newObj))
                       [Forbidden (NewPath [''spec'', ''template'', ''spec'']) ''field is immutable'']))
          else ([], None))"

definition Template_ValidateDelete :: "'q CloudscaleMachineTemplate \<Rightarrow> admission_answer" where
  "Template_ValidateDelete obj = ([], None)"

section \<open>What an admitted spec satisfies\<close>

abbreviation tagList :: "CloudscaleMachineSpec \<Rightarrow> str_map" where
  "tagList spec \<equiv> (case ms_Tags spec of None \<Rightarrow> [] | Some kvs \<Rightarrow> kvs)"

definition reserved :: "string \<Rightarrow> bool" where
  "reserved key \<longleftrightarrow> (\<exists>rest. key = NameCloudscaleProviderPrefix @ rest)"

definition interface_ok :: "InterfaceSpec \<Rightarrow> bool" where
  "interface_ok i \<longleftrightarrow>
     (if_Type i = '''') = (if_Network i \<noteq> '''') \<and> (if_IPFamily i \<noteq> None \<longrightarrow> if_Type i = ''public'')"

definition interfaces_ok :: "InterfaceSpec list \<Rightarrow> bool" where
  "interfaces_ok is \<longleftrightarrow>
     list_all interface_ok is \<and> length (filter (\<lambda>i. if_Type i = ''public'') is) \<le> 1"

definition machine_ok :: "FlavorInfo option \<Rightarrow> CloudscaleMachineSpec \<Rightarrow> bool" where
  "machine_ok fi spec \<longleftrightarrow>
     (\<forall>f. fi = Some f \<longrightarrow> IsValidFlavor f (ms_Flavor spec)) \<and>
     list_all (\<lambda>kv. \<not> reserved (fst kv)) (tagList spec) \<and> interfaces_ok (elems (ms_Interfaces spec))"

text \<open>The fields an update keeps; the provider id may be set once.\<close>

definition machine_kept :: "CloudscaleMachineSpec \<Rightarrow> CloudscaleMachineSpec \<Rightarrow> bool" where
  "machine_kept old new \<longleftrightarrow>
     ms_Image new = ms_Image old \<and> ms_Flavor new = ms_Flavor old \<and>
     ms_RootVolumeSize new = ms_RootVolumeSize old \<and> ms_Interfaces new = ms_Interfaces old \<and>
     ms_ServerGroup new = ms_ServerGroup old \<and>
     (ms_ProviderID old \<noteq> None \<longrightarrow> ms_ProviderID new = ms_ProviderID old)"

lemma HasPrefix_reserved: "strings_HasPrefix k NameCloudscaleProviderPrefix \<longleftrightarrow> reserved k"
  unfolding strings_HasPrefix_def reserved_def by (metis append_eq_conv_conj append_take_drop_id)

lemma validateTags_iff:
  "validateTags tags p = [] \<longleftrightarrow>
     list_all (\<lambda>kv. \<not> reserved (fst kv)) (case tags of None \<Rightarrow> [] | Some kvs \<Rightarrow> kvs)"
  by (auto simp: validateTags_def HasPrefix_reserved list_all_iff split: option.split)

lemma validateInterface_iff: "validateInterface p i = [] \<longleftrightarrow> interface_ok i"
  by (auto simp: validateInterface_def interface_ok_def split: option.split)

lemma validateInterfaces_iff: "validateInterfaces is p = [] \<longleftrightarrow> interfaces_ok (elems is)"
  using rangeErrs_Nil_iff
    [of "elems is" "\<lambda>i. validateInterface (Index p i)" interface_ok 0, OF validateInterface_iff]
  by (auto simp: validateInterfaces_def interfaces_ok_def Let_def)

lemma validateMachineSpec_iff: "validateMachineSpec spec fi p = [] \<longleftrightarrow> machine_ok fi spec"
  by (auto simp: validateMachineSpec_def machine_ok_def validateTags_iff validateInterfaces_iff
      split: option.split)

lemma validateMachineSpecUpdate_iff:
  "validateMachineSpecUpdate new old p = [] \<longleftrightarrow>
     machine_kept old new \<and> list_all (\<lambda>kv. \<not> reserved (fst kv)) (tagList new)"
  by (auto simp: validateMachineSpecUpdate_def machine_kept_def validateTags_iff split: option.split)

lemma machine_kept_refl [simp]: "machine_kept spec spec"
  by (simp add: machine_kept_def)

lemma machine_kept_trans: "machine_kept a b \<Longrightarrow> machine_kept b c \<Longrightarrow> machine_kept a c"
  by (auto simp: machine_kept_def)

lemma machine_ok_kept:
  "machine_ok fi old \<Longrightarrow> machine_kept old new \<Longrightarrow>
     list_all (\<lambda>kv. \<not> reserved (fst kv)) (tagList new) \<Longrightarrow> machine_ok fi new"
  by (simp add: machine_ok_def machine_kept_def)

section \<open>Defaulting\<close>

lemma defaultInterfaceIPFamily_idem [simp]:
  "defaultInterfaceIPFamily (defaultInterfaceIPFamily is) = defaultInterfaceIPFamily is"
  by (cases "is") (simp_all add: defaultInterfaceIPFamily_def)

lemma interfaces_ok_default:
  "interfaces_ok (elems (defaultInterfaceIPFamily is)) \<longleftrightarrow> interfaces_ok (elems is)"
proof (cases "is")
  case (Some xs)
  let ?f = "\<lambda>i. if if_Type i = ''public'' \<and> if_IPFamily i = None
      then i\<lparr>if_IPFamily := Some IPFamilyDualStack\<rparr> else i"
  have "list_all interface_ok (map ?f xs) = list_all interface_ok xs"
    by (induction xs) (simp_all add: interface_ok_def)
  moreover have "length (filter (\<lambda>i. if_Type i = ''public'') (map ?f xs)) =
      length (filter (\<lambda>i. if_Type i = ''public'') xs)"
    by (induction xs) auto
  ultimately show ?thesis
    using Some by (simp only: defaultInterfaceIPFamily_def interfaces_ok_def elems_simps option.map)
qed (simp add: defaultInterfaceIPFamily_def)

lemma Machine_Default_idem: "Machine_Default (Machine_Default m) = Machine_Default m"
  by (simp add: Machine_Default_def)

lemma Machine_Default_valid:
  "accepted (Machine_ValidateCreate fi (Machine_Default m)) \<longleftrightarrow> accepted (Machine_ValidateCreate fi m)"
  by (simp add: Machine_ValidateCreate_def validateMachineSpec_iff Machine_Default_def machine_ok_def
      interfaces_ok_default)

section \<open>The history of a machine\<close>

abbreviation machine_admitted :: "FlavorInfo option \<Rightarrow> CloudscaleMachine \<Rightarrow> CloudscaleMachine \<Rightarrow> bool" where
  "machine_admitted fi \<equiv> admitted Machine_Default (Machine_ValidateCreate fi) Machine_ValidateUpdate"

interpretation madm: admission Machine_Default "Machine_ValidateCreate fi" Machine_ValidateUpdate
  "\<lambda>m. machine_ok fi (cm_Spec m)" "\<lambda>old new. machine_kept (cm_Spec old) (cm_Spec new)" for fi
  by unfold_locales
    (auto simp: Machine_ValidateCreate_def Machine_ValidateUpdate_def validateMachineSpec_iff
      validateMachineSpecUpdate_iff Machine_Default_idem intro: machine_ok_kept machine_kept_trans)

section \<open>What the machine controller may rely on\<close>

lemma MachineTagKey_reserved: "reserved (MachineTagKey m c)"
  by (simp add: reserved_def MachineTagKey_def NameCloudscaleProviderOwned_def)

lemma machine_ok_tags:
  "machine_ok fi (cm_Spec m) \<Longrightarrow> matches_filter (machineLookupTag S m) (machineCreateTags S m)"
  by (rule machineCreateTags_lookup)
    (fastforce simp: machine_ok_def list_all_iff MachineTagKey_reserved)

text \<open>
  The schema admits only \<^verbatim>\<open>public\<close> as a type. With every referenced network provisioned, the
  interfaces of an admitted spec resolve to a request.
\<close>

definition networks_known :: "CloudscaleClusterStatus \<Rightarrow> InterfaceSpec list \<Rightarrow> bool" where
  "networks_known st is \<longleftrightarrow>
     list_all (\<lambda>i. if_Network i \<noteq> '''' \<longrightarrow>
       (case GetNetworkStatus st (if_Network i) of None \<Rightarrow> False | Some ns \<Rightarrow> ns_NetworkID ns \<noteq> '''')) is"

definition types_in_schema :: "InterfaceSpec list \<Rightarrow> bool" where
  "types_in_schema is \<longleftrightarrow> list_all (\<lambda>i. if_Type i = '''' \<or> if_Type i = ''public'') is"

lemma interfaces_resolve:
  assumes "interfaces_ok is" and "types_in_schema is" and "networks_known st is"
  shows "list_all (\<lambda>i. resolveInterface st i \<noteq> None) is"
  using assms
  by (auto simp: list_all_iff interfaces_ok_def types_in_schema_def networks_known_def interface_ok_def
      resolveInterface_def InterfaceTypePublic_def split: option.splits)

lemma interface_requests_total:
  assumes "interfaces_ok (elems (ms_Interfaces (cm_Spec m)))"
    and "types_in_schema (elems (ms_Interfaces (cm_Spec m)))"
    and "networks_known (cl_Status (msc_CloudscaleCluster S)) (elems (ms_Interfaces (cm_Spec m)))"
    and "cst_Networks (cl_Status (msc_CloudscaleCluster S)) \<noteq> []"
  shows "\<exists>r. buildInterfaceRequests S m = Inr r"
  using interfaceRequestsFrom_total [OF interfaces_resolve [OF assms(1-3)]] assms(4)
  by (auto simp: buildInterfaceRequests_def Let_def neq_Nil_conv)

section \<open>Templates\<close>

lemma machineSpec_DeepEqual_iff:
  "machineSpec_DeepEqual a b \<longleftrightarrow>
     map_option map_of (ms_Tags a) = map_option map_of (ms_Tags b) \<and> a\<lparr>ms_Tags := ms_Tags b\<rparr> = b"
  by (simp add: machineSpec_DeepEqual_def str_map_DeepEqual_iff)

lemma Template_ValidateUpdate_iff:
  "accepted (Template_ValidateUpdate (Inr req) dry old new) \<longleftrightarrow>
     dry req new \<or> machineSpec_DeepEqual (templateSpec new) (templateSpec old)"
  by (simp add: Template_ValidateUpdate_def accepted_def)

text \<open>A machine stamped out of an admitted template, with the template's spec, is admitted.\<close>

lemma Template_machine_admitted:
  "accepted (Template_ValidateCreate fi t) \<Longrightarrow> cm_Spec m = templateSpec t \<Longrightarrow>
     accepted (Machine_ValidateCreate fi m)"
  by (simp add: Template_ValidateCreate_def Machine_ValidateCreate_def validateMachineSpec_iff)

end
