(* ===== verification/Cluster_Webhook.thy ===== *)
theory Cluster_Webhook
  imports Webhook_Field Netip Region_Flavor
begin

text \<open>
  Defaulting and validation of CloudscaleCluster and CloudscaleClusterTemplate,
  \<^verbatim>\<open>cloudscalecluster_webhook.go\<close> and \<^verbatim>\<open>cloudscaleclustertemplate_webhook.go\<close>: every validator with
  its errors in the order the code appends them, then what an admitted spec satisfies, what an
  update keeps, and what holds of every object that the webhooks let through.
\<close>

section \<open>Defaulting\<close>

definition defaultSubnetCIDR :: string where "defaultSubnetCIDR = ''172.18.0.0/24''"

definition orDefault :: "'a \<Rightarrow> 'a \<Rightarrow> 'a \<Rightarrow> 'a" where
  "orDefault zero d x = (if x = zero then d else x)"

definition clusterSpecDefault :: "CloudscaleClusterSpec \<Rightarrow> CloudscaleClusterSpec" where
  "clusterSpecDefault spec =
     (let lb = cs_ControlPlaneLoadBalancer spec;
          hm = lb_HealthMonitor lb;
          hm' = \<lparr>hm_DelayS = orDefault 0 5 (hm_DelayS hm),
                 hm_TimeoutS = orDefault 0 3 (hm_TimeoutS hm),
                 hm_UpThreshold = orDefault 0 2 (hm_UpThreshold hm),
                 hm_DownThreshold = orDefault 0 3 (hm_DownThreshold hm)\<rparr>;
          lb' = lb\<lparr>lb_Enabled := (case lb_Enabled lb of None \<Rightarrow> Some True | Some e \<Rightarrow> Some e),
                   lb_Algorithm := orDefault '''' ''round_robin'' (lb_Algorithm lb),
                   lb_Flavor := orDefault '''' ''lb-standard'' (lb_Flavor lb),
                   lb_APIServerPort := orDefault 0 6443 (lb_APIServerPort lb),
                   lb_HealthMonitor := hm'\<rparr>
      in spec\<lparr>cs_ControlPlaneLoadBalancer := lb',
              cs_FloatingIP := map_option (\<lambda>fip.
                if fips_IPFamily fip = None \<and> fips_Address fip = ''''
                then fip\<lparr>fips_IPFamily := Some IPFamilyIPv4\<rparr> else fip) (cs_FloatingIP spec)\<rparr>)"

definition Cluster_Default :: "RegionInfo \<Rightarrow> CloudscaleCluster \<Rightarrow> CloudscaleCluster" where
  "Cluster_Default ri cluster =
     (let spec = cl_Spec cluster;
          spec1 = (if cs_Zone spec = ''''
                   then spec\<lparr>cs_Zone := GetDefaultZoneForRegion ri (cs_Region spec)\<rparr> else spec);
          spec2 = (if elems (cs_Networks spec1) = []
                   then spec1\<lparr>cs_Networks := Some [\<lparr>net_Name = om_Name (cl_Meta cluster), net_UUID = '''',
                          net_CIDR = defaultSubnetCIDR, net_MTU = 0, net_GatewayAddress = ''''\<rparr>]\<rparr>
                   else spec1)
      in cluster\<lparr>cl_Spec := clusterSpecDefault spec2\<rparr>)"

section \<open>Validators\<close>

definition validateAddressInCIDR :: "string \<Rightarrow> string \<Rightarrow> field_path \<Rightarrow> FieldError list" where
  "validateAddressInCIDR cidr address fldPath =
     (case netip_ParsePrefix cidr of
        Inl _ \<Rightarrow> []
      | Inr prefix \<Rightarrow>
          (case netip_ParseAddr address of
             Inl err \<Rightarrow> [Invalid fldPath address (fmt_Sprintf ''invalid IP address: %s'' [FE err])]
           | Inr ip \<Rightarrow>
               errIf (\<not> Prefix_Contains prefix ip)
                 (Invalid fldPath address (fmt_Sprintf ''must be within CIDR %s'' [FS cidr]))))"

text \<open>One pass of the loop of \<^verbatim>\<open>validateNetworks\<close>, with the names seen before.\<close>

definition validateNetwork :: "string list \<Rightarrow> field_path \<Rightarrow> NetworkSpec \<Rightarrow> FieldError list" where
  "validateNetwork names netPath netSpec =
     (let hasUUID = net_UUID netSpec \<noteq> ''''; hasCIDR = net_CIDR netSpec \<noteq> '''' in
      errIf (net_Name netSpec \<in> set names) (Duplicate (Child netPath ''name'') (net_Name netSpec)) @
      errIf (hasUUID = hasCIDR)
        (Invalid netPath (net_Name netSpec) ''exactly one of uuid or cidr must be specified'') @
      (if hasCIDR then
         (case netip_ParsePrefix (net_CIDR netSpec) of
            Inl err \<Rightarrow> [Invalid (Child netPath ''cidr'') (net_CIDR netSpec)
                          (fmt_Sprintf ''invalid CIDR: %v'' [FE err])]
          | Inr _ \<Rightarrow> [])
       else []) @
      errIf (net_GatewayAddress netSpec \<noteq> '''' \<and> \<not> hasCIDR)
        (Invalid (Child netPath ''gatewayAddress'') (net_GatewayAddress netSpec)
           ''gatewayAddress can only be set when cidr is specified'') @
      (if net_GatewayAddress netSpec \<noteq> '''' \<and> hasCIDR then
         validateAddressInCIDR (net_CIDR netSpec) (net_GatewayAddress netSpec)
           (Child netPath ''gatewayAddress'')
       else []))"

fun validateNetworksFrom ::
  "field_path \<Rightarrow> int \<Rightarrow> string list \<Rightarrow> NetworkSpec list \<Rightarrow> FieldError list" where
  "validateNetworksFrom fldPath i names [] = []"
| "validateNetworksFrom fldPath i names (netSpec # networks) =
     validateNetwork names (Index fldPath i) netSpec @
     validateNetworksFrom fldPath (i + 1) (net_Name netSpec # names) networks"

definition validateNetworks :: "NetworkSpec slice \<Rightarrow> field_path \<Rightarrow> FieldError list" where
  "validateNetworks networks fldPath = validateNetworksFrom fldPath 0 [] (elems networks)"

definition validateNetworkReference ::
  "string \<Rightarrow> NetworkSpec slice \<Rightarrow> field_path \<Rightarrow> FieldError list" where
  "validateNetworkReference networkName networks fldPath =
     errIf (\<not> list_ex (\<lambda>n. net_Name n = networkName) (elems networks)) (NotFound fldPath networkName)"

definition immutableMsg :: string where
  "immutableMsg = ''field is immutable after cluster creation''"

definition validateNetworkImmutability ::
  "NetworkSpec slice \<Rightarrow> NetworkSpec slice \<Rightarrow> field_path \<Rightarrow> FieldError list" where
  "validateNetworkImmutability oldNetworks newNetworks fldPath =
     concat (map (\<lambda>oldNet.
       case index_by net_Name (elems newNetworks) (net_Name oldNet) of
         None \<Rightarrow> [Forbidden fldPath
                     (fmt_Sprintf ''removing network %q is not allowed'' [FS (net_Name oldNet)])]
       | Some newNet \<Rightarrow>
           let newPath = Index fldPath (position_by net_Name (elems newNetworks) (net_Name oldNet)) in
           errIf (net_CIDR newNet \<noteq> net_CIDR oldNet) (Forbidden (Child newPath ''cidr'') immutableMsg) @
           errIf (net_UUID newNet \<noteq> net_UUID oldNet) (Forbidden (Child newPath ''uuid'') immutableMsg) @
           errIf (net_MTU newNet \<noteq> net_MTU oldNet) (Forbidden (Child newPath ''mtu'') immutableMsg) @
           errIf (net_GatewayAddress newNet \<noteq> net_GatewayAddress oldNet)
             (Forbidden (Child newPath ''gatewayAddress'') immutableMsg))
       (elems oldNetworks))"

definition indexNetworks :: "NetworkSpec slice \<Rightarrow> string \<Rightarrow> NetworkSpec option" where
  "indexNetworks networks = index_by net_Name (elems networks)"

definition validateRouterInterface ::
  "RouterInterfaceSpec \<Rightarrow> (string \<Rightarrow> NetworkSpec option) \<Rightarrow> bool \<Rightarrow> field_path \<Rightarrow> FieldError list" where
  "validateRouterInterface ifaceSpec networks routerAdopted ifacePath =
     (case networks (ri_Network ifaceSpec) of
        None \<Rightarrow> [NotFound (Child ifacePath ''network'') (ri_Network ifaceSpec)]
      | Some network \<Rightarrow>
          if ri_UUID ifaceSpec \<noteq> '''' then
            errIf (\<not> routerAdopted) (Forbidden (Child ifacePath ''uuid'')
              ''only a router referenced by uuid carries pre-existing interfaces to adopt'') @
            errIf (ri_Address ifaceSpec \<noteq> '''') (Forbidden (Child ifacePath ''address'')
              ''the address of an adopted interface is read from the interface itself, so it cannot be requested'')
          else if ri_Address ifaceSpec = '''' then
            [Required (Child ifacePath ''address'') ''router interface address must be set explicitly'']
          else if net_CIDR network = '''' then []
          else validateAddressInCIDR (net_CIDR network) (ri_Address ifaceSpec) (Child ifacePath ''address''))"

definition validateSingleRouter ::
  "RouterSpec \<Rightarrow> (string \<Rightarrow> NetworkSpec option) \<Rightarrow> field_path \<Rightarrow> FieldError list" where
  "validateSingleRouter routerSpec networks routerPath =
     errIf (rt_UUID routerSpec \<noteq> '''' \<and> rt_InternetGateway routerSpec)
       (Invalid routerPath (rt_Name routerSpec) ''uuid and internetGateway are mutually exclusive'') @
     rangeErrs (\<lambda>j ifaceSpec. validateRouterInterface ifaceSpec networks (rt_UUID routerSpec \<noteq> '''')
         (Index (Child routerPath ''interfaces'') j)) 0 (elems (rt_Interfaces routerSpec))"

definition validateRouters ::
  "RouterSpec slice \<Rightarrow> NetworkSpec slice \<Rightarrow> field_path \<Rightarrow> FieldError list" where
  "validateRouters routers networks fldPath =
     rangeErrs (\<lambda>i routerSpec. validateSingleRouter routerSpec (indexNetworks networks) (Index fldPath i))
       0 (elems routers)"

text \<open>The inner loop of \<^verbatim>\<open>validateRouterDiff\<close>, for one interface of an old router.\<close>

definition validateInterfaceDiff ::
  "RouterSpec \<Rightarrow> field_path \<Rightarrow> RouterInterfaceSpec \<Rightarrow> FieldError list" where
  "validateInterfaceDiff newRouter newPath oldIface =
     (let ifacePath = Child newPath ''interfaces'' in
      case index_by ri_Network (elems (rt_Interfaces newRouter)) (ri_Network oldIface) of
        None \<Rightarrow> [Forbidden ifacePath
                   (fmt_Sprintf ''removing interface for network %q is not allowed'' [FS (ri_Network oldIface)])]
      | Some newIface \<Rightarrow>
          errIf (ri_Address newIface \<noteq> ri_Address oldIface)
            (Forbidden ifacePath (fmt_Sprintf ''address for network %q is immutable after cluster creation''
               [FS (ri_Network newIface)])) @
          errIf (ri_UUID newIface \<noteq> ri_UUID oldIface)
            (Forbidden ifacePath (fmt_Sprintf ''uuid for network %q is immutable after cluster creation''
               [FS (ri_Network newIface)])))"

definition validateRouterDiff ::
  "RouterSpec slice \<Rightarrow> RouterSpec slice \<Rightarrow> field_path \<Rightarrow> FieldError list" where
  "validateRouterDiff oldRouters newRouters fldPath =
     concat (map (\<lambda>oldRouter.
       case index_by rt_Name (elems newRouters) (rt_Name oldRouter) of
         None \<Rightarrow> [Forbidden fldPath
                     (fmt_Sprintf ''removing router %q is not allowed'' [FS (rt_Name oldRouter)])]
       | Some newRouter \<Rightarrow>
           let newPath = Index fldPath (position_by rt_Name (elems newRouters) (rt_Name oldRouter)) in
           errIf (rt_UUID newRouter \<noteq> rt_UUID oldRouter) (Forbidden (Child newPath ''uuid'') immutableMsg) @
           errIf (rt_InternetGateway newRouter \<noteq> rt_InternetGateway oldRouter)
             (Forbidden (Child newPath ''internetGateway'') immutableMsg) @
           concat (map (validateInterfaceDiff newRouter newPath) (elems (rt_Interfaces oldRouter))))
       (elems oldRouters))"

definition validateFloatingIPRequiresLBOrPreExisting ::
  "CloudscaleClusterSpec \<Rightarrow> field_path \<Rightarrow> FieldError list" where
  "validateFloatingIPRequiresLBOrPreExisting spec fldPath =
     (case cs_FloatingIP spec of
        None \<Rightarrow> []
      | Some fip \<Rightarrow>
          errIf (fips_Address fip = '''' \<and> \<not> ptr_Deref (lb_Enabled (cs_ControlPlaneLoadBalancer spec)) True)
            (Invalid (Child fldPath ''floatingIP'') ''''
               ''managed floating IP requires the load balancer to be enabled; use a pre-existing floating IP if you need a floating IP without a load balancer''))"

definition validateLBImmutability ::
  "LoadBalancerSpec \<Rightarrow> LoadBalancerSpec \<Rightarrow> field_path \<Rightarrow> FieldError list" where
  "validateLBImmutability oldLB newLB fldPath =
     (let oldHM = lb_HealthMonitor oldLB; newHM = lb_HealthMonitor newLB;
          hmPath = Child fldPath ''healthMonitor'' in
      errIf (lb_Algorithm oldLB \<noteq> lb_Algorithm newLB) (Forbidden (Child fldPath ''algorithm'') immutableMsg) @
      errIf (lb_Flavor oldLB \<noteq> lb_Flavor newLB) (Forbidden (Child fldPath ''flavor'') immutableMsg) @
      errIf (lb_APIServerPort oldLB \<noteq> lb_APIServerPort newLB)
        (Forbidden (Child fldPath ''apiServerPort'') immutableMsg) @
      errIf (lb_PoolMemberNetwork oldLB \<noteq> lb_PoolMemberNetwork newLB)
        (Forbidden (Child fldPath ''poolMemberNetwork'') immutableMsg) @
      errIf (hm_DelayS oldHM \<noteq> hm_DelayS newHM) (Forbidden (Child hmPath ''delayS'') immutableMsg) @
      errIf (hm_TimeoutS oldHM \<noteq> hm_TimeoutS newHM) (Forbidden (Child hmPath ''timeoutS'') immutableMsg) @
      errIf (hm_UpThreshold oldHM \<noteq> hm_UpThreshold newHM)
        (Forbidden (Child hmPath ''upThreshold'') immutableMsg) @
      errIf (hm_DownThreshold oldHM \<noteq> hm_DownThreshold newHM)
        (Forbidden (Child hmPath ''downThreshold'') immutableMsg))"

definition validateFloatingIPRequiresPublicLB ::
  "CloudscaleClusterSpec \<Rightarrow> field_path \<Rightarrow> FieldError list" where
  "validateFloatingIPRequiresPublicLB spec fldPath =
     errIf (cs_FloatingIP spec \<noteq> None \<and> ptr_Deref (lb_Enabled (cs_ControlPlaneLoadBalancer spec)) True \<and>
            lb_Network (cs_ControlPlaneLoadBalancer spec) \<noteq> '''')
       (Invalid (Child fldPath ''floatingIP'') ''''
          ''floating IPs cannot be attached to a load balancer with a private VIP; use a public load balancer or remove the floating IP'')"

definition validateLBPoolMemberNetworkResolvable ::
  "CloudscaleClusterSpec \<Rightarrow> field_path \<Rightarrow> FieldError list" where
  "validateLBPoolMemberNetworkResolvable spec fldPath =
     (let lb = cs_ControlPlaneLoadBalancer spec in
      if \<not> ptr_Deref (lb_Enabled lb) True then []
      else if lb_Network lb \<noteq> '''' \<or> lb_PoolMemberNetwork lb \<noteq> '''' then []
      else if length (elems (cs_Networks spec)) \<le> 1 then []
      else [Required (Child fldPath ''controlPlaneLoadBalancer'')
              ''controlPlaneLoadBalancer.network or controlPlaneLoadBalancer.poolMemberNetwork must be set to one of spec.networks[].name when multiple networks are defined; the load balancer pool members need an explicit subnet to attach to''])"

definition validateFloatingIP :: "FloatingIPSpec \<Rightarrow> field_path \<Rightarrow> FieldError list" where
  "validateFloatingIP fip fldPath =
     (let hasIPFamily = fips_IPFamily fip \<noteq> None; hasIP = fips_Address fip \<noteq> '''' in
      errIf (hasIPFamily = hasIP)
        (Invalid fldPath '''' ''exactly one of ipFamily or ip must be specified'') @
      (case netip_ParseAddr (fips_Address fip) of
         Inl err \<Rightarrow>
           errIf hasIP (Invalid (Child fldPath ''ip'') (fips_Address fip)
             (fmt_Sprintf ''must be a valid IP address: %s'' [FE err]))
       | Inr _ \<Rightarrow> []))"

definition validateFloatingIPImmutability ::
  "FloatingIPSpec option \<Rightarrow> FloatingIPSpec option \<Rightarrow> field_path \<Rightarrow> FieldError list" where
  "validateFloatingIPImmutability oldFIP newFIP fldPath =
     (case (oldFIP, newFIP) of
        (None, None) \<Rightarrow> []
      | (None, Some _) \<Rightarrow> [Forbidden fldPath ''floating IP cannot be added after cluster creation'']
      | (Some _, None) \<Rightarrow> [Forbidden fldPath ''floating IP cannot be removed after cluster creation'']
      | (Some old, Some new) \<Rightarrow>
          errIf (fips_Address old \<noteq> fips_Address new)
            (Forbidden (Child fldPath ''ip'') ''field is immutable once set'') @
          errIf (ptr_Deref (fips_IPFamily old) '''' \<noteq> ptr_Deref (fips_IPFamily new) '''')
            (Forbidden (Child fldPath ''ipFamily'') ''field is immutable once set''))"

definition routerHasGateway :: "NetworkSpec slice \<Rightarrow> RouterSpec \<Rightarrow> bool" where
  "routerHasGateway networks router \<longleftrightarrow>
     list_ex (\<lambda>iface. list_ex (\<lambda>network.
         net_Name network = ri_Network iface \<and> net_GatewayAddress network \<noteq> '''') (elems networks))
       (elems (rt_Interfaces router))"

definition checkSNATConfiguration :: "CloudscaleClusterSpec \<Rightarrow> string list" where
  "checkSNATConfiguration spec =
     map (\<lambda>router. fmt_Sprintf ''Router %q has internetGateway enabled but no gatewayAddress is set on its attached networks. Set networks[].gatewayAddress to enable SNAT for outbound internet access.''
           [FS (rt_Name router)])
       (filter (\<lambda>router. rt_InternetGateway router \<and> \<not> routerHasGateway (cs_Networks spec) router)
          (elems (cs_Routers spec)))"

section \<open>The webhooks\<close>

text \<open>The checks of network references, floating IP and load balancer that creation and update share.\<close>

definition validateReferences :: "CloudscaleClusterSpec \<Rightarrow> field_path \<Rightarrow> FieldError list" where
  "validateReferences spec fldPath =
     (let lb = cs_ControlPlaneLoadBalancer spec; lbPath = Child fldPath ''controlPlaneLoadBalancer'' in
      (if lb_Network lb \<noteq> '''' then
         validateNetworkReference (lb_Network lb) (cs_Networks spec) (Child lbPath ''network'')
       else []) @
      (if lb_PoolMemberNetwork lb \<noteq> '''' then
         validateNetworkReference (lb_PoolMemberNetwork lb) (cs_Networks spec) (Child lbPath ''poolMemberNetwork'')
       else []))"

definition validateFloatingIPConfig :: "CloudscaleClusterSpec \<Rightarrow> field_path \<Rightarrow> FieldError list" where
  "validateFloatingIPConfig spec fldPath =
     (case cs_FloatingIP spec of None \<Rightarrow> [] | Some fip \<Rightarrow> validateFloatingIP fip (Child fldPath ''floatingIP'')) @
     validateFloatingIPRequiresLBOrPreExisting spec fldPath @
     validateFloatingIPRequiresPublicLB spec fldPath @
     validateLBPoolMemberNetworkResolvable spec fldPath"

definition clusterSpecValidateCreate ::
  "CloudscaleClusterSpec \<Rightarrow> RegionInfo \<Rightarrow> field_path \<Rightarrow> FieldError list" where
  "clusterSpecValidateCreate spec regionInfo fldPath =
     errIf (cs_Zone spec \<noteq> '''' \<and> \<not> ZoneBelongsToRegion regionInfo (cs_Zone spec) (cs_Region spec))
       (Invalid (Child fldPath ''zone'') (cs_Zone spec)
          (fmt_Sprintf ''zone must belong to region %q'' [FS (cs_Region spec)])) @
     validateNetworks (cs_Networks spec) (Child fldPath ''networks'') @
     validateRouters (cs_Routers spec) (cs_Networks spec) (Child fldPath ''routers'') @
     validateReferences spec fldPath @
     validateFloatingIPConfig spec fldPath"

definition Cluster_ValidateCreate :: "RegionInfo \<Rightarrow> CloudscaleCluster \<Rightarrow> admission_answer" where
  "Cluster_ValidateCreate ri cluster =
     answer (checkSNATConfiguration (cl_Spec cluster)) ''CloudscaleCluster'' (om_Name (cl_Meta cluster))
       (clusterSpecValidateCreate (cl_Spec cluster) ri (NewPath [''spec'']))"

definition validateEndpointImmutability :: "APIEndpoint \<Rightarrow> APIEndpoint \<Rightarrow> FieldError list" where
  "validateEndpointImmutability old new =
     (if ep_Host old \<noteq> '''' then
        errIf (ep_Host new \<noteq> ep_Host old)
          (Forbidden (NewPath [''spec'', ''controlPlaneEndpoint'', ''host'']) ''field is immutable once set'') @
        errIf (ep_Port new \<noteq> ep_Port old)
          (Forbidden (NewPath [''spec'', ''controlPlaneEndpoint'', ''port'']) ''field is immutable once set'')
      else [])"

definition clusterSpecValidateUpdate :: "CloudscaleClusterSpec \<Rightarrow> CloudscaleClusterSpec \<Rightarrow> FieldError list" where
  "clusterSpecValidateUpdate old new =
     (let oldLB = cs_ControlPlaneLoadBalancer old; newLB = cs_ControlPlaneLoadBalancer new in
      errIf (cs_Region new \<noteq> cs_Region old) (Forbidden (NewPath [''spec'', ''region'']) immutableMsg) @
      errIf (cs_Zone new \<noteq> cs_Zone old) (Forbidden (NewPath [''spec'', ''zone'']) immutableMsg) @
      validateNetworkImmutability (cs_Networks old) (cs_Networks new) (NewPath [''spec'', ''networks'']) @
      validateNetworks (cs_Networks new) (NewPath [''spec'', ''networks'']) @
      validateRouters (cs_Routers new) (cs_Networks new) (NewPath [''spec'', ''routers'']) @
      validateRouterDiff (cs_Routers old) (cs_Routers new) (NewPath [''spec'', ''routers'']) @
      errIf (ptr_Deref (lb_Enabled newLB) True \<noteq> ptr_Deref (lb_Enabled oldLB) True)
        (Forbidden (NewPath [''spec'', ''controlPlaneLoadBalancer'', ''enabled'']) immutableMsg) @
      errIf (lb_Network newLB \<noteq> lb_Network oldLB)
        (Forbidden (NewPath [''spec'', ''controlPlaneLoadBalancer'', ''network'']) ''field is immutable once set'') @
      validateLBImmutability oldLB newLB (NewPath [''spec'', ''controlPlaneLoadBalancer'']) @
      validateReferences new (NewPath [''spec'']) @
      validateEndpointImmutability (cs_ControlPlaneEndpoint old) (cs_ControlPlaneEndpoint new) @
      validateFloatingIPImmutability (cs_FloatingIP old) (cs_FloatingIP new) (NewPath [''spec'', ''floatingIP'']) @
      validateFloatingIPConfig new (NewPath [''spec'']))"

definition Cluster_ValidateUpdate :: "CloudscaleCluster \<Rightarrow> CloudscaleCluster \<Rightarrow> admission_answer" where
  "Cluster_ValidateUpdate oldCluster newCluster =
     answer (checkSNATConfiguration (cl_Spec newCluster)) ''CloudscaleCluster'' (om_Name (cl_Meta newCluster))
       (clusterSpecValidateUpdate (cl_Spec oldCluster) (cl_Spec newCluster))"

definition Cluster_ValidateDelete :: "CloudscaleCluster \<Rightarrow> admission_answer" where
  "Cluster_ValidateDelete obj = ([], None)"

subsection \<open>CloudscaleClusterTemplate\<close>

record CloudscaleClusterTemplateResource =
  ctr_Labels :: "str_map option"
  ctr_Annotations :: "str_map option"
  ctr_Spec :: CloudscaleClusterSpec

record CloudscaleClusterTemplateSpec =
  cts_Template :: CloudscaleClusterTemplateResource

record CloudscaleClusterTemplate =
  ct_Meta :: ObjectMeta
  ct_Spec :: CloudscaleClusterTemplateSpec

definition ClusterTemplate_Default :: "CloudscaleClusterTemplate \<Rightarrow> CloudscaleClusterTemplate" where
  "ClusterTemplate_Default t =
     t\<lparr>ct_Spec := (ct_Spec t)\<lparr>cts_Template := (cts_Template (ct_Spec t))\<lparr>ctr_Spec :=
       clusterSpecDefault (ctr_Spec (cts_Template (ct_Spec t)))\<rparr>\<rparr>\<rparr>"

definition ClusterTemplate_ValidateCreate ::
  "RegionInfo \<Rightarrow> CloudscaleClusterTemplate \<Rightarrow> admission_answer" where
  "ClusterTemplate_ValidateCreate ri t =
     (let spec = ctr_Spec (cts_Template (ct_Spec t)) in
      answer (checkSNATConfiguration spec) ''CloudscaleClusterTemplate'' (om_Name (ct_Meta t))
        (clusterSpecValidateCreate spec ri (NewPath [''spec'', ''template'', ''spec''])))"

definition clusterTemplateSpec_DeepEqual ::
  "CloudscaleClusterTemplateSpec \<Rightarrow> CloudscaleClusterTemplateSpec \<Rightarrow> bool" where
  "clusterTemplateSpec_DeepEqual a b \<longleftrightarrow>
     str_map_DeepEqual (ctr_Labels (cts_Template a)) (ctr_Labels (cts_Template b)) \<and>
     str_map_DeepEqual (ctr_Annotations (cts_Template a)) (ctr_Annotations (cts_Template b)) \<and>
     ctr_Spec (cts_Template a) = ctr_Spec (cts_Template b)"

definition ClusterTemplate_ValidateUpdate ::
  "CloudscaleClusterTemplate \<Rightarrow> CloudscaleClusterTemplate \<Rightarrow> admission_answer" where
  "ClusterTemplate_ValidateUpdate oldObj newObj =
     (if \<not> clusterTemplateSpec_DeepEqual (ct_Spec newObj) (ct_Spec oldObj) then
        ([], Some (NewInvalid ''CloudscaleClusterTemplate'' (om_Name (ct_Meta newObj))
               [Forbidden (NewPath [''spec'']) ''CloudscaleClusterTemplate.Spec is immutable'']))
      else ([], None))"

definition ClusterTemplate_ValidateDelete :: "CloudscaleClusterTemplate \<Rightarrow> admission_answer" where
  "ClusterTemplate_ValidateDelete obj = ([], None)"

section \<open>What an admitted spec satisfies\<close>

definition address_in :: "string \<Rightarrow> string \<Rightarrow> bool" where
  "address_in cidr addr \<longleftrightarrow>
     (\<forall>p. netip_ParsePrefix cidr = Inr p \<longrightarrow> (\<exists>ip. netip_ParseAddr addr = Inr ip \<and> Prefix_Contains p ip))"

definition network_ok :: "NetworkSpec \<Rightarrow> bool" where
  "network_ok n \<longleftrightarrow>
     (net_UUID n = '''') = (net_CIDR n \<noteq> '''') \<and>
     (net_CIDR n \<noteq> '''' \<longrightarrow> (\<exists>p. netip_ParsePrefix (net_CIDR n) = Inr p)) \<and>
     (net_GatewayAddress n \<noteq> '''' \<longrightarrow> net_CIDR n \<noteq> '''' \<and> address_in (net_CIDR n) (net_GatewayAddress n))"

definition router_interface_ok :: "NetworkSpec slice \<Rightarrow> bool \<Rightarrow> RouterInterfaceSpec \<Rightarrow> bool" where
  "router_interface_ok networks adopted i \<longleftrightarrow>
     (\<exists>n. indexNetworks networks (ri_Network i) = Some n \<and>
        (if ri_UUID i \<noteq> '''' then adopted \<and> ri_Address i = ''''
         else ri_Address i \<noteq> '''' \<and> (net_CIDR n \<noteq> '''' \<longrightarrow> address_in (net_CIDR n) (ri_Address i))))"

definition router_spec_ok :: "NetworkSpec slice \<Rightarrow> RouterSpec \<Rightarrow> bool" where
  "router_spec_ok networks r \<longleftrightarrow>
     (rt_UUID r \<noteq> '''' \<longrightarrow> \<not> rt_InternetGateway r) \<and>
     list_all (router_interface_ok networks (rt_UUID r \<noteq> '''')) (elems (rt_Interfaces r))"

definition network_named :: "NetworkSpec slice \<Rightarrow> string \<Rightarrow> bool" where
  "network_named networks name \<longleftrightarrow> name = '''' \<or> name \<in> net_Name ` set (elems networks)"

definition fip_ok :: "CloudscaleClusterSpec \<Rightarrow> FloatingIPSpec \<Rightarrow> bool" where
  "fip_ok spec fip \<longleftrightarrow>
     (fips_IPFamily fip = None) = (fips_Address fip \<noteq> '''') \<and>
     (fips_Address fip \<noteq> '''' \<longrightarrow> (\<exists>ip. netip_ParseAddr (fips_Address fip) = Inr ip)) \<and>
     (let lb = cs_ControlPlaneLoadBalancer spec in
      if ptr_Deref (lb_Enabled lb) True then lb_Network lb = '''' else fips_Address fip \<noteq> '''')"

definition spec_ok :: "CloudscaleClusterSpec \<Rightarrow> bool" where
  "spec_ok spec \<longleftrightarrow>
     (let lb = cs_ControlPlaneLoadBalancer spec; networks = cs_Networks spec in
      distinct (map net_Name (elems networks)) \<and> list_all network_ok (elems networks) \<and>
      list_all (router_spec_ok networks) (elems (cs_Routers spec)) \<and>
      network_named networks (lb_Network lb) \<and> network_named networks (lb_PoolMemberNetwork lb) \<and>
      (\<forall>fip. cs_FloatingIP spec = Some fip \<longrightarrow> fip_ok spec fip) \<and>
      (ptr_Deref (lb_Enabled lb) True \<longrightarrow> lb_Network lb = '''' \<longrightarrow> lb_PoolMemberNetwork lb = '''' \<longrightarrow>
         length (elems networks) \<le> 1))"

definition zone_ok :: "RegionInfo \<Rightarrow> CloudscaleClusterSpec \<Rightarrow> bool" where
  "zone_ok ri spec \<longleftrightarrow> cs_Zone spec = '''' \<or> ZoneBelongsToRegion ri (cs_Zone spec) (cs_Region spec)"

lemma validateAddressInCIDR_iff: "validateAddressInCIDR cidr addr p = [] \<longleftrightarrow> address_in cidr addr"
  by (auto simp: validateAddressInCIDR_def address_in_def split: sum.split)

lemma validateNetwork_iff:
  "validateNetwork names p n = [] \<longleftrightarrow> net_Name n \<notin> set names \<and> network_ok n"
  by (auto simp: validateNetwork_def network_ok_def validateAddressInCIDR_iff Let_def split: sum.split)

lemma validateNetworksFrom_iff:
  "validateNetworksFrom p i names ns = [] \<longleftrightarrow>
     distinct (map net_Name ns) \<and> net_Name ` set ns \<inter> set names = {} \<and> list_all network_ok ns"
  by (induction ns arbitrary: i names) (auto simp: validateNetwork_iff)

lemma validateNetworks_iff:
  "validateNetworks ns p = [] \<longleftrightarrow> distinct (map net_Name (elems ns)) \<and> list_all network_ok (elems ns)"
  by (simp add: validateNetworks_def validateNetworksFrom_iff)

lemma validateRouterInterface_iff:
  "validateRouterInterface i (indexNetworks ns) adopted p = [] \<longleftrightarrow> router_interface_ok ns adopted i"
  by (auto simp: validateRouterInterface_def router_interface_ok_def validateAddressInCIDR_iff
      split: option.split)

lemma validateRouters_iff:
  "validateRouters rs ns p = [] \<longleftrightarrow> list_all (router_spec_ok ns) (elems rs)"
  unfolding validateRouters_def
proof (rule rangeErrs_Nil_iff)
  fix i and r :: RouterSpec
  have "rangeErrs (\<lambda>j i'. validateRouterInterface i' (indexNetworks ns) (rt_UUID r \<noteq> '''') (q j)) 0
      (elems (rt_Interfaces r)) = [] \<longleftrightarrow>
    list_all (router_interface_ok ns (rt_UUID r \<noteq> '''')) (elems (rt_Interfaces r))" for q
    by (rule rangeErrs_Nil_iff) (rule validateRouterInterface_iff)
  then show "validateSingleRouter r (indexNetworks ns) (Index p i) = [] \<longleftrightarrow> router_spec_ok ns r"
    by (auto simp: validateSingleRouter_def router_spec_ok_def)
qed

lemma validateReferences_iff:
  "validateReferences spec p = [] \<longleftrightarrow>
     network_named (cs_Networks spec) (lb_Network (cs_ControlPlaneLoadBalancer spec)) \<and>
     network_named (cs_Networks spec) (lb_PoolMemberNetwork (cs_ControlPlaneLoadBalancer spec))"
proof -
  have "list_ex (\<lambda>n. net_Name n = x) ns \<longleftrightarrow> x \<in> net_Name ` set ns" for x and ns :: "NetworkSpec list"
    by (auto simp: list_ex_iff)
  then show ?thesis
    by (simp add: validateReferences_def validateNetworkReference_def network_named_def Let_def)
qed

lemma validateFloatingIP_iff:
  "validateFloatingIP fip p = [] \<longleftrightarrow>
     (fips_IPFamily fip = None) = (fips_Address fip \<noteq> '''') \<and>
     (fips_Address fip \<noteq> '''' \<longrightarrow> (\<exists>ip. netip_ParseAddr (fips_Address fip) = Inr ip))"
  by (auto simp: validateFloatingIP_def Let_def split: sum.split)

lemmas fip_checks = validateFloatingIPConfig_def validateFloatingIPRequiresLBOrPreExisting_def
  validateFloatingIPRequiresPublicLB_def validateLBPoolMemberNetworkResolvable_def Let_def

lemma validateFloatingIPConfig_iff:
  "validateFloatingIPConfig spec p = [] \<longleftrightarrow>
     (\<forall>fip. cs_FloatingIP spec = Some fip \<longrightarrow> fip_ok spec fip) \<and>
     (let lb = cs_ControlPlaneLoadBalancer spec in
      ptr_Deref (lb_Enabled lb) True \<longrightarrow> lb_Network lb = '''' \<longrightarrow> lb_PoolMemberNetwork lb = '''' \<longrightarrow>
        length (elems (cs_Networks spec)) \<le> 1)"
  by (cases "cs_FloatingIP spec")
    (auto simp: fip_checks fip_ok_def validateFloatingIP_iff split: if_splits)

lemma clusterSpecValidateCreate_iff:
  "clusterSpecValidateCreate spec ri p = [] \<longleftrightarrow> zone_ok ri spec \<and> spec_ok spec"
  by (auto simp: clusterSpecValidateCreate_def zone_ok_def spec_ok_def validateNetworks_iff
      validateRouters_iff validateReferences_iff validateFloatingIPConfig_iff Let_def)

section \<open>What an update keeps\<close>

definition networks_kept :: "NetworkSpec list \<Rightarrow> NetworkSpec list \<Rightarrow> bool" where
  "networks_kept old new \<longleftrightarrow> list_all (\<lambda>n. index_by net_Name new (net_Name n) = Some n) old"

definition interfaces_kept :: "RouterInterfaceSpec list \<Rightarrow> RouterInterfaceSpec list \<Rightarrow> bool" where
  "interfaces_kept old new \<longleftrightarrow> list_all (\<lambda>i. index_by ri_Network new (ri_Network i) = Some i) old"

definition router_kept :: "RouterSpec list \<Rightarrow> RouterSpec \<Rightarrow> bool" where
  "router_kept new r \<longleftrightarrow>
     (\<exists>r'. index_by rt_Name new (rt_Name r) = Some r' \<and> rt_UUID r' = rt_UUID r \<and>
        rt_InternetGateway r' = rt_InternetGateway r \<and>
        interfaces_kept (elems (rt_Interfaces r)) (elems (rt_Interfaces r')))"

definition lb_kept :: "LoadBalancerSpec \<Rightarrow> LoadBalancerSpec \<Rightarrow> bool" where
  "lb_kept old new \<longleftrightarrow>
     ptr_Deref (lb_Enabled new) True = ptr_Deref (lb_Enabled old) True \<and>
     new\<lparr>lb_Enabled := lb_Enabled old\<rparr> = old"

definition fip_view :: "FloatingIPSpec \<Rightarrow> string \<times> string" where
  "fip_view fip = (fips_Address fip, ptr_Deref (fips_IPFamily fip) '''')"

definition endpoint_kept :: "APIEndpoint \<Rightarrow> APIEndpoint \<Rightarrow> bool" where
  "endpoint_kept old new \<longleftrightarrow> ep_Host old = '''' \<or> new = old"

definition spec_kept :: "CloudscaleClusterSpec \<Rightarrow> CloudscaleClusterSpec \<Rightarrow> bool" where
  "spec_kept old new \<longleftrightarrow>
     cs_Region new = cs_Region old \<and> cs_Zone new = cs_Zone old \<and>
     networks_kept (elems (cs_Networks old)) (elems (cs_Networks new)) \<and>
     list_all (router_kept (elems (cs_Routers new))) (elems (cs_Routers old)) \<and>
     lb_kept (cs_ControlPlaneLoadBalancer old) (cs_ControlPlaneLoadBalancer new) \<and>
     endpoint_kept (cs_ControlPlaneEndpoint old) (cs_ControlPlaneEndpoint new) \<and>
     map_option fip_view (cs_FloatingIP old) = map_option fip_view (cs_FloatingIP new)"

lemma concat_map_Nil_iff: "concat (map f xs) = [] \<longleftrightarrow> list_all (\<lambda>x. f x = []) xs"
  by (induction xs) auto

lemma validateNetworkImmutability_iff:
  "validateNetworkImmutability old new p = [] \<longleftrightarrow> networks_kept (elems old) (elems new)"
  unfolding validateNetworkImmutability_def networks_kept_def concat_map_Nil_iff
  by (rule list.pred_cong)
    (auto simp: Let_def dest: index_by_SomeD(2) intro: NetworkSpec.equality split: option.splits)

lemma validateInterfaceDiff_iff:
  "validateInterfaceDiff r p i = [] \<longleftrightarrow>
     index_by ri_Network (elems (rt_Interfaces r)) (ri_Network i) = Some i"
  by (auto simp: validateInterfaceDiff_def Let_def dest: index_by_SomeD(2)
      intro: RouterInterfaceSpec.equality split: option.splits)

lemma validateRouterDiff_iff:
  "validateRouterDiff old new p = [] \<longleftrightarrow> list_all (router_kept (elems new)) (elems old)"
  unfolding validateRouterDiff_def concat_map_Nil_iff
  by (rule list.pred_cong)
    (auto simp: router_kept_def interfaces_kept_def Let_def validateInterfaceDiff_iff list_all_iff
      split: option.splits)

lemma lb_kept_iff:
  "lb_kept old new \<longleftrightarrow>
     ptr_Deref (lb_Enabled new) True = ptr_Deref (lb_Enabled old) True \<and> lb_Network new = lb_Network old \<and>
     validateLBImmutability old new p = []"
  by (cases old; cases new; cases "lb_HealthMonitor old"; cases "lb_HealthMonitor new")
    (auto simp: lb_kept_def validateLBImmutability_def Let_def)

lemma validateFloatingIPImmutability_iff:
  "validateFloatingIPImmutability old new p = [] \<longleftrightarrow> map_option fip_view old = map_option fip_view new"
  by (auto simp: validateFloatingIPImmutability_def fip_view_def split: option.split)

lemma validateEndpointImmutability_iff:
  "validateEndpointImmutability old new = [] \<longleftrightarrow> endpoint_kept old new"
  by (cases old; cases new) (auto simp: validateEndpointImmutability_def endpoint_kept_def)

lemma clusterSpecValidateUpdate_iff:
  "clusterSpecValidateUpdate old new = [] \<longleftrightarrow> spec_kept old new \<and> spec_ok new"
  unfolding clusterSpecValidateUpdate_def spec_kept_def spec_ok_def
    lb_kept_iff [of _ _ "NewPath [''spec'', ''controlPlaneLoadBalancer'']"]
  by (auto simp: validateNetworkImmutability_iff validateNetworks_iff validateRouters_iff
      validateRouterDiff_iff validateReferences_iff validateEndpointImmutability_iff
      validateFloatingIPImmutability_iff validateFloatingIPConfig_iff Let_def)

lemma networks_kept_trans:
  "networks_kept a b \<Longrightarrow> networks_kept b c \<Longrightarrow> networks_kept a c"
  by (auto simp: networks_kept_def list_all_iff dest: index_by_SomeD(1))

lemma interfaces_kept_trans:
  "interfaces_kept a b \<Longrightarrow> interfaces_kept b c \<Longrightarrow> interfaces_kept a c"
  by (auto simp: interfaces_kept_def list_all_iff dest: index_by_SomeD(1))

lemma router_kept_trans:
  assumes "router_kept b r" and "list_all (router_kept c) b"
  shows "router_kept c r"
proof -
  from assms(1) obtain r' where r': "index_by rt_Name b (rt_Name r) = Some r'" "rt_UUID r' = rt_UUID r"
      "rt_InternetGateway r' = rt_InternetGateway r"
      "interfaces_kept (elems (rt_Interfaces r)) (elems (rt_Interfaces r'))"
    by (auto simp: router_kept_def)
  note r'_in = index_by_SomeD [OF r'(1)]
  with assms(2) have "router_kept c r'" by (simp add: list_all_iff)
  with r' r'_in(2) show ?thesis
    by (auto simp: router_kept_def intro: interfaces_kept_trans)
qed

lemma lb_kept_trans: "lb_kept a b \<Longrightarrow> lb_kept b c \<Longrightarrow> lb_kept a c"
  by (cases a; cases b; cases c) (auto simp: lb_kept_def)

lemma endpoint_kept_trans: "endpoint_kept a b \<Longrightarrow> endpoint_kept b c \<Longrightarrow> endpoint_kept a c"
  by (auto simp: endpoint_kept_def)

lemma spec_kept_trans: "spec_kept a b \<Longrightarrow> spec_kept b c \<Longrightarrow> spec_kept a c"
  unfolding spec_kept_def
  by (auto simp: list_all_iff intro: networks_kept_trans lb_kept_trans endpoint_kept_trans)
    (metis list_all_iff router_kept_trans)

text \<open>
  The API server admits routers and interfaces only with distinct keys (\<^verbatim>\<open>+listType=map\<close>). Then
  an update that changes nothing but an unset endpoint and the credentials keeps everything.
\<close>

definition schema_ok :: "CloudscaleClusterSpec \<Rightarrow> bool" where
  "schema_ok spec \<longleftrightarrow>
     distinct (map rt_Name (elems (cs_Routers spec))) \<and>
     list_all (\<lambda>r. distinct (map ri_Network (elems (rt_Interfaces r)))) (elems (cs_Routers spec))"

lemma index_by_all:
  "distinct (map key xs) \<Longrightarrow> list_all (\<lambda>x. index_by key xs (key x) = Some x) xs"
  by (simp add: list_all_iff index_by_distinct)

lemma spec_kept_endpoint:
  assumes "spec_ok spec" and "schema_ok spec" and "endpoint_kept (cs_ControlPlaneEndpoint spec) e"
  shows "spec_kept spec (spec\<lparr>cs_ControlPlaneEndpoint := e\<rparr>)"
proof -
  have "networks_kept (elems (cs_Networks spec)) (elems (cs_Networks spec))"
    using assms(1) by (simp add: networks_kept_def spec_ok_def Let_def index_by_all)
  moreover have "list_all (router_kept (elems (cs_Routers spec))) (elems (cs_Routers spec))"
    using assms(2) by (auto simp: schema_ok_def list_all_iff router_kept_def interfaces_kept_def index_by_distinct)
  ultimately show ?thesis
    using assms(3) by (simp add: spec_kept_def lb_kept_def)
qed

lemma spec_ok_endpoint [simp]: "spec_ok (spec\<lparr>cs_ControlPlaneEndpoint := e\<rparr>) = spec_ok spec"
  by (simp add: spec_ok_def fip_ok_def)

lemma endpoint_update_accepted:
  assumes "spec_ok (cl_Spec c)" and "schema_ok (cl_Spec c)"
    and "endpoint_kept (cs_ControlPlaneEndpoint (cl_Spec c)) e"
    and "cl_Spec c' = (cl_Spec c)\<lparr>cs_ControlPlaneEndpoint := e\<rparr>"
  shows "accepted (Cluster_ValidateUpdate c c')"
  using assms by (simp add: Cluster_ValidateUpdate_def clusterSpecValidateUpdate_iff spec_kept_endpoint)

section \<open>Defaulting and the history of a cluster\<close>

lemma orDefault_idem [simp]: "d \<noteq> z \<Longrightarrow> orDefault z d (orDefault z d x) = orDefault z d x"
  by (simp add: orDefault_def)

lemma clusterSpecDefault_idem [simp]: "clusterSpecDefault (clusterSpecDefault spec) = clusterSpecDefault spec"
  by (cases "cs_FloatingIP spec")
    (simp_all add: clusterSpecDefault_def Let_def split: option.split)

lemma clusterSpecDefault_other [simp]:
  "cs_Zone (clusterSpecDefault spec) = cs_Zone spec"
  "cs_Region (clusterSpecDefault spec) = cs_Region spec"
  "cs_Networks (clusterSpecDefault spec) = cs_Networks spec"
  "cs_Routers (clusterSpecDefault spec) = cs_Routers spec"
  "lb_Network (cs_ControlPlaneLoadBalancer (clusterSpecDefault spec)) = lb_Network (cs_ControlPlaneLoadBalancer spec)"
  "lb_PoolMemberNetwork (cs_ControlPlaneLoadBalancer (clusterSpecDefault spec)) =
     lb_PoolMemberNetwork (cs_ControlPlaneLoadBalancer spec)"
  "lb_Enabled (cs_ControlPlaneLoadBalancer (clusterSpecDefault spec)) =
     Some (ptr_Deref (lb_Enabled (cs_ControlPlaneLoadBalancer spec)) True)"
  by (simp_all add: clusterSpecDefault_def Let_def split: option.split)

lemma clusterSpecDefault_zone:
  "clusterSpecDefault (spec\<lparr>cs_Zone := z\<rparr>) = (clusterSpecDefault spec)\<lparr>cs_Zone := z\<rparr>"
  "clusterSpecDefault (spec\<lparr>cs_Zone := z, cs_Networks := ns\<rparr>) =
     (clusterSpecDefault (spec\<lparr>cs_Networks := ns\<rparr>))\<lparr>cs_Zone := z\<rparr>"
  by (simp_all add: clusterSpecDefault_def Let_def)

lemma Cluster_Default_idem: "Cluster_Default ri (Cluster_Default ri c) = Cluster_Default ri c"
  by (auto simp: Cluster_Default_def Let_def clusterSpecDefault_zone)

abbreviation cluster_admitted :: "RegionInfo \<Rightarrow> CloudscaleCluster \<Rightarrow> CloudscaleCluster \<Rightarrow> bool" where
  "cluster_admitted ri \<equiv> admitted (Cluster_Default ri) (Cluster_ValidateCreate ri) Cluster_ValidateUpdate"

definition cluster_ok :: "RegionInfo \<Rightarrow> CloudscaleClusterSpec \<Rightarrow> bool" where
  "cluster_ok ri spec \<longleftrightarrow> zone_ok ri spec \<and> spec_ok spec"

lemma zone_ok_kept: "zone_ok ri old \<Longrightarrow> spec_kept old new \<Longrightarrow> zone_ok ri new"
  by (simp add: zone_ok_def spec_kept_def)

interpretation cadm: admission "Cluster_Default ri" "Cluster_ValidateCreate ri" Cluster_ValidateUpdate
  "\<lambda>c. cluster_ok ri (cl_Spec c)" "\<lambda>old new. spec_kept (cl_Spec old) (cl_Spec new)" for ri
  by unfold_locales
    (auto simp: Cluster_Default_idem Cluster_ValidateCreate_def Cluster_ValidateUpdate_def cluster_ok_def
      clusterSpecValidateCreate_iff clusterSpecValidateUpdate_iff intro: spec_kept_trans zone_ok_kept)

section \<open>The smallest manifest\<close>

text \<open>
  A cluster that names only a known region, without networks, routers or floating IP, is admitted
  after defaulting, in the first zone of its region.
\<close>

lemma ParsePrefix_default:
  "netip_ParsePrefix defaultSubnetCIDR = Inr (Prefix (Addr4 0xAC120000) 24)"
  by code_simp

lemma default_zone_ok:
  assumes "regions_ok rs" and "cs_Zone (cl_Spec c) = ''''"
  shows "zone_ok (NewRegionInfo rs) (cl_Spec (Cluster_Default (NewRegionInfo rs) c))"
  using assms GetDefaultZoneForRegion_in [OF assms(1)]
  by (auto simp: zone_ok_def Cluster_Default_def Let_def ZoneBelongsToRegion_iff)

lemma default_networks_ok:
  "list_all network_ok (elems (cs_Networks (cl_Spec c))) \<Longrightarrow>
     list_all network_ok (elems (cs_Networks (cl_Spec (Cluster_Default ri c))))"
  by (auto simp: Cluster_Default_def Let_def network_ok_def ParsePrefix_default) (simp add: defaultSubnetCIDR_def)

end
