(* ===== verification/Webhook_Properties.thy ===== *)
theory Webhook_Properties
  imports Machine_Webhook Cluster_Webhook Cluster_Properties
begin

text \<open>
  The properties of the admission webhooks, and of the webhooks together with the controllers: what
  an accepted object promises, what of it never changes, and that the controllers can work with it.
\<close>

section \<open>Clusters\<close>

text \<open>
  C7. A new cluster is accepted exactly when its zone belongs to its region and the spec is
  consistent: distinct network names, networks that are either existing ones or have a CIDR with its
  gateway inside, routers, load balancer and pool members on networks of the spec, a floating IP that
  the load balancer can carry, and no ambiguous choice of the pool members' network.
\<close>

theorem cluster_create_accepted_iff:
  "accepted (Cluster_ValidateCreate ri c) \<longleftrightarrow> zone_ok ri (cl_Spec c) \<and> spec_ok (cl_Spec c)"
  by (simp add: Cluster_ValidateCreate_def accepted_answer clusterSpecValidateCreate_iff)


text \<open>
  C9. Whatever requests the webhook sees, every stored cluster is consistent, has kept the immutable
  fields of the cluster that was created, and is not changed by defaulting again.
\<close>

theorem stored_cluster_stays_valid:
  assumes "admitted (Cluster_Default ri) (Cluster_ValidateCreate ri) Cluster_ValidateUpdate c0 c"
  shows "zone_ok ri (cl_Spec c) \<and> spec_ok (cl_Spec c) \<and>
    (c = c0 \<or> spec_kept (cl_Spec c0) (cl_Spec c)) \<and> Cluster_Default ri c = c"
  using cadm.admitted_inv [OF assms] by (simp add: cluster_ok_def)

definition sample_regions :: "Region list" where
  "sample_regions = [\<lparr>reg_Slug = ''lpg'', reg_Zones = [\<lparr>zone_Slug = ''lpg1''\<rparr>]\<rparr>,
                     \<lparr>reg_Slug = ''rma'', reg_Zones = [\<lparr>zone_Slug = ''rma1''\<rparr>]\<rparr>]"

definition sample_region_info :: RegionInfo where
  "sample_region_info = NewRegionInfo sample_regions"

definition stored_cluster :: CloudscaleCluster where
  "stored_cluster = Cluster_Default sample_region_info sample_cluster"

lemma stored_cluster_accepted: "accepted (Cluster_ValidateCreate sample_region_info stored_cluster)"
  by code_simp

lemma stored_cluster_admitted:
  "admitted (Cluster_Default sample_region_info) (Cluster_ValidateCreate sample_region_info)
     Cluster_ValidateUpdate stored_cluster stored_cluster"
  using stored_cluster_def stored_cluster_accepted by (rule admitted.created)

theorem stored_cluster_stays_valid_witness:
  "spec_ok (cl_Spec stored_cluster) \<and> Cluster_Default sample_region_info stored_cluster = stored_cluster"
  using stored_cluster_stays_valid [OF stored_cluster_admitted] by simp

lemma Cluster_Default_endpoint:
  assumes "Cluster_Default ri c = c" and "cl_Meta c' = cl_Meta c"
    and "cl_Spec c' = (cl_Spec c)\<lparr>cs_ControlPlaneEndpoint := e\<rparr>"
  shows "Cluster_Default ri c' = c'"
proof -
  let ?f = "\<lambda>x. cl_Spec (Cluster_Default ri (c\<lparr>cl_Spec := x\<rparr>))"
  have "?f ((cl_Spec c)\<lparr>cs_ControlPlaneEndpoint := e\<rparr>) = (?f (cl_Spec c))\<lparr>cs_ControlPlaneEndpoint := e\<rparr>"
    by (simp add: Cluster_Default_def clusterSpecDefault_def Let_def)
  moreover have "cl_Spec (Cluster_Default ri c') = ?f (cl_Spec c')"
    using assms(2) by (simp add: Cluster_Default_def Let_def)
  moreover have "Cluster_Default ri c' = c'\<lparr>cl_Spec := cl_Spec (Cluster_Default ri c')\<rparr>"
    by (simp add: Cluster_Default_def Let_def)
  ultimately show ?thesis using assms(1,3) by simp
qed

text \<open>
  C5. The controller does not lock itself out: if the stored cluster was admitted, and the names of
  routers and interfaces are distinct as the schema demands, then the object that a reconcile ends
  with, after whatever answers, is admitted as an update of it.
\<close>

theorem controller_write_is_admitted:
  assumes "admitted (Cluster_Default ri) (Cluster_ValidateCreate ri) Cluster_ValidateUpdate c0 (st_obj s)"
    and "schema_ok (specOf s)"
  shows "admitted (Cluster_Default ri) (Cluster_ValidateCreate ri) Cluster_ValidateUpdate c0
    (st_obj (snd (reconcileNormal S s)))"
proof -
  let ?s' = "snd (reconcileNormal S s)"
  let ?e = "cs_ControlPlaneEndpoint (specOf ?s')"
  have same: "cl_Meta (st_obj ?s') = cl_Meta (st_obj s)" "specOf ?s' = (specOf s)\<lparr>cs_ControlPlaneEndpoint := ?e\<rparr>"
    and kept: "endpoint_kept (cs_ControlPlaneEndpoint (specOf s)) ?e"
    using wp_sndI [OF reconcileNormal_done, of S s]
    by (auto simp: normal_done_def same_but_endpoint_def endpoint_kept_def Let_def)
  have ok: "spec_ok (specOf s)" "Cluster_Default ri (st_obj s) = st_obj s"
    using cadm.admitted_inv [OF assms(1)] by (auto simp: cluster_ok_def)
  have "accepted (Cluster_ValidateUpdate (st_obj s) (st_obj ?s'))"
    using endpoint_update_accepted [OF ok(1) assms(2) kept same(2)] .
  moreover have "Cluster_Default ri (st_obj ?s') = st_obj ?s'"
    using Cluster_Default_endpoint [OF ok(2) same] .
  ultimately show ?thesis using admitted.updated [OF assms(1)] by metis
qed

theorem controller_write_is_admitted_witness:
  "admitted (Cluster_Default sample_region_info) (Cluster_ValidateCreate sample_region_info)
     Cluster_ValidateUpdate stored_cluster
     (st_obj (snd (reconcileNormal tracked_scope (start_in None stored_cluster))))"
proof (rule controller_write_is_admitted)
  show "schema_ok (specOf (start_in None stored_cluster))" by code_simp
qed (simp add: start_in_def stored_cluster_admitted)







text \<open>
  C33. A minimal cluster is enough: a spec with a region only, without a zone, networks, routers,
  networks of the load balancer or a floating IP, is accepted after defaulting, for every list of
  regions in which no region or zone occurs twice.
\<close>

theorem minimal_cluster_accepted:
  assumes "regions_ok rs" and "cs_Zone (cl_Spec c) = ''''"
    and "elems (cs_Networks (cl_Spec c)) = []" and "elems (cs_Routers (cl_Spec c)) = []"
    and "lb_Network (cs_ControlPlaneLoadBalancer (cl_Spec c)) = ''''"
    and "lb_PoolMemberNetwork (cs_ControlPlaneLoadBalancer (cl_Spec c)) = ''''"
    and "cs_FloatingIP (cl_Spec c) = None"
  shows "accepted (Cluster_ValidateCreate (NewRegionInfo rs) (Cluster_Default (NewRegionInfo rs) c))"
proof -
  have "list_all network_ok (elems (cs_Networks (cl_Spec (Cluster_Default (NewRegionInfo rs) c))))"
    using default_networks_ok [of c] assms(3) by simp
  then have "spec_ok (cl_Spec (Cluster_Default (NewRegionInfo rs) c))"
    using assms(3-7)
    by (simp add: spec_ok_def Let_def Cluster_Default_def clusterSpecDefault_def network_named_def)
  with default_zone_ok [OF assms(1,2)] show ?thesis
    by (simp add: Cluster_ValidateCreate_def clusterSpecValidateCreate_iff)
qed

definition minimal_cluster :: CloudscaleCluster where
  "minimal_cluster = sample_cluster\<lparr>cl_Spec := sample_spec\<lparr>cs_Zone := '''', cs_Networks := None,
     cs_Routers := None, cs_FloatingIP := None\<rparr>\<rparr>"

theorem minimal_cluster_accepted_witness:
  "accepted (Cluster_ValidateCreate (NewRegionInfo sample_regions)
     (Cluster_Default (NewRegionInfo sample_regions) minimal_cluster))"
  by (rule minimal_cluster_accepted) code_simp+

section \<open>Machines\<close>

text \<open>
  C22. Whatever requests the webhook sees, every stored machine has a known flavor, no tag with the
  provider's prefix, at most one public interface and interfaces that are either public or on a
  network; and it has kept image, flavor, root volume, interfaces and server group of the machine
  that was created, and the provider id once it was set.
\<close>

theorem stored_machine_stays_valid:
  assumes "admitted Machine_Default (Machine_ValidateCreate fi) Machine_ValidateUpdate m0 m"
  shows "machine_ok fi (cm_Spec m) \<and> (m = m0 \<or> machine_kept (cm_Spec m0) (cm_Spec m))"
  using madm.admitted_inv [OF assms] by simp

definition sample_flavors :: "FlavorInfo option" where
  "sample_flavors = Some (NewFlavorInfo
     [\<lparr>fl_Slug = ''flex-4-2'', fl_VCPUCount = 2, fl_MemoryGB = 4, fl_GPU = None\<rparr>])"

definition stored_machine :: CloudscaleMachine where
  "stored_machine = Machine_Default sample_machine"

lemma stored_machine_admitted:
  "admitted Machine_Default (Machine_ValidateCreate sample_flavors) Machine_ValidateUpdate
     stored_machine stored_machine"
  using stored_machine_def by (rule admitted.created) code_simp

theorem stored_machine_stays_valid_witness: "machine_ok sample_flavors (cm_Spec stored_machine)"
  using stored_machine_stays_valid [OF stored_machine_admitted] by simp

text \<open>
  C21. A server is found again by the tags it was created with: for every stored machine, the tags of
  the create request, in which the user's tags are merged with the owner tags, match the filter
  that looks for the machine's server.
\<close>

theorem server_found_by_its_tags:
  assumes "admitted Machine_Default (Machine_ValidateCreate fi) Machine_ValidateUpdate m0 m"
  shows "matches_filter (machineLookupTag S m) (machineCreateTags S m)"
  using madm.admitted_inv [OF assms] by (blast intro: machine_ok_tags)

theorem server_found_by_its_tags_witness:
  "matches_filter (machineLookupTag (sample_machine_scope :: unit MachineScope) stored_machine)
     (machineCreateTags (sample_machine_scope :: unit MachineScope) stored_machine)"
  by (rule server_found_by_its_tags [OF stored_machine_admitted])




section \<open>Machine templates\<close>





end
