(* ===== verification/Observability.thy ===== *)
theory Observability
  imports Go_Prelude
begin

text \<open>
  Spans and log lines, \<^verbatim>\<open>internal/observability\<close>: the log sink that adds the ids of a span to every
  line and records errors on it, and the function that starts a span and gives the context a logger
  for it. The log sink underneath, the tracer and the operations on contexts are parameters. What a
  call does is the list of the effects on the sink underneath and on the spans.
\<close>

section \<open>Definitions\<close>

text \<open>A span with its ids; \<open>sp_IsValid\<close> is whether its span context is valid.\<close>

record Span =
  sp_TraceID :: string
  sp_SpanID :: string
  sp_IsValid :: bool

datatype 'b LogSink =
    BaseSink 'b
  | traceContextSink (tcs_base: "'b LogSink") (tcs_span: Span)

datatype 'b log_effect =
    BaseInit 'b
  | BaseInfo 'b int string "string list"
  | BaseError 'b go_error string "string list"
  | RecordError Span go_error
  | SetStatusError Span string
  | EndSpan Span

record ('c, 'b) log_lib =
  ll_Enabled :: "'b \<Rightarrow> int \<Rightarrow> bool"
  ll_WithValues :: "'b \<Rightarrow> string list \<Rightarrow> 'b"
  ll_WithName :: "'b \<Rightarrow> string \<Rightarrow> 'b"
  ll_New :: "'b LogSink \<Rightarrow> 'b log_effect list"
  ll_Start :: "'c \<Rightarrow> string \<Rightarrow> 'c \<times> Span"
  ll_FromContext :: "'c \<Rightarrow> 'b LogSink"
  ll_NewContext :: "'c \<Rightarrow> 'b LogSink \<Rightarrow> 'c"

definition newTraceContextSink :: "'b LogSink \<Rightarrow> Span \<Rightarrow> 'b LogSink" where
  "newTraceContextSink base span = traceContextSink base span"

definition withTraceKVs :: "Span \<Rightarrow> string list \<Rightarrow> string list" where
  "withTraceKVs span kvs =
     (if \<not> sp_IsValid span then kvs
      else [''trace_id'', sp_TraceID span, ''span_id'', sp_SpanID span] @ kvs)"

text \<open>
  The methods of a sink; the first equation of each calls the sink underneath, the second is the
  method of \<^verbatim>\<open>traceContextSink\<close>.
\<close>

fun sink_Init :: "'b LogSink \<Rightarrow> 'b log_effect list" where
  "sink_Init (BaseSink b) = [BaseInit b]"
| "sink_Init (traceContextSink base span) = []"

fun sink_Enabled :: "('c, 'b) log_lib \<Rightarrow> 'b LogSink \<Rightarrow> int \<Rightarrow> bool" where
  "sink_Enabled L (BaseSink b) level = ll_Enabled L b level"
| "sink_Enabled L (traceContextSink base span) level = sink_Enabled L base level"

fun sink_Info :: "'b LogSink \<Rightarrow> int \<Rightarrow> string \<Rightarrow> string list \<Rightarrow> 'b log_effect list" where
  "sink_Info (BaseSink b) level msg kvs = [BaseInfo b level msg kvs]"
| "sink_Info (traceContextSink base span) level msg kvs = sink_Info base level msg (withTraceKVs span kvs)"

fun sink_Error :: "'b LogSink \<Rightarrow> go_error \<Rightarrow> string \<Rightarrow> string list \<Rightarrow> 'b log_effect list" where
  "sink_Error (BaseSink b) err msg kvs = [BaseError b err msg kvs]"
| "sink_Error (traceContextSink base span) err msg kvs =
     [RecordError span err, SetStatusError span msg] @ sink_Error base err msg (withTraceKVs span kvs)"

fun sink_WithValues :: "('c, 'b) log_lib \<Rightarrow> 'b LogSink \<Rightarrow> string list \<Rightarrow> 'b LogSink" where
  "sink_WithValues L (BaseSink b) kvs = BaseSink (ll_WithValues L b kvs)"
| "sink_WithValues L (traceContextSink base span) kvs = traceContextSink (sink_WithValues L base kvs) span"

fun sink_WithName :: "('c, 'b) log_lib \<Rightarrow> 'b LogSink \<Rightarrow> string \<Rightarrow> 'b LogSink" where
  "sink_WithName L (BaseSink b) name = BaseSink (ll_WithName L b name)"
| "sink_WithName L (traceContextSink base span) name = traceContextSink (sink_WithName L base name) span"

text \<open>The context, the logger's sink, the effect of the returned function, and the effects so far.\<close>

definition StartSpanWithLogger ::
  "('c, 'b) log_lib \<Rightarrow> 'c \<Rightarrow> string \<Rightarrow> 'c \<times> 'b LogSink \<times> 'b log_effect list \<times> 'b log_effect list" where
  "StartSpanWithLogger L ctx spanName =
     (case ll_Start L ctx spanName of (ctx, span) \<Rightarrow>
      let baseSink = (case ll_FromContext L ctx of
                        traceContextSink base _ \<Rightarrow> base | BaseSink b \<Rightarrow> BaseSink b);
          (logger, effects) =
            (if sp_IsValid span
             then (newTraceContextSink baseSink span,
                   ll_New L baseSink @ ll_New L (newTraceContextSink baseSink span))
             else (baseSink, ll_New L baseSink))
      in (ll_NewContext L ctx logger, logger, [EndSpan span], effects))"

section \<open>One span per line\<close>

text \<open>
  What is relied on: a context returns the logger that was put into it, starting a span keeps the
  logger of the context, and making a logger of a sink initializes the sink.
\<close>

definition log_lib_ok :: "('c, 'b) log_lib \<Rightarrow> bool" where
  "log_lib_ok L \<longleftrightarrow>
     (\<forall>c sink. ll_FromContext L (ll_NewContext L c sink) = sink) \<and>
     (\<forall>c n. ll_FromContext L (fst (ll_Start L c n)) = ll_FromContext L c) \<and>
     (\<forall>sink. ll_New L sink = sink_Init sink)"

text \<open>The contexts of a program that starts from a plain logger.\<close>

inductive nested :: "('c, 'b) log_lib \<Rightarrow> 'c \<Rightarrow> bool" for L where
  root: "ll_FromContext L c = BaseSink b \<Longrightarrow> nested L c"
| start: "nested L c \<Longrightarrow> nested L (fst (StartSpanWithLogger L c n))"
| with_values: "nested L c \<Longrightarrow> nested L (ll_NewContext L c (sink_WithValues L (ll_FromContext L c) kvs))"
| with_name: "nested L c \<Longrightarrow> nested L (ll_NewContext L c (sink_WithName L (ll_FromContext L c) n))"

definition flat :: "'b LogSink \<Rightarrow> bool" where
  "flat sink \<longleftrightarrow> (\<exists>b. sink = BaseSink b \<or> (\<exists>span. sink = traceContextSink (BaseSink b) span))"

lemma flat_With:
  "flat sink \<Longrightarrow> flat (sink_WithValues L sink kvs)" "flat sink \<Longrightarrow> flat (sink_WithName L sink n)"
  by (auto simp: flat_def)

lemma StartSpan_flat:
  assumes "log_lib_ok L" and "flat (ll_FromContext L c)"
  shows "\<exists>b. StartSpanWithLogger L c n =
    (let span = snd (ll_Start L c n);
         logger = (if sp_IsValid span then traceContextSink (BaseSink b) span else BaseSink b)
     in (ll_NewContext L (fst (ll_Start L c n)) logger, logger, [EndSpan span], [BaseInit b]))"
proof -
  obtain c' span where start: "ll_Start L c n = (c', span)" by fastforce
  then have "ll_FromContext L c' = ll_FromContext L c" using assms(1) by (metis log_lib_ok_def fst_conv)
  moreover have "ll_New L sink = sink_Init sink" for sink using assms(1) by (simp add: log_lib_ok_def)
  ultimately show ?thesis using assms(2) start
    by (auto simp: StartSpanWithLogger_def flat_def newTraceContextSink_def Let_def)
qed

lemma nested_flat:
  assumes "log_lib_ok L"
  shows "nested L c \<Longrightarrow> flat (ll_FromContext L c)"
proof (induction rule: nested.induct)
  case (root c b)
  then show ?case by (simp add: flat_def)
next
  case (start c n)
  obtain b where "fst (StartSpanWithLogger L c n) = ll_NewContext L (fst (ll_Start L c n))
      (if sp_IsValid (snd (ll_Start L c n)) then traceContextSink (BaseSink b) (snd (ll_Start L c n)) else BaseSink b)"
    using StartSpan_flat [OF assms start.IH, of n] by (auto simp: Let_def)
  with assms show ?case by (auto simp: log_lib_ok_def flat_def)
qed (use assms in \<open>auto simp: log_lib_ok_def intro: flat_With\<close>)

text \<open>
  C35. However spans are nested and loggers derived, the logger of a new span writes every line once,
  with the ids of that span and of no other span in front of the caller's keys; an error is recorded
  on that span only; and ending ends that span. With an invalid span no ids are added. Each new span
  initializes the sink underneath once more.
\<close>

theorem line_carries_its_own_span:
  assumes "log_lib_ok L" and "nested L c"
    and "StartSpanWithLogger L c n = (ctx, logger, done_effects, effects)"
  shows "\<exists>b. let span = snd (ll_Start L c n);
      ids = (if sp_IsValid span then [''trace_id'', sp_TraceID span, ''span_id'', sp_SpanID span] else [])
    in sink_Info logger level msg kvs = [BaseInfo b level msg (ids @ kvs)] \<and>
       sink_Error logger err msg kvs =
         (if sp_IsValid span then [RecordError span err, SetStatusError span msg] else []) @
         [BaseError b err msg (ids @ kvs)] \<and>
       done_effects = [EndSpan span] \<and> effects = [BaseInit b]"
  using StartSpan_flat [OF assms(1) nested_flat [OF assms(1,2)], of n] assms(3)
  by (auto simp: Let_def withTraceKVs_def split: if_splits)

text \<open>Contexts that are a sink and the number of spans started.\<close>

definition sample_log_lib :: "(string LogSink \<times> nat, string) log_lib" where
  "sample_log_lib =
     \<lparr>ll_Enabled = (\<lambda>_ _. True), ll_WithValues = (\<lambda>b kvs. b @ concat kvs), ll_WithName = (\<lambda>b n. b @ n),
      ll_New = sink_Init,
      ll_Start = (\<lambda>(sink, k) n. ((sink, Suc k), \<lparr>sp_TraceID = ''t'', sp_SpanID = n, sp_IsValid = True\<rparr>)),
      ll_FromContext = fst, ll_NewContext = (\<lambda>(_, k) sink. (sink, k))\<rparr>"

lemma sample_log_lib_ok: "log_lib_ok sample_log_lib"
  by (auto simp: log_lib_ok_def sample_log_lib_def)

theorem line_carries_its_own_span_witness:
  "sink_Info (fst (snd (StartSpanWithLogger sample_log_lib
       (fst (StartSpanWithLogger sample_log_lib (BaseSink ''zap'', 0) ''outer'')) ''inner''))) 0 ''hello'' [''k'', ''v''] =
     [BaseInfo ''zap'' 0 ''hello'' [''trace_id'', ''t'', ''span_id'', ''inner'', ''k'', ''v'']]"
proof -
  have "nested sample_log_lib (BaseSink ''zap'', 0)"
    by (rule nested.root) (simp add: sample_log_lib_def)
  then have "nested sample_log_lib (fst (StartSpanWithLogger sample_log_lib (BaseSink ''zap'', 0) ''outer''))"
    by (rule nested.start)
  moreover obtain ctx logger fin ev where run: "StartSpanWithLogger sample_log_lib
      (fst (StartSpanWithLogger sample_log_lib (BaseSink ''zap'', 0) ''outer'')) ''inner'' = (ctx, logger, fin, ev)"
    by (metis prod.exhaust)
  ultimately have "\<exists>b. sink_Info logger 0 ''hello'' [''k'', ''v''] =
      [BaseInfo b 0 ''hello'' [''trace_id'', ''t'', ''span_id'', ''inner'', ''k'', ''v'']] \<and> ev = [BaseInit b]"
    using line_carries_its_own_span [OF sample_log_lib_ok, of _ "''inner''" ctx logger fin ev 0 "''hello''"]
    by (auto simp: sample_log_lib_def StartSpanWithLogger_def newTraceContextSink_def Let_def)
  moreover have "ev = [BaseInit ''zap'']"
    using run by (simp add: sample_log_lib_def StartSpanWithLogger_def newTraceContextSink_def Let_def)
  ultimately show ?thesis using run by simp
qed

end
