(* ===== verification/Release_Metadata.thy ===== *)
theory Release_Metadata
  imports Netip
begin

text \<open>
  The release check, \<^verbatim>\<open>hack/verify-release-metadata/main.go\<close>: a release tag is verified against the
  release series of the provider's metadata. The regular expression is a term with the matching of
  Go's package, which tries alternatives from left to right and repetitions greedily. The YAML
  conversion and the decoding of the JSON document are parameters.
\<close>

section \<open>Regular expressions\<close>

datatype rx =
    Class "char \<Rightarrow> bool"
  | Many "char \<Rightarrow> bool"
  | Seq rx rx
  | Alt rx rx
  | Opt rx
  | Capture rx

fun many :: "(char \<Rightarrow> bool) \<Rightarrow> string \<Rightarrow> (string \<times> string) list" where
  "many p [] = [([], [])]"
| "many p (c # cs) = (if p c then map (\<lambda>(m, r). (c # m, r)) (many p cs) else []) @ [([], c # cs)]"

text \<open>All matches of a prefix in the order of preference: the text, the captures, the rest.\<close>

fun rx_run :: "rx \<Rightarrow> string \<Rightarrow> (string \<times> string list \<times> string) list" where
  "rx_run (Class p) s = (case s of [] \<Rightarrow> [] | c # cs \<Rightarrow> if p c then [([c], [], cs)] else [])"
| "rx_run (Many p) s = map (\<lambda>(m, r). (m, [], r)) (many p s)"
| "rx_run (Seq a b) s =
     concat (map (\<lambda>(m, cs, r). map (\<lambda>(m', cs', r'). (m @ m', cs @ cs', r')) (rx_run b r)) (rx_run a s))"
| "rx_run (Alt a b) s = rx_run a s @ rx_run b s"
| "rx_run (Opt a) s = rx_run a s @ [([], [], s)]"
| "rx_run (Capture a) s = map (\<lambda>(m, cs, r). (m, m # cs, r)) (rx_run a s)"

text \<open>\<^verbatim>\<open>FindStringSubmatch\<close> for an expression anchored on both sides.\<close>

definition FindStringSubmatch :: "rx \<Rightarrow> string \<Rightarrow> string list option" where
  "FindStringSubmatch x s = map_option (\<lambda>(m, cs, _). m # cs) (find (\<lambda>(_, _, r). r = []) (rx_run x s))"

section \<open>Definitions\<close>

definition digit :: "char \<Rightarrow> bool" where
  "digit c \<longleftrightarrow> digit_val c \<noteq> None"

definition identChar :: "char \<Rightarrow> bool" where
  "identChar c \<longleftrightarrow> (let n = (of_char c :: int) in
     digit c \<or> 65 \<le> n \<and> n \<le> 90 \<or> 97 \<le> n \<and> n \<le> 122 \<or> c = CHR ''.'' \<or> c = CHR ''-'')"

definition releaseTagPattern :: rx where
  "releaseTagPattern =
     (let lit = (\<lambda>c. Class (\<lambda>d. d = c));
          number = Capture (Alt (lit CHR ''0'') (Seq (Class (\<lambda>c. digit c \<and> c \<noteq> CHR ''0'')) (Many digit)));
          ident = Seq (Class identChar) (Many identChar)
      in Seq (lit CHR ''v'') (Seq number (Seq (lit CHR ''.'') (Seq number (Seq (lit CHR ''.'') (Seq number
           (Seq (Opt (Seq (lit CHR ''-'') ident)) (Opt (Seq (lit CHR ''+'') ident)))))))))"

record releaseSeries =
  rse_Major :: int
  rse_Minor :: int

record providerMetadata =
  pmd_ReleaseSeries :: "releaseSeries list"

text \<open>\<^verbatim>\<open>strconv.Atoi\<close> on a string of digits, the only case there is here.\<close>

definition strconv_Atoi :: "string \<Rightarrow> go_error + int" where
  "strconv_Atoi s =
     (case unsigned_Atoi s of
        Some n \<Rightarrow> Inr n
      | None \<Rightarrow> Inl (fmt_Errorf ''strconv.Atoi: parsing %q: value out of range'' [FS s]))"

definition verifyReleaseSeries ::
  "(string \<Rightarrow> go_error + string) \<Rightarrow> (string \<Rightarrow> go_error + providerMetadata) \<Rightarrow> string \<Rightarrow> string \<Rightarrow> go_error option" where
  "verifyReleaseSeries toJSON unmarshal tag metadataYAML =
     (case FindStringSubmatch releaseTagPattern tag of
        None \<Rightarrow> Some (fmt_Errorf ''tag %q is not a valid semantic version prefixed with v'' [FS tag])
      | Some matches \<Rightarrow>
     (case strconv_Atoi (matches ! 1) of
        Inl err \<Rightarrow> Some (fmt_Errorw ''parse tag major version: %w'' [] err)
      | Inr major \<Rightarrow>
     (case strconv_Atoi (matches ! 2) of
        Inl err \<Rightarrow> Some (fmt_Errorw ''parse tag minor version: %w'' [] err)
      | Inr minor \<Rightarrow>
     (case toJSON metadataYAML of
        Inl err \<Rightarrow> Some (fmt_Errorw ''parse metadata: %w'' [] err)
      | Inr metadataJSON \<Rightarrow>
     (case unmarshal metadataJSON of
        Inl err \<Rightarrow> Some (fmt_Errorw ''parse metadata: %w'' [] err)
      | Inr metadata \<Rightarrow>
     if length (pmd_ReleaseSeries metadata) = 0 then Some (ErrorString ''metadata contains no release series'')
     else if list_ex (\<lambda>series. rse_Major series = major \<and> rse_Minor series = minor) (pmd_ReleaseSeries metadata)
     then None
     else Some (fmt_Errorf ''metadata does not contain release series %d.%d required by tag %s''
                  [FD major, FD minor, FS tag]))))))"

text \<open>The exit code of the program and what it prints, for the file it has read.\<close>

definition verify_main ::
  "(string \<Rightarrow> go_error + string) \<Rightarrow> (string \<Rightarrow> go_error + providerMetadata) \<Rightarrow> (string \<Rightarrow> go_error + string) \<Rightarrow>
   string \<Rightarrow> string \<Rightarrow> int \<times> string" where
  "verify_main toJSON unmarshal readFile tag metadataPath =
     (case readFile metadataPath of
        Inl err \<Rightarrow> (1, fmt_Sprintf ''Error reading metadata: %v'' [FE err] @ [CHR 0x0A])
      | Inr metadata \<Rightarrow>
     (case verifyReleaseSeries toJSON unmarshal tag metadata of
        Some err \<Rightarrow> (1, fmt_Sprintf ''Release metadata verification failed: %v'' [FE err] @ [CHR 0x0A])
      | None \<Rightarrow> (0, fmt_Sprintf ''Verified that %s contains the release series for %s'' [FS metadataPath, FS tag] @ [CHR 0x0A])))"

section \<open>What the pattern matches\<close>

lemma many_iff: "(m, r) \<in> set (many p s) \<longleftrightarrow> s = m @ r \<and> list_all p m"
proof (induction p s arbitrary: m rule: many.induct)
  case (1 p)
  then show ?case by auto
next
  case (2 p c cs)
  show ?case
  proof (cases m)
    case Nil
    then show ?thesis by auto
  next
    case (Cons d m')
    then show ?thesis using "2.IH" [of m'] by (cases "p c") auto
  qed
qed

lemma run_Class: "(m, cs, r) \<in> set (rx_run (Class p) s) \<longleftrightarrow> (\<exists>c. m = [c] \<and> cs = [] \<and> s = c # r \<and> p c)"
  by (auto split: list.splits)

lemma run_Many: "(m, cs, r) \<in> set (rx_run (Many p) s) \<longleftrightarrow> cs = [] \<and> s = m @ r \<and> list_all p m"
  using many_iff by fastforce

lemma run_Seq:
  "(m, cs, r) \<in> set (rx_run (Seq a b) s) \<longleftrightarrow>
     (\<exists>m1 cs1 r1 m2 cs2. (m1, cs1, r1) \<in> set (rx_run a s) \<and> (m2, cs2, r) \<in> set (rx_run b r1) \<and>
        m = m1 @ m2 \<and> cs = cs1 @ cs2)"
  by force

lemma run_Alt: "(m, cs, r) \<in> set (rx_run (Alt a b) s) \<longleftrightarrow>
     (m, cs, r) \<in> set (rx_run a s) \<or> (m, cs, r) \<in> set (rx_run b s)"
  by simp

lemma run_Opt: "(m, cs, r) \<in> set (rx_run (Opt a) s) \<longleftrightarrow>
     (m, cs, r) \<in> set (rx_run a s) \<or> m = [] \<and> cs = [] \<and> s = r"
  by auto

lemma run_Capture: "(m, cs, r) \<in> set (rx_run (Capture a) s) \<longleftrightarrow>
     (\<exists>cs'. cs = m # cs' \<and> (m, cs', r) \<in> set (rx_run a s))"
  by force

lemmas run_iffs = run_Class run_Many run_Seq run_Alt run_Opt run_Capture

text \<open>A number without leading zeros, and a suffix of the tag.\<close>

definition numeral_ok :: "string \<Rightarrow> bool" where
  "numeral_ok x \<longleftrightarrow> x = ''0'' \<or> (\<exists>c cs. x = c # cs \<and> digit c \<and> c \<noteq> CHR ''0'' \<and> list_all digit cs)"

definition ident_ok :: "char \<Rightarrow> string \<Rightarrow> bool" where
  "ident_ok c x \<longleftrightarrow> x = [] \<or> (\<exists>y. x = c # y \<and> y \<noteq> [] \<and> list_all identChar y)"

definition suffix_ok :: "string \<Rightarrow> bool" where
  "suffix_ok x \<longleftrightarrow> (\<exists>pre build. x = pre @ build \<and> ident_ok CHR ''-'' pre \<and> ident_ok CHR ''+'' build)"

definition version_tag :: "string \<Rightarrow> string \<Rightarrow> string \<Rightarrow> string \<Rightarrow> string" where
  "version_tag major minor patch suffix = ''v'' @ major @ ''.'' @ minor @ ''.'' @ patch @ suffix"

lemma run_number:
  "(m, cs, r) \<in> set (rx_run (Capture (Alt (Class (\<lambda>d. d = CHR ''0''))
      (Seq (Class (\<lambda>c. digit c \<and> c \<noteq> CHR ''0'')) (Many digit)))) s) \<longleftrightarrow> cs = [m] \<and> s = m @ r \<and> numeral_ok m"
  unfolding run_iffs numeral_ok_def by auto

lemma run_ident:
  "(m, cs, r) \<in> set (rx_run (Opt (Seq (Class (\<lambda>d. d = c)) (Seq (Class identChar) (Many identChar)))) s) \<longleftrightarrow>
     cs = [] \<and> s = m @ r \<and> ident_ok c m"
  unfolding run_iffs ident_ok_def by (auto simp: neq_Nil_conv)

lemma run_lit_Seq:
  "(m, cs, r) \<in> set (rx_run (Seq (Class (\<lambda>d. d = c)) b) s) \<longleftrightarrow>
     (\<exists>s' m'. s = c # s' \<and> m = c # m' \<and> (m', cs, r) \<in> set (rx_run b s'))"
  unfolding run_Seq run_Class by auto

lemma run_number_Seq:
  "(m, cs, r) \<in> set (rx_run (Seq (Capture (Alt (Class (\<lambda>d. d = CHR ''0''))
      (Seq (Class (\<lambda>c. digit c \<and> c \<noteq> CHR ''0'')) (Many digit)))) b) s) \<longleftrightarrow>
     (\<exists>x s' m' cs'. s = x @ s' \<and> numeral_ok x \<and> m = x @ m' \<and> cs = x # cs' \<and> (m', cs', r) \<in> set (rx_run b s'))"
  unfolding run_Seq run_number by auto

lemma run_suffix:
  "(m, cs, []) \<in> set (rx_run (Seq (Opt (Seq (Class (\<lambda>d. d = CHR ''-'')) (Seq (Class identChar) (Many identChar))))
      (Opt (Seq (Class (\<lambda>d. d = CHR ''+'')) (Seq (Class identChar) (Many identChar))))) s) \<longleftrightarrow>
     m = s \<and> cs = [] \<and> suffix_ok s"
  unfolding run_Seq run_ident suffix_ok_def by auto

lemma run_tag:
  "(m, cs, []) \<in> set (rx_run releaseTagPattern s) \<longleftrightarrow>
     m = s \<and> (\<exists>major minor patch suffix. cs = [major, minor, patch] \<and> s = version_tag major minor patch suffix \<and>
        numeral_ok major \<and> numeral_ok minor \<and> numeral_ok patch \<and> suffix_ok suffix)"
    (is "?l \<longleftrightarrow> ?r")
proof
  assume ?l
  then show ?r
    unfolding releaseTagPattern_def Let_def run_lit_Seq run_number_Seq run_suffix version_tag_def
    apply (elim exE conjE)
    subgoal for s1 m1 major s2 m2 cs2 s3 m3 minor s4 m4 cs4 s5 m5 patch suffix m6 cs6
      by (rule conjI, simp, rule exI [of _ major], rule exI [of _ minor], rule exI [of _ patch],
          rule exI [of _ suffix], simp)
    done
next
  assume ?r
  then obtain major minor patch suffix where
    eqs: "m = s" "cs = [major, minor, patch]" "s = CHR ''v'' # major @ CHR ''.'' # minor @ CHR ''.'' # patch @ suffix"
    and ok: "numeral_ok major" "numeral_ok minor" "numeral_ok patch" "suffix_ok suffix"
    by (auto simp: version_tag_def)
  show ?l
    unfolding releaseTagPattern_def Let_def run_lit_Seq run_number_Seq run_suffix eqs
    by (intro exI conjI; (rule refl | rule ok))
qed

section \<open>Numbers\<close>

lemma digit_val_char: "0 \<le> d \<Longrightarrow> d < 10 \<Longrightarrow> digit_val (char_of (48 + d)) = Some d" for d :: int
  by (simp add: digit_val_def Let_def of_char_of take_bit_eq_mod)

lemma digit_val_Some: "digit_val c = Some d \<longleftrightarrow> 0 \<le> d \<and> d < 10 \<and> c = char_of (48 + d)" for d :: int
proof
  assume "digit_val c = Some d"
  then show "0 \<le> d \<and> d < 10 \<and> c = char_of (48 + d)"
    by (auto simp: digit_val_def Let_def split: if_splits)
qed (simp add: digit_val_char)

lemma digits_val_append:
  "digits_val acc (xs @ ys) = (case digits_val acc xs of None \<Rightarrow> None | Some n \<Rightarrow> digits_val n ys)"
  by (induction acc xs rule: digits_val.induct) (auto split: option.split)

lemma digits_val_int_digits: "0 \<le> n \<Longrightarrow> digits_val 0 (int_digits n) = Some n"
proof (induction n rule: int_digits.induct)
  case (1 n)
  show ?case
  proof (cases "n < 10")
    case True
    with 1 show ?thesis by (simp add: int_digits.simps [of n] digit_val_char)
  next
    case False
    with 1 have "digits_val 0 (int_digits (n div 10)) = Some (n div 10)" by simp
    with False show ?thesis
      by (simp add: int_digits.simps [of n] digits_val_append digit_val_char)
  qed
qed

text \<open>Reading on from a positive number and printing gives the digits read.\<close>

lemma int_digits_step: "0 < n \<Longrightarrow> digit_val c = Some d \<Longrightarrow> int_digits (n * 10 + d) = int_digits n @ [c]"
  by (subst int_digits.simps) (auto simp: digit_val_Some)

lemma int_digits_digits_val:
  "0 < n \<Longrightarrow> digits_val n xs = Some k \<Longrightarrow> int_digits k = int_digits n @ xs \<and> 0 < k"
proof (induction n xs rule: digits_val.induct)
  case (2 acc c cs)
  then obtain d where d: "digit_val c = Some d" by (auto split: option.splits)
  then have "0 \<le> d" by (simp add: digit_val_Some)
  with 2 d show ?case by (auto simp: int_digits_step split: option.splits)
qed simp

lemma digits_val_total: "list_all digit xs \<Longrightarrow> \<exists>k. digits_val n xs = Some k"
  by (induction n xs rule: digits_val.induct) (auto simp: digit_def)

text \<open>A numeral without leading zeros is what is printed for its value.\<close>

lemma numeral_ok_printed:
  assumes "numeral_ok x"
  shows "\<exists>n\<ge>0. digits_val 0 x = Some n \<and> x = strconv_Itoa n"
  using assms unfolding numeral_ok_def
proof
  assume "x = ''0''"
  moreover have "digits_val 0 ''0'' = Some 0" "strconv_Itoa 0 = ''0''" by code_simp+
  ultimately show ?thesis by auto
next
  assume "\<exists>c cs. x = c # cs \<and> digit c \<and> c \<noteq> CHR ''0'' \<and> list_all digit cs"
  then obtain c cs d where x: "x = c # cs" and d: "digit_val c = Some d" and nz: "c \<noteq> CHR ''0''"
    and cs: "list_all digit cs"
    by (auto simp: digit_def)
  have zero: "char_of (48 :: int) = CHR ''0''" by code_simp
  have "d \<noteq> 0" using d nz zero by (auto simp: digit_val_Some)
  then have "0 < d" "d < 10" using d by (auto simp: digit_val_Some)
  then have one: "int_digits d = [c]" using d by (simp add: int_digits.simps [of d] digit_val_Some)
  obtain k where k: "digits_val d cs = Some k" using digits_val_total [OF cs] by blast
  with int_digits_digits_val [OF \<open>0 < d\<close> k] one have "int_digits k = x" "0 < k" by (auto simp: x)
  with k d show ?thesis by (auto simp: x strconv_Itoa_def)
qed

lemma printed_leading:
  "0 < n \<Longrightarrow> \<exists>c cs. int_digits n = c # cs \<and> digit c \<and> c \<noteq> CHR ''0'' \<and> list_all digit cs"
proof (induction n rule: int_digits.induct)
  case (1 n)
  have dig: "digit (char_of (48 + d))" if "0 \<le> d" "d < 10" for d :: int
    using that by (simp add: digit_def digit_val_char)
  have zero: "digit_val CHR ''0'' = Some 0" by code_simp
  show ?case
  proof (cases "n < 10")
    case True
    then have "char_of (48 + n) \<noteq> CHR ''0''" using digit_val_char [of n] zero 1 by auto
    with True 1 show ?thesis using dig [of n] by (simp add: int_digits.simps [of n])
  next
    case False
    then have "0 < n div 10" by presburger
    with 1 False obtain c cs where "int_digits (n div 10) = c # cs" "digit c" "c \<noteq> CHR ''0''" "list_all digit cs"
      by auto
    with False dig [of "n mod 10"] show ?thesis by (simp add: int_digits.simps [of n])
  qed
qed

lemma printed_numeral_ok: "0 \<le> n \<Longrightarrow> numeral_ok (strconv_Itoa n)"
proof (cases "n = 0")
  case True
  moreover have "strconv_Itoa 0 = ''0''" by code_simp
  ultimately show ?thesis by (simp add: numeral_ok_def)
next
  case False
  then show "0 \<le> n \<Longrightarrow> ?thesis" using printed_leading [of n] by (simp add: numeral_ok_def strconv_Itoa_def)
qed

lemma Atoi_iff:
  assumes "numeral_ok x"
  shows "strconv_Atoi x = Inr n \<longleftrightarrow> x = strconv_Itoa n \<and> 0 \<le> n \<and> n < 2 ^ 63"
proof -
  obtain k where k: "0 \<le> k" "digits_val 0 x = Some k" "x = strconv_Itoa k"
    using numeral_ok_printed [OF assms] by blast
  have "x \<noteq> ''''" using assms by (auto simp: numeral_ok_def)
  moreover have "k = n" if "x = strconv_Itoa n" "0 \<le> n"
    using that k(2) digits_val_int_digits [of n] by (simp add: strconv_Itoa_def)
  ultimately show ?thesis using k
    by (auto simp: strconv_Atoi_def unsigned_Atoi_def split: option.split)
qed

section \<open>Verified tags\<close>

lemma numeral_no_dot: "numeral_ok x \<Longrightarrow> CHR ''.'' \<notin> set x"
proof -
  assume "numeral_ok x"
  then have "list_all digit x" by (auto simp: numeral_ok_def digit_def digit_val_def)
  moreover have "\<not> digit CHR ''.''" by code_simp
  ultimately show ?thesis by (auto simp: list_all_iff)
qed

lemma append_dot_eq: "c \<notin> set a \<Longrightarrow> c \<notin> set b \<Longrightarrow> a @ c # x = b @ c # y \<longleftrightarrow> a = b \<and> x = y"
proof (induction a arbitrary: b)
  case Nil
  then show ?case by (cases b) auto
next
  case (Cons d a)
  then show ?case by (cases b) auto
qed

lemma version_tag_inj:
  assumes "version_tag a b p s = version_tag a' b' p' s'"
    and "numeral_ok a" "numeral_ok b" "numeral_ok a'" "numeral_ok b'"
  shows "a = a' \<and> b = b'"
  using assms numeral_no_dot by (simp add: version_tag_def append_dot_eq)

text \<open>The captures of a tag are its numbers, and only a tag of that form has captures.\<close>

lemma FindStringSubmatch_tag:
  "FindStringSubmatch releaseTagPattern tag = Some ms \<Longrightarrow>
     \<exists>major minor patch suffix. ms = [tag, major, minor, patch] \<and> tag = version_tag major minor patch suffix \<and>
       numeral_ok major \<and> numeral_ok minor \<and> numeral_ok patch \<and> suffix_ok suffix"
proof -
  assume "FindStringSubmatch releaseTagPattern tag = Some ms"
  then obtain m cs where "ms = m # cs" "(m, cs, []) \<in> set (rx_run releaseTagPattern tag)"
    by (auto simp: FindStringSubmatch_def find_Some_iff) (metis nth_mem)
  then show ?thesis unfolding run_tag by auto
qed

lemma FindStringSubmatch_None:
  "FindStringSubmatch releaseTagPattern tag = None \<Longrightarrow> numeral_ok major \<Longrightarrow> numeral_ok minor \<Longrightarrow>
     numeral_ok patch \<Longrightarrow> suffix_ok suffix \<Longrightarrow> tag \<noteq> version_tag major minor patch suffix"
proof
  assume none: "FindStringSubmatch releaseTagPattern tag = None"
    and ok: "numeral_ok major" "numeral_ok minor" "numeral_ok patch" "suffix_ok suffix"
    and tag: "tag = version_tag major minor patch suffix"
  have "(tag, [major, minor, patch], []) \<in> set (rx_run releaseTagPattern tag)"
    unfolding run_tag using ok tag by blast
  with none show False by (auto simp: FindStringSubmatch_def find_None_iff)
qed

text \<open>The tags of a release series.\<close>

definition tag_of_series :: "string \<Rightarrow> releaseSeries \<Rightarrow> bool" where
  "tag_of_series tag series \<longleftrightarrow>
     0 \<le> rse_Major series \<and> rse_Major series < 2 ^ 63 \<and> 0 \<le> rse_Minor series \<and> rse_Minor series < 2 ^ 63 \<and>
     (\<exists>patch suffix. numeral_ok patch \<and> suffix_ok suffix \<and>
        tag = version_tag (strconv_Itoa (rse_Major series)) (strconv_Itoa (rse_Minor series)) patch suffix)"

lemma tag_of_series_iff:
  assumes "tag = version_tag major minor patch suffix"
    and "numeral_ok major" "numeral_ok minor" "numeral_ok patch" "suffix_ok suffix"
  shows "tag_of_series tag series \<longleftrightarrow>
    strconv_Atoi major = Inr (rse_Major series) \<and> strconv_Atoi minor = Inr (rse_Minor series)"
proof -
  have "major = strconv_Itoa (rse_Major series) \<and> minor = strconv_Itoa (rse_Minor series)"
    if "tag_of_series tag series"
    using that assms(1-3) printed_numeral_ok version_tag_inj [of major minor patch suffix]
    unfolding tag_of_series_def by metis
  then show ?thesis using assms by (auto simp: Atoi_iff [OF assms(2)] Atoi_iff [OF assms(3)] tag_of_series_def)
qed

lemma verifyReleaseSeries_iff:
  assumes "toJSON y = Inr j" and "unmarshal j = Inr md"
  shows "verifyReleaseSeries toJSON unmarshal tag y = None \<longleftrightarrow> list_ex (tag_of_series tag) (pmd_ReleaseSeries md)"
proof (cases "FindStringSubmatch releaseTagPattern tag")
  case None
  then have "\<not> tag_of_series tag series" for series
    using FindStringSubmatch_None [OF None] printed_numeral_ok by (auto simp: tag_of_series_def)
  with None show ?thesis by (auto simp: verifyReleaseSeries_def list_ex_iff)
next
  case (Some ms)
  from FindStringSubmatch_tag [OF this] obtain major minor patch suffix where
    ms: "ms = [tag, major, minor, patch]" and tag: "tag = version_tag major minor patch suffix"
    and ok: "numeral_ok major" "numeral_ok minor" "numeral_ok patch" "suffix_ok suffix" by blast
  have iff: "tag_of_series tag series \<longleftrightarrow>
      strconv_Atoi major = Inr (rse_Major series) \<and> strconv_Atoi minor = Inr (rse_Minor series)" for series
    using tag_of_series_iff [OF tag ok] .
  show ?thesis
    by (auto simp: verifyReleaseSeries_def Some ms assms iff list_ex_iff split: sum.split)
qed

text \<open>
  C36. For metadata that can be read, the check ends with exit code 0 exactly when the tag is
  \<^verbatim>\<open>v<major>.<minor>.<patch>\<close>, without leading zeros and with an optional pre-release and build suffix,
  and the metadata lists a release series whose numbers print as that major and minor. Numbers beyond
  the range of an int are never verified.
\<close>

theorem release_verified_iff:
  assumes "readFile path = Inr y" and "toJSON y = Inr j" and "unmarshal j = Inr md"
  shows "fst (verify_main toJSON unmarshal readFile tag path) = 0 \<longleftrightarrow>
    list_ex (tag_of_series tag) (pmd_ReleaseSeries md)"
  using verifyReleaseSeries_iff [of toJSON y j unmarshal md tag] assms
  by (auto simp: verify_main_def split: option.split)

definition two_series :: providerMetadata where
  "two_series = \<lparr>pmd_ReleaseSeries = [\<lparr>rse_Major = 1, rse_Minor = 0\<rparr>, \<lparr>rse_Major = 1, rse_Minor = 1\<rparr>]\<rparr>"

theorem release_verified_iff_witness:
  "list_ex (tag_of_series ''v1.1.0-rc.1'') (pmd_ReleaseSeries two_series) \<and>
   \<not> list_ex (tag_of_series ''v1.01.0'') (pmd_ReleaseSeries two_series)"
proof -
  let ?run = "\<lambda>tag. fst (verify_main Inr (\<lambda>_. Inr two_series) Inr tag ''metadata.yaml'')"
  have "?run ''v1.1.0-rc.1'' = 0" "?run ''v1.01.0'' \<noteq> 0" by code_simp+
  then show ?thesis
    using release_verified_iff [of Inr "''metadata.yaml''" "''metadata.yaml''" Inr "''metadata.yaml''"
        "\<lambda>_. Inr two_series" two_series] by simp
qed

end
