(* ===== verification/Startup.thy ===== *)
theory Startup
  imports Complex_Main Sdk Region_Flavor
begin

text \<open>
  The start of the provider, \<^verbatim>\<open>cmd/main.go\<close> and \<^verbatim>\<open>internal/observability/tracing.go\<close>, with the
  transport and the client of \<^verbatim>\<open>internal/cloudscale/client.go\<close>. The flags are a record of their
  parsed values. The calls into controller-runtime, OpenTelemetry and the SDK are recorded in the
  order they are made; what they answer, and the environment, are parameters. The order in which the
  two requests of the error group end is a parameter too.
\<close>

section \<open>Definitions\<close>

text \<open>A float64 and its \<^verbatim>\<open>%f\<close> verb: six decimals, ties to even.\<close>

datatype float64 = FNaN | FInf bool | Finite rat

fun float_less :: "float64 \<Rightarrow> rat \<Rightarrow> bool" where
  "float_less FNaN q = False"
| "float_less (FInf negative) q = negative"
| "float_less (Finite x) q = (x < q)"

fun float_greater :: "float64 \<Rightarrow> rat \<Rightarrow> bool" where
  "float_greater FNaN q = False"
| "float_greater (FInf negative) q = (\<not> negative)"
| "float_greater (Finite x) q = (q < x)"

definition round_even :: "rat \<Rightarrow> int" where
  "round_even x =
     (let f = \<lfloor>x\<rfloor>; d = x - of_int f in if d < 1 / 2 \<or> d = 1 / 2 \<and> even f then f else f + 1)"

fun fmt_f :: "float64 \<Rightarrow> string" where
  "fmt_f FNaN = ''NaN''"
| "fmt_f (FInf negative) = (if negative then ''-Inf'' else ''+Inf'')"
| "fmt_f (Finite x) =
     (let n = round_even (\<bar>x\<bar> * 10 ^ 6); frac = int_digits (n mod 10 ^ 6) in
      (if x < 0 then ''-'' else '''') @ int_digits (n div 10 ^ 6) @ ''.'' @
      replicate (6 - length frac) (CHR ''0'') @ frac)"

record flags =
  metricsAddr :: string
  metricsCertPath :: string
  metricsCertName :: string
  metricsCertKey :: string
  webhookCertPath :: string
  webhookCertName :: string
  webhookCertKey :: string
  enableLeaderElection :: bool
  probeAddr :: string
  secureMetrics :: bool
  enableHTTP2 :: bool
  clusterConcurrency :: int
  machineConcurrency :: int
  watchFilter :: string
  enableTracing :: bool
  tracingSampleRate :: float64
  profilerAddress :: string

definition default_flags :: flags where
  "default_flags =
     \<lparr>metricsAddr = ''0'', metricsCertPath = '''', metricsCertName = ''tls.crt'', metricsCertKey = ''tls.key'',
      webhookCertPath = '''', webhookCertName = ''tls.crt'', webhookCertKey = ''tls.key'',
      enableLeaderElection = False, probeAddr = '':8081'', secureMetrics = True, enableHTTP2 = False,
      clusterConcurrency = 1, machineConcurrency = 1, watchFilter = '''', enableTracing = False,
      tracingSampleRate = Finite (1 / 10), profilerAddress = ''''\<rparr>"

text \<open>The options of the TLS servers; the only one changes the protocols that are offered.\<close>

datatype tls_opt = DisableHTTP2

fun disableHTTP2 :: "tls_opt \<Rightarrow> string list \<Rightarrow> string list" where
  "disableHTTP2 DisableHTTP2 protos = [''http/1.1'']"

record server_options =
  so_BindAddress :: string
  so_Secure :: bool
  so_Authenticated :: bool
  so_TLSOpts :: "tls_opt list"
  so_CertDir :: string
  so_CertName :: string
  so_KeyName :: string

definition tlsOpts :: "flags \<Rightarrow> tls_opt list" where
  "tlsOpts f = (if \<not> enableHTTP2 f then [DisableHTTP2] else [])"

definition webhookServerOptions :: "flags \<Rightarrow> server_options" where
  "webhookServerOptions f =
     (let o0 = \<lparr>so_BindAddress = '''', so_Secure = True, so_Authenticated = False, so_TLSOpts = tlsOpts f,
                so_CertDir = '''', so_CertName = '''', so_KeyName = ''''\<rparr> in
      if length (webhookCertPath f) > 0
      then o0\<lparr>so_CertDir := webhookCertPath f, so_CertName := webhookCertName f, so_KeyName := webhookCertKey f\<rparr>
      else o0)"

definition metricsServerOptions :: "flags \<Rightarrow> server_options" where
  "metricsServerOptions f =
     (let o0 = \<lparr>so_BindAddress = metricsAddr f, so_Secure = secureMetrics f, so_Authenticated = secureMetrics f,
                so_TLSOpts = tlsOpts f, so_CertDir = '''', so_CertName = '''', so_KeyName = ''''\<rparr> in
      if length (metricsCertPath f) > 0
      then o0\<lparr>so_CertDir := metricsCertPath f, so_CertName := metricsCertName f, so_KeyName := metricsCertKey f\<rparr>
      else o0)"

record manager_options =
  mo_Metrics :: server_options
  mo_HealthProbeBindAddress :: string
  mo_LeaderElection :: bool
  mo_LeaderElectionID :: string
  mo_PprofBindAddress :: string

definition managerOptions :: "flags \<Rightarrow> manager_options" where
  "managerOptions f =
     \<lparr>mo_Metrics = metricsServerOptions f, mo_HealthProbeBindAddress = probeAddr f,
      mo_LeaderElection = enableLeaderElection f,
      mo_LeaderElectionID = ''cloudscale.infrastructure.cluster.x-k8s.io'',
      mo_PprofBindAddress = profilerAddress f\<rparr>"

text \<open>
  The transport to the API and a client: the token it sends, the transport it shares and its user
  agent, which the services of the SDK read.
\<close>

record http_transport =
  ht_DialTimeout :: int
  ht_KeepAlive :: int
  ht_TLSHandshakeTimeout :: int
  ht_ForceAttemptHTTP2 :: bool
  ht_SendPingTimeout :: int
  ht_PingTimeout :: int
  ht_IdleConnTimeout :: int
  ht_MaxIdleConns :: int
  ht_MaxIdleConnsPerHost :: int
  ht_MaxConnsPerHost :: int

definition NewTransport :: http_transport where
  "NewTransport =
     \<lparr>ht_DialTimeout = 5 * time_Second, ht_KeepAlive = 30 * time_Second, ht_TLSHandshakeTimeout = 5 * time_Second,
      ht_ForceAttemptHTTP2 = True, ht_SendPingTimeout = 5 * time_Second, ht_PingTimeout = 3 * time_Second,
      ht_IdleConnTimeout = 90 * time_Second, ht_MaxIdleConns = 50, ht_MaxIdleConnsPerHost = 50,
      ht_MaxConnsPerHost = 0\<rparr>"

datatype transport = Instrumented http_transport

record api_client =
  ac_AccessToken :: string
  ac_Base :: transport
  ac_UserAgent :: string

definition NewClient :: "string \<Rightarrow> string \<Rightarrow> string \<Rightarrow> transport \<Rightarrow> api_client" where
  "NewClient sdkUserAgent token version transport =
     \<lparr>ac_AccessToken = token, ac_Base = transport, ac_UserAgent = sdkUserAgent @ '' capcs/'' @ version\<rparr>"

datatype sampler = AlwaysSample | ParentBasedRatio float64

datatype startup_call =
    SetLogger
  | NewWebhookServer server_options
  | GetConfigOrDie
  | NewManager manager_options
  | SetupSignalHandler
  | NewResource "(string \<times> string) list"
  | NewExporter
  | SetTracerProvider sampler
  | SetTextMapPropagator
  | ShutdownTracerProvider
  | InstrumentTransport http_transport
  | ListRegions api_client
  | ListFlavors api_client
  | SetupClusterController string transport string int
  | SetupMachineController string transport string int
  | SetupTemplateController FlavorInfo
  | SetupClusterWebhook RegionInfo
  | SetupMachineWebhook FlavorInfo
  | SetupMachineTemplateWebhook FlavorInfo
  | SetupClusterTemplateWebhook RegionInfo
  | AddHealthzCheck string
  | AddReadyzCheck string
  | StartManager

record startup_env =
  se_Getenv :: "string \<Rightarrow> string"
  se_answer :: "startup_call list \<Rightarrow> startup_call \<Rightarrow> go_error option"
  se_sdkUserAgent :: string
  se_Regions :: "api_client \<Rightarrow> go_error + Region list"
  se_Flavors :: "api_client \<Rightarrow> go_error + Flavor list"
  se_regionsFirst :: bool

text \<open>A call that may fail, one that cannot, and the state: the calls made.\<close>

definition managerCall :: "startup_env \<Rightarrow> startup_call \<Rightarrow> (startup_call list, unit) proc" where
  "managerCall env c cs = ((case se_answer env cs c of None \<Rightarrow> Inr () | Some e \<Rightarrow> Inl e), cs @ [c])"

definition note_call :: "startup_call \<Rightarrow> (startup_call list, unit) proc" where
  "note_call c cs = (Inr (), cs @ [c])"

definition tracingAttrs :: "startup_env \<Rightarrow> string \<Rightarrow> string \<Rightarrow> (string \<times> string) list" where
  "tracingAttrs env serviceName version =
     [(''service.version'', version)] @
     (if se_Getenv env ''OTEL_SERVICE_NAME'' = [] then [(''service.name'', serviceName)] else []) @
     (if se_Getenv env ''POD_NAME'' \<noteq> [] then [(''service.instance.id'', se_Getenv env ''POD_NAME'')] else [])"

definition tracingSampler :: "float64 \<Rightarrow> sampler" where
  "tracingSampler sampleRate = (if float_less sampleRate 1 then ParentBasedRatio sampleRate else AlwaysSample)"

definition InitTracing :: "startup_env \<Rightarrow> string \<Rightarrow> string \<Rightarrow> float64 \<Rightarrow> (startup_call list, unit) proc" where
  "InitTracing env serviceName version sampleRate =
     (if float_less sampleRate 0 \<or> float_greater sampleRate 1
      then goError (fmt_Errorf ''tracing-sample-rate must be between 0.0 and 1.0, got %s'' [FS (fmt_f sampleRate)])
      else
        goBind (goWrap (fmt_Errorw ''failed to create opentelemetry resource: %w'' [])
          (managerCall env (NewResource (tracingAttrs env serviceName version)))) (\<lambda>_.
        goBind (goWrap (fmt_Errorw ''failed to create OTLP trace exporter: %w'' []) (managerCall env NewExporter)) (\<lambda>_.
        goBind (note_call (SetTracerProvider (tracingSampler sampleRate))) (\<lambda>_. note_call SetTextMapPropagator))))"

definition fetchAPIInfo ::
  "startup_env \<Rightarrow> transport \<Rightarrow> string \<Rightarrow> (startup_call list, RegionInfo \<times> FlavorInfo) proc" where
  "fetchAPIInfo env transport version =
     (let token = se_Getenv env ''CLOUDSCALE_API_TOKEN'' in
      if token = [] then goError (fmt_Errorf ''CLOUDSCALE_API_TOKEN environment variable is required'' [])
      else
        let client = NewClient (se_sdkUserAgent env) token version transport;
            cs = [ListRegions client, ListFlavors client];
            regionsErr = fmt_Errorw ''failed to list regions: %w'' [];
            flavorsErr = fmt_Errorw ''failed to list flavors: %w'' []
        in
        goBind (goModify (\<lambda>s. s @ (if se_regionsFirst env then cs else rev cs))) (\<lambda>_.
        case (se_Regions env client, se_Flavors env client) of
          (Inr regions, Inr flavors) \<Rightarrow> goReturn (NewRegionInfo regions, NewFlavorInfo flavors)
        | (Inl e, Inr _) \<Rightarrow> goError (regionsErr e)
        | (Inr _, Inl e) \<Rightarrow> goError (flavorsErr e)
        | (Inl e, Inl e') \<Rightarrow> goError (if se_regionsFirst env then regionsErr e else flavorsErr e')))"

definition setupControllers ::
  "startup_env \<Rightarrow> flags \<Rightarrow> transport \<Rightarrow> string \<Rightarrow> FlavorInfo \<Rightarrow> (startup_call list, unit) proc" where
  "setupControllers env f transport version flavorInfo =
     goBind (goWrap (fmt_Errorw ''failed to create controller CloudscaleCluster: %w'' [])
       (managerCall env (SetupClusterController (watchFilter f) transport version (clusterConcurrency f)))) (\<lambda>_.
     goBind (goWrap (fmt_Errorw ''failed to create controller CloudscaleMachine: %w'' [])
       (managerCall env (SetupMachineController (watchFilter f) transport version (machineConcurrency f)))) (\<lambda>_.
     goWrap (fmt_Errorw ''failed to create controller CloudscaleMachineTemplate: %w'' [])
       (managerCall env (SetupTemplateController flavorInfo))))"

definition setupWebhooks :: "startup_env \<Rightarrow> RegionInfo \<Rightarrow> FlavorInfo \<Rightarrow> (startup_call list, unit) proc" where
  "setupWebhooks env regionInfo flavorInfo =
     (if se_Getenv env ''ENABLE_WEBHOOKS'' \<noteq> ''false'' then
        goBind (goWrap (fmt_Errorw ''failed to setup webhook validation webhook CloudscaleCluster: %w'' [])
          (managerCall env (SetupClusterWebhook regionInfo))) (\<lambda>_.
        goBind (goWrap (fmt_Errorw ''failed to setup webhook validation webhook CloudscaleMachine: %w'' [])
          (managerCall env (SetupMachineWebhook flavorInfo))) (\<lambda>_.
        goBind (goWrap (fmt_Errorw ''failed to setup webhook validation webhook CloudscaleMachineTemplate: %w'' [])
          (managerCall env (SetupMachineTemplateWebhook flavorInfo))) (\<lambda>_.
        goWrap (fmt_Errorw ''failed to setup webhook validation webhook CloudscaleClusterTemplate: %w'' [])
          (managerCall env (SetupClusterTemplateWebhook regionInfo)))))
      else goReturn ())"

definition startManager :: "startup_env \<Rightarrow> string \<Rightarrow> flags \<Rightarrow> (startup_call list, unit) proc" where
  "startManager env version f =
     goBind (note_call (InstrumentTransport NewTransport)) (\<lambda>_.
     goBind (goWrap (fmt_Errorw ''failed to fetch API info: %w'' []) (fetchAPIInfo env (Instrumented NewTransport) version)) (\<lambda>(regionInfo, flavorInfo).
     goBind (setupControllers env f (Instrumented NewTransport) version flavorInfo) (\<lambda>_.
     goBind (setupWebhooks env regionInfo flavorInfo) (\<lambda>_.
     goBind (goWrap (fmt_Errorw ''failed to set up health check: %w'' []) (managerCall env (AddHealthzCheck ''healthz''))) (\<lambda>_.
     goBind (goWrap (fmt_Errorw ''failed to set up ready check: %w'' []) (managerCall env (AddReadyzCheck ''readyz''))) (\<lambda>_.
     goWrap (fmt_Errorw ''failed to run manager: %w'' []) (managerCall env StartManager)))))))"

definition run :: "startup_env \<Rightarrow> string \<Rightarrow> flags \<Rightarrow> (startup_call list, unit) proc" where
  "run env version f =
     goBind (note_call SetLogger) (\<lambda>_.
     if clusterConcurrency f < 1 \<or> clusterConcurrency f > 4
     then goError (fmt_Errorf ''invalid flag: --cluster-concurrency must be between 1 and 4, got %d''
                     [FD (clusterConcurrency f)])
     else if machineConcurrency f < 1 \<or> machineConcurrency f > 10
     then goError (fmt_Errorf ''invalid flag: --machine-concurrency must be between 1 and 10, got %d''
                     [FD (machineConcurrency f)])
     else
       goBind (note_call (NewWebhookServer (webhookServerOptions f))) (\<lambda>_.
       goBind (managerCall env GetConfigOrDie) (\<lambda>_.
       goBind (goWrap (fmt_Errorw ''failed to start manager: %w'' [])
         (managerCall env (NewManager (managerOptions f)))) (\<lambda>_.
       goBind (note_call SetupSignalHandler) (\<lambda>_.
       if enableTracing f then
         goBind (goWrap (fmt_Errorw ''failed to initialize tracing: %w'' [])
           (InitTracing env ''capcs'' version (tracingSampleRate f))) (\<lambda>_.
         goDefer (\<lambda>_ cs. cs @ [ShutdownTracerProvider]) (startManager env version f))
       else startManager env version f)))))"


section \<open>What is running\<close>

lemma wp_managerCall [wp]:
  "wp (managerCall env c) Q E =
     (\<lambda>cs. case se_answer env cs c of None \<Rightarrow> Q () (cs @ [c]) | Some e \<Rightarrow> E e (cs @ [c]))"
  by (rule ext) (simp add: wp_def managerCall_def split: option.split)

lemma wp_note_call [wp]: "wp (note_call c) Q E = (\<lambda>cs. Q () (cs @ [c]))"
  by (rule ext) (simp add: wp_def note_call_def)


text \<open>The client that asks for the tables, with the transport that all clients share.\<close>

definition startup_client :: "startup_env \<Rightarrow> string \<Rightarrow> api_client" where
  "startup_client env version =
     NewClient (se_sdkUserAgent env) (se_Getenv env ''CLOUDSCALE_API_TOKEN'') version (Instrumented NewTransport)"

lemma startup_client_simps [simp]:
  "ac_AccessToken (startup_client env version) = se_Getenv env ''CLOUDSCALE_API_TOKEN''"
  "ac_Base (startup_client env version) = Instrumented NewTransport"
  by (simp_all add: startup_client_def NewClient_def)


text \<open>The calls that set up; neither the servers, nor tracing, nor the start are among them.\<close>

definition setup_call :: "startup_call \<Rightarrow> bool" where
  "setup_call c \<longleftrightarrow> (case c of
       SetLogger \<Rightarrow> False | NewWebhookServer _ \<Rightarrow> False | NewManager _ \<Rightarrow> False | GetConfigOrDie \<Rightarrow> False
     | SetupSignalHandler \<Rightarrow> False | NewResource _ \<Rightarrow> False | NewExporter \<Rightarrow> False | SetTracerProvider _ \<Rightarrow> False
     | SetTextMapPropagator \<Rightarrow> False | ShutdownTracerProvider \<Rightarrow> False | StartManager \<Rightarrow> False | _ \<Rightarrow> True)"

definition sets_up :: "startup_call list \<Rightarrow> startup_call list \<Rightarrow> bool" where
  "sets_up cs cs' \<longleftrightarrow> (\<exists>new. cs' = cs @ new \<and> list_all setup_call new)"

lemma sets_up_simps [simp]:
  "sets_up cs cs" "sets_up cs (cs @ [c]) \<longleftrightarrow> setup_call c" "sets_up cs (cs @ new) \<longleftrightarrow> list_all setup_call new"
  by (auto simp: sets_up_def)












text \<open>The two servers offer HTTP/2 only when it was asked for.\<close>

definition offered :: "server_options \<Rightarrow> string list" where
  "offered opts = foldl (\<lambda>ps opt. disableHTTP2 opt ps) [''h2''] (so_TLSOpts opts)"







lemma servers_ok [simp]:
  "enableHTTP2 f \<or> offered (webhookServerOptions f) = [''http/1.1'']"
  "enableHTTP2 f \<or> offered (mo_Metrics (managerOptions f)) = [''http/1.1'']"
  by (simp_all add: offered_def webhookServerOptions_def managerOptions_def metricsServerOptions_def tlsOpts_def Let_def)











end
