(* ===== verification/Spec2Isabelle.thy ===== *)
theory Spec2Isabelle
  imports Cluster_Part_Properties Machine_Properties Webhook_Properties Observability Release_Metadata Startup
begin

text \<open>
  \<^bold>\<open>Verification of the Cluster API provider for cloudscale.ch.\<close>

  The provider is a Kubernetes controller manager. A CloudscaleCluster describes the networks,
  routers, load balancer and floating IP of a cluster, a CloudscaleMachine one server; the
  controllers make the cloud agree with the specs, record what they made in the status, and remove it
  again before an object goes away. Admission webhooks default and validate the objects before the
  controllers see them. This root theory imports the whole development and holds its description.

  \<^bold>\<open>How the code is modelled.\<close> A handler is a procedure: a function from a state to a result, an
  error or a value, and the state it leaves, which survives an error as in Go. The state (\<open>st\<close>) has the
  object being reconciled, the world (the cloud and the Kubernetes API, of an arbitrary type), the
  list of requests sent and the list of events. Every request is recorded, so that theorems speak of
  what was sent and in which order. The cloudscale.ch API, the Kubernetes client and the Cluster API
  library functions are parameters: records of functions on the world. What is assumed of them is
  named (\<open>cloud_api_ok\<close>, \<open>servers_api_ok\<close>, \<open>lib_ok\<close>, \<open>scope_ok\<close>, \<open>deletion_api_ok\<close>, \<open>log_lib_ok\<close>), says what
  their documentation says, and is shown to hold for a concrete instance in \<open>Sample_Cloud\<close> and beside the
  witnesses. Most theorems about requests and errors assume nothing of the API at all.

  \<^bold>\<open>Go and its library.\<close>
  \<^item> \<open>Go_Prelude\<close>: slices, maps, strconv, strings, fmt and trees of wrapped errors.
  \<^item> \<open>Go_Proc\<close>: sequencing, error inspection, defer and loops; the weakest precondition \<open>wp\<close> with a rule
    per combinator; frame relations (\<open>keeps\<close>) with the locale \<open>frame_relation\<close>, interpreted for
    unchanged parts of the object, kept invariants, emitted requests, set conditions and the resources
    that are left.
  \<^item> \<open>Netip\<close>: net/netip and net address and prefix parsing on 32 and 128 bit words; the two CIDR parsers
    agree, and containment is an interval of numbers.

  \<^bold>\<open>Shared parts.\<close>
  \<^item> \<open>Api_Errors\<close>: \<^verbatim>\<open>internal/cloudscale/client.go\<close>, the tests on errors.
  \<^item> \<open>Api_Types\<close>, \<open>Conditions\<close>: \<^verbatim>\<open>api/v1beta2\<close>, one record per struct; conditions and Ready, with the
    locale \<open>conditions_setter\<close> for both kinds of objects.
  \<^item> \<open>Keyed_Status\<close>: the status lists as finite maps; the locale \<open>keyed_upsert\<close> is interpreted for networks,
    routers and interfaces.
  \<^item> \<open>Sdk\<close>, \<open>Scope\<close>, \<open>Scope_Close\<close>: \<^verbatim>\<open>internal/cloudscale/services.go\<close>, \<^verbatim>\<open>internal/scope\<close>,
    \<^verbatim>\<open>internal/credentials\<close> and \<^verbatim>\<open>cloudscale_services.go\<close>; the locale \<open>scope_close\<close> states that closing a
    scope sends one patch, last.
  \<^item> \<open>Region_Flavor\<close>: \<^verbatim>\<open>regions.go\<close> and \<^verbatim>\<open>flavors.go\<close>.

  \<^bold>\<open>The cluster controller\<close> (\<^verbatim>\<open>internal/controller/cloudscalecluster_*.go\<close>).
  \<^item> \<open>Cluster_State\<close>, \<open>Cluster_Network\<close>, \<open>Cluster_Router\<close>, \<open>Cluster_LoadBalancer\<close>, \<open>Cluster_FloatingIP\<close>,
    \<open>Cluster_ServerGroup\<close>: one theory per file, each with the operations in the order of the code, what
    they leave unchanged, what they send and what they achieve.
  \<^item> \<open>Cluster_Controller\<close>: the composition, \<open>reconcileNormal\<close>, \<open>reconcileDelete\<close> and \<open>Cluster_Reconcile\<close>.
  \<^item> \<open>Cluster_Deletion\<close>: none of the recorded resources is left in the cloud after a completed deletion.
  \<^item> \<open>Cluster_Properties\<close>, \<open>Cluster_Part_Properties\<close>: a reconcile with nothing left to wait for has built the
    spec; it deletes nothing; the endpoint is written once; deletion is ordered, complete, touches
    nothing pre-existing and forgets no failure; the pool reaches the desired members; the lookups are
    exact; lost creates are found again.

  \<^bold>\<open>The machine controllers\<close> (\<^verbatim>\<open>cloudscalemachine_*.go\<close>, \<^verbatim>\<open>cloudscalemachinetemplate_controller.go\<close>).
  \<^item> \<open>Machine_State\<close>, \<open>Machine_Server\<close>, \<open>Machine_Controller\<close>, \<open>Template_Controller\<close>: as for clusters.
  \<^item> \<open>Machine_ServerGroup\<close>: the server group that machines share, as a procedure and, for any number of
    concurrent machines under the mutex, as the step relation \<open>sg_step\<close> with its invariant.
  \<^item> \<open>Machine_Properties\<close>: never a second server; the machine follows its server; the provisioned flag is
    latched; a machine goes away only with its server; groups are not duplicated, the code takes the
    steps of the relation, every machine can finish, and runs without failures end.

  \<^bold>\<open>The webhooks\<close> (\<^verbatim>\<open>internal/webhook/v1beta2\<close>).
  \<^item> \<open>Webhook_Field\<close>: field errors, and the histories of admitted objects with the locale \<open>admission\<close>.
  \<^item> \<open>Cluster_Webhook\<close>, \<open>Machine_Webhook\<close>: every validator, equivalent to a readable predicate.
  \<^item> \<open>Webhook_Properties\<close>: accepted exactly when consistent and immutable fields are kept; stored objects
    stay valid over all histories; and, across components, what the controller writes is admitted,
    the tags of a server find it again, the interfaces of a stored machine translate and the CIDR of a
    stored network is usable for the load balancer.

  \<^bold>\<open>Around the controllers.\<close>
  \<^item> \<open>Startup\<close>: \<^verbatim>\<open>cmd/main.go\<close>, \<^verbatim>\<open>tracing.go\<close>, \<^verbatim>\<open>NewTransport\<close> and \<^verbatim>\<open>NewClient\<close>; the manager starts only when
    complete.
  \<^item> \<open>Observability\<close>: \<^verbatim>\<open>trace_context.go\<close> and \<^verbatim>\<open>span.go\<close>; a log line carries its own span only.
  \<^item> \<open>Release_Metadata\<close>: \<^verbatim>\<open>hack/verify-release-metadata\<close>; exactly the printed versions of listed series pass.

  \<^bold>\<open>Bounds.\<close> All definitions are total and executable; there is no fuel, since the code has no loop
  that is not over a finite slice. Addresses are words of their width. Go's ints are unbounded here:
  the code computes with them only durations and counters of small constants, and where a width can
  be reached, in parsing a version or a prefix length, the range check is written out. A context's
  deadline is an error the API may answer at any call. Requeueing is the returned result; the work
  queue, which calls a handler again, belongs to controller-runtime.

  \<^bold>\<open>Not modelled.\<close> SetupWithManager, the webhook registration and the scheme only hand options to
  controller-runtime. \<^verbatim>\<open>zz_generated.deepcopy.go\<close> is generated, and copying is the identity on values.
  \<^verbatim>\<open>internal/testutils\<close>, \<^verbatim>\<open>internal/testenv\<close> and \<^verbatim>\<open>test/e2e\<close> are test code. Log messages are left out of
  the handlers, as nothing depends on them; spans are modelled on their own. The timeouts of single
  requests are not values of the model, since their only effect is that error.
\<close>

end
